(* ===== verification/Prelude.thy ===== *)
theory Prelude
  imports Main "HOL-Library.Word"
begin

text \<open>
  Shared vocabulary of the development.

  Go values are modelled as follows: a \<open>string\<close> and a \<open>[]byte\<close> are both lists of
  bytes (\<open>char\<close> is an 8-bit character, so the Go conversions between the two are the
  identity), \<open>int64\<close> and \<open>int32\<close> are \<open>64 word\<close> and \<open>32 word\<close> read with \<open>sint\<close>,
  \<open>*big.Int\<close> is \<open>int\<close>, a pointer that may be nil is an \<open>option\<close>.  A Go function that
  returns \<open>(T, error)\<close> returns \<open>Inl\<close> of the error or \<open>Inr\<close> of the value; where the
  caller reads both components the pair is kept.

  The theory also holds the loops the code keeps writing (convert every element, stop
  at the first failure), the world-passing functions of the client, and the outcome
  type of the few functions that may panic.
\<close>

type_synonym bytes = string
type_synonym int64 = "64 word"
type_synonym int32 = "32 word"

named_theorems gosimps \<open>unfoldings of the Go control-flow combinators\<close>

section \<open>Getters on nil pointers\<close>

text \<open>A protobuf getter on a nil receiver yields the zero value of the field.\<close>

definition nilget :: "'b \<Rightarrow> ('a \<Rightarrow> 'b) \<Rightarrow> 'a option \<Rightarrow> 'b" where
  "nilget z f p = (case p of None \<Rightarrow> z | Some x \<Rightarrow> f x)"

lemma nilget_simps [simp]:
  "nilget z f None = z"
  "nilget z f (Some x) = f x"
  by (simp_all add: nilget_def)

text \<open>A nil slice and an empty slice have the same elements.\<close>

definition elems :: "'a list option \<Rightarrow> 'a list" where
  "elems s = (case s of None \<Rightarrow> [] | Some xs \<Rightarrow> xs)"

lemma elems_simps [simp]: "elems None = []" "elems (Some xs) = xs"
  by (simp_all add: elems_def)

section \<open>Error results\<close>

definition res_bind :: "'e + 'a \<Rightarrow> ('a \<Rightarrow> 'e + 'b) \<Rightarrow> 'e + 'b" where
  "res_bind r f = (case r of Inl e \<Rightarrow> Inl e | Inr x \<Rightarrow> f x)"

lemma res_bind_simps [simp]:
  "res_bind (Inl e) f = Inl e"
  "res_bind (Inr x) f = f x"
  by (simp_all add: res_bind_def)

lemma res_bind_Inr_iff:
  "res_bind r f = Inr y \<longleftrightarrow> (\<exists>x. r = Inr x \<and> f x = Inr y)"
  by (cases r) auto

lemma res_bind_Inl_iff:
  "res_bind r f = Inl e \<longleftrightarrow> r = Inl e \<or> (\<exists>x. r = Inr x \<and> f x = Inl e)"
  by (cases r) auto

lemma res_bind_cong [fundef_cong]:
  "r = r' \<Longrightarrow> (\<And>x. r' = Inr x \<Longrightarrow> f x = f' x) \<Longrightarrow> res_bind r f = res_bind r' f'"
  by (cases r) auto

definition res_of :: "'e \<Rightarrow> 'a option \<Rightarrow> 'e + 'a" where
  "res_of e r = (case r of None \<Rightarrow> Inl e | Some x \<Rightarrow> Inr x)"

lemma res_of_simps [simp]: "res_of e None = Inl e" "res_of e (Some x) = Inr x"
  by (simp_all add: res_of_def)

lemma res_of_Inr_iff [simp]: "res_of e r = Inr y \<longleftrightarrow> r = Some y"
  by (cases r) auto

text \<open>The loop \<open>for _, x := range xs { y, err := f(x); if err != nil { return err }; ys = append(ys, y) }\<close>.\<close>

primrec traverse :: "('a \<Rightarrow> 'e + 'b) \<Rightarrow> 'a list \<Rightarrow> 'e + 'b list" where
  "traverse f [] = Inr []"
| "traverse f (x # xs) = res_bind (f x) (\<lambda>y. res_bind (traverse f xs) (\<lambda>ys. Inr (y # ys)))"

lemma traverse_Inr_iff:
  "traverse f xs = Inr ys \<longleftrightarrow> list_all2 (\<lambda>x y. f x = Inr y) xs ys"
  by (induction xs arbitrary: ys) (auto simp: res_bind_Inr_iff list_all2_Cons1)

lemma traverse_length: "traverse f xs = Inr ys \<Longrightarrow> length ys = length xs"
  by (auto simp: traverse_Inr_iff dest: list_all2_lengthD)

lemma traverse_nth:
  "traverse f xs = Inr ys \<Longrightarrow> i < length xs \<Longrightarrow> f (xs ! i) = Inr (ys ! i)"
  by (auto simp: traverse_Inr_iff list_all2_conv_all_nth)

lemma traverse_Inl_iff:
  "traverse f xs = Inl e \<longleftrightarrow>
   (\<exists>us x vs. xs = us @ x # vs \<and> (\<forall>u \<in> set us. \<exists>y. f u = Inr y) \<and> f x = Inl e)"
proof (induction xs)
  case (Cons a xs)
  have split: "(\<exists>us x vs. a # xs = us @ x # vs \<and> P us x) \<longleftrightarrow>
      P [] a \<or> (\<exists>us x vs. xs = us @ x # vs \<and> P (a # us) x)" for P
    by (auto simp: Cons_eq_append_conv)
  show ?case
    unfolding split using Cons.IH by (cases "f a") (auto simp: res_bind_Inl_iff)
qed simp

lemma traverse_map: "(\<And>x. x \<in> set xs \<Longrightarrow> f x = Inr (g x)) \<Longrightarrow> traverse f xs = Inr (map g xs)"
  by (induction xs) simp_all

lemma traverse_append:
  "traverse f (xs @ ys) =
     res_bind (traverse f xs) (\<lambda>us. res_bind (traverse f ys) (\<lambda>vs. Inr (us @ vs)))"
proof (induction xs)
  case Nil
  then show ?case by (cases "traverse f ys") auto
next
  case (Cons x xs)
  then show ?case
    by (cases "f x"; cases "traverse f xs"; cases "traverse f ys") auto
qed

section \<open>World-passing functions\<close>

text \<open>
  The command-line client talks to a node, reads files and draws random and clock
  values.  Such a function takes the world and returns its result with the new world;
  an error keeps the effects made before it.
\<close>

type_synonym ('w, 'e, 'a) io = "'w \<Rightarrow> ('e + 'a) \<times> 'w"

definition io_return :: "'a \<Rightarrow> ('w, 'e, 'a) io" where
  "io_return x w = (Inr x, w)"

definition io_throw :: "'e \<Rightarrow> ('w, 'e, 'a) io" where
  "io_throw e w = (Inl e, w)"

definition io_bind :: "('w, 'e, 'a) io \<Rightarrow> ('a \<Rightarrow> ('w, 'e, 'b) io) \<Rightarrow> ('w, 'e, 'b) io" where
  "io_bind m f w = (case m w of (Inl e, w') \<Rightarrow> (Inl e, w') | (Inr x, w') \<Rightarrow> f x w')"

definition io_lift :: "'e + 'a \<Rightarrow> ('w, 'e, 'a) io" where
  "io_lift r w = (r, w)"

text \<open>\<open>io_catch m h\<close> hands an error of \<open>m\<close> to \<open>h\<close> (\<open>if err != nil { ... }\<close> with another error).\<close>

definition io_map_err :: "('e \<Rightarrow> 'e) \<Rightarrow> ('w, 'e, 'a) io \<Rightarrow> ('w, 'e, 'a) io" where
  "io_map_err h m w = (case m w of (Inl e, w') \<Rightarrow> (Inl (h e), w') | (Inr x, w') \<Rightarrow> (Inr x, w'))"

lemma io_simps [simp, gosimps]:
  "io_return x w = (Inr x, w)"
  "io_throw e w = (Inl e, w)"
  "io_lift r w = (r, w)"
  by (simp_all add: io_return_def io_throw_def io_lift_def)

lemma io_bind_Inr:
  "m w = (Inr x, w') \<Longrightarrow> io_bind m f w = f x w'"
  by (simp add: io_bind_def)

lemma io_bind_Inl:
  "m w = (Inl e, w') \<Longrightarrow> io_bind m f w = (Inl e, w')"
  by (simp add: io_bind_def)

lemma io_bind_simps [simp]:
  "io_bind (io_return x) f = f x"
  "io_bind (io_throw e) f = io_throw e"
  "io_bind (io_lift r) f w = (case r of Inl e \<Rightarrow> (Inl e, w) | Inr x \<Rightarrow> f x w)"
  by (auto simp: io_bind_def fun_eq_iff split: sum.splits)

lemma io_bind_InrE:
  assumes "io_bind m f w = (Inr y, w'')"
  obtains x w' where "m w = (Inr x, w')" "f x w' = (Inr y, w'')"
  using assms by (auto simp: io_bind_def split: prod.splits sum.splits)

lemma io_bind_Inr_iff:
  "io_bind m f w = (Inr y, w'') \<longleftrightarrow> (\<exists>x w'. m w = (Inr x, w') \<and> f x w' = (Inr y, w''))"
  by (auto simp: io_bind_def split: prod.splits sum.splits)

text \<open>Run the body on every element, in order, collecting the results.\<close>

primrec io_traverse :: "('a \<Rightarrow> ('w, 'e, 'b) io) \<Rightarrow> 'a list \<Rightarrow> ('w, 'e, 'b list) io" where
  "io_traverse f [] = io_return []"
| "io_traverse f (x # xs) =
     io_bind (f x) (\<lambda>y. io_bind (io_traverse f xs) (\<lambda>ys. io_return (y # ys)))"

lemma io_traverse_length:
  "io_traverse f xs w = (Inr ys, w') \<Longrightarrow> length ys = length xs"
  by (induction xs arbitrary: ys w w') (auto simp: io_bind_Inr_iff)

section \<open>Panics\<close>

datatype 'a outcome = Ret 'a | Panic

definition out_bind :: "'a outcome \<Rightarrow> ('a \<Rightarrow> 'b outcome) \<Rightarrow> 'b outcome" where
  "out_bind r f = (case r of Ret x \<Rightarrow> f x | Panic \<Rightarrow> Panic)"

lemma out_bind_simps [simp]:
  "out_bind (Ret x) f = f x"
  "out_bind Panic f = Panic"
  by (simp_all add: out_bind_def)

section \<open>Lists\<close>

lemma sum_list_map_filter_split:
  fixes f :: "'a \<Rightarrow> int"
  shows "sum_list (map f xs) = sum_list (map f (filter P xs)) + sum_list (map f (filter (Not \<circ> P) xs))"
  by (induction xs) auto

text \<open>An association list kept in insertion order: the first entry of a key wins.\<close>

definition assoc_has :: "('k \<times> 'v) list \<Rightarrow> 'k \<Rightarrow> bool" where
  "assoc_has m k \<longleftrightarrow> map_of m k \<noteq> None"

text \<open>Go evaluates a map literal or a sequence of assignments in order: the last one wins.\<close>

definition assigns :: "('k \<times> 'v) list \<Rightarrow> ('k \<rightharpoonup> 'v)" where
  "assigns kvs = map_of (rev kvs)"

lemma assigns_distinct:
  "distinct (map fst kvs) \<Longrightarrow> (k, v) \<in> set kvs \<Longrightarrow> assigns kvs k = Some v"
  unfolding assigns_def by (rule map_of_is_SomeI) (simp_all flip: rev_map)

lemma assigns_None: "k \<notin> set (map fst kvs) \<Longrightarrow> assigns kvs k = None"
  by (simp add: assigns_def map_of_eq_None_iff image_iff)

end
