(* ===== verification/GoNum.thy ===== *)
theory GoNum
  imports Prelude
begin

text \<open>
  The parts of Go's standard library the program computes with: decimal text of
  \<open>big.Int\<close> and of \<open>int64\<close>, big-endian bytes of \<open>big.Int\<close>, and the few \<open>strings\<close>
  functions the code uses.  Each encoder is shown to be inverted by its decoder,
  through one interface for encodings.
\<close>

section \<open>Decimal digits\<close>

definition digit_char :: "nat \<Rightarrow> char" where
  "digit_char d = char_of (48 + d)"

definition char_digit :: "char \<Rightarrow> nat option" where
  "char_digit c = (let k = (of_char c :: nat) in if 48 \<le> k \<and> k \<le> 57 then Some (k - 48) else None)"

definition is_digit :: "char \<Rightarrow> bool" where
  "is_digit c \<longleftrightarrow> char_digit c \<noteq> None"

lemma char_digit_digit_char [simp]: "d < 10 \<Longrightarrow> char_digit (digit_char d) = Some d"
  by (simp add: char_digit_def digit_char_def of_char_of)

lemma is_digit_digit_char [simp]: "d < 10 \<Longrightarrow> is_digit (digit_char d)"
  by (simp add: is_digit_def)

lemma char_digit_less: "char_digit c = Some d \<Longrightarrow> d < 10"
  by (auto simp: char_digit_def Let_def split: if_splits)

lemma not_digit [simp]:
  "char_digit (CHR ''-'') = None" "char_digit (CHR ''+'') = None"
  "char_digit (CHR ''t'') = None"
  by (simp_all add: char_digit_def)

fun show_nat :: "nat \<Rightarrow> string" where
  "show_nat n = (if n < 10 then [digit_char n] else show_nat (n div 10) @ [digit_char (n mod 10)])"

declare show_nat.simps [simp del]

lemma show_nat_digits: "c \<in> set (show_nat n) \<Longrightarrow> is_digit c"
proof (induction n rule: show_nat.induct)
  case (1 n)
  then show ?case by (subst (asm) show_nat.simps) (auto split: if_splits)
qed

lemma show_nat_not_Nil [simp]: "show_nat n \<noteq> []"
  by (subst show_nat.simps) simp

text \<open>Reading digits from the left, as the scanner of \<open>math/big\<close> does.\<close>

fun digits_val :: "nat \<Rightarrow> string \<Rightarrow> nat option" where
  "digits_val acc [] = Some acc"
| "digits_val acc (c # cs) =
     (case char_digit c of None \<Rightarrow> None | Some d \<Rightarrow> digits_val (10 * acc + d) cs)"

definition parse_nat :: "string \<Rightarrow> nat option" where
  "parse_nat s = (if s = [] then None else digits_val 0 s)"

lemma digits_val_append:
  "digits_val acc (xs @ ys) = (case digits_val acc xs of None \<Rightarrow> None | Some a \<Rightarrow> digits_val a ys)"
  by (induction acc xs rule: digits_val.induct) (auto split: option.splits)

lemma digits_val_show: "digits_val 0 (show_nat n) = Some n"
proof (induction n rule: show_nat.induct)
  case (1 n)
  show ?case
  proof (cases "n < 10")
    case True
    then show ?thesis by (subst show_nat.simps) simp
  next
    case False
    with 1 show ?thesis by (subst show_nat.simps) (simp add: digits_val_append)
  qed
qed

lemma parse_show_nat [simp]: "parse_nat (show_nat n) = Some n"
  by (simp add: parse_nat_def digits_val_show)

section \<open>\<open>big.Int\<close> text\<close>

text \<open>\<open>(*big.Int).String\<close> and \<open>new(big.Int).SetString(s, 10)\<close>: an optional sign, then at
  least one digit, and nothing after the digits.\<close>

definition big_show :: "int \<Rightarrow> string" where
  "big_show i = (if i < 0 then CHR ''-'' # show_nat (nat (- i)) else show_nat (nat i))"

fun big_parse :: "string \<Rightarrow> int option" where
  "big_parse [] = None"
| "big_parse (c # cs) =
     (if c = CHR ''-'' then map_option (\<lambda>n. - int n) (parse_nat cs)
      else if c = CHR ''+'' then map_option int (parse_nat cs)
      else map_option int (parse_nat (c # cs)))"

lemma show_nat_Cons:
  obtains c cs where "show_nat n = c # cs" "is_digit c"
  using show_nat_digits[of _ n] show_nat_not_Nil[of n]
  by (metis list.exhaust list.set_intros(1))

lemma big_parse_show_nat: "big_parse (show_nat n) = Some (int n)"
proof -
  obtain c cs where c: "show_nat n = c # cs" "is_digit c" by (rule show_nat_Cons)
  then have "c \<noteq> CHR ''-''" "c \<noteq> CHR ''+''" by (auto simp: is_digit_def)
  then show ?thesis
    by (simp only: c big_parse.simps if_False) (simp flip: c(1))
qed

lemma big_parse_show [simp]: "big_parse (big_show i) = Some i"
  by (simp add: big_show_def big_parse_show_nat)

lemma big_show_not_Nil [simp]: "big_show i \<noteq> []"
  by (simp add: big_show_def)

section \<open>\<open>int64\<close> text\<close>

text \<open>\<open>strconv.ParseInt(s, 10, 64)\<close>: the value on success, and with an error the value Go
  still returns, 0 for a syntax error and the nearest bound for a range error.\<close>

definition max_int64 :: int where "max_int64 = 2 ^ 63 - 1"
definition min_int64 :: int where "min_int64 = - (2 ^ 63)"

datatype parse_status = ParseOk | ParseSyntax | ParseRange

definition parse_int64 :: "string \<Rightarrow> int64 \<times> parse_status" where
  "parse_int64 s =
     (case big_parse s of
        None \<Rightarrow> (0, ParseSyntax)
      | Some i \<Rightarrow>
          if i > max_int64 then (word_of_int max_int64, ParseRange)
          else if i < min_int64 then (word_of_int min_int64, ParseRange)
          else (word_of_int i, ParseOk))"

definition show_int64 :: "int64 \<Rightarrow> string" where
  "show_int64 w = big_show (sint w)"

lemma sint_int64_bounds: "min_int64 \<le> sint (w :: int64)" "sint (w :: int64) \<le> max_int64"
  using sint_lt[of w] sint_ge[of w] by (simp_all add: min_int64_def max_int64_def)

lemma sint_of_int64: "min_int64 \<le> i \<Longrightarrow> i \<le> max_int64 \<Longrightarrow> sint (word_of_int i :: int64) = i"
  by (simp add: min_int64_def max_int64_def sint_sbintrunc' signed_take_bit_int_eq_self)

lemma parse_show_int64 [simp]: "parse_int64 (show_int64 w) = (w, ParseOk)"
  using sint_int64_bounds[of w] by (simp add: parse_int64_def show_int64_def)

section \<open>\<open>big.Int\<close> bytes\<close>

text \<open>\<open>(*big.Int).Bytes\<close> is the big-endian absolute value, empty for zero;
  \<open>SetBytes\<close> reads any byte string as a natural number.\<close>

fun nat_be :: "nat \<Rightarrow> bytes" where
  "nat_be n = (if n = 0 then [] else nat_be (n div 256) @ [char_of (n mod 256)])"

declare nat_be.simps [simp del]

definition big_bytes :: "int \<Rightarrow> bytes" where
  "big_bytes i = nat_be (nat \<bar>i\<bar>)"

primrec be_nat :: "nat \<Rightarrow> bytes \<Rightarrow> nat" where
  "be_nat acc [] = acc"
| "be_nat acc (c # cs) = be_nat (256 * acc + of_char c) cs"

definition big_set_bytes :: "bytes \<Rightarrow> int" where
  "big_set_bytes bs = int (be_nat 0 bs)"

lemma be_nat_append: "be_nat acc (xs @ ys) = be_nat (be_nat acc xs) ys"
  by (induction xs arbitrary: acc) simp_all

lemma be_nat_nat_be: "be_nat 0 (nat_be n) = n"
proof (induction n rule: nat_be.induct)
  case (1 n)
  show ?case
  proof (cases "n = 0")
    case True
    then show ?thesis by (subst nat_be.simps) simp
  next
    case False
    with 1 show ?thesis by (subst nat_be.simps) (simp add: be_nat_append of_char_of)
  qed
qed

lemma big_set_bytes_nonneg [simp]: "0 \<le> big_set_bytes bs"
  by (simp add: big_set_bytes_def)

lemma big_set_bytes_big_bytes [simp]: "big_set_bytes (big_bytes i) = \<bar>i\<bar>"
  by (simp add: big_set_bytes_def big_bytes_def be_nat_nat_be)

lemma big_bytes_Nil_iff [simp]: "big_bytes i = [] \<longleftrightarrow> i = 0"
  by (metis abs_eq_0 be_nat.simps(1) big_set_bytes_big_bytes big_set_bytes_def int_ops(1)
      abs_zero big_bytes_def nat_0 nat_be.simps)

section \<open>Encodings\<close>

text \<open>An encoding is an encoder with a decoder that inverts it on a domain of values.\<close>

locale encoding =
  fixes enc :: "'a \<Rightarrow> string" and dec :: "string \<Rightarrow> 'a option" and valid :: "'a \<Rightarrow> bool"
  assumes dec_enc: "valid x \<Longrightarrow> dec (enc x) = Some x"
begin

lemma enc_inj: "valid x \<Longrightarrow> valid y \<Longrightarrow> enc x = enc y \<Longrightarrow> x = y"
  by (metis dec_enc option.inject)

lemma enc_inj_on: "inj_on enc {x. valid x}"
  by (auto intro: inj_onI enc_inj)

end

interpretation decimal: encoding big_show big_parse "\<lambda>_. True"
  by unfold_locales simp

interpretation decimal64: encoding show_int64 "\<lambda>s. case parse_int64 s of (w, ParseOk) \<Rightarrow> Some w | _ \<Rightarrow> None" "\<lambda>_. True"
  by unfold_locales simp

interpretation bigbytes: encoding big_bytes "\<lambda>bs. Some (big_set_bytes bs)" "\<lambda>i. 0 \<le> i"
  by unfold_locales simp

section \<open>\<open>strings\<close>\<close>

text \<open>\<open>strings.Split(s, sep)\<close> for a one-byte separator: always at least one piece.\<close>

primrec split_char :: "char \<Rightarrow> string \<Rightarrow> string list" where
  "split_char sep [] = [[]]"
| "split_char sep (c # cs) =
     (if c = sep then [] # split_char sep cs
      else (c # hd (split_char sep cs)) # tl (split_char sep cs))"

lemma split_char_not_Nil [simp]: "split_char sep s \<noteq> []"
  by (induction s) auto

lemma hd_split_char: "hd (split_char sep s) = takeWhile (\<lambda>c. c \<noteq> sep) s"
  by (induction s) auto

lemma split_char_no_sep: "sep \<notin> set s \<Longrightarrow> split_char sep s = [s]"
  by (induction s) auto

lemma split_char_append:
  "sep \<notin> set s \<Longrightarrow> split_char sep (s @ sep # t) = s # split_char sep t"
  by (induction s) auto

text \<open>\<open>strings.Join\<close>.\<close>

fun join_str :: "string \<Rightarrow> string list \<Rightarrow> string" where
  "join_str sep [] = []"
| "join_str sep [x] = x"
| "join_str sep (x # y # ys) = x @ sep @ join_str sep (y # ys)"

lemma split_join: 
  "xs \<noteq> [] \<Longrightarrow> \<forall>x \<in> set xs. sep \<notin> set x \<Longrightarrow> split_char sep (join_str [sep] xs) = xs"
  by (induction "[sep]" xs rule: join_str.induct) (auto simp: split_char_no_sep split_char_append)

text \<open>\<open>strings.TrimSpace\<close> on ASCII text.\<close>

definition is_space :: "char \<Rightarrow> bool" where
  "is_space c \<longleftrightarrow> (let k = (of_char c :: nat) in k = 32 \<or> (9 \<le> k \<and> k \<le> 13))"

definition trim_space :: "string \<Rightarrow> string" where
  "trim_space s = rev (dropWhile is_space (rev (dropWhile is_space s)))"

lemma trim_space_hd: "trim_space s \<noteq> [] \<Longrightarrow> \<not> is_space (last (trim_space s))"
  by (simp add: trim_space_def last_rev hd_dropWhile)

section \<open>\<open>path/filepath\<close>\<close>

text \<open>\<open>filepath.Clean\<close> on a slash-separated path, component by component, and \<open>filepath.Join\<close> of two
  elements.\<close>

fun clean_step :: "bool \<Rightarrow> string \<Rightarrow> string list \<Rightarrow> string list" where
  "clean_step rooted c st =
     (if c = '''' \<or> c = ''.'' then st
      else if c = ''..'' then
        (case st of
           [] \<Rightarrow> if rooted then [] else [''..'']
         | el # rest \<Rightarrow> if el = ''..'' then ''..'' # st else rest)
      else c # st)"

definition path_clean :: "string \<Rightarrow> string" where
  "path_clean p =
     (if p = '''' then ''.''
      else
        (let rooted = (hd p = CHR ''/'');
             comps = rev (fold (clean_step rooted) (split_char CHR ''/'' p) []);
             body = join_str ''/'' comps
         in if rooted then CHR ''/'' # body else if body = '''' then ''.'' else body))"

definition path_join :: "string \<Rightarrow> string \<Rightarrow> string" where
  "path_join a b =
     (let es = filter (\<lambda>e. e \<noteq> '''') [a, b] in
      if es = [] then '''' else path_clean (join_str ''/'' es))"

section \<open>Hexadecimal text\<close>

text \<open>\<open>hex.EncodeToString\<close> and \<open>hex.DecodeString\<close>; the decoder takes both cases.\<close>

definition hex_digit :: "nat \<Rightarrow> char" where
  "hex_digit d = (if d < 10 then char_of (48 + d) else char_of (87 + d))"

definition hex_val :: "char \<Rightarrow> nat option" where
  "hex_val c = (let k = (of_char c :: nat) in
     if 48 \<le> k \<and> k \<le> 57 then Some (k - 48)
     else if 97 \<le> k \<and> k \<le> 102 then Some (k - 87)
     else if 65 \<le> k \<and> k \<le> 70 then Some (k - 55)
     else None)"

primrec hex_encode :: "bytes \<Rightarrow> string" where
  "hex_encode [] = []"
| "hex_encode (c # cs) =
     (let k = (of_char c :: nat) in hex_digit (k div 16) # hex_digit (k mod 16) # hex_encode cs)"

fun hex_decode :: "string \<Rightarrow> bytes option" where
  "hex_decode [] = Some []"
| "hex_decode [c] = None"
| "hex_decode (a # b # cs) =
     (case (hex_val a, hex_val b, hex_decode cs) of
        (Some x, Some y, Some bs) \<Rightarrow> Some (char_of (16 * x + y) # bs)
      | _ \<Rightarrow> None)"

lemma hex_val_digit [simp]: "d < 16 \<Longrightarrow> hex_val (hex_digit d) = Some d"
  by (auto simp: hex_val_def hex_digit_def of_char_of Let_def)

lemma of_char_less_256: "(of_char c :: nat) < 256"
  by (cases c) (simp add: of_char_def) 

lemma hex_decode_encode [simp]: "hex_decode (hex_encode bs) = Some bs"
proof (induction bs)
  case (Cons c cs)
  have "(of_char c :: nat) div 16 < 16"
    by (rule less_mult_imp_div_less) (simp add: of_char_less_256)
  moreover have "16 * ((of_char c :: nat) div 16) + of_char c mod 16 = of_char c" by simp
  ultimately show ?case using Cons by (simp add: Let_def)
qed simp

interpretation hexcode: encoding hex_encode hex_decode "\<lambda>_. True"
  by unfold_locales simp

end
