(* ===== verification/PbTypes.thy ===== *)
theory PbTypes
  imports GoNum
begin

text \<open>
  The protobuf messages of \<open>service/pb/xchain.proto\<close> and \<open>xendorser.proto\<close> that the
  modelled code reads or builds, one record per message with the Go field names behind a
  short prefix.  A sub-message is a pointer, hence an \<open>option\<close>; a repeated field is a
  list, and an \<open>option\<close> of a list where the code tests it for nil; a \<open>map\<close> field is a
  finite map given by its lookup function.  A proto enum keeps its constructors, or is
  an \<open>int32\<close> where the code only copies the number.  A \<open>double\<close> is kept as its 64 bits,
  because no modelled code computes with one.
\<close>

type_synonym float64 = "64 word"

section \<open>Enumerations\<close>

datatype XChainErrorEnum =
    SUCCESS | UNKNOW_ERROR | CONNECT_REFUSE | NOT_ENOUGH_UTXO_ERROR
  | UTXOVM_ALREADY_UNCONFIRM_ERROR | UTXOVM_NOT_FOUND_ERROR | INPUT_OUTPUT_NOT_EQUAL_ERROR
  | TX_NOT_FOUND_ERROR | TX_SIGN_ERROR | BLOCKCHAIN_NOTEXIST | VALIDATE_ERROR
  | CANNOT_SYNC_BLOCK_ERROR | CONFIRM_BLOCK_ERROR | UTXOVM_PLAY_ERROR | WALK_ERROR
  | NOT_READY_ERROR | BLOCK_EXIST_ERROR | ROOT_BLOCK_EXIST_ERROR | TX_DUPLICATE_ERROR
  | SERVICE_REFUSED_ERROR | TXDATA_SIGN_ERROR | TX_SLE_ERROR | TX_FEE_NOT_ENOUGH_ERROR
  | UTXO_SIGN_ERROR | DPOS_QUERY_ERROR | RWSET_INVALID_ERROR | RWACL_INVALID_ERROR
  | GAS_NOT_ENOUGH_ERROR | TX_VERSION_INVALID_ERROR | COMPLIANCE_CHECK_NOT_APPROVED
  | ACCOUNT_CONTRACT_STATUS_ERROR | TX_VERIFICATION_ERROR

text \<open>The wire number of an error, from the proto file.\<close>

fun errnum :: "XChainErrorEnum \<Rightarrow> nat" where
  "errnum SUCCESS = 0" | "errnum UNKNOW_ERROR = 1" | "errnum CONNECT_REFUSE = 2"
| "errnum NOT_ENOUGH_UTXO_ERROR = 3" | "errnum UTXOVM_ALREADY_UNCONFIRM_ERROR = 4"
| "errnum UTXOVM_NOT_FOUND_ERROR = 5" | "errnum INPUT_OUTPUT_NOT_EQUAL_ERROR = 6"
| "errnum TX_NOT_FOUND_ERROR = 7" | "errnum TX_SIGN_ERROR = 8" | "errnum BLOCKCHAIN_NOTEXIST = 9"
| "errnum VALIDATE_ERROR = 10" | "errnum CANNOT_SYNC_BLOCK_ERROR = 11"
| "errnum CONFIRM_BLOCK_ERROR = 12" | "errnum UTXOVM_PLAY_ERROR = 13" | "errnum WALK_ERROR = 14"
| "errnum NOT_READY_ERROR = 15" | "errnum BLOCK_EXIST_ERROR = 16"
| "errnum ROOT_BLOCK_EXIST_ERROR = 17" | "errnum TX_DUPLICATE_ERROR = 19"
| "errnum SERVICE_REFUSED_ERROR = 20" | "errnum TXDATA_SIGN_ERROR = 21" | "errnum TX_SLE_ERROR = 25"
| "errnum TX_FEE_NOT_ENOUGH_ERROR = 26" | "errnum UTXO_SIGN_ERROR = 28"
| "errnum DPOS_QUERY_ERROR = 31" | "errnum RWSET_INVALID_ERROR = 33"
| "errnum RWACL_INVALID_ERROR = 34" | "errnum GAS_NOT_ENOUGH_ERROR = 35"
| "errnum TX_VERSION_INVALID_ERROR = 36" | "errnum COMPLIANCE_CHECK_NOT_APPROVED = 37"
| "errnum ACCOUNT_CONTRACT_STATUS_ERROR = 38" | "errnum TX_VERIFICATION_ERROR = 40"

definition all_errors :: "XChainErrorEnum list" where
  "all_errors =
    [SUCCESS, UNKNOW_ERROR, CONNECT_REFUSE, NOT_ENOUGH_UTXO_ERROR,
     UTXOVM_ALREADY_UNCONFIRM_ERROR, UTXOVM_NOT_FOUND_ERROR, INPUT_OUTPUT_NOT_EQUAL_ERROR,
     TX_NOT_FOUND_ERROR, TX_SIGN_ERROR, BLOCKCHAIN_NOTEXIST, VALIDATE_ERROR,
     CANNOT_SYNC_BLOCK_ERROR, CONFIRM_BLOCK_ERROR, UTXOVM_PLAY_ERROR, WALK_ERROR,
     NOT_READY_ERROR, BLOCK_EXIST_ERROR, ROOT_BLOCK_EXIST_ERROR, TX_DUPLICATE_ERROR,
     SERVICE_REFUSED_ERROR, TXDATA_SIGN_ERROR, TX_SLE_ERROR, TX_FEE_NOT_ENOUGH_ERROR,
     UTXO_SIGN_ERROR, DPOS_QUERY_ERROR, RWSET_INVALID_ERROR, RWACL_INVALID_ERROR,
     GAS_NOT_ENOUGH_ERROR, TX_VERSION_INVALID_ERROR, COMPLIANCE_CHECK_NOT_APPROVED,
     ACCOUNT_CONTRACT_STATUS_ERROR, TX_VERIFICATION_ERROR]"

lemma find_errnum: "find (\<lambda>e. errnum e = errnum a) all_errors = Some a"
  by (induction a; code_simp)

lemma errnum_inject: "errnum a = errnum b \<Longrightarrow> a = b"
  by (metis find_errnum option.inject)

instantiation XChainErrorEnum :: linorder
begin

definition less_eq_XChainErrorEnum :: "XChainErrorEnum \<Rightarrow> XChainErrorEnum \<Rightarrow> bool" where
  "less_eq_XChainErrorEnum a b \<longleftrightarrow> errnum a \<le> errnum b"

definition less_XChainErrorEnum :: "XChainErrorEnum \<Rightarrow> XChainErrorEnum \<Rightarrow> bool" where
  "less_XChainErrorEnum a b \<longleftrightarrow> errnum a < errnum b"

instance
  by standard (auto simp: less_eq_XChainErrorEnum_def less_XChainErrorEnum_def intro: errnum_inject)

end

datatype ViewOption =
    ViewOption_NONE | ViewOption_LEDGER | ViewOption_UTXOINFO | ViewOption_BRANCHINFO
  | ViewOption_PEERS | ViewOption_other int32

datatype ResourceType = ResourceType_CPU | ResourceType_MEMORY | ResourceType_DISK | ResourceType_XFEE

section \<open>Messages\<close>

record Header =
  hdr_Logid :: string
  hdr_FromNode :: string
  hdr_Error :: XChainErrorEnum

record SignatureInfo =
  sig_PublicKey :: string
  sig_Sign :: bytes

record TxInput =
  txin_RefTxid :: bytes
  txin_RefOffset :: int32
  txin_FromAddr :: bytes
  txin_Amount :: bytes
  txin_FrozenHeight :: int64

record TxOutput =
  txout_Amount :: bytes
  txout_ToAddr :: bytes
  txout_FrozenHeight :: int64

record TxDataAccount =
  tda_Address :: string
  tda_Amount :: string
  tda_FrozenHeight :: int64

record TxInputExt =
  txie_Bucket :: string
  txie_Key :: bytes
  txie_RefTxid :: bytes
  txie_RefOffset :: int32

record TxOutputExt =
  txoe_Bucket :: string
  txoe_Key :: bytes
  txoe_Value :: bytes

record ResourceLimit =
  rl_Type :: ResourceType
  rl_Limit :: int64

record InvokeRequest =
  ireq_ModuleName :: string
  ireq_ContractName :: string
  ireq_MethodName :: string
  ireq_Args :: "string \<rightharpoonup> bytes"
  ireq_ResourceLimits :: "ResourceLimit list"
  ireq_Amount :: string

record ContractResponse =
  cresp_Status :: int32
  cresp_Message :: string
  cresp_Body :: bytes

record InvokeResponse =
  iresp_Inputs :: "TxInputExt list"
  iresp_Outputs :: "TxOutputExt list"
  iresp_Response :: "bytes list"
  iresp_GasUsed :: int64
  iresp_Requests :: "InvokeRequest list"
  iresp_Responses :: "ContractResponse list"
  iresp_UtxoInputs :: "TxInput list"
  iresp_UtxoOutputs :: "TxOutput list"

record XuperSignature =
  xsig_PublicKeys :: "bytes list"
  xsig_Signature :: bytes

record ModifyBlock =
  mblk_EffectiveTxid :: string
  mblk_Marked :: bool
  mblk_EffectiveHeight :: int64
  mblk_PublicKey :: string
  mblk_Sign :: string

record HDInfo =
  hdi_HdPublicKey :: bytes
  hdi_OriginalHash :: bytes

record Transaction =
  tx_Txid :: bytes
  tx_Blockid :: bytes
  tx_TxInputs :: "TxInput list"
  tx_TxOutputs :: "TxOutput list"
  tx_Desc :: bytes
  tx_Coinbase :: bool
  tx_Nonce :: string
  tx_Timestamp :: int64
  tx_Version :: int32
  tx_Autogen :: bool
  tx_TxInputsExt :: "TxInputExt list"
  tx_TxOutputsExt :: "TxOutputExt list"
  tx_ContractRequests :: "InvokeRequest list"
  tx_Initiator :: string
  tx_AuthRequire :: "string list"
  tx_InitiatorSigns :: "SignatureInfo list"
  tx_AuthRequireSigns :: "SignatureInfo list"
  tx_ReceivedTimestamp :: int64
  tx_XuperSign :: "XuperSignature option"
  tx_ModifyBlock :: "ModifyBlock option"
  tx_HDInfo :: "HDInfo option"

record TxStatus =
  txst_Header :: "Header option"
  txst_Bcname :: string
  txst_Txid :: bytes
  txst_Status :: int32
  txst_Distance :: int64
  txst_Tx :: "Transaction option"

record CommonReply =
  crep_Header :: "Header option"

record CommonIn =
  cin_Header :: "Header option"
  cin_ViewOption :: ViewOption

record TokenDetail =
  tokd_Bcname :: string
  tokd_Balance :: string
  tokd_Error :: XChainErrorEnum

record AddressStatus =
  adst_Header :: "Header option"
  adst_Address :: string
  adst_Bcs :: "TokenDetail list"

record TokenFrozenDetail =
  tfd_Balance :: string
  tfd_IsFrozen :: bool

record TokenFrozenDetails =
  tfds_Bcname :: string
  tfds_Tfd :: "TokenFrozenDetail list"
  tfds_Error :: XChainErrorEnum

record AddressBalanceStatus =
  abst_Header :: "Header option"
  abst_Address :: string
  abst_Tfds :: "TokenFrozenDetails list"

record LedgerMeta =
  lmeta_RootBlockid :: bytes
  lmeta_TipBlockid :: bytes
  lmeta_TrunkHeight :: int64

record GasPrice =
  gas_CpuRate :: int64
  gas_MemRate :: int64
  gas_DiskRate :: int64
  gas_XfeeRate :: int64

record UtxoMeta =
  umeta_LatestBlockid :: bytes
  umeta_LockKeyList :: "string list"
  umeta_UtxoTotal :: string
  umeta_AvgDelay :: int64
  umeta_UnconfirmTxAmount :: int64
  umeta_MaxBlockSize :: int64
  umeta_ReservedContracts :: "InvokeRequest list"
  umeta_ForbiddenContract :: "InvokeRequest option"
  umeta_NewAccountResourceAmount :: int64
  umeta_IrreversibleBlockHeight :: int64
  umeta_IrreversibleSlideWindow :: int64
  umeta_GasPrice :: "GasPrice option"
  umeta_GroupChainContract :: "InvokeRequest option"

record SignInfo =
  qsi_Address :: string
  qsi_PublicKey :: string
  qsi_Sign :: bytes

record QCSignInfos =
  qcs_QCSignInfos :: "SignInfo list"

record QuorumCert =
  qc_ProposalId :: bytes
  qc_ProposalMsg :: bytes
  qc_Type :: int32
  qc_ViewNumber :: int64
  qc_SignInfos :: "QCSignInfos option"

record InternalBlock =
  iblk_Version :: int32
  iblk_Nonce :: int32
  iblk_Blockid :: bytes
  iblk_PreHash :: bytes
  iblk_Proposer :: bytes
  iblk_Sign :: bytes
  iblk_Pubkey :: bytes
  iblk_MerkleRoot :: bytes
  iblk_Height :: int64
  iblk_Timestamp :: int64
  iblk_Transactions :: "Transaction list"
  iblk_TxCount :: int32
  iblk_MerkleTree :: "bytes list"
  iblk_CurTerm :: int64
  iblk_CurBlockNum :: int64
  iblk_FailedTxs :: "string \<rightharpoonup> string"
  iblk_TargetBits :: int32
  iblk_Justify :: "QuorumCert option"
  iblk_InTrunk :: bool
  iblk_NextHash :: bytes

record Block =
  blk_Header :: "Header option"
  blk_Bcname :: string
  blk_Blockid :: bytes
  blk_Status :: int32
  blk_Block :: "InternalBlock option"

record BlockID =
  blkid_Header :: "Header option"
  blkid_Bcname :: string
  blkid_Blockid :: bytes
  blkid_NeedContent :: bool

record BlockHeight =
  blkh_Header :: "Header option"
  blkh_Bcname :: string
  blkh_Height :: int64

record BCStatus =
  bcst_Header :: "Header option"
  bcst_Bcname :: string
  bcst_Meta :: "LedgerMeta option"
  bcst_Block :: "InternalBlock option"
  bcst_UtxoMeta :: "UtxoMeta option"
  bcst_BranchBlockid :: "string list"

record BCTipStatus =
  btip_Header :: "Header option"
  btip_IsTrunkTip :: bool

record BlockChains =
  bchs_Header :: "Header option"
  bchs_Blockchains :: "string list"

record Speeds =
  spd_SumSpeeds :: "string \<rightharpoonup> float64"
  spd_BcSpeeds :: "string \<rightharpoonup> (string \<rightharpoonup> float64)"

record SystemsStatus =
  syst_Header :: "Header option"
  syst_BcsStatus :: "BCStatus list"
  syst_Speeds :: "Speeds option"
  syst_PeerUrls :: "string list"

record SystemsStatusReply =
  systr_Header :: "Header option"
  systr_SystemsStatus :: "SystemsStatus option"

record ConsensusStatus =
  cons_Header :: "Header option"
  cons_Version :: string
  cons_ConsensusName :: string
  cons_StartHeight :: string
  cons_ValidatorsInfo :: string

record ConsensusStatRequest =
  csreq_Header :: "Header option"
  csreq_Bcname :: string

record RawUrl =
  rurl_Header :: "Header option"
  rurl_RawUrl :: string

record Utxo =
  utxo_Amount :: bytes
  utxo_ToAddr :: bytes
  utxo_ToPubkey :: bytes
  utxo_RefTxid :: bytes
  utxo_RefOffset :: int32

record UtxoInput =
  uin_Header :: "Header option"
  uin_Bcname :: string
  uin_Address :: string
  uin_Publickey :: string
  uin_TotalNeed :: string
  uin_UserSign :: bytes
  uin_NeedLock :: bool

record UtxoOutput =
  uout_Header :: "Header option"
  uout_UtxoList :: "Utxo list"
  uout_TotalSelected :: string

record InvokeRPCRequest =
  irpc_Header :: "Header option"
  irpc_Bcname :: string
  irpc_Requests :: "InvokeRequest option list option"
  irpc_Initiator :: string
  irpc_AuthRequire :: "string list"

record InvokeRPCResponse =
  irpr_Header :: "Header option"
  irpr_Bcname :: string
  irpr_Response :: "InvokeResponse option"

record PermissionModel =
  pm_Rule :: int32
  pm_AcceptValue :: float64

record AkSets =
  aks_Sets :: "string \<rightharpoonup> string list"
  aks_Expression :: string

record Acl =
  acl_Pm :: "PermissionModel option"
  acl_AksWeight :: "string \<rightharpoonup> float64"
  acl_AkSets :: "AkSets option"

record AclStatus =
  acst_Header :: "Header option"
  acst_Bcname :: string
  acst_AccountName :: string
  acst_ContractName :: string
  acst_MethodName :: string
  acst_Confirmed :: bool
  acst_Acl :: "Acl option"

record AK2AccountRequest =
  akreq_Header :: "Header option"
  akreq_Bcname :: string
  akreq_Address :: string

record AK2AccountResponse =
  akres_Header :: "Header option"
  akres_Bcname :: string
  akres_Account :: "string list"

record GetAccountContractsRequest =
  gacreq_Header :: "Header option"
  gacreq_Bcname :: string
  gacreq_Account :: string

record ContractStatus =
  cst_ContractName :: string
  cst_Txid :: string
  cst_Desc :: bytes
  cst_IsBanned :: bool
  cst_Timestamp :: int64
  cst_Runtime :: string

record GetAccountContractsResponse =
  gacres_Header :: "Header option"
  gacres_ContractsStatus :: "ContractStatus list"

record PreExecWithSelectUTXORequest =
  pesreq_Header :: "Header option"
  pesreq_Bcname :: string
  pesreq_Address :: string
  pesreq_TotalAmount :: int64
  pesreq_SignInfo :: "SignatureInfo option"
  pesreq_NeedLock :: bool
  pesreq_Request :: "InvokeRPCRequest option"

record PreExecWithSelectUTXOResponse =
  pesres_Header :: "Header option"
  pesres_Bcname :: string
  pesres_Response :: "InvokeResponse option"
  pesres_UtxoOutput :: "UtxoOutput option"

record UtxoKey =
  ukey_RefTxid :: string
  ukey_Offset :: string
  ukey_Amount :: string

record UtxoRecord =
  urec_UtxoCount :: string
  urec_UtxoAmount :: string
  urec_Item :: "UtxoKey list option"

record UtxoRecordDetail =
  urd_Header :: "Header option"
  urd_Bcname :: string
  urd_AccountName :: string
  urd_OpenUtxoRecord :: "UtxoRecord option"
  urd_LockedUtxoRecord :: "UtxoRecord option"
  urd_FrozenUtxoRecord :: "UtxoRecord option"
  urd_DisplayCount :: int64

record ContractStatDataRequest =
  csdreq_Header :: "Header option"
  csdreq_Bcname :: string

record ContractStatData =
  csd_AccountCount :: int64
  csd_ContractCount :: int64

record ContractStatDataResponse =
  csdres_Header :: "Header option"
  csdres_Bcname :: string
  csdres_Data :: "ContractStatData option"

record AddressContractsRequest =
  acreq_Header :: "Header option"
  acreq_Bcname :: string
  acreq_Address :: string
  acreq_NeedContent :: bool

record AddressContractsResponse =
  acres_Header :: "Header option"
  acres_Contracts :: "string \<rightharpoonup> ContractStatus list"

record CrossQueryRequest =
  cqreq_Bcname :: string
  cqreq_Timestamp :: int64
  cqreq_Initiator :: string
  cqreq_AuthRequire :: "string list"
  cqreq_Request :: "InvokeRequest option"

record CrossQueryResponse =
  cqres_Response :: "ContractResponse option"

record EndorserRequest =
  ereq_Header :: "Header option"
  ereq_RequestName :: string
  ereq_BcName :: string
  ereq_Fee :: "Transaction option"
  ereq_RequestData :: "bytes option"

record EndorserResponse =
  eres_Header :: "Header option"
  eres_ResponseName :: string
  eres_EndorserAddress :: string
  eres_EndorserSign :: "SignatureInfo option"
  eres_ResponseData :: "bytes option"

section \<open>Zero values\<close>

text \<open>\<open>&pb.X{}\<close> is the message with every field at its zero value.\<close>

definition new_Header :: Header where
  [simp]: "new_Header = \<lparr>hdr_Logid = '''', hdr_FromNode = '''', hdr_Error = SUCCESS\<rparr>"

definition new_TxInput :: TxInput where
  [simp]: "new_TxInput = \<lparr>txin_RefTxid = '''', txin_RefOffset = 0, txin_FromAddr = '''', txin_Amount = '''', txin_FrozenHeight = 0\<rparr>"

definition new_TxOutput :: TxOutput where
  [simp]: "new_TxOutput = \<lparr>txout_Amount = '''', txout_ToAddr = '''', txout_FrozenHeight = 0\<rparr>"

definition new_InvokeRequest :: InvokeRequest where
  [simp]: "new_InvokeRequest = \<lparr>ireq_ModuleName = '''', ireq_ContractName = '''', ireq_MethodName = '''', ireq_Args = (\<lambda>_. None), ireq_ResourceLimits = [], ireq_Amount = ''''\<rparr>"

definition new_InvokeResponse :: InvokeResponse where
  [simp]: "new_InvokeResponse = \<lparr>iresp_Inputs = [], iresp_Outputs = [], iresp_Response = [], iresp_GasUsed = 0, iresp_Requests = [], iresp_Responses = [], iresp_UtxoInputs = [], iresp_UtxoOutputs = []\<rparr>"

definition new_Transaction :: Transaction where
  [simp]: "new_Transaction = \<lparr>tx_Txid = '''', tx_Blockid = '''', tx_TxInputs = [], tx_TxOutputs = [], tx_Desc = '''', tx_Coinbase = False, tx_Nonce = '''', tx_Timestamp = 0, tx_Version = 0, tx_Autogen = False, tx_TxInputsExt = [], tx_TxOutputsExt = [], tx_ContractRequests = [], tx_Initiator = '''', tx_AuthRequire = [], tx_InitiatorSigns = [], tx_AuthRequireSigns = [], tx_ReceivedTimestamp = 0, tx_XuperSign = None, tx_ModifyBlock = None, tx_HDInfo = None\<rparr>"

definition new_TxStatus :: TxStatus where
  [simp]: "new_TxStatus = \<lparr>txst_Header = None, txst_Bcname = '''', txst_Txid = '''', txst_Status = 0, txst_Distance = 0, txst_Tx = None\<rparr>"

definition new_CommonReply :: CommonReply where
  [simp]: "new_CommonReply = \<lparr>crep_Header = None\<rparr>"

definition new_AddressStatus :: AddressStatus where
  [simp]: "new_AddressStatus = \<lparr>adst_Header = None, adst_Address = '''', adst_Bcs = []\<rparr>"

definition new_AddressBalanceStatus :: AddressBalanceStatus where
  [simp]: "new_AddressBalanceStatus = \<lparr>abst_Header = None, abst_Address = '''', abst_Tfds = []\<rparr>"

definition new_InternalBlock :: InternalBlock where
  [simp]: "new_InternalBlock = \<lparr>iblk_Version = 0, iblk_Nonce = 0, iblk_Blockid = '''', iblk_PreHash = '''', iblk_Proposer = '''', iblk_Sign = '''', iblk_Pubkey = '''', iblk_MerkleRoot = '''', iblk_Height = 0, iblk_Timestamp = 0, iblk_Transactions = [], iblk_TxCount = 0, iblk_MerkleTree = [], iblk_CurTerm = 0, iblk_CurBlockNum = 0, iblk_FailedTxs = (\<lambda>_. None), iblk_TargetBits = 0, iblk_Justify = None, iblk_InTrunk = False, iblk_NextHash = ''''\<rparr>"

definition new_Block :: Block where
  [simp]: "new_Block = \<lparr>blk_Header = None, blk_Bcname = '''', blk_Blockid = '''', blk_Status = 0, blk_Block = None\<rparr>"

definition new_BCStatus :: BCStatus where
  [simp]: "new_BCStatus = \<lparr>bcst_Header = None, bcst_Bcname = '''', bcst_Meta = None, bcst_Block = None, bcst_UtxoMeta = None, bcst_BranchBlockid = []\<rparr>"

definition new_BCTipStatus :: BCTipStatus where
  [simp]: "new_BCTipStatus = \<lparr>btip_Header = None, btip_IsTrunkTip = False\<rparr>"

definition new_BlockChains :: BlockChains where
  [simp]: "new_BlockChains = \<lparr>bchs_Header = None, bchs_Blockchains = []\<rparr>"

definition new_SystemsStatus :: SystemsStatus where
  [simp]: "new_SystemsStatus = \<lparr>syst_Header = None, syst_BcsStatus = [], syst_Speeds = None, syst_PeerUrls = []\<rparr>"

definition new_SystemsStatusReply :: SystemsStatusReply where
  [simp]: "new_SystemsStatusReply = \<lparr>systr_Header = None, systr_SystemsStatus = None\<rparr>"

definition new_ConsensusStatus :: ConsensusStatus where
  [simp]: "new_ConsensusStatus = \<lparr>cons_Header = None, cons_Version = '''', cons_ConsensusName = '''', cons_StartHeight = '''', cons_ValidatorsInfo = ''''\<rparr>"

definition new_RawUrl :: RawUrl where
  [simp]: "new_RawUrl = \<lparr>rurl_Header = None, rurl_RawUrl = ''''\<rparr>"

definition new_Utxo :: Utxo where
  [simp]: "new_Utxo = \<lparr>utxo_Amount = '''', utxo_ToAddr = '''', utxo_ToPubkey = '''', utxo_RefTxid = '''', utxo_RefOffset = 0\<rparr>"

definition new_UtxoInput :: UtxoInput where
  [simp]: "new_UtxoInput = \<lparr>uin_Header = None, uin_Bcname = '''', uin_Address = '''', uin_Publickey = '''', uin_TotalNeed = '''', uin_UserSign = '''', uin_NeedLock = False\<rparr>"

definition new_UtxoOutput :: UtxoOutput where
  [simp]: "new_UtxoOutput = \<lparr>uout_Header = None, uout_UtxoList = [], uout_TotalSelected = ''''\<rparr>"

definition new_InvokeRPCRequest :: InvokeRPCRequest where
  [simp]: "new_InvokeRPCRequest = \<lparr>irpc_Header = None, irpc_Bcname = '''', irpc_Requests = None, irpc_Initiator = '''', irpc_AuthRequire = []\<rparr>"

definition new_InvokeRPCResponse :: InvokeRPCResponse where
  [simp]: "new_InvokeRPCResponse = \<lparr>irpr_Header = None, irpr_Bcname = '''', irpr_Response = None\<rparr>"

definition new_AclStatus :: AclStatus where
  [simp]: "new_AclStatus = \<lparr>acst_Header = None, acst_Bcname = '''', acst_AccountName = '''', acst_ContractName = '''', acst_MethodName = '''', acst_Confirmed = False, acst_Acl = None\<rparr>"

definition new_AK2AccountResponse :: AK2AccountResponse where
  [simp]: "new_AK2AccountResponse = \<lparr>akres_Header = None, akres_Bcname = '''', akres_Account = []\<rparr>"

definition new_GetAccountContractsResponse :: GetAccountContractsResponse where
  [simp]: "new_GetAccountContractsResponse = \<lparr>gacres_Header = None, gacres_ContractsStatus = []\<rparr>"

definition new_PreExecWithSelectUTXORequest :: PreExecWithSelectUTXORequest where
  [simp]: "new_PreExecWithSelectUTXORequest = \<lparr>pesreq_Header = None, pesreq_Bcname = '''', pesreq_Address = '''', pesreq_TotalAmount = 0, pesreq_SignInfo = None, pesreq_NeedLock = False, pesreq_Request = None\<rparr>"

definition new_PreExecWithSelectUTXOResponse :: PreExecWithSelectUTXOResponse where
  [simp]: "new_PreExecWithSelectUTXOResponse = \<lparr>pesres_Header = None, pesres_Bcname = '''', pesres_Response = None, pesres_UtxoOutput = None\<rparr>"

definition new_UtxoRecordDetail :: UtxoRecordDetail where
  [simp]: "new_UtxoRecordDetail = \<lparr>urd_Header = None, urd_Bcname = '''', urd_AccountName = '''', urd_OpenUtxoRecord = None, urd_LockedUtxoRecord = None, urd_FrozenUtxoRecord = None, urd_DisplayCount = 0\<rparr>"

definition new_ContractStatDataResponse :: ContractStatDataResponse where
  [simp]: "new_ContractStatDataResponse = \<lparr>csdres_Header = None, csdres_Bcname = '''', csdres_Data = None\<rparr>"

definition new_AddressContractsResponse :: AddressContractsResponse where
  [simp]: "new_AddressContractsResponse = \<lparr>acres_Header = None, acres_Contracts = (\<lambda>_. None)\<rparr>"

definition new_CrossQueryRequest :: CrossQueryRequest where
  [simp]: "new_CrossQueryRequest = \<lparr>cqreq_Bcname = '''', cqreq_Timestamp = 0, cqreq_Initiator = '''', cqreq_AuthRequire = [], cqreq_Request = None\<rparr>"

definition new_CrossQueryResponse :: CrossQueryResponse where
  [simp]: "new_CrossQueryResponse = \<lparr>cqres_Response = None\<rparr>"

definition new_EndorserRequest :: EndorserRequest where
  [simp]: "new_EndorserRequest = \<lparr>ereq_Header = None, ereq_RequestName = '''', ereq_BcName = '''', ereq_Fee = None, ereq_RequestData = None\<rparr>"

definition new_EndorserResponse :: EndorserResponse where
  [simp]: "new_EndorserResponse = \<lparr>eres_Header = None, eres_ResponseName = '''', eres_EndorserAddress = '''', eres_EndorserSign = None, eres_ResponseData = None\<rparr>"

end
