(* ===== verification/Errors.thy ===== *)
theory Errors
  imports PbTypes
begin

text \<open>
  Go error values and the error codes of the node: the standard errors of xupercore
  (\<open>ecom.ErrX\<close>, known here by name only), errors the program makes itself, and errors
  that come from a library.  \<open>service/common/error.go\<close> maps the code of a standard
  error to the code of the RPC interface; the numeric codes live in xupercore, so the
  map takes them as a parameter.
\<close>

section \<open>Error values\<close>

datatype ecom =
    ErrSuccess | ErrInternal | ErrUnknown | ErrForbidden | ErrUnauthorized | ErrParameter
  | ErrNewEngineCtxFailed | ErrNotEngineType | ErrLoadEngConfFailed | ErrNewLogFailed
  | ErrNewChainCtxFailed | ErrChainExist | ErrChainNotExist | ErrChainAlreadyExist
  | ErrChainStatus | ErrRootChainNotExist | ErrLoadChainFailed | ErrContractNewCtxFailed
  | ErrContractInvokeFailed | ErrContractNewSandboxFailed | ErrTxVerifyFailed
  | ErrTxAlreadyExist | ErrTxNotExist | ErrTxNotEnough | ErrSubmitTxFailed
  | ErrBlockNotExist | ErrProcBlockFailed | ErrNewNetEventFailed | ErrNewNetworkFailed
  | ErrSendMessageFailed | ErrNetworkNoResponse

text \<open>\<open>Ecom e\<close> is the standard error \<open>ecom.e\<close>, \<open>EcomMore e m\<close> is \<open>ecom.e.More(m)\<close>,
  \<open>Errorf m\<close> an error made with \<open>errors.New\<close> or \<open>fmt.Errorf\<close>, \<open>LibErr m\<close> an error
  returned by a library function.\<close>

datatype gerr = Ecom ecom | EcomMore ecom string | Errorf string | LibErr string

section \<open>The mapping table\<close>

definition err_table :: "(ecom \<times> XChainErrorEnum) list" where
  "err_table =
    [(ErrSuccess, SUCCESS),
     (ErrInternal, UNKNOW_ERROR),
     (ErrUnknown, UNKNOW_ERROR),
     (ErrForbidden, CONNECT_REFUSE),
     (ErrUnauthorized, CONNECT_REFUSE),
     (ErrParameter, CONNECT_REFUSE),
     (ErrNewEngineCtxFailed, UNKNOW_ERROR),
     (ErrNotEngineType, CONNECT_REFUSE),
     (ErrLoadEngConfFailed, UNKNOW_ERROR),
     (ErrNewLogFailed, UNKNOW_ERROR),
     (ErrNewChainCtxFailed, UNKNOW_ERROR),
     (ErrChainExist, CONNECT_REFUSE),
     (ErrChainNotExist, BLOCKCHAIN_NOTEXIST),
     (ErrChainAlreadyExist, CONNECT_REFUSE),
     (ErrChainStatus, NOT_READY_ERROR),
     (ErrRootChainNotExist, CONNECT_REFUSE),
     (ErrLoadChainFailed, UNKNOW_ERROR),
     (ErrContractNewCtxFailed, UNKNOW_ERROR),
     (ErrContractInvokeFailed, UNKNOW_ERROR),
     (ErrContractNewSandboxFailed, UNKNOW_ERROR),
     (ErrTxVerifyFailed, TX_VERIFICATION_ERROR),
     (ErrTxAlreadyExist, TX_DUPLICATE_ERROR),
     (ErrTxNotExist, TX_NOT_FOUND_ERROR),
     (ErrTxNotEnough, NOT_ENOUGH_UTXO_ERROR),
     (ErrSubmitTxFailed, UNKNOW_ERROR),
     (ErrBlockNotExist, BLOCK_EXIST_ERROR),
     (ErrProcBlockFailed, UNKNOW_ERROR),
     (ErrNewNetEventFailed, UNKNOW_ERROR),
     (ErrNewNetworkFailed, UNKNOW_ERROR),
     (ErrSendMessageFailed, UNKNOW_ERROR),
     (ErrNetworkNoResponse, UNKNOW_ERROR)]"

text \<open>\<open>StdErrToXchainErrMap\<close>: the literal is keyed by the numeric codes.\<close>

definition StdErrToXchainErrMap :: "(ecom \<Rightarrow> int) \<Rightarrow> int \<rightharpoonup> XChainErrorEnum" where
  "StdErrToXchainErrMap code = assigns (map (\<lambda>(e, x). (code e, x)) err_table)"

lemma err_table_keys: "distinct (map fst err_table)" "e \<in> set (map fst err_table)"
  by (simp add: err_table_def) (cases e; simp add: err_table_def)

lemma err_table_total: "\<exists>x. (e, x) \<in> set err_table"
  using err_table_keys(2)[of e] by force

text \<open>With distinct codes the map is the table.\<close>

lemma StdErrToXchainErrMap_table:
  assumes "inj code" "(e, x) \<in> set err_table"
  shows "StdErrToXchainErrMap code (code e) = Some x"
proof -
  have "map fst (map (\<lambda>(e, x). (code e, x)) err_table) = map code (map fst err_table)"
    by (auto simp: case_prod_beta)
  with assms(1) have "distinct (map fst (map (\<lambda>(e, x). (code e, x)) err_table))"
    using err_table_keys(1) by (simp only: distinct_map) (blast intro: inj_on_subset)
  with assms(2) show ?thesis
    unfolding StdErrToXchainErrMap_def by (intro assigns_distinct) force+
qed

lemma StdErrToXchainErrMap_None:
  assumes "c \<notin> range code"
  shows "StdErrToXchainErrMap code c = None"
  using assms unfolding StdErrToXchainErrMap_def by (intro assigns_None) auto

end
