(* ===== verification/Convert.thy ===== *)
theory Convert
  imports Errors
begin

text \<open>
  \<open>service/common/convert.go\<close> and \<open>utils.go\<close>: every message crosses between the RPC
  types of this repository and the types of xupercore by marshalling one and
  unmarshalling the other.  The xupercore message is opaque: a type variable, with the
  four \<open>proto\<close> functions of the message in a \<open>codec\<close>.  Where the code reads fields of an
  xupercore message, those fields are a record.
\<close>

section \<open>Codecs\<close>

record ('p, 'x) codec =
  pb_Marshal :: "'p \<Rightarrow> gerr + bytes"
  pb_Unmarshal :: "bytes \<Rightarrow> gerr + 'p"
  ext_Marshal :: "'x \<Rightarrow> gerr + bytes"
  ext_Unmarshal :: "bytes \<Rightarrow> gerr + 'x"

text \<open>The body the conversions share: nil to nil, a marshalling or unmarshalling error to nil.\<close>

definition reencode :: "('a \<Rightarrow> gerr + bytes) \<Rightarrow> (bytes \<Rightarrow> gerr + 'b) \<Rightarrow> 'a option \<Rightarrow> 'b option" where
  "reencode mar unm m =
     (case m of
        None \<Rightarrow> None
      | Some v \<Rightarrow>
          (case mar v of
             Inl err \<Rightarrow> None
           | Inr buf \<Rightarrow>
               (case unm buf of
                  Inl err \<Rightarrow> None
                | Inr new \<Rightarrow> Some new)))"

lemma reencode_None [simp]: "reencode mar unm None = None"
  by (simp add: reencode_def)

lemma reencode_Some_iff:
  "reencode mar unm m = Some y \<longleftrightarrow> (\<exists>v buf. m = Some v \<and> mar v = Inr buf \<and> unm buf = Inr y)"
  by (auto simp: reencode_def split: option.splits sum.splits)

section \<open>Conversions of one message\<close>

definition TxToXledger :: "(Transaction, 'x) codec \<Rightarrow> Transaction option \<Rightarrow> 'x option" where
  "TxToXledger C tx = reencode (pb_Marshal C) (ext_Unmarshal C) tx"

definition TxToXchain :: "(Transaction, 'x) codec \<Rightarrow> 'x option \<Rightarrow> Transaction option" where
  "TxToXchain C tx = reencode (ext_Marshal C) (pb_Unmarshal C) tx"

definition BlockToXledger :: "(InternalBlock, 'x) codec \<Rightarrow> InternalBlock option \<Rightarrow> 'x option" where
  "BlockToXledger C block = reencode (pb_Marshal C) (ext_Unmarshal C) block"

definition BlockToXchain :: "(InternalBlock, 'x) codec \<Rightarrow> 'x option \<Rightarrow> InternalBlock option" where
  "BlockToXchain C block = reencode (ext_Marshal C) (pb_Unmarshal C) block"

definition ConvertInvokeResp :: "(InvokeResponse, 'x) codec \<Rightarrow> 'x option \<Rightarrow> InvokeResponse option" where
  "ConvertInvokeResp C resp = reencode (ext_Marshal C) (pb_Unmarshal C) resp"

definition UtxoToXchain :: "(Utxo, 'x) codec \<Rightarrow> 'x option \<Rightarrow> Utxo option" where
  "UtxoToXchain C utxo = reencode (ext_Marshal C) (pb_Unmarshal C) utxo"

definition UtxoToXledger :: "(Utxo, 'x) codec \<Rightarrow> Utxo option \<Rightarrow> 'x option" where
  "UtxoToXledger C utxo = reencode (pb_Marshal C) (ext_Unmarshal C) utxo"

definition AclToXchain :: "(Acl, 'x) codec \<Rightarrow> 'x option \<Rightarrow> Acl option" where
  "AclToXchain C acl = reencode (ext_Marshal C) (pb_Unmarshal C) acl"

definition ContractStatusToXchain :: "(ContractStatus, 'x) codec \<Rightarrow> 'x option \<Rightarrow> ContractStatus option" where
  "ContractStatusToXchain C st = reencode (ext_Marshal C) (pb_Unmarshal C) st"

definition BalanceDetailToXchain ::
  "(TokenFrozenDetail, 'x) codec \<Rightarrow> 'x option \<Rightarrow> TokenFrozenDetail option" where
  "BalanceDetailToXchain C detail = reencode (ext_Marshal C) (pb_Unmarshal C) detail"

definition LedgerMetaToXchain :: "(LedgerMeta, 'x) codec \<Rightarrow> 'x option \<Rightarrow> LedgerMeta option" where
  "LedgerMetaToXchain C meta = reencode (ext_Marshal C) (pb_Unmarshal C) meta"

definition UtxoMetaToXchain :: "(UtxoMeta, 'x) codec \<Rightarrow> 'x option \<Rightarrow> UtxoMeta option" where
  "UtxoMetaToXchain C meta = reencode (ext_Marshal C) (pb_Unmarshal C) meta"

section \<open>Conversions of lists\<close>

text \<open>\<open>ConvertInvokeReq\<close>: a nil slice stays nil; marshalling a nil element is the error
  \<open>ErrNil\<close> of the protobuf library; the first error is returned.\<close>

definition ErrNil :: gerr where
  "ErrNil = LibErr ''proto: Marshal called with nil''"

definition ConvertInvokeReq ::
  "(InvokeRequest, 'x) codec \<Rightarrow> InvokeRequest option list option \<Rightarrow> gerr + 'x list option" where
  "ConvertInvokeReq C reqs =
     (case reqs of
        None \<Rightarrow> Inr None
      | Some rs \<Rightarrow>
          res_bind (traverse (\<lambda>req.
              res_bind (case req of None \<Rightarrow> Inl ErrNil | Some r \<Rightarrow> pb_Marshal C r) (\<lambda>buf.
              ext_Unmarshal C buf)) rs)
            (\<lambda>newReqs. Inr (Some newReqs)))"

definition UtxoListToXchain ::
  "(Utxo, 'x) codec \<Rightarrow> 'x option list option \<Rightarrow> gerr + Utxo list option" where
  "UtxoListToXchain C utxoList =
     (case utxoList of
        None \<Rightarrow> Inr None
      | Some us \<Rightarrow>
          res_bind (traverse (\<lambda>utxo. res_of (Errorf ''convert utxo failed'') (UtxoToXchain C utxo)) us)
            (\<lambda>tmpList. Inr (Some tmpList)))"

definition ContractStatusListToXchain ::
  "(ContractStatus, 'x) codec \<Rightarrow> 'x option list option \<Rightarrow> gerr + ContractStatus list option" where
  "ContractStatusListToXchain C contractStatusList =
     (case contractStatusList of
        None \<Rightarrow> Inr None
      | Some css \<Rightarrow>
          res_bind (traverse (\<lambda>cs. res_of (Errorf ''convert contract status failed'')
                                          (ContractStatusToXchain C cs)) css)
            (\<lambda>tmpList. Inr (Some tmpList)))"

definition BalanceDetailsToXchain ::
  "(TokenFrozenDetail, 'x) codec \<Rightarrow> 'x option list option \<Rightarrow> gerr + TokenFrozenDetail list option" where
  "BalanceDetailsToXchain C details =
     (case details of
        None \<Rightarrow> Inr None
      | Some ds \<Rightarrow>
          res_bind (traverse (\<lambda>detail. res_of (Errorf ''convert balance detail failed'')
                                              (BalanceDetailToXchain C detail)) ds)
            (\<lambda>tmpList. Inr (Some tmpList)))"

section \<open>Conversions field by field\<close>

text \<open>The fields of \<open>xldgpb.UtxoRecord\<close> that the code reads; an item pointer may be nil.\<close>

record XUtxoKey =
  xkey_RefTxid :: string
  xkey_Offset :: string
  xkey_Amount :: string

record XUtxoRecord =
  xrec_UtxoCount :: string
  xrec_UtxoAmount :: string
  xrec_Item :: "XUtxoKey option list option"

definition UtxoKeyToXchain :: "XUtxoKey option \<Rightarrow> UtxoKey" where
  "UtxoKeyToXchain item =
     \<lparr>ukey_RefTxid = nilget '''' xkey_RefTxid item,
      ukey_Offset = nilget '''' xkey_Offset item,
      ukey_Amount = nilget '''' xkey_Amount item\<rparr>"

definition UtxoRecordToXchain :: "XUtxoRecord option \<Rightarrow> UtxoRecord option" where
  "UtxoRecordToXchain rcd =
     (case rcd of
        None \<Rightarrow> None
      | Some r \<Rightarrow>
          (let newRecord = \<lparr>urec_UtxoCount = xrec_UtxoCount r,
                            urec_UtxoAmount = xrec_UtxoAmount r,
                            urec_Item = None\<rparr> in
           case xrec_Item r of
             None \<Rightarrow> Some newRecord
           | Some items \<Rightarrow> Some (newRecord\<lparr>urec_Item := Some (map UtxoKeyToXchain items)\<rparr>)))"

record XPeer =
  xpeer_Address :: string

record XPeerInfo =
  xpi_Address :: string
  xpi_Peer :: "XPeer list"

definition PeerInfoToStrings :: "XPeerInfo \<Rightarrow> string list" where
  "PeerInfoToStrings info = map xpeer_Address (xpi_Peer info)"

datatype SubscribeType = SubscribeType_BLOCK | SubscribeType_other int32

datatype XSubscribeType = XSubscribeType_BLOCK

definition ConvertEventSubType :: "SubscribeType \<Rightarrow> XSubscribeType" where
  "ConvertEventSubType typ =
     (case typ of SubscribeType_BLOCK \<Rightarrow> XSubscribeType_BLOCK | _ \<Rightarrow> XSubscribeType_BLOCK)"

section \<open>Hashing and signing a transaction\<close>

text \<open>\<open>service/common/utils.go\<close>: the functions of \<open>txhash\<close> are given; a transaction that does
  not convert is refused.\<close>

definition MakeTxId ::
  "(Transaction, 'x) codec \<Rightarrow> ('x \<Rightarrow> gerr + bytes) \<Rightarrow> Transaction option \<Rightarrow> gerr + bytes" where
  "MakeTxId C MakeTransactionID tx =
     (case TxToXledger C tx of
        None \<Rightarrow> Inl (Errorf ''tx convert fail'')
      | Some xldgTx \<Rightarrow> MakeTransactionID xldgTx)"

definition ComputeTxSign ::
  "(Transaction, 'x) codec \<Rightarrow> ('x \<Rightarrow> bytes \<Rightarrow> gerr + bytes) \<Rightarrow> Transaction option \<Rightarrow> bytes \<Rightarrow> gerr + bytes" where
  "ComputeTxSign C ProcessSignTx tx jsonSK =
     (case TxToXledger C tx of
        None \<Rightarrow> Inl (Errorf ''tx convert fail'')
      | Some xldgTx \<Rightarrow> ProcessSignTx xldgTx jsonSK)"

definition MakeTxDigestHash ::
  "(Transaction, 'x) codec \<Rightarrow> ('x \<Rightarrow> gerr + bytes) \<Rightarrow> Transaction option \<Rightarrow> gerr + bytes" where
  "MakeTxDigestHash C digestTx tx =
     (case TxToXledger C tx of
        None \<Rightarrow> Inl (Errorf ''tx convert fail'')
      | Some xldgTx \<Rightarrow> digestTx xldgTx)"

section \<open>Round trips\<close>

text \<open>
  The two families of types describe the same wire format: what one side writes the other
  reads and writes back unchanged, and each side reads what it wrote.  \<open>wire_keeps C p\<close> says
  this of one message; the conversion pair is then a round trip on it.
\<close>

definition wire_keeps :: "('p, 'x) codec \<Rightarrow> 'p \<Rightarrow> bool" where
  "wire_keeps C p \<longleftrightarrow>
     (\<exists>buf x. pb_Marshal C p = Inr buf \<and> ext_Unmarshal C buf = Inr x \<and>
              ext_Marshal C x = Inr buf \<and> pb_Unmarshal C buf = Inr p)"

lemma reencode_total:
  "wire_keeps C p \<Longrightarrow> \<exists>x. reencode (pb_Marshal C) (ext_Unmarshal C) (Some p) = Some x"
  by (fastforce simp: wire_keeps_def reencode_Some_iff)

lemma reencode_round_trip:
  "wire_keeps C p \<Longrightarrow>
   reencode (ext_Marshal C) (pb_Unmarshal C) (reencode (pb_Marshal C) (ext_Unmarshal C) (Some p)) = Some p"
  by (auto simp: wire_keeps_def reencode_def)

section \<open>List conversions element by element\<close>

lemma res_of_traverse_Inr:
  "traverse (\<lambda>u. res_of e (f u)) us = Inr ys \<longleftrightarrow> list_all2 (\<lambda>u y. f u = Some y) us ys"
  by (simp add: traverse_Inr_iff)

lemma res_of_traverse_Inl:
  "traverse (\<lambda>u. res_of e (f u)) us = Inl e' \<longleftrightarrow> e' = e \<and> (\<exists>u \<in> set us. f u = None)"
proof (induction us)
  case (Cons u us)
  then show ?case by (cases "f u") (auto simp: res_bind_Inl_iff)
qed simp

section \<open>Properties\<close>


text \<open>A codec for the instances: one message has a wire text, and a broken text is refused.\<close>

definition ex_codec :: "'p \<Rightarrow> ('p, string) codec" where
  "ex_codec d =
     \<lparr>pb_Marshal = (\<lambda>p. Inr ''m''),
      pb_Unmarshal = (\<lambda>b. if b = ''bad'' then Inl (LibErr ''unmarshal'') else Inr d),
      ext_Marshal = (\<lambda>x. Inr x),
      ext_Unmarshal = (\<lambda>b. Inr b)\<rparr>"


text \<open>A list of outputs converts all or nothing: the result has one converted output per element in the
  same order, and the conversion fails exactly when some element does not convert (a nil list stays nil).\<close>

theorem UtxoListToXchain_all_or_error:
  "(\<forall>vs. UtxoListToXchain C (Some us) = Inr (Some vs) \<longleftrightarrow> list_all2 (\<lambda>u v. UtxoToXchain C u = Some v) us vs) \<and>
   ((\<exists>e. UtxoListToXchain C (Some us) = Inl e) \<longleftrightarrow> (\<exists>u \<in> set us. UtxoToXchain C u = None)) \<and>
   UtxoListToXchain C None = Inr None"
  by (auto simp: UtxoListToXchain_def res_bind_Inr_iff res_bind_Inl_iff res_of_traverse_Inr res_of_traverse_Inl)

end
