(* ===== verification/ChainHandle.thy ===== *)
theory ChainHandle
  imports Convert
begin

text \<open>
  \<open>models/chain_handle.go\<close> and \<open>models/utxo.go\<close>: the handle through which a request reaches
  one chain, and the permission check in front of the operations that lock outputs.

  The chain, its readers, its crypto client and the engine are objects of xupercore.
  They appear as records of functions over the node's state \<open>'w\<close>; an operation that may
  change that state returns the new one, a reader does not.  \<open>'x\<close> is the type of
  xupercore messages and \<open>'k\<close> of public keys.
\<close>

section \<open>Interfaces of xupercore\<close>

record 'k crypto =
  GetEcdsaPublicKeyFromJsonStr :: "string \<Rightarrow> gerr + 'k"
  VerifyECDSA :: "'k \<Rightarrow> bytes \<Rightarrow> bytes \<Rightarrow> gerr + bool"
  VerifyAddressUsingPublicKey :: "string \<Rightarrow> 'k \<Rightarrow> bool"

text \<open>The signing half of a crypto client, with private keys of type \<open>'sk\<close>.\<close>

record 'sk signer =
  GetEcdsaPrivateKeyFromJsonStr :: "string \<Rightarrow> gerr + 'sk"
  SignECDSA :: "'sk \<Rightarrow> bytes \<Rightarrow> gerr + bytes"

text \<open>Fields of xupercore results that the code reads.\<close>

record 'x XTxInfo =
  xti_Tx :: "'x option"
  xti_Status :: int32
  xti_Distance :: int64

record 'x XBlockInfo =
  xbi_Block :: "'x option"
  xbi_Status :: int32

record 'x XChainStatus =
  xcs_Block :: "'x option"
  xcs_LedgerMeta :: "'x option"
  xcs_UtxoMeta :: "'x option"
  xcs_BranchIds :: "string list"

record XConsensusStatus =
  xco_Version :: string
  xco_ConsensusName :: string
  xco_StartHeight :: string
  xco_ValidatorsInfo :: string

record 'x XUtxoOutput =
  xuo_UtxoList :: "'x option list option"
  xuo_TotalSelected :: string

record XUtxoRecordDetail =
  xurd_OpenUtxo :: "XUtxoRecord option"
  xurd_LockedUtxo :: "XUtxoRecord option"
  xurd_FrozenUtxo :: "XUtxoRecord option"

record XContractStatData =
  xcsd_AccountCount :: int64
  xcsd_ContractCount :: int64

record ('w, 'x, 'k) Chain =
  ch_Crypto :: "'k crypto"
  ch_SubmitTx :: "'x \<Rightarrow> 'w \<Rightarrow> gerr option \<times> 'w"
  ch_PreExec :: "'x list option \<Rightarrow> string \<Rightarrow> string list \<Rightarrow> 'w \<Rightarrow> (gerr + 'x option) \<times> 'w"
  ut_SelectUTXO :: "string \<Rightarrow> int \<Rightarrow> bool \<Rightarrow> bool \<Rightarrow> 'w \<Rightarrow> (gerr + 'x XUtxoOutput option) \<times> 'w"
  ut_SelectUTXOBySize :: "string \<Rightarrow> bool \<Rightarrow> bool \<Rightarrow> 'w \<Rightarrow> (gerr + 'x XUtxoOutput option) \<times> 'w"
  ut_QueryUtxoRecord :: "string \<Rightarrow> int64 \<Rightarrow> 'w \<Rightarrow> gerr + XUtxoRecordDetail option"
  ut_GetBalance :: "string \<Rightarrow> 'w \<Rightarrow> gerr + string"
  ut_GetFrozenBalance :: "string \<Rightarrow> 'w \<Rightarrow> gerr + string"
  ut_GetBalanceDetail :: "string \<Rightarrow> 'w \<Rightarrow> gerr + 'x option list option"
  ld_QueryTx :: "bytes \<Rightarrow> 'w \<Rightarrow> gerr + 'x XTxInfo"
  ld_QueryBlock :: "bytes \<Rightarrow> bool \<Rightarrow> 'w \<Rightarrow> gerr + 'x XBlockInfo"
  ld_QueryBlockByHeight :: "int64 \<Rightarrow> bool \<Rightarrow> 'w \<Rightarrow> gerr + 'x XBlockInfo"
  cr_QueryContractStatData :: "'w \<Rightarrow> gerr + XContractStatData option"
  cr_QueryAccountACL :: "string \<Rightarrow> 'w \<Rightarrow> gerr + 'x option"
  cr_QueryContractMethodACL :: "string \<Rightarrow> string \<Rightarrow> 'w \<Rightarrow> gerr + 'x option"
  cr_GetAccountContracts :: "string \<Rightarrow> 'w \<Rightarrow> gerr + 'x option list option"
  cr_GetAccountByAK :: "string \<Rightarrow> 'w \<Rightarrow> gerr + string list option"
  rd_GetChainStatus :: "'w \<Rightarrow> gerr + 'x XChainStatus"
  rd_GetConsensusStatus :: "'w \<Rightarrow> gerr + XConsensusStatus"
  rd_IsTrunkTipBlock :: "bytes \<Rightarrow> 'w \<Rightarrow> gerr + bool"

record ('w, 'x, 'k) Engine =
  eng_Get :: "string \<Rightarrow> 'w \<Rightarrow> gerr + ('w, 'x, 'k) Chain"
  eng_GetChains :: "'w \<Rightarrow> string list"
  eng_PeerInfo :: "'w \<Rightarrow> XPeerInfo"

text \<open>The request context; its logger and timer only produce output.\<close>

record ('w, 'x, 'k) ReqCtx =
  rc_Engine :: "('w, 'x, 'k) Engine option"
  rc_LogId :: string
  rc_ClientIp :: string

text \<open>Library functions that do not depend on a chain.\<close>

record 'x xlib =
  lib_IsAccount :: "string \<Rightarrow> bool"
  lib_DoubleSha256 :: "bytes \<Rightarrow> bytes"
  lib_BlockBlockid :: "'x \<Rightarrow> bytes"
  cd_Tx :: "(Transaction, 'x) codec"
  cd_Block :: "(InternalBlock, 'x) codec"
  cd_InvokeReq :: "(InvokeRequest, 'x) codec"
  cd_InvokeResp :: "(InvokeResponse, 'x) codec"
  cd_Utxo :: "(Utxo, 'x) codec"
  cd_Acl :: "(Acl, 'x) codec"
  cd_ContractStatus :: "(ContractStatus, 'x) codec"
  cd_BalanceDetail :: "(TokenFrozenDetail, 'x) codec"
  cd_LedgerMeta :: "(LedgerMeta, 'x) codec"
  cd_UtxoMeta :: "(UtxoMeta, 'x) codec"

section \<open>Locked outputs\<close>

record LockedUtxo =
  lu_bcName :: string
  lu_address :: string
  lu_amount :: int

definition NewLockedUtxo :: "string \<Rightarrow> string \<Rightarrow> int \<Rightarrow> LockedUtxo" where
  "NewLockedUtxo bcName address amount = \<lparr>lu_bcName = bcName, lu_address = address, lu_amount = amount\<rparr>"

definition NewLockedUtxoAll :: "string \<Rightarrow> string \<Rightarrow> LockedUtxo" where
  "NewLockedUtxoAll bcName address = NewLockedUtxo bcName address 0"

text \<open>The text whose hash is signed: the fields with nothing between them.\<close>

definition LockedUtxo_hashKey :: "LockedUtxo \<Rightarrow> string" where
  "LockedUtxo_hashKey ou = lu_bcName ou @ lu_address ou @ big_show (lu_amount ou) @ ''true''"

definition LockedUtxo_Hash :: "'x xlib \<Rightarrow> LockedUtxo \<Rightarrow> bytes" where
  "LockedUtxo_Hash L ou = (let hashKey = LockedUtxo_hashKey ou; hashValue = lib_DoubleSha256 L hashKey in hashValue)"

section \<open>The chain handle\<close>

record ('w, 'x, 'k) ChainHandle =
  h_bcName :: string
  h_reqCtx :: "('w, 'x, 'k) ReqCtx"
  h_chain :: "('w, 'x, 'k) Chain"

definition NewChainHandle ::
  "string \<Rightarrow> ('w, 'x, 'k) ReqCtx option \<Rightarrow> 'w \<Rightarrow> gerr + ('w, 'x, 'k) ChainHandle" where
  "NewChainHandle bcName reqCtx w =
     (case reqCtx of
        None \<Rightarrow> Inl (Ecom ErrParameter)
      | Some rctx \<Rightarrow>
          if bcName = '''' then Inl (Ecom ErrParameter)
          else (case rc_Engine rctx of
                  None \<Rightarrow> Inl (Ecom ErrParameter)
                | Some eng \<Rightarrow>
                    (case eng_Get eng bcName w of
                       Inl err \<Rightarrow> Inl (Ecom ErrChainNotExist)
                     | Inr chain \<Rightarrow> Inr \<lparr>h_bcName = bcName, h_reqCtx = rctx, h_chain = chain\<rparr>)))"

definition checkSelectUtxoSign ::
  "'x xlib \<Rightarrow> ('w, 'x, 'k) ChainHandle \<Rightarrow> string \<Rightarrow> string \<Rightarrow> bytes \<Rightarrow> bool \<Rightarrow> int \<Rightarrow> bool" where
  "checkSelectUtxoSign L h account pubKey sign isLock need =
     (if lib_IsAccount L account \<or> \<not> isLock then True
      else (let cr = ch_Crypto (h_chain h) in
            case GetEcdsaPublicKeyFromJsonStr cr pubKey of
              Inl err \<Rightarrow> False
            | Inr publicKey \<Rightarrow>
                (let lockedUtxo = NewLockedUtxo (h_bcName h) account need in
                 case VerifyECDSA cr publicKey sign (LockedUtxo_Hash L lockedUtxo) of
                   Inl err \<Rightarrow> False
                 | Inr passed \<Rightarrow>
                     if \<not> passed then False
                     else VerifyAddressUsingPublicKey cr account publicKey)))"

definition SubmitTx :: "('w, 'x, 'k) ChainHandle \<Rightarrow> 'x \<Rightarrow> 'w \<Rightarrow> gerr option \<times> 'w" where
  "SubmitTx h tx = ch_SubmitTx (h_chain h) tx"

definition handle_PreExec ::
  "('w, 'x, 'k) ChainHandle \<Rightarrow> 'x list option \<Rightarrow> string \<Rightarrow> string list \<Rightarrow> 'w \<Rightarrow> (gerr + 'x option) \<times> 'w" where
  "handle_PreExec h req initiator authRequires = ch_PreExec (h_chain h) req initiator authRequires"

definition handle_QueryTx :: "('w, 'x, 'k) ChainHandle \<Rightarrow> bytes \<Rightarrow> 'w \<Rightarrow> gerr + 'x XTxInfo" where
  "handle_QueryTx h txId = ld_QueryTx (h_chain h) txId"

definition SelectUtxo ::
  "'x xlib \<Rightarrow> ('w, 'x, 'k) ChainHandle \<Rightarrow> string \<Rightarrow> int \<Rightarrow> bool \<Rightarrow> bool \<Rightarrow> string \<Rightarrow> bytes \<Rightarrow> 'w \<Rightarrow>
   (gerr + 'x XUtxoOutput option) \<times> 'w" where
  "SelectUtxo L h account need isLock isExclude pubKey sign w =
     (let ok = checkSelectUtxoSign L h account pubKey sign isLock need in
      if \<not> ok then (Inl (Ecom ErrUnauthorized), w)
      else ut_SelectUTXO (h_chain h) account need isLock isExclude w)"

definition handle_SelectUTXOBySize ::
  "'x xlib \<Rightarrow> ('w, 'x, 'k) ChainHandle \<Rightarrow> string \<Rightarrow> bool \<Rightarrow> bool \<Rightarrow> string \<Rightarrow> bytes \<Rightarrow> 'w \<Rightarrow>
   (gerr + 'x XUtxoOutput option) \<times> 'w" where
  "handle_SelectUTXOBySize L h account isLock isExclude pubKey sign w =
     (let ok = checkSelectUtxoSign L h account pubKey sign isLock 0 in
      if \<not> ok then (Inl (Ecom ErrUnauthorized), w)
      else ut_SelectUTXOBySize (h_chain h) account isLock isExclude w)"

text \<open>The queries go straight to the reader of the chain.\<close>

definition handle_QueryContractStatData where
  "handle_QueryContractStatData h = cr_QueryContractStatData (h_chain h)"

definition handle_QueryUtxoRecord where
  "handle_QueryUtxoRecord h account count = ut_QueryUtxoRecord (h_chain h) account count"

definition QueryAccountACL where
  "QueryAccountACL h account = cr_QueryAccountACL (h_chain h) account"

definition QueryContractMethodACL where
  "QueryContractMethodACL h contract mthd = cr_QueryContractMethodACL (h_chain h) contract mthd"

definition handle_GetAccountContracts where
  "handle_GetAccountContracts h account = cr_GetAccountContracts (h_chain h) account"

definition handle_GetBalance where
  "handle_GetBalance h account = ut_GetBalance (h_chain h) account"

definition handle_GetFrozenBalance where
  "handle_GetFrozenBalance h account = ut_GetFrozenBalance (h_chain h) account"

definition handle_GetBalanceDetail where
  "handle_GetBalanceDetail h account = ut_GetBalanceDetail (h_chain h) account"

definition QueryBlock where
  "QueryBlock h blkId needContent = ld_QueryBlock (h_chain h) blkId needContent"

definition QueryChainStatus where
  "QueryChainStatus h = rd_GetChainStatus (h_chain h)"

definition QueryConsensusStatus where
  "QueryConsensusStatus h = rd_GetConsensusStatus (h_chain h)"

definition IsTrunkTipBlock where
  "IsTrunkTipBlock h blockId = rd_IsTrunkTipBlock (h_chain h) blockId"

definition QueryBlockByHeight where
  "QueryBlockByHeight h height needContent = ld_QueryBlockByHeight (h_chain h) height needContent"

definition handle_GetAccountByAK where
  "handle_GetAccountByAK h address = cr_GetAccountByAK (h_chain h) address"

lemmas handle_defs =
  SubmitTx_def handle_PreExec_def handle_QueryTx_def handle_QueryContractStatData_def
  handle_QueryUtxoRecord_def QueryAccountACL_def QueryContractMethodACL_def
  handle_GetAccountContracts_def handle_GetBalance_def handle_GetFrozenBalance_def
  handle_GetBalanceDetail_def QueryBlock_def QueryChainStatus_def QueryConsensusStatus_def
  IsTrunkTipBlock_def QueryBlockByHeight_def handle_GetAccountByAK_def

section \<open>Facts about the handle\<close>

lemma NewChainHandle_Inr_iff:
  "NewChainHandle bc ctx w = Inr h \<longleftrightarrow>
     (\<exists>rctx eng chain. ctx = Some rctx \<and> bc \<noteq> '''' \<and> rc_Engine rctx = Some eng \<and>
        eng_Get eng bc w = Inr chain \<and>
        h = \<lparr>h_bcName = bc, h_reqCtx = rctx, h_chain = chain\<rparr>)"
  by (auto simp: NewChainHandle_def split: option.splits sum.splits)

lemma NewChainHandle_Inl:
  "NewChainHandle bc ctx w = Inl e \<Longrightarrow> e = Ecom ErrParameter \<or> e = Ecom ErrChainNotExist"
  by (auto simp: NewChainHandle_def split: option.splits sum.splits if_splits)

lemma NewChainHandle_bcName: "NewChainHandle bc ctx w = Inr h \<Longrightarrow> h_bcName h = bc"
  by (auto simp: NewChainHandle_Inr_iff)

text \<open>Operations behind a permission check.\<close>

locale gated =
  fixes check :: "'r \<Rightarrow> bool"
    and raw :: "'r \<Rightarrow> 'w \<Rightarrow> (gerr + 'o) \<times> 'w"
    and gate :: "'r \<Rightarrow> 'w \<Rightarrow> (gerr + 'o) \<times> 'w"
  assumes refused: "\<not> check r \<Longrightarrow> gate r w = (Inl (Ecom ErrUnauthorized), w)"
    and passed: "check r \<Longrightarrow> gate r w = raw r w"
begin

lemma changed_only_if_checked: "snd (gate r w) \<noteq> w \<Longrightarrow> check r"
  by (cases "check r") (simp_all add: refused)

lemma result_only_if_checked: "fst (gate r w) = Inr y \<Longrightarrow> check r \<and> fst (raw r w) = Inr y"
  by (cases "check r") (simp_all add: refused passed)

lemma gate_cases:
  "gate r w = (Inl (Ecom ErrUnauthorized), w) \<and> \<not> check r \<or> gate r w = raw r w \<and> check r"
  by (cases "check r") (simp_all add: refused passed)

end

text \<open>A lock request: the account, the amount, the two flags, the public key and the signature.\<close>

type_synonym lock_request = "string \<times> int \<times> bool \<times> bool \<times> string \<times> bytes"

definition lock_check :: "'x xlib \<Rightarrow> ('w, 'x, 'k) ChainHandle \<Rightarrow> lock_request \<Rightarrow> bool" where
  "lock_check L h = (\<lambda>(account, need, isLock, isExclude, pubKey, sign).
     checkSelectUtxoSign L h account pubKey sign isLock need)"

definition size_check ::
  "'x xlib \<Rightarrow> ('w, 'x, 'k) ChainHandle \<Rightarrow> string \<times> bool \<times> bool \<times> string \<times> bytes \<Rightarrow> bool" where
  "size_check L h = (\<lambda>(account, isLock, isExclude, pubKey, sign).
     checkSelectUtxoSign L h account pubKey sign isLock 0)"

interpretation sel: gated "lock_check L h"
    "\<lambda>(account, need, isLock, isExclude, pubKey, sign). ut_SelectUTXO (h_chain h) account need isLock isExclude"
    "\<lambda>(account, need, isLock, isExclude, pubKey, sign). SelectUtxo L h account need isLock isExclude pubKey sign"
  for L :: "'x xlib" and h :: "('w, 'x, 'k) ChainHandle"
  by unfold_locales (auto simp: lock_check_def SelectUtxo_def)

interpretation selsize: gated "size_check L h"
    "\<lambda>(account, isLock, isExclude, pubKey, sign). ut_SelectUTXOBySize (h_chain h) account isLock isExclude"
    "\<lambda>(account, isLock, isExclude, pubKey, sign). handle_SelectUTXOBySize L h account isLock isExclude pubKey sign"
  for L :: "'x xlib" and h :: "('w, 'x, 'k) ChainHandle"
  by unfold_locales (auto simp: size_check_def handle_SelectUTXOBySize_def)

text \<open>When an address asks for a lock, three things are
  required: its key parses, the signature is over the hash of the chain name, the account
  and the amount, and the account is the address of the key.\<close>

lemma checkSelectUtxoSign_cases:
  "checkSelectUtxoSign L h account pubKey sign isLock need \<longleftrightarrow>
     lib_IsAccount L account \<or> \<not> isLock \<or>
     (\<exists>k. GetEcdsaPublicKeyFromJsonStr (ch_Crypto (h_chain h)) pubKey = Inr k \<and>
          VerifyECDSA (ch_Crypto (h_chain h)) k sign
            (lib_DoubleSha256 L (h_bcName h @ account @ big_show need @ ''true'')) = Inr True \<and>
          VerifyAddressUsingPublicKey (ch_Crypto (h_chain h)) account k)"
  by (auto simp: checkSelectUtxoSign_def LockedUtxo_Hash_def LockedUtxo_hashKey_def NewLockedUtxo_def
      Let_def split: sum.splits)

section \<open>The signed text\<close>

lemma hashKey_amount_inj:
  assumes "LockedUtxo_hashKey (NewLockedUtxo bc a n) = LockedUtxo_hashKey (NewLockedUtxo bc a m)"
  shows "n = m"
  using assms decimal.enc_inj[of n m] by (simp add: LockedUtxo_hashKey_def NewLockedUtxo_def)

lemma show_nat_append_digit:
  "0 < n \<Longrightarrow> show_nat n @ [digit_char 0] = show_nat (10 * n)"
  by (subst (2) show_nat.simps) simp

text \<open>Because nothing separates the fields, digits at the end of the address can be read as
  the first digits of the amount.\<close>

lemma hashKey_shift:
  assumes "0 < n"
  shows "LockedUtxo_hashKey (NewLockedUtxo bc (a @ show_nat n) 0) =
         LockedUtxo_hashKey (NewLockedUtxo bc a (10 * int n))"
proof -
  have "big_show 0 = [digit_char 0]" by (simp add: big_show_def show_nat.simps)
  moreover have "big_show (10 * int n) = show_nat (10 * n)"
    using assms by (simp add: big_show_def nat_mult_distrib)
  ultimately show ?thesis
    using show_nat_append_digit[OF assms]
    by (simp add: LockedUtxo_hashKey_def NewLockedUtxo_def)
qed

section \<open>Properties\<close>



text \<open>For one chain and one address, two locks have the same signed text only if they are for the
  same amount, so a signature for one amount is not one for another.\<close>

theorem hashKey_determines_amount:
  "LockedUtxo_hashKey (NewLockedUtxo bc a n) = LockedUtxo_hashKey (NewLockedUtxo bc a m) \<longleftrightarrow> n = m"
  using hashKey_amount_inj by blast

text \<open>Across addresses and chains the signed text is ambiguous, because nothing separates its fields: the
  text that locks everything (amount 0) of an address ending in digits is the text of a positive amount of the
  address without them, and a suffix of the chain name can be read as a prefix of the address.\<close>

theorem hashKey_ambiguous:
  "LockedUtxo_hashKey (NewLockedUtxoAll bc (a @ show_nat (Suc n))) =
     LockedUtxo_hashKey (NewLockedUtxo bc a (10 * int (Suc n))) \<and>
   LockedUtxo_hashKey (NewLockedUtxo (bc @ x) a m) = LockedUtxo_hashKey (NewLockedUtxo bc (x @ a) m)"
  using hashKey_shift[of "Suc n" bc a]
  by (simp add: NewLockedUtxoAll_def LockedUtxo_hashKey_def NewLockedUtxo_def)

end
