(* ===== verification/ClientBase.thy ===== *)
theory ClientBase
  imports ChainHandle
begin

text \<open>
  What the commands of \<open>cmd/client/cmd\<close> share: the world they run in, the keys on disk
  (\<open>ak.go\<close>, \<open>transfer.go\<close>, \<open>config.go\<close>), and the two ways the commands turn amounts into outputs and
  selected outputs into inputs with change.

  The world \<open>'w\<close> holds the file system, the node the client talks to, the clock and the
  random source.  Reading it is a function of the world; a call of the node, a written
  file and a drawn nonce return the new world.  Text printed for the user is left out.
  A nil pointer that the client would dereference ends the command: \<open>go_panic\<close>.
\<close>

definition go_panic :: gerr where
  "go_panic = LibErr ''invalid memory address or nil pointer dereference''"

section \<open>Configuration\<close>

text \<open>\<open>config.go\<close>; a Go \<open>int\<close> has 64 bits.\<close>

record TLSOptions =
  tls_Cert :: string
  tls_Server :: string
  tls_Enable :: bool

record ComplianceCheckConfig =
  cc_IsNeedComplianceCheck :: bool
  cc_IsNeedComplianceCheckFee :: bool
  cc_EndorseServiceFee :: int64
  cc_EndorseServiceFeeAddr :: string
  cc_EndorseServiceAddr :: string

record RootOptions =
  ro_Host :: string
  ro_Name :: string
  ro_Keys :: string
  ro_Crypto :: string
  ro_Config :: string
  ro_TLS :: TLSOptions
  ro_EndorseServiceHost :: string
  ro_ComplianceCheck :: ComplianceCheckConfig
  ro_MinNewChainAmount :: string

text \<open>The zero value of the struct, and the default configuration.\<close>

definition zero_RootOptions :: RootOptions where
  "zero_RootOptions =
     \<lparr>ro_Host = '''', ro_Name = '''', ro_Keys = '''', ro_Crypto = '''', ro_Config = '''',
      ro_TLS = \<lparr>tls_Cert = '''', tls_Server = '''', tls_Enable = False\<rparr>,
      ro_EndorseServiceHost = '''',
      ro_ComplianceCheck = \<lparr>cc_IsNeedComplianceCheck = False, cc_IsNeedComplianceCheckFee = False,
        cc_EndorseServiceFee = 0, cc_EndorseServiceFeeAddr = '''', cc_EndorseServiceAddr = ''''\<rparr>,
      ro_MinNewChainAmount = ''''\<rparr>"

definition setDefaultConf :: "RootOptions \<Rightarrow> RootOptions" where
  "setDefaultConf nc =
     nc\<lparr>ro_Host := ''127.0.0.1:37101'', ro_Name := ''xuper'', ro_Keys := ''./data/keys'', ro_Crypto := ''default'',
        ro_TLS := \<lparr>tls_Cert = '''', tls_Server = '''', tls_Enable = False\<rparr>,
        ro_EndorseServiceHost := ''127.0.0.1:8848'',
        ro_ComplianceCheck := \<lparr>cc_IsNeedComplianceCheck = False, cc_IsNeedComplianceCheckFee = True,
          cc_EndorseServiceFee = 400, cc_EndorseServiceFeeAddr = '''',
          cc_EndorseServiceAddr = ''jknGxa6eyum1JrATWvSJKW3thJ9GKHA9n''\<rparr>,
        ro_MinNewChainAmount := ''100''\<rparr>"

definition NewRootOptions :: RootOptions where
  "NewRootOptions = setDefaultConf zero_RootOptions"

text \<open>How a connection is secured: \<open>WithInsecure\<close>, or \<open>WithTransportCredentials\<close>, which may be given nil.\<close>

record creds =
  creds_ServerName :: string
  creds_Certificate :: bytes

datatype dial_security = Insecure | Transport "creds option"

section \<open>The world of a command\<close>

record 'w XchainClient =
  xc_PreExec :: "InvokeRPCRequest \<Rightarrow> ('w, gerr, InvokeRPCResponse) io"
  xc_PreExecWithSelectUTXO :: "PreExecWithSelectUTXORequest \<Rightarrow> ('w, gerr, PreExecWithSelectUTXOResponse) io"
  xc_SelectUTXO :: "UtxoInput \<Rightarrow> ('w, gerr, UtxoOutput) io"
  xc_SelectUTXOBySize :: "UtxoInput \<Rightarrow> ('w, gerr, UtxoOutput) io"
  xc_PostTx :: "TxStatus \<Rightarrow> ('w, gerr, CommonReply) io"
  xc_GetBalance :: "AddressStatus \<Rightarrow> ('w, gerr, AddressStatus) io"
  xc_GetSystemStatus :: "CommonIn \<Rightarrow> ('w, gerr, SystemsStatusReply) io"

record ('w, 'x, 'sk) Env =
  e_lib :: "'x xlib"
  e_client :: "'w XchainClient"
  e_Dial :: "string \<Rightarrow> dial_security \<Rightarrow> 'w \<Rightarrow> gerr + unit"
  e_ClientOf :: "string \<Rightarrow> 'w XchainClient"
  e_EndorserCall :: "string \<Rightarrow> EndorserRequest \<Rightarrow> ('w, gerr, EndorserResponse) io"
  e_ReadFile :: "string \<Rightarrow> 'w \<Rightarrow> gerr + bytes"
  e_ReadDir :: "string \<Rightarrow> 'w \<Rightarrow> gerr + (string \<times> bool) list"
  e_Stat :: "string \<Rightarrow> 'w \<Rightarrow> bool"
  e_WriteFile :: "string \<Rightarrow> bytes \<Rightarrow> ('w, gerr, unit) io"
  e_GenLogId :: "'w \<Rightarrow> string \<times> 'w"
  e_GenNonce :: "'w \<Rightarrow> string \<times> 'w"
  e_Now :: "'w \<Rightarrow> int64 \<times> 'w"
  e_CreateCryptoClient :: "string \<Rightarrow> gerr + 'sk signer"
  e_MakeTransactionID :: "'x \<Rightarrow> gerr + bytes"
  e_ProcessSignTx :: "'sk signer \<Rightarrow> 'x \<Rightarrow> bytes \<Rightarrow> gerr + bytes"
  e_MakeTxDigestHash :: "'x \<Rightarrow> gerr + bytes"
  e_FeePlaceholder :: string
  e_TxVersion :: int32
  e_StatusErrorThreshold :: int32
  e_un_invokeRequestWrapper :: "bytes \<Rightarrow> gerr + InvokeRequest \<times> (string \<rightharpoonup> string)"
  e_ParseAddressType :: "string \<Rightarrow> nat \<times> bool"
  e_AddressAccount :: nat
  e_AddressAK :: nat
  e_AppendCertsFromPEM :: "bytes \<Rightarrow> bool"
  e_LoadX509KeyPair :: "string \<Rightarrow> string \<Rightarrow> 'w \<Rightarrow> gerr + bytes"
  e_mj_TxStatus :: "TxStatus \<Rightarrow> gerr + bytes"

text \<open>Reading the world, and drawing a value from it.\<close>

definition io_read :: "('w \<Rightarrow> 'e + 'a) \<Rightarrow> ('w, 'e, 'a) io" where
  "io_read f w = (f w, w)"

definition io_draw :: "('w \<Rightarrow> 'a \<times> 'w) \<Rightarrow> ('w, 'e, 'a) io" where
  "io_draw g w = (Inr (fst (g w)), snd (g w))"

lemma io_read_simps [simp]:
  "io_read f w = (r, w') \<longleftrightarrow> r = f w \<and> w' = w"
  "io_bind (io_read f) k w = (case f w of Inl e \<Rightarrow> (Inl e, w) | Inr x \<Rightarrow> k x w)"
  "io_bind (io_draw g) k w = k (fst (g w)) (snd (g w))"
  by (auto simp: io_read_def io_draw_def io_bind_def split: sum.splits)

text \<open>The same for the successful runs, as steps of a proof.\<close>

lemma io_Inr_simps:
  "io_bind (io_read g) k w = (Inr y, w') \<longleftrightarrow> (\<exists>x. g w = Inr x \<and> k x w = (Inr y, w'))"
  "io_bind (io_lift r) k w = (Inr y, w') \<longleftrightarrow> (\<exists>x. r = Inr x \<and> k x w = (Inr y, w'))"
  "io_bind (io_draw d) k w = (Inr y, w') \<longleftrightarrow> k (fst (d w)) (snd (d w)) = (Inr y, w')"
  by (auto split: sum.splits)

lemma map_err_Inr: "(case r of Inl err \<Rightarrow> Inl e | Inr a \<Rightarrow> Inr a) = Inr x \<longleftrightarrow> r = Inr x"
  by (cases r) auto

section \<open>Errors of the commands\<close>

definition ErrInvalidAmount :: gerr where "ErrInvalidAmount = Errorf ''Invalid amount number''"
definition ErrNegativeAmount :: gerr where
  "ErrNegativeAmount = Errorf ''Amount in transaction can not be negative number''"
definition ErrSelectUtxo :: gerr where "ErrSelectUtxo = Errorf ''Select utxo error''"

section \<open>Keys on disk\<close>

definition readKeys :: "('w, 'x, 'sk) Env \<Rightarrow> string \<Rightarrow> 'w \<Rightarrow> gerr + string" where
  "readKeys E file w = res_bind (e_ReadFile E file w) (\<lambda>buf. Inr (trim_space buf))"

definition readAddress :: "('w, 'x, 'sk) Env \<Rightarrow> string \<Rightarrow> 'w \<Rightarrow> gerr + string" where
  "readAddress E path = readKeys E (path_join path ''address'')"

definition readPublicKey :: "('w, 'x, 'sk) Env \<Rightarrow> string \<Rightarrow> 'w \<Rightarrow> gerr + string" where
  "readPublicKey E path = readKeys E (path_join path ''public.key'')"

definition readPrivateKey :: "('w, 'x, 'sk) Env \<Rightarrow> string \<Rightarrow> 'w \<Rightarrow> gerr + string" where
  "readPrivateKey E path = readKeys E (path_join path ''private.key'')"

text \<open>An \<open>AK\<close> is its path.\<close>

type_synonym AK = string

definition newAK :: "string \<Rightarrow> AK" where "newAK path = path"

record KeyPair =
  kp_publicKey :: string
  kp_secretKey :: string

record AKInfo =
  aki_address :: string
  aki_KeyPair :: KeyPair

definition IsAKDir :: "('w, 'x, 'sk) Env \<Rightarrow> AK \<Rightarrow> 'w \<Rightarrow> bool" where
  "IsAKDir E ak w = e_Stat E (path_join ak ''address'') w"

definition listAKs :: "('w, 'x, 'sk) Env \<Rightarrow> string \<Rightarrow> 'w \<Rightarrow> gerr + AK list" where
  "listAKs E root w =
     res_bind (e_ReadDir E root w) (\<lambda>dirs.
       Inr (filter (\<lambda>ak. IsAKDir E ak w)
              (map (\<lambda>(name, isDir). newAK (path_join root name)) (filter snd dirs))))"

definition AuthRequirementFrom :: "('w, 'x, 'sk) Env \<Rightarrow> AK \<Rightarrow> string \<Rightarrow> 'w \<Rightarrow> gerr + string" where
  "AuthRequirementFrom E ak account w =
     res_bind (readAddress E ak w) (\<lambda>address. Inr (account @ ''/'' @ address))"

definition keyPair :: "('w, 'x, 'sk) Env \<Rightarrow> AK \<Rightarrow> 'w \<Rightarrow> gerr + KeyPair" where
  "keyPair E ak w =
     res_bind (readPublicKey E ak w) (\<lambda>pk.
     res_bind (readPrivateKey E ak w) (\<lambda>sk.
       Inr \<lparr>kp_publicKey = pk, kp_secretKey = sk\<rparr>))"

definition AK_Info :: "('w, 'x, 'sk) Env \<Rightarrow> AK \<Rightarrow> 'w \<Rightarrow> gerr + AKInfo" where
  "AK_Info E ak w =
     res_bind (readAddress E ak w) (\<lambda>address.
     res_bind (keyPair E ak w) (\<lambda>kp.
       Inr \<lparr>aki_address = address, aki_KeyPair = kp\<rparr>))"

section \<open>Signing\<close>

definition KeyPair_SignTx ::
  "('w, 'x, 'sk) Env \<Rightarrow> KeyPair \<Rightarrow> Transaction \<Rightarrow> 'sk signer \<Rightarrow> gerr + SignatureInfo" where
  "KeyPair_SignTx E p tx crypto =
     res_bind (ComputeTxSign (cd_Tx (e_lib E)) (e_ProcessSignTx E crypto) (Some tx) (kp_secretKey p)) (\<lambda>sign.
       Inr \<lparr>sig_PublicKey = kp_publicKey p, sig_Sign = sign\<rparr>)"

definition AK_SignTx ::
  "('w, 'x, 'sk) Env \<Rightarrow> AK \<Rightarrow> Transaction \<Rightarrow> 'sk signer \<Rightarrow> 'w \<Rightarrow> gerr + SignatureInfo" where
  "AK_SignTx E ak tx crypto w =
     res_bind (keyPair E ak w) (\<lambda>pk. KeyPair_SignTx E pk tx crypto)"

definition KeyPair_SignUtxo ::
  "('w, 'x, 'sk) Env \<Rightarrow> KeyPair \<Rightarrow> LockedUtxo \<Rightarrow> 'sk signer \<Rightarrow> gerr + SignatureInfo" where
  "KeyPair_SignUtxo E p utxo crypto =
     res_bind (GetEcdsaPrivateKeyFromJsonStr crypto (kp_secretKey p)) (\<lambda>ecdsaPrivateKey.
     res_bind (SignECDSA crypto ecdsaPrivateKey (LockedUtxo_Hash (e_lib E) utxo)) (\<lambda>sign.
       Inr \<lparr>sig_PublicKey = kp_publicKey p, sig_Sign = sign\<rparr>))"

definition AKInfo_SignUtxo ::
  "('w, 'x, 'sk) Env \<Rightarrow> AKInfo \<Rightarrow> string \<Rightarrow> int \<Rightarrow> 'sk signer \<Rightarrow> gerr + SignatureInfo" where
  "AKInfo_SignUtxo E i bcName amount crypto =
     KeyPair_SignUtxo E (aki_KeyPair i) (NewLockedUtxo bcName (aki_address i) amount) crypto"

definition signTxForAK ::
  "('w, 'x, 'sk) Env \<Rightarrow> Transaction \<Rightarrow> KeyPair \<Rightarrow> 'sk signer \<Rightarrow> gerr + SignatureInfo list" where
  "signTxForAK E tx kp crypto =
     res_bind (KeyPair_SignTx E kp tx crypto) (\<lambda>sign. Inr [sign])"

text \<open>Every AK in the directory of the account signs.\<close>

definition signTxForAccount ::
  "('w, 'x, 'sk) Env \<Rightarrow> Transaction \<Rightarrow> string \<Rightarrow> 'sk signer \<Rightarrow> 'w \<Rightarrow> gerr + SignatureInfo list" where
  "signTxForAccount E tx path crypto w =
     res_bind (listAKs E path w) (\<lambda>akList.
       traverse (\<lambda>ak. case AK_SignTx E ak tx crypto w of
                        Inl err \<Rightarrow> Inl (Errorf ''sign error'') | Inr sign \<Rightarrow> Inr sign) akList)"

definition genAuthRequirement ::
  "('w, 'x, 'sk) Env \<Rightarrow> string \<Rightarrow> string \<Rightarrow> 'w \<Rightarrow> gerr + string list" where
  "genAuthRequirement E from path w =
     (if path = '''' then Inr [from]
      else
        res_bind (listAKs E path w) (\<lambda>akList.
          traverse (\<lambda>ak. case AuthRequirementFrom E ak from w of
                           Inl err \<Rightarrow> Inl (Errorf ''requires auth error'') | Inr r \<Rightarrow> Inr r) akList))"

section \<open>Amounts\<close>

definition newFeeAccount :: "('w, 'x, 'sk) Env \<Rightarrow> string \<Rightarrow> TxDataAccount" where
  "newFeeAccount E fee = \<lparr>tda_Address = e_FeePlaceholder E, tda_Amount = fee, tda_FrozenHeight = 0\<rparr>"

definition out_amount :: "TxOutput \<Rightarrow> int" where
  "out_amount out = big_set_bytes (txout_Amount out)"

definition in_amount :: "TxInput \<Rightarrow> int" where
  "in_amount inp = big_set_bytes (txin_Amount inp)"

definition utxo_amount :: "Utxo \<Rightarrow> int" where
  "utxo_amount u = big_set_bytes (utxo_Amount u)"

abbreviation sum_out :: "TxOutput list \<Rightarrow> int" where "sum_out outs \<equiv> sum_list (map out_amount outs)"
abbreviation sum_in :: "TxInput list \<Rightarrow> int" where "sum_in ins \<equiv> sum_list (map in_amount ins)"

text \<open>The output of an account of the transfer.\<close>

definition account_output :: "TxDataAccount \<Rightarrow> int \<Rightarrow> TxOutput" where
  "account_output acc amount =
     \<lparr>txout_Amount = big_bytes amount, txout_ToAddr = tda_Address acc, txout_FrozenHeight = tda_FrozenHeight acc\<rparr>"

lemma out_amount_account [simp]: "out_amount (account_output acc n) = \<bar>n\<bar>"
  by (simp add: out_amount_def account_output_def)

text \<open>The loop over the selected outputs: one input per output.\<close>

definition utxo_input :: "Utxo \<Rightarrow> TxInput" where
  "utxo_input u =
     \<lparr>txin_RefTxid = utxo_RefTxid u, txin_RefOffset = utxo_RefOffset u, txin_FromAddr = utxo_ToAddr u,
      txin_Amount = utxo_Amount u, txin_FrozenHeight = 0\<rparr>"

lemma in_amount_utxo_input [simp]: "in_amount (utxo_input u) = utxo_amount u"
  by (simp add: in_amount_def utxo_amount_def utxo_input_def)

lemma in_amount_utxo_inputs [simp]: "in_amount \<circ> utxo_input = utxo_amount"
  by (simp add: fun_eq_iff)

text \<open>The change: what the selection has over the need goes back to the payer.\<close>

definition change_output :: "string \<Rightarrow> int \<Rightarrow> int \<Rightarrow> TxOutput option" where
  "change_output addr tot need =
     (if tot > need
      then Some \<lparr>txout_Amount = big_bytes (tot - need), txout_ToAddr = addr, txout_FrozenHeight = 0\<rparr>
      else None)"

definition opt_list :: "'a option \<Rightarrow> 'a list" where
  "opt_list p = (case p of None \<Rightarrow> [] | Some x \<Rightarrow> [x])"

lemma opt_list_simps [simp]: "opt_list None = []" "opt_list (Some x) = [x]"
  by (simp_all add: opt_list_def)

lemma change_covers: "need \<le> tot \<Longrightarrow> need + sum_out (opt_list (change_output addr tot need)) = tot"
  by (auto simp: change_output_def out_amount_def)

text \<open>A selection that keeps its word: the totalal it states is the sum of its outputs and covers the need.\<close>

definition honest_selection :: "UtxoOutput \<Rightarrow> int \<Rightarrow> bool" where
  "honest_selection sel need \<longleftrightarrow>
     (\<exists>tot. big_parse (uout_TotalSelected sel) = Some tot \<and>
        tot = sum_list (map utxo_amount (uout_UtxoList sel)) \<and> need \<le> tot)"

section \<open>Builders of outputs\<close>

text \<open>
  Three functions of the client turn accounts into outputs.  They differ in what they do
  with an amount of zero, and agree on the rest: every amount must be a number that is not
  negative, and the outputs add up to the total.
\<close>

definition acc_amount :: "TxDataAccount \<Rightarrow> int" where
  "acc_amount acc = (case big_parse (tda_Amount acc) of None \<Rightarrow> 0 | Some n \<Rightarrow> n)"

definition good_amount :: "TxDataAccount \<Rightarrow> bool" where
  "good_amount acc = (case big_parse (tda_Amount acc) of None \<Rightarrow> False | Some n \<Rightarrow> 0 \<le> n)"

locale output_builder =
  fixes build :: "TxDataAccount list \<Rightarrow> gerr + TxOutput list"
    and trim :: bool
  assumes build_nil: "build [] = Inr []"
    and build_bad: "\<not> good_amount a \<Longrightarrow> \<exists>e. build (a # as) = Inl e"
    and build_err: "good_amount a \<Longrightarrow> build as = Inl e \<Longrightarrow> build (a # as) = Inl e"
    and build_cons: "good_amount a \<Longrightarrow> build as = Inr outs \<Longrightarrow>
      build (a # as) = Inr ((if trim \<and> acc_amount a = 0 then [] else [account_output a (acc_amount a)]) @ outs)"
begin

lemma good_nonneg: "good_amount a \<Longrightarrow> 0 \<le> acc_amount a"
  by (auto simp: good_amount_def acc_amount_def split: option.splits)

lemma build_total: "(\<exists>outs. build as = Inr outs) \<longleftrightarrow> (\<forall>a \<in> set as. good_amount a)"
proof (induction as)
  case (Cons a as)
  show ?case
  proof (cases "good_amount a")
    case False
    then show ?thesis using build_bad[of a as] by auto
  next
    case True
    show ?thesis
    proof (cases "build as")
      case (Inl e)
      show ?thesis using build_err[OF True Inl] Cons.IH Inl by simp
    next
      case (Inr outs)
      show ?thesis using build_cons[OF True Inr] Cons.IH Inr True by simp
    qed
  qed
qed (simp add: build_nil)

lemma build_sound:
  "build as = Inr outs \<Longrightarrow>
     sum_out outs = sum_list (map acc_amount as) \<and>
     (trim \<longrightarrow> (\<forall>out \<in> set outs. 0 < out_amount out)) \<and>
     outs = map (\<lambda>a. account_output a (acc_amount a)) (filter (\<lambda>a. \<not> (trim \<and> acc_amount a = 0)) as)"
proof (induction as arbitrary: outs)
  case (Cons a as)
  have g: "good_amount a"
  proof (rule ccontr)
    assume "\<not> good_amount a"
    from build_bad[OF this, of as] Cons.prems show False by auto
  qed
  obtain outs' where o: "build as = Inr outs'"
    using build_err[OF g, of as] Cons.prems by (cases "build as") auto
  show ?case
    using Cons.IH[OF o] Cons.prems build_cons[OF g o] good_nonneg[OF g] by auto
qed (simp add: build_nil)

lemma build_sum: "build as = Inr outs \<Longrightarrow> sum_out outs = sum_list (map acc_amount as)"
  using build_sound[of as outs] by blast

lemma build_pos: "build as = Inr outs \<Longrightarrow> trim \<Longrightarrow> \<forall>out \<in> set outs. 0 < out_amount out"
  using build_sound[of as outs] by blast

lemma build_map:
  "build as = Inr outs \<Longrightarrow>
   outs = map (\<lambda>a. account_output a (acc_amount a)) (filter (\<lambda>a. \<not> (trim \<and> acc_amount a = 0)) as)"
  using build_sound[of as outs] by blast

end

end
