(* ===== verification/ExampleNode.thy ===== *)
theory ExampleNode
  imports ChainHandle
begin

text \<open>
  A small concrete node with one chain, named ''xuper''.  The statements about the server hold for every
  library, engine and chain; this node is the point at which they are instantiated to
  show that their hypotheses can be met.  Its state counts the accepted transactions
  and the locks, a public key is its own address, and a signature is valid when it
  repeats the signed text.
\<close>

definition ex_crypto :: "string crypto" where
  "ex_crypto =
     \<lparr>GetEcdsaPublicKeyFromJsonStr = (\<lambda>s. if s = '''' then Inl (LibErr ''key'') else Inr s),
      VerifyECDSA = (\<lambda>k sign msg. Inr (sign = msg)),
      VerifyAddressUsingPublicKey = (\<lambda>a k. a = k)\<rparr>"

definition ex_utxo :: Utxo where
  "ex_utxo = new_Utxo\<lparr>utxo_Amount := [CHR ''A''], utxo_ToAddr := ''alice''\<rparr>"

definition ex_lib :: "string xlib" where
  "ex_lib =
     \<lparr>lib_IsAccount = (\<lambda>a. a = ''XC1''),
      lib_DoubleSha256 = (\<lambda>b. b),
      lib_BlockBlockid = (\<lambda>x. x),
      cd_Tx = ex_codec new_Transaction,
      cd_Block = ex_codec new_InternalBlock,
      cd_InvokeReq = ex_codec new_InvokeRequest,
      cd_InvokeResp = ex_codec (new_InvokeResponse\<lparr>iresp_GasUsed := 5\<rparr>),
      cd_Utxo = ex_codec ex_utxo,
      cd_Acl = ex_codec \<lparr>acl_Pm = None, acl_AksWeight = (\<lambda>_. None), acl_AkSets = None\<rparr>,
      cd_ContractStatus = ex_codec \<lparr>cst_ContractName = ''c'', cst_Txid = '''', cst_Desc = '''',
                                     cst_IsBanned = False, cst_Timestamp = 0, cst_Runtime = ''native''\<rparr>,
      cd_BalanceDetail = ex_codec \<lparr>tfd_Balance = ''9'', tfd_IsFrozen = False\<rparr>,
      cd_LedgerMeta = ex_codec \<lparr>lmeta_RootBlockid = ''r'', lmeta_TipBlockid = ''t'', lmeta_TrunkHeight = 3\<rparr>,
      cd_UtxoMeta = ex_codec \<lparr>umeta_LatestBlockid = ''t'', umeta_LockKeyList = [], umeta_UtxoTotal = ''100'',
          umeta_AvgDelay = 0, umeta_UnconfirmTxAmount = 0, umeta_MaxBlockSize = 0,
          umeta_ReservedContracts = [], umeta_ForbiddenContract = None,
          umeta_NewAccountResourceAmount = 0, umeta_IrreversibleBlockHeight = 0,
          umeta_IrreversibleSlideWindow = 0, umeta_GasPrice = None, umeta_GroupChainContract = None\<rparr>\<rparr>"

definition ex_chain :: "(nat, string, string) Chain" where
  "ex_chain =
     \<lparr>ch_Crypto = ex_crypto,
      ch_SubmitTx = (\<lambda>tx n. (None, n + 1)),
      ch_PreExec = (\<lambda>reqs ini auth n. (Inr (Some ''resp''), n)),
      ut_SelectUTXO = (\<lambda>a need isLock ex n.
         (Inr (Some \<lparr>xuo_UtxoList = Some [Some ''u''], xuo_TotalSelected = big_show need\<rparr>),
          if isLock then n + 1 else n)),
      ut_SelectUTXOBySize = (\<lambda>a isLock ex n.
         (Inr (Some \<lparr>xuo_UtxoList = Some [Some ''u''], xuo_TotalSelected = ''65''\<rparr>),
          if isLock then n + 1 else n)),
      ut_QueryUtxoRecord = (\<lambda>a c n. Inr None),
      ut_GetBalance = (\<lambda>a n. if a = ''nobody'' then Inl (LibErr ''balance'') else Inr ''100''),
      ut_GetFrozenBalance = (\<lambda>a n. Inr ''0''),
      ut_GetBalanceDetail = (\<lambda>a n. Inr (Some [Some (if a = ''odd'' then ''bad'' else ''d'')])),
      ld_QueryTx = (\<lambda>i n. Inr \<lparr>xti_Tx = Some ''tx'', xti_Status = 2, xti_Distance = 7\<rparr>),
      ld_QueryBlock = (\<lambda>i c n. Inr \<lparr>xbi_Block = Some ''blk'', xbi_Status = 1\<rparr>),
      ld_QueryBlockByHeight = (\<lambda>h c n. Inr \<lparr>xbi_Block = Some ''blk'', xbi_Status = 1\<rparr>),
      cr_QueryContractStatData = (\<lambda>n. Inr None),
      cr_QueryAccountACL = (\<lambda>a n. Inr (Some ''acl'')),
      cr_QueryContractMethodACL = (\<lambda>c m n. Inr None),
      cr_GetAccountContracts = (\<lambda>a n. if a = ''gone'' then Inl (LibErr ''account'') else Inr (Some [Some ''c''])),
      cr_GetAccountByAK = (\<lambda>a n. Inr (Some [''XC1'', ''gone''])),
      rd_GetChainStatus = (\<lambda>n. Inr \<lparr>xcs_Block = Some (if n = 0 then ''bad'' else ''blk''),
         xcs_LedgerMeta = Some ''lm'', xcs_UtxoMeta = Some ''um'', xcs_BranchIds = []\<rparr>),
      rd_GetConsensusStatus = (\<lambda>n. Inl (LibErr ''consensus'')),
      rd_IsTrunkTipBlock = (\<lambda>i n. Inr (i = ''tip''))\<rparr>"

definition ex_engine :: "(nat, string, string) Engine" where
  "ex_engine =
     \<lparr>eng_Get = (\<lambda>bc n. if bc = ''xuper'' then Inr ex_chain else Inl (LibErr ''no chain'')),
      eng_GetChains = (\<lambda>n. [''xuper'']),
      eng_PeerInfo = (\<lambda>n. \<lparr>xpi_Address = ''/ip4/node'', xpi_Peer = [\<lparr>xpeer_Address = ''/ip4/peer''\<rparr>]\<rparr>)\<rparr>"

definition ex_ctx :: "(nat, string, string) ReqCtx" where
  "ex_ctx = \<lparr>rc_Engine = Some ex_engine, rc_LogId = ''log1'', rc_ClientIp = ''10.0.0.1''\<rparr>"

definition ex_handle :: "(nat, string, string) ChainHandle" where
  "ex_handle = \<lparr>h_bcName = ''xuper'', h_reqCtx = ex_ctx, h_chain = ex_chain\<rparr>"

lemma ex_handle: "NewChainHandle ''xuper'' (Some ex_ctx) n = Inr ex_handle"
  by (simp add: NewChainHandle_def ex_ctx_def ex_engine_def ex_handle_def)

lemmas ex_defs = ex_lib_def ex_chain_def ex_engine_def ex_ctx_def ex_handle_def ex_crypto_def ex_codec_def

end
