(* ===== verification/ExampleClient.thy ===== *)
theory ExampleClient
  imports ClientBase ExampleNode
begin

text \<open>
  A small concrete world for the client: the instance at which the hypotheses of the
  statements about the commands are shown to hold.  The world is the list of posted
  transactions.  Every key directory holds the keys of alice, the node owns one output of
  100 for her and refuses to select more, a pre-execution uses 5 gas, and a signature of a
  locked output repeats the signed text, as the example node expects.
\<close>

definition ex_signer :: "string signer" where
  "ex_signer = \<lparr>GetEcdsaPrivateKeyFromJsonStr = (\<lambda>s. Inr s), SignECDSA = (\<lambda>k msg. Inr msg)\<rparr>"

definition ex_ok :: "Header option" where "ex_ok = Some (new_Header\<lparr>hdr_Error := SUCCESS\<rparr>)"

definition ex_hundred :: Utxo where
  "ex_hundred = new_Utxo\<lparr>utxo_Amount := big_bytes 100, utxo_ToAddr := ''alice'', utxo_RefTxid := ''t0''\<rparr>"

definition ex_selected :: UtxoOutput where
  "ex_selected = \<lparr>uout_Header = ex_ok, uout_UtxoList = [ex_hundred], uout_TotalSelected = ''100''\<rparr>"

definition ex_response :: InvokeResponse where
  "ex_response = new_InvokeResponse\<lparr>iresp_GasUsed := 5\<rparr>"

definition ex_client :: "TxStatus list XchainClient" where
  "ex_client =
     \<lparr>xc_PreExec = (\<lambda>req w. (Inr (new_InvokeRPCResponse\<lparr>irpr_Response := Some ex_response\<rparr>), w)),
      xc_PreExecWithSelectUTXO = (\<lambda>req w.
         (Inr (new_PreExecWithSelectUTXOResponse
                 \<lparr>pesres_Response := Some ex_response, pesres_UtxoOutput := Some ex_selected\<rparr>), w)),
      xc_SelectUTXO = (\<lambda>req w.
         (case big_parse (uin_TotalNeed req) of
            None \<Rightarrow> Inl (LibErr ''need'')
          | Some need \<Rightarrow> if need \<le> 100 then Inr ex_selected else Inl (LibErr ''no enough utxo''), w)),
      xc_SelectUTXOBySize = (\<lambda>req w. (Inr ex_selected, w)),
      xc_PostTx = (\<lambda>st w. (Inr (new_CommonReply\<lparr>crep_Header := ex_ok\<rparr>), w @ [st])),
      xc_GetBalance = (\<lambda>req w.
         (Inr (req\<lparr>adst_Bcs := map (\<lambda>b. b\<lparr>tokd_Balance := ''100''\<rparr>) (adst_Bcs req)\<rparr>), w)),
      xc_GetSystemStatus = (\<lambda>req w.
         (Inr (new_SystemsStatusReply
                 \<lparr>systr_Header := ex_ok,
                  systr_SystemsStatus := Some (new_SystemsStatus\<lparr>syst_PeerUrls := [''n1'', ''n2'']\<rparr>)\<rparr>), w))\<rparr>"

definition ex_env :: "(TxStatus list, string, string) Env" where
  "ex_env =
     \<lparr>e_lib = ex_lib,
      e_client = ex_client,
      e_Dial = (\<lambda>addr sec w. if addr = ''n2'' then Inl (LibErr ''dial'') else Inr ()),
      e_ClientOf = (\<lambda>addr. ex_client),
      e_EndorserCall = (\<lambda>host req w.
         (Inr (new_EndorserResponse
                 \<lparr>eres_EndorserSign := Some \<lparr>sig_PublicKey = ''epk'', sig_Sign = ''endorsed''\<rparr>\<rparr>), w)),
      e_ReadFile = (\<lambda>f w.
         Inr (if f = ''keys/address'' then ''alice'' else if f = ''keys/public.key'' then ''alice'' else ''sk'')),
      e_ReadDir = (\<lambda>f w. Inr [(''ak1'', True), (''note'', False)]),
      e_Stat = (\<lambda>f w. True),
      e_WriteFile = (\<lambda>f b w. (Inr (), w)),
      e_GenLogId = (\<lambda>w. (''log'', w)),
      e_GenNonce = (\<lambda>w. (''nonce'', w)),
      e_Now = (\<lambda>w. (7, w)),
      e_CreateCryptoClient = (\<lambda>c. Inr ex_signer),
      e_MakeTransactionID = (\<lambda>x. Inr ''id''),
      e_ProcessSignTx = (\<lambda>c x sk. Inr ''signed''),
      e_MakeTxDigestHash = (\<lambda>x. Inr ''digest''),
      e_FeePlaceholder = ''$'',
      e_TxVersion = 3,
      e_StatusErrorThreshold = 400,
      e_un_invokeRequestWrapper = (\<lambda>b. Inl (LibErr ''json'')),
      e_ParseAddressType = (\<lambda>a. (if a = ''XC1'' then 1 else 0, a \<noteq> '''')),
      e_AddressAccount = 1,
      e_AddressAK = 0,
      e_AppendCertsFromPEM = (\<lambda>b. False),
      e_LoadX509KeyPair = (\<lambda>c k w. Inr ''pair''),
      e_mj_TxStatus = (\<lambda>st. Inr ''{}'')\<rparr>"

text \<open>The fields of the instance, and the one number it shows.\<close>

declare big_parse.simps [simp del]

lemma big_parse_100 [simp]: "big_parse ''100'' = Some 100"
  by code_simp

lemma ex_env_simps [simp]:
  "e_lib ex_env = ex_lib" "e_client ex_env = ex_client"
  "e_Dial ex_env addr sec w = (if addr = ''n2'' then Inl (LibErr ''dial'') else Inr ())"
  "e_ClientOf ex_env addr = ex_client"
  "e_EndorserCall ex_env host req w =
     (Inr (new_EndorserResponse\<lparr>eres_EndorserSign := Some \<lparr>sig_PublicKey = ''epk'', sig_Sign = ''endorsed''\<rparr>\<rparr>), w)"
  "e_ReadFile ex_env f w =
     Inr (if f = ''keys/address'' then ''alice'' else if f = ''keys/public.key'' then ''alice'' else ''sk'')"
  "e_WriteFile ex_env f b w = (Inr (), w)"
  "e_GenLogId ex_env w = (''log'', w)" "e_GenNonce ex_env w = (''nonce'', w)" "e_Now ex_env w = (7, w)"
  "e_CreateCryptoClient ex_env c = Inr ex_signer" "e_MakeTransactionID ex_env x = Inr ''id''"
  "e_ProcessSignTx ex_env k x sk = Inr ''signed''" "e_FeePlaceholder ex_env = ''$''"
  "e_TxVersion ex_env = 3" "e_StatusErrorThreshold ex_env = 400"
  "e_ParseAddressType ex_env a = (if a = ''XC1'' then 1 else 0, a \<noteq> '''')"
  "e_AddressAccount ex_env = 1" "e_AddressAK ex_env = 0" "e_mj_TxStatus ex_env st = Inr ''{}''"
  by (simp_all add: ex_env_def)

lemma ex_paths:
  "path_join ''keys'' ''address'' = ''keys/address''" "trim_space ''alice'' = ''alice''"
  "path_join ''keys'' ''public.key'' = ''keys/public.key''" "path_join ''keys'' ''private.key'' = ''keys/private.key''"
  "trim_space ''sk'' = ''sk''"
  by code_simp+

lemma ex_client_simps [simp]:
  "xc_PreExec ex_client req w = (Inr (new_InvokeRPCResponse\<lparr>irpr_Response := Some ex_response\<rparr>), w)"
  "xc_PreExecWithSelectUTXO ex_client preq w =
     (Inr (new_PreExecWithSelectUTXOResponse
             \<lparr>pesres_Response := Some ex_response, pesres_UtxoOutput := Some ex_selected\<rparr>), w)"
  "xc_SelectUTXO ex_client ureq w =
     (case big_parse (uin_TotalNeed ureq) of
        None \<Rightarrow> Inl (LibErr ''need'')
      | Some need \<Rightarrow> if need \<le> 100 then Inr ex_selected else Inl (LibErr ''no enough utxo''), w)"
  "xc_SelectUTXOBySize ex_client ureq w = (Inr ex_selected, w)"
  "xc_PostTx ex_client st w = (Inr (new_CommonReply\<lparr>crep_Header := ex_ok\<rparr>), w @ [st])"
  by (simp_all add: ex_client_def)

lemma ex_selected_simps [simp]:
  "uout_Header ex_selected = ex_ok" "uout_UtxoList ex_selected = [ex_hundred]"
  "uout_TotalSelected ex_selected = ''100''" "utxo_amount ex_hundred = 100" "utxo_ToAddr ex_hundred = ''alice''"
  by (simp_all add: ex_selected_def ex_hundred_def utxo_amount_def)

lemma ex_response_simps [simp]:
  "iresp_GasUsed ex_response = 5" "iresp_Inputs ex_response = []" "iresp_Outputs ex_response = []"
  "iresp_Responses ex_response = []" "iresp_Requests ex_response = []"
  "iresp_UtxoInputs ex_response = []" "iresp_UtxoOutputs ex_response = []"
  by (simp_all add: ex_response_def)

end
