(* ===== verification/CommTrans.thy ===== *)
theory CommTrans
  imports ExampleClient
begin

text \<open>
  \<open>cmd/client/cmd/comm_trans.go\<close>, the common path of a client transaction: pre-execute the
  contract call, build the outputs, select the inputs and the change, sign and post.  The
  path through the compliance endorser is in the theory \<open>Compliance\<close>.
\<close>

section \<open>The command\<close>

record CommTrans =
  ct_To :: string
  ct_Amount :: string
  ct_Descfile :: string
  ct_Fee :: string
  ct_FrozenHeight :: int64
  ct_Version :: int32
  ct_From :: string
  ct_ModuleName :: string
  ct_ContractName :: string
  ct_MethodName :: string
  ct_Args :: "string \<rightharpoonup> bytes"
  ct_MultiAddrs :: string
  ct_Output :: string
  ct_IsQuick :: bool
  ct_IsPrint :: bool
  ct_ChainName :: string
  ct_Keys :: string
  ct_CryptoType :: string
  ct_RootOptions :: RootOptions
  ct_DebugTx :: bool

abbreviation ct_ComplianceCheck :: "CommTrans \<Rightarrow> ComplianceCheckConfig" where
  "ct_ComplianceCheck t \<equiv> ro_ComplianceCheck (ct_RootOptions t)"

abbreviation ct_EndorseServiceHost :: "CommTrans \<Rightarrow> string" where
  "ct_EndorseServiceHost t \<equiv> ro_EndorseServiceHost (ct_RootOptions t)"

text \<open>The zero value, for the commands that fill in some of the fields.\<close>

definition zero_CommTrans :: CommTrans where
  "zero_CommTrans =
     \<lparr>ct_To = '''', ct_Amount = '''', ct_Descfile = '''', ct_Fee = '''', ct_FrozenHeight = 0,
      ct_Version = 0, ct_From = '''', ct_ModuleName = '''', ct_ContractName = '''',
      ct_MethodName = '''', ct_Args = (\<lambda>_. None), ct_MultiAddrs = '''', ct_Output = '''',
      ct_IsQuick = False, ct_IsPrint = False, ct_ChainName = '''', ct_Keys = '''', ct_CryptoType = '''',
      ct_RootOptions = zero_RootOptions, ct_DebugTx = False\<rparr>"

text \<open>An instance: a transfer of 10 from alice to bob with a fee of 6.\<close>

definition ex_transfer :: CommTrans where
  "ex_transfer =
     \<lparr>ct_To = ''bob'', ct_Amount = ''10'', ct_Descfile = '''', ct_Fee = ''6'', ct_FrozenHeight = 0,
      ct_Version = 3, ct_From = '''', ct_ModuleName = ''wasm'', ct_ContractName = ''counter'',
      ct_MethodName = ''inc'', ct_Args = (\<lambda>_. None), ct_MultiAddrs = '''', ct_Output = ''tx.out'',
      ct_IsQuick = False, ct_IsPrint = False, ct_ChainName = ''xuper'', ct_Keys = ''keys'', ct_CryptoType = '''',
      ct_RootOptions = NewRootOptions
        \<lparr>ro_EndorseServiceHost := ''host'',
         ro_ComplianceCheck :=
           \<lparr>cc_IsNeedComplianceCheck = True, cc_IsNeedComplianceCheckFee = True, cc_EndorseServiceFee = 4,
            cc_EndorseServiceFeeAddr = ''feeaddr'', cc_EndorseServiceAddr = ''endorser''\<rparr>\<rparr>,
      ct_DebugTx = False\<rparr>"

section \<open>Files the command reads\<close>

definition GetDesc :: "('w, 'x, 'sk) Env \<Rightarrow> CommTrans \<Rightarrow> 'w \<Rightarrow> gerr + bytes" where
  "GetDesc E t w =
     (if ct_Descfile t = '''' then Inr ''Maybe common transfer transaction''
      else e_ReadFile E (ct_Descfile t) w)"

text \<open>A description that is not an invoke request, or names no module, gives no request.\<close>

definition ReadPreExeReq :: "('w, 'x, 'sk) Env \<Rightarrow> bytes \<Rightarrow> InvokeRequest option" where
  "ReadPreExeReq E buf =
     (case e_un_invokeRequestWrapper E buf of
        Inl err \<Rightarrow> None
      | Inr (ireq, args) \<Rightarrow>
          if ireq_ModuleName ireq = '''' then None else Some (ireq\<lparr>ireq_Args := args\<rparr>))"

definition GetInvokeRequestFromDesc ::
  "('w, 'x, 'sk) Env \<Rightarrow> CommTrans \<Rightarrow> 'w \<Rightarrow> gerr + InvokeRequest option" where
  "GetInvokeRequestFromDesc E t w =
     (case GetDesc E t w of
        Inl err \<Rightarrow> Inl (Errorf ''get desc error'')
      | Inr desc \<Rightarrow> Inr (ReadPreExeReq E desc))"

definition genInitiator :: "('w, 'x, 'sk) Env \<Rightarrow> CommTrans \<Rightarrow> 'w \<Rightarrow> gerr + string" where
  "genInitiator E t w = (if ct_From t \<noteq> '''' then Inr (ct_From t) else readAddress E (ct_Keys t) w)"

definition genAuthRequireQuick :: "('w, 'x, 'sk) Env \<Rightarrow> CommTrans \<Rightarrow> 'w \<Rightarrow> gerr + string list" where
  "genAuthRequireQuick E t w =
     res_bind (readAddress E (ct_Keys t) w) (\<lambda>fromAddr.
       Inr (if ct_From t \<noteq> '''' then [ct_From t @ ''/'' @ fromAddr] else [fromAddr]))"

text \<open>\<open>bufio.Scanner\<close> over lines: the last line may lack its newline, a carriage return before the
  newline is dropped, and a line that fills the buffer of 64 KB is an error.\<close>

definition raw_lines :: "bytes \<Rightarrow> string list" where
  "raw_lines buf =
     (let ls = split_char (CHR 0x0A) buf in if last ls = '''' then butlast ls else ls)"

definition drop_cr :: "string \<Rightarrow> string" where
  "drop_cr l = (if l \<noteq> '''' \<and> last l = CHR 0x0D then butlast l else l)"

definition scan_lines :: "bytes \<Rightarrow> gerr + string list" where
  "scan_lines buf =
     (let ls = raw_lines buf in
      if \<exists>l \<in> set ls. 65536 \<le> length l then Inl (LibErr ''bufio.Scanner: token too long'')
      else Inr (map drop_cr ls))"

definition GenAuthRequire :: "('w, 'x, 'sk) Env \<Rightarrow> string \<Rightarrow> 'w \<Rightarrow> gerr + string list" where
  "GenAuthRequire E filename w =
     res_bind (e_ReadFile E filename w) (\<lambda>buf.
     res_bind (scan_lines buf) (\<lambda>ls. Inr (filter (\<lambda>addr. addr \<noteq> '''') ls)))"

section \<open>Pre-execution\<close>

text \<open>The request of a named module: a transfer to the contract carries the amount, except for
  the kernel module.\<close>

definition module_request :: "CommTrans \<Rightarrow> InvokeRequest" where
  "module_request t =
     (let r = new_InvokeRequest\<lparr>ireq_ModuleName := ct_ModuleName t, ireq_ContractName := ct_ContractName t,
                                ireq_MethodName := ct_MethodName t, ireq_Args := ct_Args t\<rparr>
      in
      if ct_ModuleName t = ''xkernel'' then r
      else if ct_To t = ct_ContractName t then r\<lparr>ireq_Amount := ct_Amount t\<rparr>
      else r)"

definition auth_require_for :: "('w, 'x, 'sk) Env \<Rightarrow> CommTrans \<Rightarrow> 'w \<Rightarrow> gerr + string list" where
  "auth_require_for E t w =
     (if \<not> ct_IsQuick t
      then (case genAuthRequireQuick E t w of
              Inl err \<Rightarrow> Inl (Errorf ''Get auth require quick error'') | Inr a \<Rightarrow> Inr a)
      else (case GenAuthRequire E (ct_MultiAddrs t) w of
              Inl err \<Rightarrow> Inl (Errorf ''Get auth require error'') | Inr a \<Rightarrow> Inr a))"

text \<open>The first response at or above the error threshold fails the command.\<close>

definition check_responses :: "('w, 'x, 'sk) Env \<Rightarrow> ContractResponse list \<Rightarrow> gerr + unit" where
  "check_responses E rs =
     (case find (\<lambda>r. sint (e_StatusErrorThreshold E) \<le> sint (cresp_Status r)) rs of
        Some r \<Rightarrow> Inl (Errorf ''contract error status'')
      | None \<Rightarrow> Inr ())"

definition GenPreExeRes ::
  "('w, 'x, 'sk) Env \<Rightarrow> CommTrans \<Rightarrow> ('w, gerr, InvokeRPCResponse \<times> InvokeRequest list) io" where
  "GenPreExeRes E t =
     io_bind
       (if ct_ModuleName t \<noteq> '''' then io_return [module_request t]
        else
          io_read (\<lambda>w. case GetInvokeRequestFromDesc E t w of
                         Inl err \<Rightarrow> Inl (Errorf ''Get pb.InvokeRPCRequest error'')
                       | Inr tmpReq \<Rightarrow> Inr (opt_list tmpReq))) (\<lambda>preExeReqs.
     io_bind (io_draw (e_GenLogId E)) (\<lambda>logid.
     io_bind (io_read (\<lambda>w. case genInitiator E t w of
                             Inl err \<Rightarrow> Inl (Errorf ''Get initiator error'') | Inr a \<Rightarrow> Inr a)) (\<lambda>initiator.
     io_bind (io_read (auth_require_for E t)) (\<lambda>authRequire.
     io_bind (io_map_err (\<lambda>_. Errorf ''PreExe contract response'')
                (xc_PreExec (e_client E)
                   \<lparr>irpc_Header = Some (new_Header\<lparr>hdr_Logid := logid\<rparr>), irpc_Bcname = ct_ChainName t,
                    irpc_Requests = Some (map Some preExeReqs), irpc_Initiator = initiator,
                    irpc_AuthRequire = authRequire\<rparr>)) (\<lambda>preExeRPCRes.
     io_lift
       (case irpr_Response preExeRPCRes of
          None \<Rightarrow> Inl go_panic
        | Some response \<Rightarrow>
            res_bind (check_responses E (iresp_Responses response)) (\<lambda>_.
              Inr (preExeRPCRes, iresp_Requests response))))))))"

section \<open>Outputs\<close>

text \<open>The loop over the accounts: an amount of zero is left out.\<close>

primrec out_loop :: "TxDataAccount list \<Rightarrow> TxOutput list \<Rightarrow> int \<Rightarrow> gerr + TxOutput list \<times> int" where
  "out_loop [] txOutputs totalNeed = Inr (txOutputs, totalNeed)"
| "out_loop (acc # accs) txOutputs totalNeed =
     (case big_parse (tda_Amount acc) of
        None \<Rightarrow> Inl ErrInvalidAmount
      | Some amount \<Rightarrow>
          if amount < 0 then Inl ErrNegativeAmount
          else if amount = 0 then out_loop accs txOutputs totalNeed
          else out_loop accs (txOutputs @ [account_output acc amount]) (totalNeed + amount))"

text \<open>The accounts of the transfer: the receiver, and the fee account when a fee is paid.  With gas
  used, the fee must cover it; the error of parsing the fee is dropped here, so an unreadable fee
  counts as zero.\<close>

definition transfer_accounts ::
  "('w, 'x, 'sk) Env \<Rightarrow> CommTrans \<Rightarrow> int64 \<Rightarrow> gerr + TxDataAccount list" where
  "transfer_accounts E t gasUsed =
     (let account = \<lparr>tda_Address = ct_To t, tda_Amount = ct_Amount t, tda_FrozenHeight = ct_FrozenHeight t\<rparr>;
          accounts = (if ct_To t \<noteq> '''' then [account] else [])
      in
      if sint gasUsed > 0 then
        (if ct_Fee t \<noteq> '''' \<and> ct_Fee t \<noteq> ''0'' then
           (let fee = fst (parse_int64 (ct_Fee t)) in
            if sint fee < sint gasUsed then Inl (Errorf ''Fee not enough'')
            else Inr (accounts @ [newFeeAccount E (ct_Fee t)]))
         else Inl (Errorf ''You need add fee''))
      else if ct_Fee t \<noteq> '''' \<and> ct_Fee t \<noteq> ''0'' then Inr (accounts @ [newFeeAccount E (ct_Fee t)])
      else Inr accounts)"

definition GenTxOutputs ::
  "('w, 'x, 'sk) Env \<Rightarrow> CommTrans \<Rightarrow> int64 \<Rightarrow> gerr + TxOutput list \<times> int" where
  "GenTxOutputs E t gasUsed =
     res_bind (transfer_accounts E t gasUsed) (\<lambda>accounts. out_loop accounts [] 0)"

section \<open>Inputs and change\<close>

text \<open>Check the header of the reply of a selection.\<close>

definition selection_ok :: "UtxoOutput \<Rightarrow> gerr + unit" where
  "selection_ok res =
     (case uout_Header res of
        None \<Rightarrow> Inl go_panic
      | Some h \<Rightarrow> if hdr_Error h \<noteq> SUCCESS then Inl (Errorf ''Select utxo error, details'') else Inr ())"

definition GenTxInputs ::
  "('w, 'x, 'sk) Env \<Rightarrow> CommTrans \<Rightarrow> int \<Rightarrow> ('w, gerr, TxInput list \<times> TxOutput option) io" where
  "GenTxInputs E t totalNeed =
     io_bind (io_read (genInitiator E t)) (\<lambda>fromAddr.
     io_bind (io_map_err (\<lambda>_. Errorf ''Select utxo error, details'')
                (xc_SelectUTXO (e_client E)
                   (new_UtxoInput\<lparr>uin_Bcname := ct_ChainName t, uin_Address := fromAddr,
                                  uin_TotalNeed := big_show totalNeed, uin_NeedLock := False\<rparr>))) (\<lambda>utxoOutputs.
     io_lift
       (res_bind (selection_ok utxoOutputs) (\<lambda>_.
        case big_parse (uout_TotalSelected utxoOutputs) of
          None \<Rightarrow> Inl ErrSelectUtxo
        | Some utxoTotal \<Rightarrow>
            Inr (map utxo_input (uout_UtxoList utxoOutputs), change_output fromAddr utxoTotal totalNeed)))))"

section \<open>The raw transaction\<close>

definition GenRawTx ::
  "('w, 'x, 'sk) Env \<Rightarrow> CommTrans \<Rightarrow> bytes \<Rightarrow> InvokeResponse option \<Rightarrow> InvokeRequest list \<Rightarrow>
   ('w, gerr, Transaction) io" where
  "GenRawTx E t desc preExeRes preExeReqs =
     io_bind (io_draw (e_GenNonce E)) (\<lambda>nonce.
     io_bind (io_draw (e_Now E)) (\<lambda>now.
     io_bind (io_lift (GenTxOutputs E t (nilget 0 iresp_GasUsed preExeRes))) (\<lambda>(txOutputs, totalNeed).
     io_bind (GenTxInputs E t totalNeed) (\<lambda>(txInputs, deltaTxOutput).
     io_bind (io_read (genInitiator E t)) (\<lambda>fromAddr.
     io_return
       (new_Transaction
          \<lparr>tx_Desc := desc, tx_Coinbase := False, tx_Nonce := nonce, tx_Timestamp := now,
           tx_Version := e_TxVersion E,
           tx_TxInputs := nilget [] iresp_UtxoInputs preExeRes @ txInputs,
           tx_TxOutputs := nilget [] iresp_UtxoOutputs preExeRes @ txOutputs @ opt_list deltaTxOutput,
           tx_TxInputsExt := nilget [] iresp_Inputs preExeRes,
           tx_TxOutputsExt := nilget [] iresp_Outputs preExeRes,
           tx_ContractRequests := (case preExeRes of None \<Rightarrow> [] | Some _ \<Rightarrow> preExeReqs),
           tx_Initiator := fromAddr\<rparr>))))))"

text \<open>An unreadable description file is dropped here.\<close>

definition GenerateTx :: "('w, 'x, 'sk) Env \<Rightarrow> CommTrans \<Rightarrow> ('w, gerr, Transaction) io" where
  "GenerateTx E t =
     io_bind (GenPreExeRes E t) (\<lambda>(preExeRPCRes, preExeReqs).
     io_bind (io_read (\<lambda>w. Inr (case GetDesc E t w of Inl err \<Rightarrow> '''' | Inr desc \<Rightarrow> desc))) (\<lambda>desc.
       GenRawTx E t desc (irpr_Response preExeRPCRes) preExeReqs))"

section \<open>Signing and posting\<close>

definition signTxForInitiator ::
  "('w, 'x, 'sk) Env \<Rightarrow> CommTrans \<Rightarrow> Transaction \<Rightarrow> 'w \<Rightarrow> gerr + SignatureInfo list" where
  "signTxForInitiator E t tx w =
     res_bind (keyPair E (newAK (ct_Keys t)) w) (\<lambda>kp.
     case e_CreateCryptoClient E (ct_CryptoType t) of
       Inl err \<Rightarrow> Inl (Errorf ''Create crypto client error'')
     | Inr crypto \<Rightarrow> signTxForAK E tx kp crypto)"

definition ct_signTxForAccount ::
  "('w, 'x, 'sk) Env \<Rightarrow> CommTrans \<Rightarrow> Transaction \<Rightarrow> string \<Rightarrow> 'w \<Rightarrow> gerr + SignatureInfo list" where
  "ct_signTxForAccount E t tx path w =
     (case e_CreateCryptoClient E (ct_CryptoType t) of
        Inl err \<Rightarrow> Inl (Errorf ''Create crypto client error'')
      | Inr crypto \<Rightarrow> signTxForAccount E tx path crypto w)"

definition ct_signTx ::
  "('w, 'x, 'sk) Env \<Rightarrow> CommTrans \<Rightarrow> Transaction \<Rightarrow> string \<Rightarrow> 'w \<Rightarrow> gerr + SignatureInfo list" where
  "ct_signTx E t tx path w =
     (if path = '''' then signTxForInitiator E t tx w else ct_signTxForAccount E t tx path w)"

definition postTx :: "('w, 'x, 'sk) Env \<Rightarrow> CommTrans \<Rightarrow> Transaction \<Rightarrow> ('w, gerr, string) io" where
  "postTx E t tx =
     io_bind (io_draw (e_GenLogId E)) (\<lambda>logid.
     io_bind (xc_PostTx (e_client E)
                (new_TxStatus\<lparr>txst_Bcname := ct_ChainName t, txst_Status := 4, txst_Tx := Some tx,
                              txst_Header := Some (new_Header\<lparr>hdr_Logid := logid\<rparr>),
                              txst_Txid := tx_Txid tx\<rparr>)) (\<lambda>rep.
     io_lift
       (case crep_Header rep of
          None \<Rightarrow> Inl go_panic
        | Some h \<Rightarrow>
            if hdr_Error h \<noteq> SUCCESS then Inl (Errorf ''Failed to post tx'')
            else Inr (hex_encode (tx_Txid tx)))))"

definition own_auth_require :: "CommTrans \<Rightarrow> string \<Rightarrow> string" where
  "own_auth_require t fromAddr = (if ct_From t \<noteq> '''' then ct_From t @ ''/'' @ fromAddr else fromAddr)"

definition SendTx :: "('w, 'x, 'sk) Env \<Rightarrow> CommTrans \<Rightarrow> Transaction \<Rightarrow> ('w, gerr, string) io" where
  "SendTx E t tx =
     io_bind (io_read (readAddress E (ct_Keys t))) (\<lambda>fromAddr.
     let tx = tx\<lparr>tx_AuthRequire := tx_AuthRequire tx @ [own_auth_require t fromAddr]\<rparr> in
     io_bind (io_read (signTxForInitiator E t tx)) (\<lambda>signInfos.
     let tx = tx\<lparr>tx_InitiatorSigns := signInfos, tx_AuthRequireSigns := signInfos\<rparr> in
     case MakeTxId (cd_Tx (e_lib E)) (e_MakeTransactionID E) (Some tx) of
       Inl err \<Rightarrow> io_throw (Errorf ''MakeTxId error'')
     | Inr txid \<Rightarrow> postTx E t (tx\<lparr>tx_Txid := txid\<rparr>)))"

section \<open>Writing the transaction for others to sign\<close>

definition GenTxFile :: "('w, 'x, 'sk) Env \<Rightarrow> CommTrans \<Rightarrow> Transaction \<Rightarrow> ('w, gerr, unit) io" where
  "GenTxFile E t tx =
     (case pb_Marshal (cd_Tx (e_lib E)) tx of
        Inl err \<Rightarrow> io_throw (Errorf ''Tx marshal error'')
      | Inr dat \<Rightarrow> io_map_err (\<lambda>_. Errorf ''WriteFile error'') (e_WriteFile E (ct_Output t) dat))"

definition GenerateMultisigGenRawTx :: "('w, 'x, 'sk) Env \<Rightarrow> CommTrans \<Rightarrow> ('w, gerr, unit) io" where
  "GenerateMultisigGenRawTx E t =
     io_bind (GenerateTx E t) (\<lambda>tx.
     io_bind (io_read (GenAuthRequire E (ct_MultiAddrs t))) (\<lambda>multiAddrs.
       GenTxFile E t (tx\<lparr>tx_AuthRequire := multiAddrs\<rparr>)))"

section \<open>Merging outputs\<close>

definition signLockUtxo ::
  "('w, 'x, 'sk) Env \<Rightarrow> CommTrans \<Rightarrow> UtxoInput \<Rightarrow> 'w \<Rightarrow> gerr + SignatureInfo" where
  "signLockUtxo E t utxo w =
     res_bind (keyPair E (newAK (ct_Keys t)) w) (\<lambda>kp.
     case e_CreateCryptoClient E (ct_CryptoType t) of
       Inl err \<Rightarrow> Inl (Errorf ''Create crypto client error'')
     | Inr crypto \<Rightarrow>
         KeyPair_SignUtxo E kp (NewLockedUtxoAll (uin_Bcname utxo) (uin_Address utxo)) crypto)"

definition GenTxInputsWithMergeUTXO ::
  "('w, 'x, 'sk) Env \<Rightarrow> CommTrans \<Rightarrow> ('w, gerr, TxInput list \<times> TxOutput) io" where
  "GenTxInputsWithMergeUTXO E t =
     io_bind (io_read (genInitiator E t)) (\<lambda>fromAddr.
     let utxoInput = new_UtxoInput\<lparr>uin_Bcname := ct_ChainName t, uin_Address := fromAddr, uin_NeedLock := True\<rparr> in
     io_bind (io_read (signLockUtxo E t utxoInput)) (\<lambda>signature.
     io_bind (io_map_err (\<lambda>_. Errorf ''Select utxo error, details'')
                (xc_SelectUTXOBySize (e_client E)
                   (utxoInput\<lparr>uin_Publickey := sig_PublicKey signature, uin_UserSign := sig_Sign signature\<rparr>))) (\<lambda>utxoOutputs.
     io_lift
       (res_bind (selection_ok utxoOutputs) (\<lambda>_.
        case big_parse (uout_TotalSelected utxoOutputs) of
          None \<Rightarrow> Inl ErrSelectUtxo
        | Some utxoTotal \<Rightarrow>
            Inr (map utxo_input (uout_UtxoList utxoOutputs),
                 \<lparr>txout_Amount = big_bytes utxoTotal, txout_ToAddr = fromAddr, txout_FrozenHeight = 0\<rparr>))))))"

section \<open>Facts about outputs\<close>

lemma out_loop_acc:
  "out_loop as outs tot =
     res_bind (out_loop as [] 0) (\<lambda>(o', t'). Inr (outs @ o', tot + t'))"
proof (induction as arbitrary: outs tot)
  case (Cons a as)
  show ?case
  proof (cases "big_parse (tda_Amount a)")
    case (Some n)
    show ?thesis
      using Some Cons.IH[of "outs @ [account_output a n]" "tot + n"] Cons.IH[of "[account_output a n]" n]
        Cons.IH[of outs tot]
      by (cases "out_loop as [] 0") auto
  qed simp
qed simp

definition build_outputs :: "TxDataAccount list \<Rightarrow> gerr + TxOutput list" where
  "build_outputs as = res_bind (out_loop as [] 0) (\<lambda>r. Inr (fst r))"

interpretation gen: output_builder build_outputs True
proof unfold_locales
  show "build_outputs [] = Inr []" by (simp add: build_outputs_def)
  fix a :: TxDataAccount and as e outs
  show "\<not> good_amount a \<Longrightarrow> \<exists>e. build_outputs (a # as) = Inl e"
    by (auto simp: build_outputs_def good_amount_def split: option.splits)
  assume g: "good_amount a"
  then obtain n where n: "big_parse (tda_Amount a) = Some n" "0 \<le> n" "acc_amount a = n"
    by (auto simp: good_amount_def acc_amount_def split: option.splits)
  then have step: "out_loop (a # as) [] 0 =
      (if n = 0 then out_loop as [] 0
       else res_bind (out_loop as [] 0) (\<lambda>(o', t'). Inr (account_output a n # o', n + t')))"
    using out_loop_acc[of as "[account_output a n]" n] by simp
  show "build_outputs as = Inl e \<Longrightarrow> build_outputs (a # as) = Inl e"
    unfolding build_outputs_def step by (cases "out_loop as [] 0") auto
  show "build_outputs as = Inr outs \<Longrightarrow> build_outputs (a # as) =
      Inr ((if True \<and> acc_amount a = 0 then [] else [account_output a (acc_amount a)]) @ outs)"
    unfolding build_outputs_def step n(3) by (cases "out_loop as [] 0") auto
qed

lemma out_loop_total:
  "out_loop as [] 0 = Inr (outs, tot) \<Longrightarrow> tot = sum_list (map acc_amount as)"
proof (induction as arbitrary: outs tot)
  case (Cons a as)
  then obtain n where n: "big_parse (tda_Amount a) = Some n" "acc_amount a = n"
    by (auto simp: acc_amount_def split: option.splits)
  with Cons.prems have "(if n = 0 then out_loop as [] 0
      else res_bind (out_loop as [] 0) (\<lambda>(o', t'). Inr ([account_output a n] @ o', n + t'))) = Inr (outs, tot)"
    using out_loop_acc[of as "[account_output a n]" n] by (auto split: if_splits)
  with Cons.IH n show ?case by (cases "out_loop as [] 0") (auto split: if_splits)
qed simp

lemma out_loop_sound:
  assumes "out_loop as [] 0 = Inr (outs, tot)"
  shows "sum_out outs = tot" "\<forall>out \<in> set outs. 0 < out_amount out"
    "outs = map (\<lambda>a. account_output a (acc_amount a)) (filter (\<lambda>a. acc_amount a \<noteq> 0) as)"
    "\<forall>a \<in> set as. good_amount a"
proof -
  have b: "build_outputs as = Inr outs" using assms by (simp add: build_outputs_def)
  show "sum_out outs = tot" using gen.build_sum[OF b] out_loop_total[OF assms] by (simp only:)
  show "\<forall>out \<in> set outs. 0 < out_amount out" using gen.build_pos[OF b TrueI] .
  show "outs = map (\<lambda>a. account_output a (acc_amount a)) (filter (\<lambda>a. acc_amount a \<noteq> 0) as)"
    using gen.build_map[OF b] by (simp only: simp_thms)
  show "\<forall>a \<in> set as. good_amount a" using gen.build_total b by blast
qed

text \<open>A fee that passed the gas check: as a number it is at least the gas.\<close>

lemma parse_int64_le:
  assumes "sint g \<le> sint (fst (parse_int64 s))" "0 < sint (g :: int64)"
  shows "\<exists>n. big_parse s = Some n \<and> sint g \<le> n"
proof (cases "big_parse s")
  case None
  with assms show ?thesis by (simp add: parse_int64_def)
next
  case (Some n)
  have lo: "sint (word_of_int min_int64 :: int64) = min_int64"
    by (rule sint_of_int64) (simp_all add: min_int64_def max_int64_def)
  consider "n > max_int64" | "n < min_int64" | "min_int64 \<le> n" "n \<le> max_int64" by linarith
  then show ?thesis
  proof cases
    case 1 then show ?thesis using Some sint_int64_bounds(2)[of g] by auto
  next
    case 2
    then have "fst (parse_int64 s) = word_of_int min_int64"
      using Some by (simp add: parse_int64_def min_int64_def max_int64_def)
    with lo assms show ?thesis by (simp add: min_int64_def)
  next
    case 3
    then show ?thesis using Some assms by (simp add: parse_int64_def sint_of_int64)
  qed
qed

lemma transfer_accounts_fee:
  assumes "transfer_accounts E t gas = Inr accs" "0 < sint gas"
  shows "newFeeAccount E (ct_Fee t) \<in> set accs \<and> sint gas \<le> sint (fst (parse_int64 (ct_Fee t)))"
  using assms by (auto simp: transfer_accounts_def Let_def split: if_splits)

section \<open>Properties\<close>

text \<open>C15: The outputs a command builds add up to the amount it then asks inputs for, each is positive, and
  when gas was used there is an output to the fee address of at least the gas.\<close>

theorem GenTxOutputs_sound:
  assumes "GenTxOutputs E t gas = Inr (outs, need)"
  shows "sum_out outs = need \<and> (\<forall>out \<in> set outs. 0 < out_amount out) \<and>
    (0 < sint gas \<longrightarrow> (\<exists>out \<in> set outs. txout_ToAddr out = e_FeePlaceholder E \<and> sint gas \<le> out_amount out))"
proof (intro conjI impI)
  obtain accs where a: "transfer_accounts E t gas = Inr accs" "out_loop accs [] 0 = Inr (outs, need)"
    using assms by (auto simp: GenTxOutputs_def res_bind_Inr_iff)
  show "sum_out outs = need" "\<forall>out \<in> set outs. 0 < out_amount out"
    using out_loop_sound[OF a(2)] by blast+
  assume g: "0 < sint gas"
  let ?fee = "newFeeAccount E (ct_Fee t)"
  have fee: "?fee \<in> set accs" "sint gas \<le> sint (fst (parse_int64 (ct_Fee t)))"
    using transfer_accounts_fee[OF a(1) g] by blast+
  obtain n where n: "big_parse (ct_Fee t) = Some n" "sint gas \<le> n"
    using parse_int64_le[OF fee(2) g] by blast
  then have "acc_amount ?fee = n" by (simp add: acc_amount_def newFeeAccount_def)
  then have "account_output ?fee n \<in> set outs"
    using fee(1) n(2) g unfolding out_loop_sound(3)[OF a(2)] by force
  then show "\<exists>out \<in> set outs. txout_ToAddr out = e_FeePlaceholder E \<and> sint gas \<le> out_amount out"
    using n(2) g by (intro bexI[of _ "account_output ?fee n"]) (auto simp: account_output_def newFeeAccount_def out_amount_def)
qed

text \<open>The node keeps its word when every successful selection is honest for the need it was asked for.\<close>

definition honest_node :: "('w, 'x, 'sk) Env \<Rightarrow> bool" where
  "honest_node E \<longleftrightarrow>
     (\<forall>req w res w' need. xc_SelectUTXO (e_client E) req w = (Inr res, w') \<longrightarrow>
        selection_ok res = Inr () \<longrightarrow> big_parse (uin_TotalNeed req) = Some need \<longrightarrow> honest_selection res need)"

lemma io_map_err_Inr: "io_map_err h m w = (Inr x, w') \<longleftrightarrow> m w = (Inr x, w')"
  by (auto simp: io_map_err_def split: prod.splits sum.splits)

lemma io_lift_eq: "io_lift r w = (Inr x, w') \<longleftrightarrow> r = Inr x \<and> w' = w"
  by auto

lemma GenTxInputs_covers:
  assumes "GenTxInputs E t need w = (Inr (ins, delta), w')" "honest_node E"
  shows "sum_in ins = need + sum_out (opt_list delta)"
proof -
  obtain fr res w1 tot where r: "xc_SelectUTXO (e_client E)
        (new_UtxoInput\<lparr>uin_Bcname := ct_ChainName t, uin_Address := fr,
            uin_TotalNeed := big_show need, uin_NeedLock := False\<rparr>) w = (Inr res, w1)"
      "selection_ok res = Inr ()" "big_parse (uout_TotalSelected res) = Some tot"
      "ins = map utxo_input (uout_UtxoList res)" "delta = change_output fr tot need"
    using assms(1) unfolding GenTxInputs_def
    by (auto simp: io_bind_Inr_iff io_map_err_Inr res_bind_Inr_iff io_lift_eq split: sum.splits option.splits simp del: new_UtxoInput_def)
  have "honest_selection res need"
    using assms(2) r(1,2) unfolding honest_node_def by (metis UtxoInput.select_convs(5) UtxoInput.update_convs(5,7) UtxoInput.surjective big_parse_show)
  with r show ?thesis
    using change_covers[of need tot fr] by (auto simp: honest_selection_def)
qed

lemma change_output_pos: "out \<in> set (opt_list (change_output addr tot need)) \<Longrightarrow> 0 < out_amount out"
  by (auto simp: change_output_def out_amount_def split: if_splits)

lemma GenTxInputs_change:
  assumes "GenTxInputs E t need w = (Inr (ins, delta), w')"
  shows "\<forall>out \<in> set (opt_list delta). 0 < out_amount out"
  using assms unfolding GenTxInputs_def
  by (auto simp: io_bind_Inr_iff res_bind_Inr_iff io_lift_eq change_output_pos split: sum.splits option.splits
      simp del: new_UtxoInput_def)

lemma GenTxOutputs_sum:
  assumes "GenTxOutputs E t gas = Inr (outs, need)"
  shows "sum_out outs = need" "\<forall>out \<in> set outs. 0 < out_amount out"
  using assms out_loop_sound(1,2) by (auto simp: GenTxOutputs_def res_bind_Inr_iff)

lemma GenRawTx_cases:
  assumes "GenRawTx E t desc res reqs w = (Inr tx, w')"
  obtains ins outs need delta w1 w2 where
    "GenTxOutputs E t (nilget 0 iresp_GasUsed res) = Inr (outs, need)"
    "GenTxInputs E t need w1 = (Inr (ins, delta), w2)"
    "tx_TxInputs tx = nilget [] iresp_UtxoInputs res @ ins"
    "tx_TxOutputs tx = nilget [] iresp_UtxoOutputs res @ outs @ opt_list delta"
  using assms unfolding GenRawTx_def
  by (fastforce simp: io_bind_Inr_iff io_draw_def io_lift_eq simp del: io_bind_simps io_read_simps(2,3))

lemma ex_outputs [simp]:
  "GenTxOutputs ex_env ex_transfer 5 =
     Inr ([account_output \<lparr>tda_Address = ''bob'', tda_Amount = ''10'', tda_FrozenHeight = 0\<rparr> 10,
           account_output (newFeeAccount ex_env ''6'') 6], 16)"
  by code_simp

lemma GenTxOutputs_sound_witness:
  "sum_out [account_output \<lparr>tda_Address = ''bob'', tda_Amount = ''10'', tda_FrozenHeight = 0\<rparr> 10,
            account_output (newFeeAccount ex_env ''6'') 6] = 16 \<and>
   (\<exists>out \<in> set [account_output \<lparr>tda_Address = ''bob'', tda_Amount = ''10'', tda_FrozenHeight = 0\<rparr> 10,
                account_output (newFeeAccount ex_env ''6'') 6].
      txout_ToAddr out = ''$'' \<and> 5 \<le> out_amount out)"
  using GenTxOutputs_sound[OF ex_outputs] by (simp add: ex_env_def)

text \<open>C8: The raw transaction is balanced: beyond what the contract itself spends and pays, its inputs
  are worth exactly its outputs, and every output is positive, when the node keeps its word on
  what it selected.\<close>

theorem GenRawTx_balanced:
  assumes "GenRawTx E t desc res reqs w = (Inr tx, w')" "honest_node E"
  shows "\<exists>ins outs.
    tx_TxInputs tx = nilget [] iresp_UtxoInputs res @ ins \<and>
    tx_TxOutputs tx = nilget [] iresp_UtxoOutputs res @ outs \<and>
    sum_in ins = sum_out outs \<and> (\<forall>out \<in> set outs. 0 < out_amount out)"
proof -
  obtain ins outs need delta w1 w2 where r:
    "GenTxOutputs E t (nilget 0 iresp_GasUsed res) = Inr (outs, need)"
    "GenTxInputs E t need w1 = (Inr (ins, delta), w2)"
    "tx_TxInputs tx = nilget [] iresp_UtxoInputs res @ ins"
    "tx_TxOutputs tx = nilget [] iresp_UtxoOutputs res @ outs @ opt_list delta"
    by (rule GenRawTx_cases[OF assms(1)])
  have "sum_in ins = sum_out (outs @ opt_list delta)"
    using GenTxInputs_covers[OF r(2) assms(2)] GenTxOutputs_sum(1)[OF r(1)] by simp
  moreover have "\<forall>out \<in> set (outs @ opt_list delta). 0 < out_amount out"
    using GenTxOutputs_sum(2)[OF r(1)] GenTxInputs_change[OF r(2)] by auto
  ultimately show ?thesis using r(3,4) by blast
qed

lemma honest_ex_env: "honest_node ex_env"
  unfolding honest_node_def honest_selection_def
  by (intro allI impI, simp split: option.splits if_splits)

lemma ex_keys [simp]:
  "readAddress ex_env ''keys'' w = Inr ''alice''"
  "keyPair ex_env ''keys'' w = Inr \<lparr>kp_publicKey = ''alice'', kp_secretKey = ''sk''\<rparr>"
  by (simp_all add: readAddress_def keyPair_def readPublicKey_def readPrivateKey_def readKeys_def ex_paths)

lemma ex_transfer_simps [simp]:
  "ct_Keys ex_transfer = ''keys''" "ct_From ex_transfer = ''''" "ct_ChainName ex_transfer = ''xuper''"
  "ct_Fee ex_transfer = ''6''" "ct_Amount ex_transfer = ''10''" "ct_ContractName ex_transfer = ''counter''"
  "ct_EndorseServiceHost ex_transfer = ''host''" "ct_Descfile ex_transfer = ''''"
  "own_auth_require ex_transfer addr = addr"
  by (simp_all add: ex_transfer_def own_auth_require_def)

lemma ex_genInitiator [simp]: "genInitiator ex_env ex_transfer w = Inr ''alice''"
  by (simp add: genInitiator_def)

lemma ex_selection_ok [simp]: "selection_ok ex_selected = Inr ()"
  by (simp add: selection_ok_def ex_ok_def)

lemma ex_inputs [simp]:
  "GenTxInputs ex_env ex_transfer 16 w = (Inr ([utxo_input ex_hundred], change_output ''alice'' 100 16), w)"
  by (simp add: GenTxInputs_def io_bind_def io_read_def io_map_err_def)

lemma GenRawTx_balanced_witness:
  "\<exists>tx. GenRawTx ex_env ex_transfer ''d'' (Some ex_response) [] [] = (Inr tx, []) \<and>
     sum_in (tx_TxInputs tx) = sum_out (tx_TxOutputs tx) \<and> sum_in (tx_TxInputs tx) = 100"
proof -
  obtain tx where tx: "GenRawTx ex_env ex_transfer ''d'' (Some ex_response) [] [] = (Inr tx, [])"
      "tx_TxInputs tx = [utxo_input ex_hundred]"
    by (simp add: GenRawTx_def io_bind_def io_read_def io_draw_def)
  from GenRawTx_balanced[OF tx(1) honest_ex_env] tx show ?thesis by auto
qed

text \<open>Posting a transaction: what the node is sent, and when the command reports success.\<close>

definition posted_status :: "CommTrans \<Rightarrow> string \<Rightarrow> Transaction \<Rightarrow> TxStatus" where
  "posted_status t logid tx =
     new_TxStatus\<lparr>txst_Bcname := ct_ChainName t, txst_Status := 4, txst_Tx := Some tx,
                  txst_Header := Some (new_Header\<lparr>hdr_Logid := logid\<rparr>), txst_Txid := tx_Txid tx\<rparr>"

definition reply_ok :: "CommonReply \<Rightarrow> bool" where
  "reply_ok rep \<longleftrightarrow> (\<exists>h. crep_Header rep = Some h \<and> hdr_Error h = SUCCESS)"

lemma postTx_Inr:
  "postTx E t tx w = (Inr r, w') \<longleftrightarrow>
   (\<exists>logid w1 rep. e_GenLogId E w = (logid, w1) \<and>
      xc_PostTx (e_client E) (posted_status t logid tx) w1 = (Inr rep, w') \<and>
      reply_ok rep \<and> r = hex_encode (tx_Txid tx))"
proof -
  obtain logid w1 where g: "e_GenLogId E w = (logid, w1)" by (cases "e_GenLogId E w")
  obtain res w2 where p: "xc_PostTx (e_client E) (posted_status t logid tx) w1 = (res, w2)"
    by (cases "xc_PostTx (e_client E) (posted_status t logid tx) w1")
  show ?thesis using p
    by (auto simp: postTx_def io_draw_def io_bind_def g posted_status_def reply_ok_def split: sum.splits option.splits)
qed

text \<open>C9: A transaction that is sent goes out as it was signed: the sender's auth requirement is appended, the
  same signatures over that transaction stand for the initiator and for the requirement, the id is
  computed over the signed transaction, and the command reports that id only when the node
  accepted it.\<close>

theorem SendTx_posts_signed:
  assumes "SendTx E t tx w = (Inr r, w')"
  shows "\<exists>addr signs txid logid w1 rep.
    readAddress E (ct_Keys t) w = Inr addr \<and>
    (let asked = tx\<lparr>tx_AuthRequire := tx_AuthRequire tx @ [own_auth_require t addr]\<rparr>;
         signed = asked\<lparr>tx_InitiatorSigns := signs, tx_AuthRequireSigns := signs\<rparr> in
     signTxForInitiator E t asked w = Inr signs \<and> length signs = 1 \<and>
     MakeTxId (cd_Tx (e_lib E)) (e_MakeTransactionID E) (Some signed) = Inr txid \<and>
     xc_PostTx (e_client E) (posted_status t logid (signed\<lparr>tx_Txid := txid\<rparr>)) w1 = (Inr rep, w') \<and>
     reply_ok rep \<and> hex_decode r = Some txid)"
proof -
  obtain addr where a: "readAddress E (ct_Keys t) w = Inr addr"
    using assms by (auto simp: SendTx_def split: sum.splits)
  let ?asked = "tx\<lparr>tx_AuthRequire := tx_AuthRequire tx @ [own_auth_require t addr]\<rparr>"
  obtain signs where s: "signTxForInitiator E t ?asked w = Inr signs"
    using assms a by (auto simp: SendTx_def Let_def split: sum.splits)
  let ?signed = "?asked\<lparr>tx_InitiatorSigns := signs, tx_AuthRequireSigns := signs\<rparr>"
  obtain txid where i: "MakeTxId (cd_Tx (e_lib E)) (e_MakeTransactionID E) (Some ?signed) = Inr txid"
    using assms a s by (auto simp: SendTx_def Let_def split: sum.splits)
  have p: "postTx E t (?signed\<lparr>tx_Txid := txid\<rparr>) w = (Inr r, w')"
    using assms a s i by (simp add: SendTx_def Let_def)
  have l: "length signs = 1"
    using s by (cases "e_CreateCryptoClient E (ct_CryptoType t)")
      (auto simp: signTxForInitiator_def signTxForAK_def res_bind_Inr_iff)
  from p obtain logid w1 rep where q:
      "xc_PostTx (e_client E) (posted_status t logid (?signed\<lparr>tx_Txid := txid\<rparr>)) w1 = (Inr rep, w')"
      "reply_ok rep" "r = hex_encode (tx_Txid (?signed\<lparr>tx_Txid := txid\<rparr>))"
    unfolding postTx_Inr by blast
  have "hex_decode r = Some txid" using q(3) by simp
  with a s i l q(1,2) show ?thesis unfolding Let_def by blast
qed

lemma ex_signs [simp]:
  "signTxForInitiator ex_env ex_transfer tx w = Inr [\<lparr>sig_PublicKey = ''alice'', sig_Sign = ''signed''\<rparr>]"
  by (simp add: signTxForInitiator_def newAK_def signTxForAK_def KeyPair_SignTx_def
      ComputeTxSign_def ex_lib_def ex_codec_def TxToXledger_def reencode_def)

lemma ex_postTx [simp]:
  "postTx ex_env ex_transfer tx w =
     (Inr (hex_encode (tx_Txid tx)), w @ [posted_status ex_transfer ''log'' tx])"
  by (simp add: postTx_def posted_status_def io_draw_def io_bind_def ex_ok_def)

lemma ex_txid [simp]: "MakeTxId (cd_Tx ex_lib) (e_MakeTransactionID ex_env) (Some tx) = Inr ''id''"
  by (simp add: MakeTxId_def ex_lib_def ex_codec_def TxToXledger_def reencode_def)

lemma SendTx_posts_signed_witness:
  "\<exists>r w' txid. SendTx ex_env ex_transfer new_Transaction [] = (Inr r, w') \<and> hex_decode r = Some txid \<and>
     map (\<lambda>st. nilget [] tx_AuthRequire (txst_Tx st)) w' = [[''alice'']]"
proof -
  obtain r w' where ev: "SendTx ex_env ex_transfer new_Transaction [] = (Inr r, w')"
      "map (\<lambda>st. nilget [] tx_AuthRequire (txst_Tx st)) w' = [[''alice'']]"
    by (simp add: SendTx_def Let_def posted_status_def)
  from SendTx_posts_signed[OF ev(1)] obtain i where "hex_decode r = Some i" by (auto simp: Let_def)
  with ev show ?thesis by (intro exI conjI)
qed

end
