(* ===== verification/Compliance.thy ===== *)
theory Compliance
  imports CommTrans
begin

text \<open>
  The second half of \<open>cmd/client/cmd/comm_trans.go\<close>: the path of a transaction through the
  compliance endorser.  One call of the node pre-executes the contract and selects outputs;
  the client builds a fee transaction for the endorser from them, then the real
  transaction that spends the change of the fee transaction, has it endorsed and posts it.

  A nil element of a repeated field (an endorser that sends no signature) goes over the
  wire as an empty message, so it is the zero \<open>SignatureInfo\<close>.
\<close>

section \<open>The request\<close>

definition invokeReq :: "('w, 'x, 'sk) Env \<Rightarrow> CommTrans \<Rightarrow> 'w \<Rightarrow> gerr + InvokeRequest option" where
  "invokeReq E t w =
     (if ct_ModuleName t = '''' then
        (case GetInvokeRequestFromDesc E t w of
           Inl err \<Rightarrow> Inl (Errorf ''Get pb.InvokeRPCRequest error'')
         | Inr req \<Rightarrow> Inr req)
      else Inr (Some (module_request t)))"

text \<open>The amount to ask for: service fee, transaction fee and amount, added as \<open>int64\<close>.\<close>

definition extra_amount :: "CommTrans \<Rightarrow> gerr + int64" where
  "extra_amount t =
     res_bind
       (if ct_Fee t \<noteq> '''' \<and> ct_Fee t \<noteq> ''0'' then
          (case parse_int64 (ct_Fee t) of
             (fee, ParseOk) \<Rightarrow> Inr (cc_EndorseServiceFee (ct_ComplianceCheck t) + fee)
           | (_, _) \<Rightarrow> Inl (Errorf ''Invalid Fee''))
        else Inr (cc_EndorseServiceFee (ct_ComplianceCheck t))) (\<lambda>extraAmount.
     if ct_Amount t \<noteq> '''' then
       (case parse_int64 (ct_Amount t) of
          (amount, ParseOk) \<Rightarrow> Inr (extraAmount + amount)
        | (_, _) \<Rightarrow> Inl (Errorf ''invalid Amount''))
     else Inr extraAmount)"

definition preExecWithSelectUTXOReq ::
  "('w, 'x, 'sk) Env \<Rightarrow> CommTrans \<Rightarrow> ('w, gerr, PreExecWithSelectUTXORequest) io" where
  "preExecWithSelectUTXOReq E t =
     io_bind (io_read (invokeReq E t)) (\<lambda>preExeReq.
     io_bind (io_draw (e_GenLogId E)) (\<lambda>logid.
     io_bind (io_read (\<lambda>w. case genInitiator E t w of
                             Inl err \<Rightarrow> Inl (Errorf ''Get initiator error'') | Inr a \<Rightarrow> Inr a)) (\<lambda>initiator.
     io_bind (io_read (auth_require_for E t)) (\<lambda>authRequire.
     io_bind (io_lift (extra_amount t)) (\<lambda>extraAmount.
     let preExeRPCReq =
           \<lparr>irpc_Header = Some (new_Header\<lparr>hdr_Logid := logid\<rparr>), irpc_Bcname = ct_ChainName t,
            irpc_Requests = Some (map Some (opt_list preExeReq)), irpc_Initiator = initiator,
            irpc_AuthRequire = authRequire @ [cc_EndorseServiceAddr (ct_ComplianceCheck t)]\<rparr>
     in
     io_return
       (new_PreExecWithSelectUTXORequest
          \<lparr>pesreq_Bcname := ct_ChainName t, pesreq_Address := initiator,
           pesreq_TotalAmount := extraAmount, pesreq_Request := Some preExeRPCReq\<rparr>))))))"

text \<open>The fee must cover the gas; the error of parsing the fee is dropped here too.\<close>

definition check_gas :: "CommTrans \<Rightarrow> int64 \<Rightarrow> gerr + unit" where
  "check_gas t gasUsed =
     (if sint gasUsed > 0 then
        (if ct_Fee t = '''' \<or> ct_Fee t = ''0'' then Inl (Errorf ''You need add fee'')
         else if sint (fst (parse_int64 (ct_Fee t))) < sint gasUsed then Inl (Errorf ''Fee not enough'')
         else Inr ())
      else Inr ())"

definition GenPreExeWithSelectUtxoRes ::
  "('w, 'x, 'sk) Env \<Rightarrow> CommTrans \<Rightarrow> ('w, gerr, PreExecWithSelectUTXOResponse) io" where
  "GenPreExeWithSelectUtxoRes E t =
     io_bind (preExecWithSelectUTXOReq E t) (\<lambda>req.
     io_bind (xc_PreExecWithSelectUTXO (e_client E) req) (\<lambda>res.
     io_lift
       (res_bind (check_responses E (nilget [] iresp_Responses (pesres_Response res))) (\<lambda>_.
        res_bind (check_gas t (nilget 0 iresp_GasUsed (pesres_Response res))) (\<lambda>_. Inr res)))))"

section \<open>The fee transaction for the endorser\<close>

definition GenerateTxInput ::
  "('w, 'x, 'sk) Env \<Rightarrow> CommTrans \<Rightarrow> UtxoOutput option \<Rightarrow> int \<Rightarrow> 'w \<Rightarrow> gerr + TxInput list \<times> TxOutput option" where
  "GenerateTxInput E t utxoOutputs totalNeed w =
     (case utxoOutputs of
        None \<Rightarrow> Inl go_panic
      | Some sel \<Rightarrow>
          (case big_parse (uout_TotalSelected sel) of
             None \<Rightarrow> Inl (Errorf ''GenerateTxInput totalSelected err'')
           | Some utxoTotal \<Rightarrow>
               res_bind (genInitiator E t w) (\<lambda>fromAddr.
                 Inr (map utxo_input (uout_UtxoList sel), change_output fromAddr utxoTotal totalNeed))))"

primrec plain_outputs :: "TxDataAccount list \<Rightarrow> gerr + TxOutput list" where
  "plain_outputs [] = Inr []"
| "plain_outputs (acc # accs) =
     (case big_parse (tda_Amount acc) of
        None \<Rightarrow> Inl ErrInvalidAmount
      | Some amount \<Rightarrow>
          if amount < 0 then Inl (Errorf ''Invalid negative number'')
          else if amount = 0 then plain_outputs accs
          else res_bind (plain_outputs accs) (\<lambda>outs. Inr (account_output acc amount # outs)))"

definition GenerateTxOutput :: "string \<Rightarrow> string \<Rightarrow> string \<Rightarrow> gerr + TxOutput list" where
  "GenerateTxOutput to amount fee =
     plain_outputs
       ((if to \<noteq> '''' then [\<lparr>tda_Address = to, tda_Amount = amount, tda_FrozenHeight = 0\<rparr>] else []) @
        (if fee \<noteq> ''0'' then [\<lparr>tda_Address = ''$'', tda_Amount = fee, tda_FrozenHeight = 0\<rparr>] else []))"

text \<open>The error of \<open>MakeTxId\<close> is dropped on this path: the transaction then has no id.\<close>

definition txid_or_nil :: "('w, 'x, 'sk) Env \<Rightarrow> Transaction \<Rightarrow> bytes" where
  "txid_or_nil E tx =
     (case MakeTxId (cd_Tx (e_lib E)) (e_MakeTransactionID E) (Some tx) of Inl err \<Rightarrow> '''' | Inr i \<Rightarrow> i)"

definition GenComplianceCheckTx ::
  "('w, 'x, 'sk) Env \<Rightarrow> CommTrans \<Rightarrow> UtxoOutput option \<Rightarrow> ('w, gerr, Transaction) io" where
  "GenComplianceCheckTx E t utxoOutput =
     (let cc = ct_ComplianceCheck t in
      io_bind (io_read (\<lambda>w. case GenerateTxInput E t utxoOutput (sint (cc_EndorseServiceFee cc)) w of
                  Inl err \<Rightarrow> Inl (if utxoOutput = None then go_panic else Errorf ''GenerateComplianceTx GenerateTxInput err'')
                | Inr r \<Rightarrow> Inr r)) (\<lambda>(txInputs, deltaTxOutput).
      io_bind (io_lift
                (case GenerateTxOutput (cc_EndorseServiceFeeAddr cc) (show_int64 (cc_EndorseServiceFee cc)) ''0'' of
                   Inl err \<Rightarrow> Inl (Errorf ''GenerateComplianceTx GenerateTxOutput err'')
                 | Inr outs \<Rightarrow> Inr outs)) (\<lambda>txOutputs.
      io_bind (io_draw (e_Now E)) (\<lambda>now.
      io_bind (io_draw (e_GenNonce E)) (\<lambda>nonce.
      io_bind (io_read (genInitiator E t)) (\<lambda>initiator.
      io_bind (io_read (readAddress E (ct_Keys t))) (\<lambda>fromAddr.
      let tx = new_Transaction
                 \<lparr>tx_Version := e_TxVersion E, tx_Coinbase := False, tx_Timestamp := now,
                  tx_TxInputs := txInputs, tx_TxOutputs := txOutputs @ opt_list deltaTxOutput,
                  tx_Nonce := nonce, tx_Initiator := initiator,
                  tx_AuthRequire := [own_auth_require t fromAddr]\<rparr>
      in
      io_bind (io_read (signTxForInitiator E t tx)) (\<lambda>signInfos.
      let tx = tx\<lparr>tx_InitiatorSigns := signInfos, tx_AuthRequireSigns := signInfos\<rparr> in
      io_return (tx\<lparr>tx_Txid := txid_or_nil E tx\<rparr>)))))))))"

section \<open>The real transaction\<close>

text \<open>The outputs of the fee transaction that go back to the initiator, with their positions.\<close>

fun own_utxos :: "string \<Rightarrow> bytes \<Rightarrow> nat \<Rightarrow> TxOutput list \<Rightarrow> Utxo list" where
  "own_utxos initiator txid i [] = []"
| "own_utxos initiator txid i (out # outs) =
     (if txout_ToAddr out = initiator
      then new_Utxo\<lparr>utxo_Amount := txout_Amount out, utxo_ToAddr := txout_ToAddr out,
                    utxo_RefTxid := txid, utxo_RefOffset := word_of_nat i\<rparr>
           # own_utxos initiator txid (Suc i) outs
      else own_utxos initiator txid (Suc i) outs)"

definition GenerateMultiTxOutputs ::
  "('w, 'x, 'sk) Env \<Rightarrow> CommTrans \<Rightarrow> string \<Rightarrow> string \<Rightarrow> 'w \<Rightarrow> gerr + TxOutput list" where
  "GenerateMultiTxOutputs E t selfAmount feeAmount w =
     res_bind (genInitiator E t w) (\<lambda>selfAddr.
     res_bind (res_of ErrInvalidAmount (big_parse selfAmount)) (\<lambda>realSelfAmount.
     let txOutputSelf = \<lparr>txout_Amount = big_bytes realSelfAmount, txout_ToAddr = selfAddr, txout_FrozenHeight = 0\<rparr> in
     res_bind
       (if feeAmount \<noteq> '''' \<and> feeAmount \<noteq> ''0'' then
          res_bind (res_of ErrInvalidAmount (big_parse feeAmount)) (\<lambda>realFeeAmount.
            if realFeeAmount < 0 then Inl ErrInvalidAmount
            else Inr [\<lparr>txout_Amount = big_bytes realFeeAmount, txout_ToAddr = ''$'', txout_FrozenHeight = 0\<rparr>])
        else Inr []) (\<lambda>feeOut.
     res_bind
       (if ct_Amount t \<noteq> '''' then
          res_bind (res_of ErrInvalidAmount (big_parse (ct_Amount t))) (\<lambda>amount.
            Inr [\<lparr>txout_Amount = big_bytes amount, txout_ToAddr = ct_ContractName t, txout_FrozenHeight = 0\<rparr>])
        else Inr []) (\<lambda>contractOut.
     Inr (txOutputSelf # feeOut @ contractOut)))))"

definition GeneratePureTxInputs :: "UtxoOutput \<Rightarrow> gerr + TxInput list" where
  "GeneratePureTxInputs utxoOutputs = Inr (map utxo_input (uout_UtxoList utxoOutputs))"

text \<open>Fee and amount together; an empty fee is not a number.\<close>

definition real_need :: "CommTrans \<Rightarrow> gerr + int" where
  "real_need t =
     res_bind (res_of ErrInvalidAmount (big_parse (ct_Fee t))) (\<lambda>fee.
       if ct_Amount t \<noteq> '''' then
         res_bind (res_of ErrInvalidAmount (big_parse (ct_Amount t))) (\<lambda>amount. Inr (fee + amount))
       else Inr fee)"

definition GenRealTx ::
  "('w, 'x, 'sk) Env \<Rightarrow> CommTrans \<Rightarrow> PreExecWithSelectUTXOResponse \<Rightarrow> Transaction \<Rightarrow> ('w, gerr, Transaction) io" where
  "GenRealTx E t response complianceCheckTx =
     io_bind (io_read (genInitiator E t)) (\<lambda>initiator.
     let utxolist = own_utxos initiator (tx_Txid complianceCheckTx) 0 (tx_TxOutputs complianceCheckTx);
         totalSelected = sum_list (map utxo_amount utxolist);
         resp = pesres_Response response
     in
     io_bind (io_lift (real_need t)) (\<lambda>totalNeed.
     io_bind (io_read (\<lambda>w. case GenerateMultiTxOutputs E t (big_show (totalSelected - totalNeed)) (ct_Fee t) w of
                 Inl err \<Rightarrow> Inl (Errorf ''GenRealTx GenerateTxOutput err'') | Inr outs \<Rightarrow> Inr outs)) (\<lambda>txOutputs.
     io_bind (io_lift (GeneratePureTxInputs
                 \<lparr>uout_Header = None, uout_UtxoList = utxolist, uout_TotalSelected = big_show totalSelected\<rparr>)) (\<lambda>txInputs.
     io_bind (io_draw (e_Now E)) (\<lambda>now.
     io_bind (io_draw (e_GenNonce E)) (\<lambda>nonce.
     io_bind (io_read (\<lambda>w. Inr (case GetDesc E t w of Inl err \<Rightarrow> '''' | Inr desc \<Rightarrow> desc))) (\<lambda>desc.
     io_bind (io_read (readAddress E (ct_Keys t))) (\<lambda>fromAddr.
     let tx = new_Transaction
                \<lparr>tx_Version := e_TxVersion E, tx_Coinbase := False, tx_Timestamp := now,
                 tx_TxInputs := txInputs @ nilget [] iresp_UtxoInputs resp,
                 tx_TxOutputs := txOutputs @ nilget [] iresp_UtxoOutputs resp,
                 tx_Initiator := initiator, tx_Nonce := nonce, tx_Desc := desc,
                 tx_TxInputsExt := nilget [] iresp_Inputs resp,
                 tx_TxOutputsExt := nilget [] iresp_Outputs resp,
                 tx_ContractRequests := nilget [] iresp_Requests resp,
                 tx_AuthRequire := [own_auth_require t fromAddr, cc_EndorseServiceAddr (ct_ComplianceCheck t)]\<rparr>
     in
     io_bind (io_read (signTxForInitiator E t tx)) (\<lambda>signInfos.
     let tx = tx\<lparr>tx_InitiatorSigns := signInfos, tx_AuthRequireSigns := signInfos\<rparr> in
     io_return (tx\<lparr>tx_Txid := txid_or_nil E tx\<rparr>))))))))))"

section \<open>Endorsement and posting\<close>

definition ct_ComplianceCheck_call ::
  "('w, 'x, 'sk) Env \<Rightarrow> CommTrans \<Rightarrow> Transaction \<Rightarrow> Transaction \<Rightarrow> ('w, gerr, SignatureInfo option) io" where
  "ct_ComplianceCheck_call E t tx fee =
     io_bind (io_lift (e_mj_TxStatus E (new_TxStatus\<lparr>txst_Bcname := ct_ChainName t, txst_Tx := Some tx\<rparr>))) (\<lambda>requestData.
     io_bind (io_read (e_Dial E (ct_EndorseServiceHost t) Insecure)) (\<lambda>_.
     io_bind (io_map_err (\<lambda>_. Errorf ''EndorserCall error!'')
                (e_EndorserCall E (ct_EndorseServiceHost t)
                   (new_EndorserRequest\<lparr>ereq_RequestName := ''ComplianceCheck'', ereq_BcName := ct_ChainName t,
                      ereq_Fee := Some fee, ereq_RequestData := Some requestData\<rparr>))) (\<lambda>endorserResponse.
       io_return (eres_EndorserSign endorserResponse))))"

definition GenCompleteTxAndPost ::
  "('w, 'x, 'sk) Env \<Rightarrow> CommTrans \<Rightarrow> PreExecWithSelectUTXOResponse \<Rightarrow> ('w, gerr, unit) io" where
  "GenCompleteTxAndPost E t preExeResp =
     io_bind (GenComplianceCheckTx E t (pesres_UtxoOutput preExeResp)) (\<lambda>complianceCheckTx.
     io_bind (GenRealTx E t preExeResp complianceCheckTx) (\<lambda>tx.
     io_bind (ct_ComplianceCheck_call E t tx complianceCheckTx) (\<lambda>endorserSign.
     let tx = tx\<lparr>tx_AuthRequireSigns :=
                   tx_AuthRequireSigns tx @ [case endorserSign of None \<Rightarrow> \<lparr>sig_PublicKey = '''', sig_Sign = ''''\<rparr> | Some s \<Rightarrow> s]\<rparr> in
     io_bind (postTx E t (tx\<lparr>tx_Txid := txid_or_nil E tx\<rparr>)) (\<lambda>_. io_return ()))))"

text \<open>The entry point; the printed form of a transaction under \<open>DebugTx\<close> is output only.\<close>

definition ct_Transfer :: "('w, 'x, 'sk) Env \<Rightarrow> CommTrans \<Rightarrow> ('w, gerr, unit) io" where
  "ct_Transfer E t =
     (if cc_IsNeedComplianceCheck (ct_ComplianceCheck t)
      then io_bind (GenPreExeWithSelectUtxoRes E t) (GenCompleteTxAndPost E t)
      else
        io_bind (GenerateTx E t) (\<lambda>tx.
          if ct_DebugTx t then io_return ()
          else io_bind (SendTx E t tx) (\<lambda>_. io_return ())))"

section \<open>Facts about the fee transaction\<close>

interpretation plain: output_builder plain_outputs True
  by unfold_locales (auto simp: good_amount_def acc_amount_def split: option.splits)

lemma GenerateTxInput_Inr:
  "GenerateTxInput E t (Some sel) need w = Inr (ins, delta) \<longleftrightarrow>
   (\<exists>tot addr. big_parse (uout_TotalSelected sel) = Some tot \<and> genInitiator E t w = Inr addr \<and>
      ins = map utxo_input (uout_UtxoList sel) \<and> delta = change_output addr tot need)"
  by (auto simp: GenerateTxInput_def res_bind_Inr_iff split: option.splits)

lemma GenerateTxInput_covers:
  assumes "GenerateTxInput E t (Some sel) need w = Inr (ins, delta)" "honest_selection sel need"
  shows "sum_in ins = need + sum_out (opt_list delta)"
  using assms unfolding GenerateTxInput_Inr honest_selection_def by (auto simp: change_covers)

lemma GenComplianceCheckTx_cases:
  assumes "GenComplianceCheckTx E t sel w = (Inr tx, w')"
  obtains ins delta outs addr signs where
    "GenerateTxInput E t sel (sint (cc_EndorseServiceFee (ct_ComplianceCheck t))) w = Inr (ins, delta)"
    "GenerateTxOutput (cc_EndorseServiceFeeAddr (ct_ComplianceCheck t))
       (show_int64 (cc_EndorseServiceFee (ct_ComplianceCheck t))) ''0'' = Inr outs"
    "tx_TxInputs tx = ins" "tx_TxOutputs tx = outs @ opt_list delta"
proof -
  obtain ins delta where i:
      "GenerateTxInput E t sel (sint (cc_EndorseServiceFee (ct_ComplianceCheck t))) w = Inr (ins, delta)"
    using assms by (cases "GenerateTxInput E t sel (sint (cc_EndorseServiceFee (ct_ComplianceCheck t))) w")
      (auto simp: GenComplianceCheckTx_def Let_def)
  obtain outs where o: "GenerateTxOutput (cc_EndorseServiceFeeAddr (ct_ComplianceCheck t))
       (show_int64 (cc_EndorseServiceFee (ct_ComplianceCheck t))) ''0'' = Inr outs"
    using assms i by (cases "GenerateTxOutput (cc_EndorseServiceFeeAddr (ct_ComplianceCheck t))
       (show_int64 (cc_EndorseServiceFee (ct_ComplianceCheck t))) ''0''")
      (auto simp: GenComplianceCheckTx_def Let_def)
  have "tx_TxInputs tx = ins" "tx_TxOutputs tx = outs @ opt_list delta"
    using assms i o by (auto simp: GenComplianceCheckTx_def Let_def split: sum.splits)
  with i o show ?thesis using that by blast
qed

section \<open>Facts about the real transaction\<close>

text \<open>The input that spends output \<open>k\<close> of the fee transaction.\<close>

definition spend_output :: "Transaction \<Rightarrow> nat \<Rightarrow> TxInput" where
  "spend_output tx k =
     \<lparr>txin_RefTxid = tx_Txid tx, txin_RefOffset = word_of_nat k, txin_FromAddr = txout_ToAddr (tx_TxOutputs tx ! k),
      txin_Amount = txout_Amount (tx_TxOutputs tx ! k), txin_FrozenHeight = 0\<rparr>"

lemma own_utxos_inputs:
  "map utxo_input (own_utxos a i n outs) =
     map (\<lambda>k. \<lparr>txin_RefTxid = i, txin_RefOffset = word_of_nat (n + k), txin_FromAddr = txout_ToAddr (outs ! k),
               txin_Amount = txout_Amount (outs ! k), txin_FrozenHeight = 0\<rparr>)
       (filter (\<lambda>k. txout_ToAddr (outs ! k) = a) [0..<length outs])"
proof (induction a i n outs rule: own_utxos.induct)
  case (2 a i n out outs)
  have up: "[0..<length (out # outs)] = 0 # map Suc [0..<length outs]"
    by (simp add: map_Suc_upt upt_conv_Cons del: upt_Suc)
  show ?case
    using 2 unfolding up by (auto simp: utxo_input_def filter_map comp_def)
qed simp

lemma own_utxos_sum:
  "sum_list (map utxo_amount (own_utxos a i n outs)) = sum_out (filter (\<lambda>out. txout_ToAddr out = a) outs)"
  by (induction a i n outs rule: own_utxos.induct) (auto simp: utxo_amount_def out_amount_def)

lemma real_need_Inr:
  "real_need t = Inr need \<longleftrightarrow>
   (\<exists>f a. big_parse (ct_Fee t) = Some f \<and> need = f + a \<and>
      (if ct_Amount t = '''' then a = 0 else big_parse (ct_Amount t) = Some a))"
  by (auto simp: real_need_def res_bind_Inr_iff)

lemma big_parse_Nil [simp]: "big_parse '''' = None"
  by code_simp

lemma big_parse_0 [simp]: "big_parse ''0'' = Some 0"
  by code_simp

lemma GenerateMultiTxOutputs_sum:
  assumes "GenerateMultiTxOutputs E t (big_show self) (ct_Fee t) w = Inr outs"
    and f: "big_parse (ct_Fee t) = Some f"
    and a: "if ct_Amount t = '''' then a = 0 else big_parse (ct_Amount t) = Some a"
  shows "sum_out outs = \<bar>self\<bar> + f + \<bar>a\<bar>" "0 \<le> f"
  using assms
  by (auto simp: GenerateMultiTxOutputs_def res_bind_Inr_iff out_amount_def Let_def split: if_splits)

lemma GenRealTx_cases:
  assumes "GenRealTx E t resp feeTx w = (Inr tx, w')"
  obtains ini need outs where
    "genInitiator E t w = Inr ini" "real_need t = Inr need"
    "GenerateMultiTxOutputs E t
       (big_show (sum_out (filter (\<lambda>out. txout_ToAddr out = ini) (tx_TxOutputs feeTx)) - need)) (ct_Fee t) w = Inr outs"
    "tx_TxInputs tx = map (spend_output feeTx)
       (filter (\<lambda>k. txout_ToAddr (tx_TxOutputs feeTx ! k) = ini) [0..<length (tx_TxOutputs feeTx)]) @
       nilget [] iresp_UtxoInputs (pesres_Response resp)"
    "tx_TxOutputs tx = outs @ nilget [] iresp_UtxoOutputs (pesres_Response resp)"
    "sum_in (map (spend_output feeTx)
       (filter (\<lambda>k. txout_ToAddr (tx_TxOutputs feeTx ! k) = ini) [0..<length (tx_TxOutputs feeTx)])) =
     sum_out (filter (\<lambda>out. txout_ToAddr out = ini) (tx_TxOutputs feeTx))"
proof -
  obtain ini where ini: "genInitiator E t w = Inr ini"
    using assms by (auto simp: GenRealTx_def split: sum.splits)
  let ?own = "own_utxos ini (tx_Txid feeTx) 0 (tx_TxOutputs feeTx)"
  let ?ins = "map (spend_output feeTx)
       (filter (\<lambda>k. txout_ToAddr (tx_TxOutputs feeTx ! k) = ini) [0..<length (tx_TxOutputs feeTx)])"
  obtain need where need: "real_need t = Inr need"
    using assms ini by (auto simp: GenRealTx_def Let_def split: sum.splits)
  have ins: "map utxo_input ?own = ?ins"
    unfolding own_utxos_inputs by (simp add: spend_output_def)
  have sum: "sum_list (map utxo_amount ?own) = sum_out (filter (\<lambda>out. txout_ToAddr out = ini) (tx_TxOutputs feeTx))"
    by (rule own_utxos_sum)
  obtain outs where outs: "GenerateMultiTxOutputs E t
       (big_show (sum_out (filter (\<lambda>out. txout_ToAddr out = ini) (tx_TxOutputs feeTx)) - need)) (ct_Fee t) w = Inr outs"
    using assms ini need sum
    by (cases "GenerateMultiTxOutputs E t (big_show (sum_list (map utxo_amount ?own) - need)) (ct_Fee t) w")
      (auto simp: GenRealTx_def Let_def)
  have tx: "tx_TxInputs tx = ?ins @ nilget [] iresp_UtxoInputs (pesres_Response resp)"
    "tx_TxOutputs tx = outs @ nilget [] iresp_UtxoOutputs (pesres_Response resp)"
    using assms ini need sum outs ins
    by (auto simp: GenRealTx_def Let_def GeneratePureTxInputs_def split: sum.splits)
  have "sum_in ?ins = sum_list (map utxo_amount ?own)"
    unfolding ins[symmetric] map_map in_amount_utxo_inputs ..
  then show ?thesis using that[OF ini need outs tx] sum by simp
qed

section \<open>Properties\<close>

text \<open>C14: The real transaction spends exactly the outputs of the fee transaction that belong to the initiator,
  each by its position, its owner and its amount; beyond these its inputs are those of the contract.\<close>

theorem GenRealTx_spends_change:
  assumes "GenRealTx E t resp feeTx w = (Inr tx, w')"
  shows "\<exists>ini. genInitiator E t w = Inr ini \<and>
    tx_TxInputs tx =
      map (spend_output feeTx)
        (filter (\<lambda>k. txout_ToAddr (tx_TxOutputs feeTx ! k) = ini) [0..<length (tx_TxOutputs feeTx)]) @
      nilget [] iresp_UtxoInputs (pesres_Response resp)"
  by (rule GenRealTx_cases[OF assms]) blast

text \<open>C28: The real transaction is balanced exactly when the change of the fee transaction covers the fee and an
  amount that is not negative.  Otherwise it is built and signed all the same, with outputs that do
  not add up to its inputs: the sign of what is left is never tested.\<close>

theorem GenRealTx_balanced_iff:
  assumes "GenRealTx E t resp feeTx w = (Inr tx, w')"
  shows "\<exists>ini ins outs f a.
    genInitiator E t w = Inr ini \<and> big_parse (ct_Fee t) = Some f \<and> 0 \<le> f \<and>
    (if ct_Amount t = '''' then a = 0 else big_parse (ct_Amount t) = Some a) \<and>
    tx_TxInputs tx = ins @ nilget [] iresp_UtxoInputs (pesres_Response resp) \<and>
    tx_TxOutputs tx = outs @ nilget [] iresp_UtxoOutputs (pesres_Response resp) \<and>
    sum_in ins = sum_out (filter (\<lambda>out. txout_ToAddr out = ini) (tx_TxOutputs feeTx)) \<and>
    (sum_in ins = sum_out outs \<longleftrightarrow> 0 \<le> a \<and> f + a \<le> sum_in ins)"
proof (rule GenRealTx_cases[OF assms], goal_cases)
  case (1 ini need outs)
  let ?s = "sum_out (filter (\<lambda>out. txout_ToAddr out = ini) (tx_TxOutputs feeTx))"
  obtain f a where fa: "big_parse (ct_Fee t) = Some f" "need = f + a"
      "if ct_Amount t = '''' then a = 0 else big_parse (ct_Amount t) = Some a"
    using 1(2) unfolding real_need_Inr by blast
  have outs: "sum_out outs = \<bar>?s - need\<bar> + f + \<bar>a\<bar>" "0 \<le> f"
    using GenerateMultiTxOutputs_sum[OF 1(3) fa(1,3)] by blast+
  have "?s = sum_out outs \<longleftrightarrow> 0 \<le> a \<and> f + a \<le> ?s"
    unfolding outs(1) fa(2) by arith
  with 1 fa outs(2) show ?case by metis
qed

text \<open>With the compliance check a command without a fee fails, also when no gas is used: the empty fee is
  not a number, while the commands without the check take it as no fee.\<close>

theorem GenRealTx_needs_fee:
  "ct_Fee t = '''' \<Longrightarrow> (\<forall>resp feeTx w. \<exists>e w'. GenRealTx E t resp feeTx w = (Inl e, w')) \<and>
     (\<exists>accs. transfer_accounts E t 0 = Inr accs)"
  by (auto simp: GenRealTx_def real_need_def transfer_accounts_def Let_def split: sum.splits)

text \<open>The fee transaction for the endorser is balanced over an honest selection, pays the endorser's address
  the configured fee and nothing else, and returns the rest to the initiator.\<close>

theorem GenComplianceCheckTx_pays_fee:
  fixes E :: "('w, 'x, 'sk) Env"
  assumes tx: "GenComplianceCheckTx E t (Some sel) w = (Inr tx, w')"
    and fee: "cc_EndorseServiceFee (ct_ComplianceCheck t) = fee" "0 < sint fee"
    and addr: "cc_EndorseServiceFeeAddr (ct_ComplianceCheck t) \<noteq> ''''"
    and sel: "honest_selection sel (sint fee)"
  shows "sum_in (tx_TxInputs tx) = sum_out (tx_TxOutputs tx) \<and>
    (\<exists>ini delta. genInitiator E t w = Inr ini \<and>
       tx_TxOutputs tx =
         \<lparr>txout_Amount = big_bytes (sint fee), txout_ToAddr = cc_EndorseServiceFeeAddr (ct_ComplianceCheck t),
          txout_FrozenHeight = 0\<rparr> # opt_list delta \<and>
       (\<forall>out \<in> set (opt_list delta). txout_ToAddr out = ini \<and> 0 < out_amount out))"
proof -
  obtain ins delta outs where 1:
    "GenerateTxInput E t (Some sel) (sint (cc_EndorseServiceFee (ct_ComplianceCheck t))) w = Inr (ins, delta)"
    "GenerateTxOutput (cc_EndorseServiceFeeAddr (ct_ComplianceCheck t))
       (show_int64 (cc_EndorseServiceFee (ct_ComplianceCheck t))) ''0'' = Inr outs"
    "tx_TxInputs tx = ins" "tx_TxOutputs tx = outs @ opt_list delta"
    by (rule GenComplianceCheckTx_cases[OF tx])
  let ?acc = "\<lparr>tda_Address = cc_EndorseServiceFeeAddr (ct_ComplianceCheck t),
               tda_Amount = show_int64 fee, tda_FrozenHeight = 0\<rparr>"
  have p: "big_parse (show_int64 fee) = Some (sint fee)" by (simp add: show_int64_def)
  have outs: "outs = [account_output ?acc (sint fee)]"
    using 1(2) fee addr by (simp add: GenerateTxOutput_def p)
  have ins: "sum_in ins = sint fee + sum_out (opt_list delta)"
    using GenerateTxInput_covers[OF 1(1)] fee sel by simp
  obtain tot ini where d: "genInitiator E t w = Inr ini" "delta = change_output ini tot (sint fee)"
    using 1(1) fee(1) unfolding GenerateTxInput_Inr by blast
  have "\<forall>out \<in> set (opt_list delta). txout_ToAddr out = ini \<and> 0 < out_amount out"
    using change_output_pos[of _ ini tot "sint fee"] d(2) by (auto simp: change_output_def split: if_splits)
  moreover have "sum_in (tx_TxInputs tx) = sum_out (tx_TxOutputs tx)"
    using ins 1(3,4) outs fee(2) by simp
  ultimately show ?thesis
    using 1(4) outs d(1) by (auto simp: account_output_def)
qed


section \<open>Instances\<close>

lemma ex_alice [simp]:
  "ct_From t = '''' \<Longrightarrow> ct_Keys t = ''keys'' \<Longrightarrow> genInitiator ex_env t w = Inr ''alice''"
  by (simp add: genInitiator_def)

lemma ex_alice_signs [simp]:
  "ct_Keys t = ''keys'' \<Longrightarrow>
   signTxForInitiator ex_env t tx w = Inr [\<lparr>sig_PublicKey = ''alice'', sig_Sign = ''signed''\<rparr>]"
  by (simp add: signTxForInitiator_def newAK_def signTxForAK_def KeyPair_SignTx_def
      ComputeTxSign_def ex_lib_def ex_codec_def TxToXledger_def reencode_def)

lemma ex_txid_or_nil [simp]: "txid_or_nil ex_env tx = ''id''"
  by (simp add: txid_or_nil_def)

definition ex_fee_tx :: Transaction where
  "ex_fee_tx =
     new_Transaction
       \<lparr>tx_Version := 3, tx_Timestamp := 7, tx_TxInputs := [utxo_input ex_hundred],
        tx_TxOutputs := [\<lparr>txout_Amount = big_bytes 4, txout_ToAddr = ''feeaddr'', txout_FrozenHeight = 0\<rparr>,
                         \<lparr>txout_Amount = big_bytes 96, txout_ToAddr = ''alice'', txout_FrozenHeight = 0\<rparr>],
        tx_Nonce := ''nonce'', tx_Initiator := ''alice'', tx_AuthRequire := [''alice''],
        tx_InitiatorSigns := [\<lparr>sig_PublicKey = ''alice'', sig_Sign = ''signed''\<rparr>],
        tx_AuthRequireSigns := [\<lparr>sig_PublicKey = ''alice'', sig_Sign = ''signed''\<rparr>], tx_Txid := ''id''\<rparr>"

definition ex_pre :: PreExecWithSelectUTXOResponse where
  "ex_pre = new_PreExecWithSelectUTXOResponse
     \<lparr>pesres_Response := Some ex_response, pesres_UtxoOutput := Some ex_selected\<rparr>"

lemma ex_fee_tx_built:
  "GenComplianceCheckTx ex_env ex_transfer (Some ex_selected) w = (Inr ex_fee_tx, w)"
  by (simp add: GenComplianceCheckTx_def Let_def GenerateTxInput_def GenerateTxOutput_def
      account_output_def change_output_def ex_fee_tx_def)
    (simp add: ex_transfer_def show_int64_def account_output_def)

lemma ex_need [simp]: "big_parse ''6'' = Some 6" "big_parse ''10'' = Some 10" "big_parse ''200'' = Some 200"
  by code_simp+

lemma ex_real_tx:
  assumes "a = ''10'' \<or> a = ''200''"
  shows "\<exists>tx. GenRealTx ex_env (ex_transfer\<lparr>ct_Amount := a\<rparr>) ex_pre ex_fee_tx w = (Inr tx, w) \<and>
     sum_out (tx_TxOutputs tx) = (if a = ''10'' then 96 else 316)"
  using assms
  by (auto simp: GenRealTx_def Let_def real_need_def GenerateMultiTxOutputs_def GeneratePureTxInputs_def
      GetDesc_def ex_fee_tx_def utxo_amount_def out_amount_def ex_pre_def)

lemma ex_transfer_10: "ex_transfer\<lparr>ct_Amount := ''10''\<rparr> = ex_transfer"
  by (simp add: ex_transfer_def)

lemma GenRealTx_spends_change_witness:
  "\<exists>tx w. GenRealTx ex_env ex_transfer ex_pre ex_fee_tx [] = (Inr tx, w) \<and>
     tx_TxInputs tx = [spend_output ex_fee_tx 1]"
proof -
  obtain tx where tx: "GenRealTx ex_env ex_transfer ex_pre ex_fee_tx [] = (Inr tx, [])"
    using ex_real_tx[of "''10''" "[]"] unfolding ex_transfer_10 by auto
  from GenRealTx_spends_change[OF tx] have "tx_TxInputs tx = [spend_output ex_fee_tx 1]"
    by (simp add: ex_pre_def) (simp add: ex_fee_tx_def upt_rec)
  with tx show ?thesis by blast
qed

text \<open>With an amount of 200 the change of 96 is too small: the outputs are worth 316.\<close>

lemma GenRealTx_balanced_iff_witness:
  "\<exists>tx w. GenRealTx ex_env (ex_transfer\<lparr>ct_Amount := ''200''\<rparr>) ex_pre ex_fee_tx [] = (Inr tx, w) \<and>
     sum_in (tx_TxInputs tx) \<noteq> sum_out (tx_TxOutputs tx)"
proof -
  obtain tx where tx: "GenRealTx ex_env (ex_transfer\<lparr>ct_Amount := ''200''\<rparr>) ex_pre ex_fee_tx [] = (Inr tx, [])"
    using ex_real_tx[of "''200''" "[]"] by auto
  from GenRealTx_balanced_iff[OF tx] have "sum_in (tx_TxInputs tx) \<noteq> sum_out (tx_TxOutputs tx)"
    by (auto simp: ex_pre_def ex_fee_tx_def out_amount_def)
  with tx show ?thesis by blast
qed

lemma GenRealTx_needs_fee_witness:
  "\<exists>e w'. GenRealTx ex_env (ex_transfer\<lparr>ct_Fee := ''''\<rparr>) ex_pre ex_fee_tx [] = (Inl e, w')"
  using GenRealTx_needs_fee[of "ex_transfer\<lparr>ct_Fee := ''''\<rparr>" ex_env] by simp

lemma ex_honest: "honest_selection ex_selected (sint (4 :: int64))"
  by (simp add: honest_selection_def)

lemma GenComplianceCheckTx_pays_fee_witness:
  "sum_in (tx_TxInputs ex_fee_tx) = sum_out (tx_TxOutputs ex_fee_tx)"
proof -
  have c: "cc_EndorseServiceFee (ct_ComplianceCheck ex_transfer) = 4" "0 < sint (4 :: int64)"
    "cc_EndorseServiceFeeAddr (ct_ComplianceCheck ex_transfer) \<noteq> ''''"
    by (simp_all add: ex_transfer_def)
  show ?thesis
    using GenComplianceCheckTx_pays_fee[OF ex_fee_tx_built[of "[]"] c ex_honest] by blast
qed


end
