(* ===== verification/CliTransfer.thy ===== *)
theory CliTransfer
  imports CommTrans
begin

text \<open>
  \<open>cli.go\<close> and the transfer command of \<open>transfer.go\<close>: a transfer from an address or an
  account, with outputs locked by a signature, and the walk over all nodes of the
  network.
\<close>

section \<open>The transfer\<close>

record TransferOptions =
  topt_BlockchainName :: string
  topt_KeyPath :: string
  topt_CryptoType :: string
  topt_To :: string
  topt_Amount :: string
  topt_Fee :: string
  topt_Desc :: bytes
  topt_FrozenHeight :: int64
  topt_Version :: int32
  topt_From :: string
  topt_AccountPath :: string
  topt_Debug :: bool

text \<open>The loop over the accounts: here an amount of zero makes an output too.\<close>

primrec assemble_outputs :: "TxDataAccount list \<Rightarrow> TxOutput list \<Rightarrow> int \<Rightarrow> gerr + TxOutput list \<times> int" where
  "assemble_outputs [] outs totalNeed = Inr (outs, totalNeed)"
| "assemble_outputs (acc # accs) outs totalNeed =
     (case big_parse (tda_Amount acc) of
        None \<Rightarrow> Inl ErrInvalidAmount
      | Some amount \<Rightarrow>
          if amount < 0 then Inl ErrNegativeAmount
          else assemble_outputs accs (outs @ [account_output acc amount]) (totalNeed + amount))"

definition utxo_lock_request :: "TransferOptions \<Rightarrow> AKInfo \<Rightarrow> int \<Rightarrow> bytes \<Rightarrow> UtxoInput" where
  "utxo_lock_request opt initiator totalNeed sign =
     new_UtxoInput\<lparr>uin_Bcname := topt_BlockchainName opt, uin_Address := topt_From opt,
                    uin_TotalNeed := big_show totalNeed, uin_NeedLock := True,
                    uin_Publickey := kp_publicKey (aki_KeyPair initiator), uin_UserSign := sign\<rparr>"

definition assembleTxInputsSupportAccount ::
  "('w, 'x, 'sk) Env \<Rightarrow> TransferOptions \<Rightarrow> int \<Rightarrow> AKInfo \<Rightarrow> 'sk signer \<Rightarrow>
   ('w, gerr, TxInput list \<times> TxOutput option) io" where
  "assembleTxInputsSupportAccount E opt totalNeed initiator crypto =
     io_bind (io_lift (AKInfo_SignUtxo E initiator (topt_BlockchainName opt) totalNeed crypto)) (\<lambda>sign.
     io_bind (io_map_err (\<lambda>_. ErrSelectUtxo)
                (xc_SelectUTXO (e_client E) (utxo_lock_request opt initiator totalNeed (sig_Sign sign)))) (\<lambda>utxoRes.
     io_lift
       (case uout_Header utxoRes of
          None \<Rightarrow> Inl go_panic
        | Some h \<Rightarrow>
            if hdr_Error h \<noteq> SUCCESS then Inl ErrSelectUtxo
            else (case big_parse (uout_TotalSelected utxoRes) of
                    None \<Rightarrow> Inl ErrSelectUtxo
                  | Some utxoTotal \<Rightarrow>
                      Inr (map utxo_input (uout_UtxoList utxoRes),
                           change_output (topt_From opt) utxoTotal totalNeed)))))"

definition transfer_opt_accounts :: "('w, 'x, 'sk) Env \<Rightarrow> TransferOptions \<Rightarrow> TxDataAccount list" where
  "transfer_opt_accounts E opt =
     \<lparr>tda_Address = topt_To opt, tda_Amount = topt_Amount opt, tda_FrozenHeight = topt_FrozenHeight opt\<rparr> #
     (if topt_Fee opt \<noteq> '''' \<and> topt_Fee opt \<noteq> ''0'' then [newFeeAccount E (topt_Fee opt)] else [])"

definition assembleTxSupportAccount ::
  "('w, 'x, 'sk) Env \<Rightarrow> TransferOptions \<Rightarrow> AKInfo \<Rightarrow> 'sk signer \<Rightarrow> ('w, gerr, TxStatus) io" where
  "assembleTxSupportAccount E opt initiator crypto =
     io_bind (io_draw (e_GenNonce E)) (\<lambda>nonce.
     io_bind (io_draw (e_Now E)) (\<lambda>now.
     io_bind (io_lift (assemble_outputs (transfer_opt_accounts E opt) [] 0)) (\<lambda>(txOutputs, totalNeed).
     io_bind (assembleTxInputsSupportAccount E opt totalNeed initiator crypto) (\<lambda>(txInputs, deltaTxOutput).
     io_bind (io_read (genAuthRequirement E (topt_From opt) (topt_AccountPath opt))) (\<lambda>authRequire.
     io_bind (io_draw (e_GenLogId E)) (\<lambda>logid.
     io_bind (xc_PreExec (e_client E)
                \<lparr>irpc_Header = Some (new_Header\<lparr>hdr_Logid := logid\<rparr>), irpc_Bcname = topt_BlockchainName opt,
                 irpc_Requests = Some [], irpc_Initiator = aki_address initiator,
                 irpc_AuthRequire = authRequire\<rparr>) (\<lambda>preExeRes.
     io_bind (io_draw (e_GenLogId E)) (\<lambda>logid'.
     let resp = irpr_Response preExeRes;
         tx = new_Transaction
                \<lparr>tx_Version := topt_Version opt, tx_Coinbase := False, tx_Desc := topt_Desc opt,
                 tx_Nonce := nonce, tx_Timestamp := now, tx_Initiator := aki_address initiator,
                 tx_TxOutputs := txOutputs @ opt_list deltaTxOutput, tx_TxInputs := txInputs,
                 tx_AuthRequire := authRequire,
                 tx_ContractRequests := nilget [] iresp_Requests resp,
                 tx_TxInputsExt := nilget [] iresp_Inputs resp,
                 tx_TxOutputsExt := nilget [] iresp_Outputs resp\<rparr>
     in
     io_return
       (new_TxStatus\<lparr>txst_Bcname := topt_BlockchainName opt, txst_Status := 4, txst_Tx := Some tx,
                      txst_Header := Some (new_Header\<lparr>hdr_Logid := logid'\<rparr>)\<rparr>)))))))))"

definition cli_signTx ::
  "('w, 'x, 'sk) Env \<Rightarrow> TransferOptions \<Rightarrow> 'sk signer \<Rightarrow> Transaction \<Rightarrow> KeyPair \<Rightarrow> 'w \<Rightarrow>
   gerr + SignatureInfo list" where
  "cli_signTx E opt crypto tx initiator w =
     (if topt_AccountPath opt = '''' then signTxForAK E tx initiator crypto
      else signTxForAccount E tx (topt_AccountPath opt) crypto w)"

text \<open>Sign the assembled transaction, give it its id, and post it.  A status without a
  transaction does not arise: the assembly sets it.\<close>

definition transferSupportAccount ::
  "('w, 'x, 'sk) Env \<Rightarrow> TransferOptions \<Rightarrow> AKInfo \<Rightarrow> 'sk signer \<Rightarrow> ('w, gerr, string) io" where
  "transferSupportAccount E opt initiator crypto =
     io_bind (assembleTxSupportAccount E opt initiator crypto) (\<lambda>txStatus.
     case txst_Tx txStatus of
       None \<Rightarrow> io_throw go_panic
     | Some tx \<Rightarrow>
         io_bind (io_lift (KeyPair_SignTx E (aki_KeyPair initiator) tx crypto)) (\<lambda>signInfo.
         let tx = tx\<lparr>tx_InitiatorSigns := tx_InitiatorSigns tx @ [signInfo]\<rparr> in
         io_bind (io_read (\<lambda>w. case cli_signTx E opt crypto tx (aki_KeyPair initiator) w of
                                 Inl err \<Rightarrow> Inl (Errorf ''Failed to signTx'') | Inr s \<Rightarrow> Inr s)) (\<lambda>authSigns.
         let tx = tx\<lparr>tx_AuthRequireSigns := authSigns\<rparr> in
         case MakeTxId (cd_Tx (e_lib E)) (e_MakeTransactionID E) (Some tx) of
           Inl err \<Rightarrow> io_throw (Errorf ''Failed to gen txid'')
         | Inr txid \<Rightarrow>
             (let txStatus = txStatus\<lparr>txst_Tx := Some (tx\<lparr>tx_Txid := txid\<rparr>), txst_Txid := txid\<rparr> in
              if topt_Debug opt then io_return (hex_encode txid)
              else
                io_bind (io_map_err (\<lambda>_. Errorf ''transferSupportAccount post tx err'')
                           (xc_PostTx (e_client E) txStatus)) (\<lambda>reply.
                io_lift
                  (case crep_Header reply of
                     None \<Rightarrow> Inl go_panic
                   | Some h \<Rightarrow>
                       if hdr_Error h \<noteq> SUCCESS then Inl (Errorf ''Failed to post tx'')
                       else Inr (hex_encode txid)))))))"

definition cli_transfer ::
  "('w, 'x, 'sk) Env \<Rightarrow> TransferOptions \<Rightarrow> AKInfo \<Rightarrow> 'sk signer \<Rightarrow> ('w, gerr, string) io" where
  "cli_transfer E opt initiator cryptoClient =
     (let opt = (if topt_From opt = '''' then opt\<lparr>topt_From := aki_address initiator\<rparr> else opt) in
      transferSupportAccount E opt initiator cryptoClient)"

definition cli_Transfer :: "('w, 'x, 'sk) Env \<Rightarrow> TransferOptions \<Rightarrow> ('w, gerr, string) io" where
  "cli_Transfer E opt =
     io_bind (io_read (AK_Info E (newAK (topt_KeyPath opt)))) (\<lambda>fromInfo.
     io_bind (io_lift (e_CreateCryptoClient E (topt_CryptoType opt))) (\<lambda>crypto.
       cli_transfer E opt fromInfo crypto))"

section \<open>The command\<close>

record TransferCommand =
  tc_to :: string
  tc_amount :: string
  tc_descFile :: string
  tc_fee :: string
  tc_frozenHeight :: int64
  tc_version :: int32
  tc_from :: string
  tc_accountPath :: string
  tc_debug :: bool

definition tc_getDesc :: "('w, 'x, 'sk) Env \<Rightarrow> TransferCommand \<Rightarrow> 'w \<Rightarrow> gerr + bytes" where
  "tc_getDesc E t w =
     (if tc_descFile t = '''' then Inr ''transfer from console'' else e_ReadFile E (tc_descFile t) w)"

definition tc_transfer :: "('w, 'x, 'sk) Env \<Rightarrow> RootOptions \<Rightarrow> TransferCommand \<Rightarrow> ('w, gerr, unit) io" where
  "tc_transfer E ro t =
     io_bind (io_read (tc_getDesc E t)) (\<lambda>desc.
     io_bind (cli_Transfer E
                \<lparr>topt_BlockchainName = ro_Name ro, topt_KeyPath = ro_Keys ro, topt_CryptoType = ro_Crypto ro,
                 topt_To = tc_to t, topt_Amount = tc_amount t, topt_Fee = tc_fee t, topt_Desc = desc,
                 topt_FrozenHeight = tc_frozenHeight t, topt_Version = tc_version t, topt_From = tc_from t,
                 topt_AccountPath = tc_accountPath t, topt_Debug = tc_debug t\<rparr>) (\<lambda>txid. io_return ()))"

section \<open>All nodes\<close>

definition GetNodes :: "('w, 'x, 'sk) Env \<Rightarrow> ('w, gerr, string list) io" where
  "GetNodes E =
     io_bind (io_draw (e_GenLogId E)) (\<lambda>logid.
     io_bind (xc_GetSystemStatus (e_client E)
                \<lparr>cin_Header = Some (new_Header\<lparr>hdr_Logid := logid\<rparr>), cin_ViewOption = ViewOption_NONE\<rparr>) (\<lambda>reply.
     io_lift
       (case systr_Header reply of
          None \<Rightarrow> Inl go_panic
        | Some h \<Rightarrow>
            if hdr_Error h \<noteq> SUCCESS then Inl (Errorf ''error of the reply'')
            else Inr (nilget [] syst_PeerUrls (systr_SystemsStatus reply)))))"

text \<open>When the certificate file holds no certificate, the error returned is the nil one of the read.\<close>

definition genCreds :: "('w, 'x, 'sk) Env \<Rightarrow> string \<Rightarrow> string \<Rightarrow> 'w \<Rightarrow> gerr + creds option" where
  "genCreds E certPath serverName w =
     res_bind (e_ReadFile E (certPath @ ''/cert.crt'') w) (\<lambda>bs.
       if \<not> e_AppendCertsFromPEM E bs then Inr None
       else
         res_bind (e_LoadX509KeyPair E (certPath @ ''/key.pem'') (certPath @ ''/private.key'') w) (\<lambda>certificate.
           Inr (Some \<lparr>creds_ServerName = serverName, creds_Certificate = certificate\<rparr>)))"

text \<open>The client handed to the callback: none, one over a nil connection, or one over a connection.\<close>

datatype 'w node_client = NoClient | NilConn | OnConn "'w XchainClient"

type_synonym 'w node_fun = "string \<Rightarrow> 'w node_client \<Rightarrow> gerr option \<Rightarrow> ('w, gerr, unit) io"

text \<open>One node of the list.  After a failed dial the callback runs a second time, over the nil connection
  and without the error, which the first call has overwritten.\<close>

definition range_node :: "('w, 'x, 'sk) Env \<Rightarrow> dial_security \<Rightarrow> 'w node_fun \<Rightarrow> string \<Rightarrow> ('w, gerr, unit) io" where
  "range_node E sec f addr w =
     (case e_Dial E addr sec w of
        Inl err \<Rightarrow> io_bind (f addr NoClient (Some err)) (\<lambda>_. f addr NilConn None) w
      | Inr _ \<Rightarrow> f addr (OnConn (e_ClientOf E addr)) None w)"

primrec range_nodes ::
  "('w, 'x, 'sk) Env \<Rightarrow> dial_security \<Rightarrow> 'w node_fun \<Rightarrow> string list \<Rightarrow> ('w, gerr, unit) io" where
  "range_nodes E sec f [] = io_return ()"
| "range_nodes E sec f (addr # addrs) = io_bind (range_node E sec f addr) (\<lambda>_. range_nodes E sec f addrs)"

definition RangeNodes :: "('w, 'x, 'sk) Env \<Rightarrow> RootOptions \<Rightarrow> 'w node_fun \<Rightarrow> ('w, gerr, unit) io" where
  "RangeNodes E ro f =
     io_bind (GetNodes E) (\<lambda>nodes.
     io_bind (io_read (\<lambda>w. if tls_Enable (ro_TLS ro)
                           then res_bind (genCreds E (tls_Cert (ro_TLS ro)) (tls_Server (ro_TLS ro)) w)
                                  (\<lambda>cred. Inr (Transport cred))
                           else Inr Insecure)) (\<lambda>sec.
     io_bind (range_nodes E sec f nodes) (\<lambda>_.
     io_bind (io_read (e_Dial E (ro_Host ro) Insecure)) (\<lambda>_.
       f (ro_Host ro) (OnConn (e_ClientOf E (ro_Host ro))) None))))"

section \<open>Facts about the outputs\<close>

lemma assemble_outputs_acc:
  "assemble_outputs as outs tot =
     res_bind (assemble_outputs as [] 0) (\<lambda>(o', t'). Inr (outs @ o', tot + t'))"
proof (induction as arbitrary: outs tot)
  case (Cons a as)
  show ?case
  proof (cases "big_parse (tda_Amount a)")
    case (Some n)
    show ?thesis
      using Some Cons.IH[of "outs @ [account_output a n]" "tot + n"] Cons.IH[of "[account_output a n]" n]
      by (cases "assemble_outputs as [] 0") auto
  qed simp
qed simp

definition assembled :: "TxDataAccount list \<Rightarrow> gerr + TxOutput list" where
  "assembled as = res_bind (assemble_outputs as [] 0) (\<lambda>r. Inr (fst r))"

lemma assemble_outputs_Cons:
  assumes "good_amount a"
  shows "assemble_outputs (a # as) [] 0 =
    res_bind (assemble_outputs as [] 0) (\<lambda>(o', t'). Inr (account_output a (acc_amount a) # o', acc_amount a + t'))"
  using assms assemble_outputs_acc[of as "[account_output a (acc_amount a)]" "acc_amount a"]
  by (auto simp: good_amount_def acc_amount_def split: option.splits)

interpretation cli: output_builder assembled False
proof unfold_locales
  show "assembled [] = Inr []" by (simp add: assembled_def)
  fix a :: TxDataAccount and as e outs
  show "\<not> good_amount a \<Longrightarrow> \<exists>e. assembled (a # as) = Inl e"
    by (auto simp: assembled_def good_amount_def split: option.splits)
  assume g: "good_amount a"
  show "assembled as = Inl e \<Longrightarrow> assembled (a # as) = Inl e"
    unfolding assembled_def assemble_outputs_Cons[OF g] by (cases "assemble_outputs as [] 0") auto
  show "assembled as = Inr outs \<Longrightarrow> assembled (a # as) =
      Inr ((if False \<and> acc_amount a = 0 then [] else [account_output a (acc_amount a)]) @ outs)"
    unfolding assembled_def assemble_outputs_Cons[OF g] by (cases "assemble_outputs as [] 0") auto
qed

lemma assemble_outputs_total:
  "assemble_outputs as [] 0 = Inr (outs, tot) \<Longrightarrow> tot = sum_list (map acc_amount as)"
proof (induction as arbitrary: outs tot)
  case (Cons a as)
  then have "good_amount a" by (auto simp: good_amount_def split: option.splits if_splits)
  from Cons.prems[unfolded assemble_outputs_Cons[OF this]] Cons.IH show ?case
    by (cases "assemble_outputs as [] 0") auto
qed simp

lemma assemble_outputs_sound:
  assumes "assemble_outputs as [] 0 = Inr (outs, tot)"
  shows "sum_out outs = tot" "outs = map (\<lambda>a. account_output a (acc_amount a)) as" "\<forall>a \<in> set as. good_amount a"
proof -
  have b: "assembled as = Inr outs" using assms by (simp add: assembled_def)
  show "sum_out outs = tot"
    using cli.build_sum[OF b] assemble_outputs_total[OF assms] by simp
  show "outs = map (\<lambda>a. account_output a (acc_amount a)) as" using cli.build_map[OF b] by simp
  show "\<forall>a \<in> set as. good_amount a" using cli.build_total b by blast
qed

lemma assembleTxInputs_covers:
  assumes "assembleTxInputsSupportAccount E opt need ini crypto w = (Inr (ins, delta), w')" "honest_node E"
  shows "sum_in ins = need + sum_out (opt_list delta)"
proof -
  obtain sign res tot where r:
      "xc_SelectUTXO (e_client E) (utxo_lock_request opt ini need sign) w = (Inr res, w')"
      "selection_ok res = Inr ()" "big_parse (uout_TotalSelected res) = Some tot"
      "ins = map utxo_input (uout_UtxoList res)" "delta = change_output (topt_From opt) tot need"
    using assms(1) unfolding assembleTxInputsSupportAccount_def
    by (auto simp: io_bind_Inr_iff io_map_err_Inr io_lift_eq selection_ok_def split: sum.splits option.splits if_splits)
  have "honest_selection res need"
    using assms(2) r(1,2) unfolding honest_node_def by (fastforce simp: utxo_lock_request_def)
  with r(3) show ?thesis unfolding r(4,5)
    by (auto simp: honest_selection_def change_covers)
qed

lemma assembleTx_cases:
  assumes "assembleTxSupportAccount E opt ini crypto w = (Inr st, w')"
  obtains outs need ins delta w1 w2 reqs tx where
    "assemble_outputs (transfer_opt_accounts E opt) [] 0 = Inr (outs, need)"
    "assembleTxInputsSupportAccount E opt need ini crypto w1 = (Inr (ins, delta), w2)"
    "genAuthRequirement E (topt_From opt) (topt_AccountPath opt) w2 = Inr reqs"
    "txst_Tx st = Some tx" "tx_TxInputs tx = ins" "tx_TxOutputs tx = outs @ opt_list delta"
    "tx_AuthRequire tx = reqs" "tx_Initiator tx = aki_address ini"
  using assms unfolding assembleTxSupportAccount_def Let_def
  by (fastforce simp: io_bind_Inr_iff io_draw_def io_read_def io_lift_eq
      simp del: io_bind_simps io_read_simps(2,3) new_Header_def)

section \<open>Properties\<close>


text \<open>Keys of the client that the chain of the server takes for one another: the public key parses, verifies
  what the private key signs, and belongs to the address.\<close>

definition keys_match :: "'k crypto \<Rightarrow> 'sk signer \<Rightarrow> AKInfo \<Rightarrow> bool" where
  "keys_match cr sg i \<longleftrightarrow>
     (\<exists>pub. GetEcdsaPublicKeyFromJsonStr cr (kp_publicKey (aki_KeyPair i)) = Inr pub \<and>
        VerifyAddressUsingPublicKey cr (aki_address i) pub \<and>
        (\<forall>sk msg sign. GetEcdsaPrivateKeyFromJsonStr sg (kp_secretKey (aki_KeyPair i)) = Inr sk \<longrightarrow>
           SignECDSA sg sk msg = Inr sign \<longrightarrow> VerifyECDSA cr pub sign msg = Inr True))"

lemma SignUtxo_Inr:
  "AKInfo_SignUtxo E i bc need sg = Inr s \<longleftrightarrow>
   (\<exists>sk sign. GetEcdsaPrivateKeyFromJsonStr sg (kp_secretKey (aki_KeyPair i)) = Inr sk \<and>
      SignECDSA sg sk (LockedUtxo_Hash (e_lib E) (NewLockedUtxo bc (aki_address i) need)) = Inr sign \<and>
      s = \<lparr>sig_PublicKey = kp_publicKey (aki_KeyPair i), sig_Sign = sign\<rparr>)"
  by (auto simp: AKInfo_SignUtxo_def KeyPair_SignUtxo_def res_bind_Inr_iff)

text \<open>C10: The lock a transfer asks for is one the server grants: the request the client builds, signed with the
  keys of the paying address, passes the permission check of the chain it names and reaches the
  selection with the amount, the address and the lock flag of the client.\<close>

theorem transfer_lock_accepted:
  assumes "AKInfo_SignUtxo E ini (topt_BlockchainName opt) need crypto = Inr s"
    and "topt_From opt = aki_address ini"
    and "h_bcName h = topt_BlockchainName opt"
    and "keys_match (ch_Crypto (h_chain h)) crypto ini"
  shows "let req = utxo_lock_request opt ini need (sig_Sign s) in
    big_parse (uin_TotalNeed req) = Some need \<and>
    SelectUtxo (e_lib E) h (uin_Address req) need (uin_NeedLock req) ex (uin_Publickey req) (uin_UserSign req) w =
      ut_SelectUTXO (h_chain h) (topt_From opt) need True ex w"
proof -
  obtain sk sign where s: "GetEcdsaPrivateKeyFromJsonStr crypto (kp_secretKey (aki_KeyPair ini)) = Inr sk"
      "SignECDSA crypto sk (LockedUtxo_Hash (e_lib E)
         (NewLockedUtxo (topt_BlockchainName opt) (aki_address ini) need)) = Inr sign" "sig_Sign s = sign"
    using assms(1) unfolding SignUtxo_Inr by auto
  obtain pub where p: "GetEcdsaPublicKeyFromJsonStr (ch_Crypto (h_chain h)) (kp_publicKey (aki_KeyPair ini)) = Inr pub"
      "VerifyAddressUsingPublicKey (ch_Crypto (h_chain h)) (aki_address ini) pub"
      "VerifyECDSA (ch_Crypto (h_chain h)) pub sign (LockedUtxo_Hash (e_lib E)
         (NewLockedUtxo (topt_BlockchainName opt) (aki_address ini) need)) = Inr True"
    using assms(4) s(1,2) unfolding keys_match_def by blast
  have "checkSelectUtxoSign (e_lib E) h (topt_From opt) (kp_publicKey (aki_KeyPair ini)) sign True need"
    using p assms(2,3) by (simp add: checkSelectUtxoSign_def Let_def)
  then show ?thesis
    unfolding s(3) by (simp add: SelectUtxo_def utxo_lock_request_def)
qed

lemma KeyPair_SignTx_key: "KeyPair_SignTx E kp tx crypto = Inr s \<Longrightarrow> sig_PublicKey s = kp_publicKey kp"
  by (auto simp: KeyPair_SignTx_def res_bind_Inr_iff)

text \<open>The signatures for an account line up with what the transaction requires: requirement and signature at
  the same position come from the same key directory, the one naming its address under the account,
  the other made with its keys over the transaction.\<close>

theorem account_signs_aligned:
  assumes "genAuthRequirement E from path w = Inr reqs" "path \<noteq> ''''"
    and "signTxForAccount E tx path crypto w = Inr signs"
  shows "length signs = length reqs \<and>
    (\<forall>i < length reqs. \<exists>ak address kp.
       readAddress E ak w = Inr address \<and> keyPair E ak w = Inr kp \<and>
       reqs ! i = from @ ''/'' @ address \<and>
       KeyPair_SignTx E kp tx crypto = Inr (signs ! i) \<and>
       sig_PublicKey (signs ! i) = kp_publicKey kp)"
proof -
  obtain aks where aks: "listAKs E path w = Inr aks"
    using assms(1,2) by (auto simp: genAuthRequirement_def res_bind_Inr_iff split: if_splits)
  have r: "traverse (\<lambda>ak. case AuthRequirementFrom E ak from w of
        Inl err \<Rightarrow> Inl (Errorf ''requires auth error'') | Inr r \<Rightarrow> Inr r) aks = Inr reqs"
    using assms(1,2) aks by (simp add: genAuthRequirement_def)
  have s: "traverse (\<lambda>ak. case AK_SignTx E ak tx crypto w of
        Inl err \<Rightarrow> Inl (Errorf ''sign error'') | Inr sign \<Rightarrow> Inr sign) aks = Inr signs"
    using assms(3) aks by (simp add: signTxForAccount_def)
  have len: "length reqs = length aks" "length signs = length aks"
    using traverse_length[OF r] traverse_length[OF s] by simp_all
  have "\<exists>ak address kp. readAddress E ak w = Inr address \<and> keyPair E ak w = Inr kp \<and>
       reqs ! i = from @ ''/'' @ address \<and> KeyPair_SignTx E kp tx crypto = Inr (signs ! i) \<and>
       sig_PublicKey (signs ! i) = kp_publicKey kp" if i: "i < length aks" for i
  proof -
    obtain address where a: "readAddress E (aks ! i) w = Inr address" "reqs ! i = from @ ''/'' @ address"
      using traverse_nth[OF r i] by (auto simp: AuthRequirementFrom_def res_bind_Inr_iff split: sum.splits)
    obtain kp where k: "keyPair E (aks ! i) w = Inr kp" "KeyPair_SignTx E kp tx crypto = Inr (signs ! i)"
      using traverse_nth[OF s i] by (auto simp: AK_SignTx_def res_bind_Inr_iff split: sum.splits)
    have "sig_PublicKey (signs ! i) = kp_publicKey kp"
      by (rule KeyPair_SignTx_key[OF k(2)])
    with a k show ?thesis by blast
  qed
  with len show ?thesis by simp
qed

text \<open>A node that cannot be dialled is visited twice: after the callback has taken the failure, it runs
  again over a nil connection and is told that there was no error.\<close>

theorem range_node_visits_twice:
  assumes "e_Dial E addr sec w = Inl err" "f addr NoClient (Some err) w = (Inr (), w')"
  shows "range_nodes E sec f (addr # addrs) w =
    io_bind (f addr NilConn None) (\<lambda>_. range_nodes E sec f addrs) w'"
  using assms by (simp add: range_node_def io_bind_def)

section \<open>Instances\<close>

definition ex_opt :: TransferOptions where
  "ex_opt =
     \<lparr>topt_BlockchainName = ''xuper'', topt_KeyPath = ''keys'', topt_CryptoType = '''', topt_To = ''bob'',
      topt_Amount = ''10'', topt_Fee = ''6'', topt_Desc = '''', topt_FrozenHeight = 0, topt_Version = 3,
      topt_From = ''alice'', topt_AccountPath = '''', topt_Debug = False\<rparr>"

definition ex_ini :: AKInfo where
  "ex_ini = \<lparr>aki_address = ''alice'', aki_KeyPair = \<lparr>kp_publicKey = ''alice'', kp_secretKey = ''sk''\<rparr>\<rparr>"

lemma ex_opt_simps [simp]:
  "topt_BlockchainName ex_opt = ''xuper''" "topt_From ex_opt = ''alice''" "topt_AccountPath ex_opt = ''''"
  "topt_Desc ex_opt = ''''" "topt_Version ex_opt = 3" "topt_Debug ex_opt = False"
  by (simp_all add: ex_opt_def)

lemma ex_ini_read: "AK_Info ex_env ''keys'' w = Inr ex_ini"
  by (simp add: AK_Info_def ex_ini_def)

lemma ex_lock_signed:
  "AKInfo_SignUtxo ex_env ex_ini bc need ex_signer =
     Inr \<lparr>sig_PublicKey = ''alice'', sig_Sign = LockedUtxo_hashKey (NewLockedUtxo bc ''alice'' need)\<rparr>"
  unfolding SignUtxo_Inr by (simp add: ex_signer_def ex_ini_def LockedUtxo_Hash_def ex_lib_def)

lemma ex_keys_match: "keys_match ex_crypto ex_signer ex_ini"
  by (simp add: keys_match_def ex_crypto_def ex_signer_def ex_ini_def)

lemma transfer_lock_accepted_witness:
  "SelectUtxo ex_lib ex_handle ''alice'' 16 True False ''alice'' ''xuperalice16true'' 0 =
     (Inr (Some \<lparr>xuo_UtxoList = Some [Some ''u''], xuo_TotalSelected = ''16''\<rparr>), 1)"
proof -
  have p: "topt_From ex_opt = aki_address ex_ini" "h_bcName ex_handle = topt_BlockchainName ex_opt"
      "keys_match (ch_Crypto (h_chain ex_handle)) ex_signer ex_ini"
    using ex_keys_match by (simp_all add: ex_opt_def ex_ini_def ex_handle_def ex_chain_def)
  have t: "LockedUtxo_hashKey (NewLockedUtxo ''xuper'' ''alice'' 16) = ''xuperalice16true''"
      "big_show 16 = ''16''"
    by code_simp+
  from transfer_lock_accepted[OF ex_lock_signed p, where need = 16 and ex = False and w = 0] t(1) t(2)
  show ?thesis by (simp add: Let_def utxo_lock_request_def ex_opt_def ex_ini_def ex_handle_def ex_chain_def)
qed


lemma account_signs_aligned_witness:
  "\<exists>reqs signs. genAuthRequirement ex_env ''XC1'' ''accounts'' [] = Inr reqs \<and>
     signTxForAccount ex_env new_Transaction ''accounts'' ex_signer [] = Inr signs \<and>
     length signs = length reqs \<and> length reqs = 1"
proof -
  obtain reqs where r: "genAuthRequirement ex_env ''XC1'' ''accounts'' [] = Inr reqs" "length reqs = 1"
    by (simp add: genAuthRequirement_def listAKs_def ex_env_def IsAKDir_def AuthRequirementFrom_def
        readAddress_def readKeys_def)
  obtain signs where s: "signTxForAccount ex_env new_Transaction ''accounts'' ex_signer [] = Inr signs"
    by (simp add: signTxForAccount_def listAKs_def IsAKDir_def ex_env_def AK_SignTx_def keyPair_def
        readPublicKey_def readPrivateKey_def readKeys_def KeyPair_SignTx_def ComputeTxSign_def
        TxToXledger_def reencode_def ex_lib_def ex_codec_def)
  have "length signs = length reqs"
    using account_signs_aligned[OF r(1) _ s] by simp
  with r s show ?thesis by blast
qed

lemma range_node_visits_twice_witness:
  "range_nodes ex_env Insecure (\<lambda>addr c err w. (case c of NilConn \<Rightarrow> Inl go_panic | _ \<Rightarrow> Inr (), w)) [''n2''] [] =
     (Inl go_panic, [])"
  using range_node_visits_twice[of ex_env "''n2''" Insecure "[]" "LibErr ''dial''"
      "\<lambda>addr c err w. (case c of NilConn \<Rightarrow> Inl go_panic | _ \<Rightarrow> Inr (), w)" "[]" "[]"]
  by (simp add: io_bind_def)

end
