(* ===== verification/UtxoCmds.thy ===== *)
theory UtxoCmds
  imports Compliance CliTransfer
begin

text \<open>
  \<open>utxo_split.go\<close> and \<open>utxo_merge.go\<close>: the commands that split the balance of an address
  or account into equal outputs, and merge its outputs into one.
\<close>

section \<open>Splitting\<close>

record SplitUtxoCommand =
  su_account :: string
  su_num :: int64
  su_accountPath :: string
  su_isGenRawTx :: bool
  su_multiAddrs :: string
  su_output :: string

definition SetUpAccount ::
  "('w, 'x, 'sk) Env \<Rightarrow> SplitUtxoCommand \<Rightarrow> string \<Rightarrow> gerr + SplitUtxoCommand" where
  "SetUpAccount E c initiator =
     (let c = (if su_account c = '''' then c\<lparr>su_account := initiator\<rparr> else c);
          (t, isValid) = e_ParseAddressType E (su_account c)
      in
      if \<not> isValid then Inl (Errorf ''empty account'')
      else if t = e_AddressAccount E \<and> su_accountPath c = ''''
      then Inl (Errorf ''accountPath can not be null because account is an Account name'')
      else if t = e_AddressAK E \<and> su_account c \<noteq> initiator then Inl (Errorf ''parse account error'')
      else Inr c)"

definition getBalanceHelper ::
  "('w, 'x, 'sk) Env \<Rightarrow> RootOptions \<Rightarrow> SplitUtxoCommand \<Rightarrow> ('w, gerr, string) io" where
  "getBalanceHelper E ro c =
     io_bind (xc_GetBalance (e_client E)
                \<lparr>adst_Header = None, adst_Address = su_account c,
                 adst_Bcs = [\<lparr>tokd_Bcname = ro_Name ro, tokd_Balance = '''', tokd_Error = SUCCESS\<rparr>]\<rparr>) (\<lambda>r.
     io_lift (case adst_Bcs r of [] \<Rightarrow> Inl go_panic | b # _ \<Rightarrow> Inr (tokd_Balance b)))"

definition baseCommonTrans ::
  "('w, 'x, 'sk) Env \<Rightarrow> RootOptions \<Rightarrow> SplitUtxoCommand \<Rightarrow> ('w, gerr, CommTrans \<times> int) io" where
  "baseCommonTrans E ro c =
     io_bind (getBalanceHelper E ro c) (\<lambda>amount.
     let ct = zero_CommTrans
                \<lparr>ct_Amount := amount, ct_FrozenHeight := 0, ct_Version := e_TxVersion E,
                 ct_From := su_account c, ct_IsQuick := False, ct_ChainName := ro_Name ro,
                 ct_Keys := ro_Keys ro, ct_CryptoType := ro_Crypto ro, ct_MultiAddrs := su_multiAddrs c,
                 ct_Output := su_output c\<rparr>
     in
     io_lift (case big_parse amount of
                None \<Rightarrow> Inl (Errorf ''get totalNeed error'') | Some totalNeed \<Rightarrow> Inr (ct, totalNeed)))"

text \<open>\<open>big.Int\<close> divides with a remainder that is never negative.\<close>

definition euclid_div :: "int \<Rightarrow> int \<Rightarrow> int" where
  "euclid_div x y = (if y < 0 then - (x div (- y)) else x div y)"

definition split_output :: "string \<Rightarrow> int \<Rightarrow> TxOutput" where
  "split_output account amount =
     \<lparr>txout_Amount = big_bytes amount, txout_ToAddr = account, txout_FrozenHeight = 0\<rparr>"

text \<open>The loop \<open>for i := int64(1); i < c.num && rest.Cmp(amount) == 1; i++\<close>.\<close>

function split_loop :: "int \<Rightarrow> int \<Rightarrow> string \<Rightarrow> int \<Rightarrow> int \<Rightarrow> TxOutput list \<Rightarrow> TxOutput list \<times> int" where
  "split_loop i num account amount rest txOutputs =
     (if i < num \<and> rest > amount
      then split_loop (i + 1) num account amount (rest - amount) (txOutputs @ [split_output account amount])
      else (txOutputs, rest))"
  by pat_completeness auto
termination by (relation "measure (\<lambda>(i, num, _). nat (num - i))") auto

declare split_loop.simps [simp del]

definition genSplitOutputs :: "SplitUtxoCommand \<Rightarrow> int \<Rightarrow> gerr + TxOutput list" where
  "genSplitOutputs c totalNeed =
     (let num = sint (su_num c) in
      if num > totalNeed then Inl (Errorf ''illegal split utxo, split utxo <= BALANCE required'')
      else if num = 0 then Inl go_panic
      else
        (let amount = euclid_div totalNeed num;
             (txOutputs, rest) = split_loop 1 num (su_account c) amount totalNeed []
         in Inr (txOutputs @ [split_output (su_account c) rest])))"

text \<open>What a pre-execution adds to the transaction.\<close>

definition with_preExec :: "InvokeRPCResponse \<Rightarrow> Transaction \<Rightarrow> Transaction" where
  "with_preExec preExeRes tx =
     tx\<lparr>tx_ContractRequests := nilget [] iresp_Requests (irpr_Response preExeRes),
        tx_TxInputsExt := nilget [] iresp_Inputs (irpr_Response preExeRes),
        tx_TxOutputsExt := nilget [] iresp_Outputs (irpr_Response preExeRes)\<rparr>"

text \<open>The end of both commands: sign for the initiator and for the requirements, make the id, post.\<close>

definition sign_and_post ::
  "('w, 'x, 'sk) Env \<Rightarrow> CommTrans \<Rightarrow> string \<Rightarrow> Transaction \<Rightarrow> ('w, gerr, unit) io" where
  "sign_and_post E ct accountPath tx =
     io_bind (io_read (signTxForInitiator E ct tx)) (\<lambda>initiatorSigns.
     let tx = tx\<lparr>tx_InitiatorSigns := initiatorSigns\<rparr> in
     io_bind (io_read (ct_signTx E ct tx accountPath)) (\<lambda>authSigns.
     let tx = tx\<lparr>tx_AuthRequireSigns := authSigns\<rparr> in
     io_bind (io_lift (MakeTxId (cd_Tx (e_lib E)) (e_MakeTransactionID E) (Some tx))) (\<lambda>txid.
     io_bind (postTx E ct (tx\<lparr>tx_Txid := txid\<rparr>)) (\<lambda>txID. io_return ()))))"

definition splitUtxo :: "('w, 'x, 'sk) Env \<Rightarrow> RootOptions \<Rightarrow> SplitUtxoCommand \<Rightarrow> ('w, gerr, unit) io" where
  "splitUtxo E ro c =
     (if sint (su_num c) \<le> 0 then io_throw (Errorf ''illegal split utxo num, num > 0 required'')
      else
        io_bind (io_read (\<lambda>w. case readAddress E (ro_Keys ro) w of
                                Inl err \<Rightarrow> Inl (Errorf ''read init AK error'') | Inr a \<Rightarrow> Inr a)) (\<lambda>initiator.
        io_bind (io_lift (SetUpAccount E c initiator)) (\<lambda>c.
        io_bind (io_draw (e_GenNonce E)) (\<lambda>nonce.
        io_bind (io_draw (e_Now E)) (\<lambda>now.
        io_bind (baseCommonTrans E ro c) (\<lambda>(ct, totalNeed).
        io_bind (GenTxInputs E ct totalNeed) (\<lambda>(txInputs, txOutput).
        io_bind (io_lift (genSplitOutputs c totalNeed)) (\<lambda>txOutputs.
        io_bind (io_read (\<lambda>w. case (if su_isGenRawTx c then GenAuthRequire E (su_multiAddrs c) w
                                    else genAuthRequirement E (su_account c) (su_accountPath c) w) of
                                Inl err \<Rightarrow> Inl (Errorf ''generate Auth Requirement error'') | Inr a \<Rightarrow> Inr a)) (\<lambda>authRequire.
        io_bind (io_draw (e_GenLogId E)) (\<lambda>logid.
        io_bind (xc_PreExec (e_client E)
                   \<lparr>irpc_Header = Some (new_Header\<lparr>hdr_Logid := logid\<rparr>), irpc_Bcname = ro_Name ro,
                    irpc_Requests = Some [], irpc_Initiator = initiator, irpc_AuthRequire = authRequire\<rparr>) (\<lambda>preExeRes.
        let tx = with_preExec preExeRes
                   (new_Transaction
                      \<lparr>tx_Version := e_TxVersion E, tx_Coinbase := False, tx_Nonce := nonce, tx_Timestamp := now,
                       tx_Initiator := initiator, tx_TxInputs := txInputs,
                       tx_TxOutputs := txOutputs @ opt_list txOutput, tx_AuthRequire := authRequire\<rparr>)
        in
        if su_isGenRawTx c then GenTxFile E ct tx
        else
          sign_and_post E ct (su_accountPath c) tx)))))))))))"

section \<open>Merging\<close>

record MergeUtxoCommand =
  mu_account :: string
  mu_accountPath :: string

definition merge_CommTrans :: "('w, 'x, 'sk) Env \<Rightarrow> RootOptions \<Rightarrow> string \<Rightarrow> CommTrans" where
  "merge_CommTrans E ro account =
     zero_CommTrans
       \<lparr>ct_FrozenHeight := 0, ct_Version := e_TxVersion E, ct_From := account, ct_IsQuick := False,
        ct_ChainName := ro_Name ro, ct_Keys := ro_Keys ro, ct_CryptoType := ro_Crypto ro\<rparr>"

text \<open>The error of reading the address is dropped; an empty selection ends the command.\<close>

definition mergeUtxo :: "('w, 'x, 'sk) Env \<Rightarrow> RootOptions \<Rightarrow> MergeUtxoCommand \<Rightarrow> ('w, gerr, unit) io" where
  "mergeUtxo E ro c =
     (if lib_IsAccount (e_lib E) (mu_account c) \<and> mu_accountPath c = ''''
      then io_throw (Errorf ''accountPath can not be null because account is an Account name'')
      else
        io_bind (io_read (\<lambda>w. Inr (case readAddress E (ro_Keys ro) w of Inl err \<Rightarrow> '''' | Inr a \<Rightarrow> a))) (\<lambda>initAk.
        let account = (if mu_account c = '''' then initAk else mu_account c);
            ct = merge_CommTrans E ro account
        in
        io_bind (io_draw (e_GenNonce E)) (\<lambda>nonce.
        io_bind (io_draw (e_Now E)) (\<lambda>now.
        io_bind (GenTxInputsWithMergeUTXO E ct) (\<lambda>(txInputs, txOutput).
        if txInputs = [] then io_throw (Errorf ''not enough available utxo to merge'')
        else
          io_bind (io_read (\<lambda>w. case genAuthRequirement E account (mu_accountPath c) w of
                                  Inl err \<Rightarrow> Inl (Errorf ''genAuthRequirement error'') | Inr a \<Rightarrow> Inr a)) (\<lambda>authRequire.
          io_bind (io_draw (e_GenLogId E)) (\<lambda>logid.
          io_bind (xc_PreExec (e_client E)
                     \<lparr>irpc_Header = Some (new_Header\<lparr>hdr_Logid := logid\<rparr>), irpc_Bcname = ro_Name ro,
                      irpc_Requests = Some [], irpc_Initiator = initAk, irpc_AuthRequire = authRequire\<rparr>) (\<lambda>preExeRes.
          let tx = with_preExec preExeRes
                     (new_Transaction
                        \<lparr>tx_Version := e_TxVersion E, tx_Coinbase := False, tx_Nonce := nonce, tx_Timestamp := now,
                         tx_Initiator := initAk, tx_TxInputs := txInputs, tx_TxOutputs := [txOutput],
                         tx_AuthRequire := authRequire\<rparr>)
          in
          sign_and_post E ct (mu_accountPath c) tx))))))))"

section \<open>Facts about splitting\<close>

lemma split_loop_exact:
  assumes "i \<le> num" "0 < amount" "(num - i + 1) * amount \<le> rest"
  shows "split_loop i num account amount rest outs =
    (outs @ replicate (nat (num - i)) (split_output account amount), rest - (num - i) * amount)"
  using assms
proof (induction i num account amount rest outs rule: split_loop.induct)
  case (1 i num account amount rest outs)
  show ?case
  proof (cases "i = num")
    case True
    then show ?thesis by (simp add: split_loop.simps)
  next
    case False
    then have lt: "i < num" using 1(2) by simp
    have two: "2 * amount \<le> (num - i + 1) * amount"
      using lt 1(3) by (intro mult_right_mono) auto
    then have go: "rest > amount" using 1(3,4) by linarith
    have step: "(num - (i + 1) + 1) * amount \<le> rest - amount"
      using 1(4) by (simp add: algebra_simps)
    have rep: "replicate (nat (num - i)) (split_output account amount) =
        split_output account amount # replicate (nat (num - (i + 1))) (split_output account amount)"
      using lt by (simp add: nat_diff_distrib' flip: replicate_Suc)
    show ?thesis
      unfolding split_loop.simps[of i] rep
      using lt go 1(1)[OF _ _ 1(3) step] by (simp add: algebra_simps)
  qed
qed

lemma genSplitOutputs_eq:
  assumes "0 < sint (su_num c)"
  shows "genSplitOutputs c tot =
    (let n = sint (su_num c); part = tot div n in
     if tot < n then Inl (Errorf ''illegal split utxo, split utxo <= BALANCE required'')
     else Inr (replicate (nat n - 1) (split_output (su_account c) part) @
               [split_output (su_account c) (tot - (n - 1) * part)]))"
proof (cases "tot < sint (su_num c)")
  case False
  let ?n = "sint (su_num c)"
  have pos: "0 < tot div ?n" using False assms by (simp add: pos_imp_zdiv_pos_iff)
  have "?n * (tot div ?n) \<le> tot"
    using assms by (metis mult_div_mod_eq le_add_same_cancel1 pos_mod_sign)
  then have le: "(?n - 1 + 1) * (tot div ?n) \<le> tot" by simp
  have "split_loop 1 ?n (su_account c) (tot div ?n) tot [] =
      ([] @ replicate (nat (?n - 1)) (split_output (su_account c) (tot div ?n)), tot - (?n - 1) * (tot div ?n))"
    by (rule split_loop_exact) (use assms pos le in auto)
  then show ?thesis
    using False assms by (simp add: genSplitOutputs_def euclid_div_def Let_def nat_diff_distrib)
qed (simp add: genSplitOutputs_def Let_def)

lemma out_amount_split [simp]: "out_amount (split_output a n) = \<bar>n\<bar>"
  by (simp add: out_amount_def split_output_def)

lemma genSplitOutputs_facts:
  assumes n: "0 < sint (su_num c)" and "genSplitOutputs c tot = Inr outs"
  shows "length outs = nat (sint (su_num c))" "sum_out outs = tot"
    "\<forall>out \<in> set outs. 0 < out_amount out \<and> txout_ToAddr out = su_account c"
proof -
  let ?n = "sint (su_num c)"
  let ?part = "tot div ?n"
  have ge: "?n \<le> tot" and outs: "outs = replicate (nat ?n - 1) (split_output (su_account c) ?part) @
      [split_output (su_account c) (tot - (?n - 1) * ?part)]"
    using assms(2) unfolding genSplitOutputs_eq[OF n] by (auto simp: Let_def split: if_splits)
  have pos: "0 < ?part" using ge n by (simp add: pos_imp_zdiv_pos_iff)
  have "?n * ?part \<le> tot" using n by (metis mult_div_mod_eq le_add_same_cancel1 pos_mod_sign)
  then have last: "?part \<le> tot - (?n - 1) * ?part" by (simp add: algebra_simps)
  show "length outs = nat ?n" using n by (simp add: outs)
  show "sum_out outs = tot"
    using n pos last by (simp add: outs sum_list_replicate of_nat_diff)
  show "\<forall>out \<in> set outs. 0 < out_amount out \<and> txout_ToAddr out = su_account c"
    using pos last by (auto simp: outs split_output_def out_amount_def)
qed

section \<open>Properties\<close>

text \<open>C29: The loop of the split computes the closed form: for a positive number of parts it ends, and it yields
  that many outputs, all of the quotient except the last, which takes the remainder too; it refuses
  exactly a balance smaller than the number of parts.\<close>

theorem genSplitOutputs_exact:
  assumes "0 < sint (su_num c)"
  shows "genSplitOutputs c tot =
    (let n = sint (su_num c); part = tot div n in
     if tot < n then Inl (Errorf ''illegal split utxo, split utxo <= BALANCE required'')
     else Inr (replicate (nat n - 1) (split_output (su_account c) part) @
               [split_output (su_account c) (part + tot mod n)]))"
proof -
  have "tot - (n - 1) * (tot div n) = tot div n + tot mod n" for n :: int
    using minus_mult_div_eq_mod[of tot n] by (simp add: algebra_simps)
  then show ?thesis unfolding genSplitOutputs_eq[OF assms] Let_def by simp
qed

lemma genSplitOutputs_exact_witness:
  "genSplitOutputs \<lparr>su_account = ''alice'', su_num = 3, su_accountPath = '''', su_isGenRawTx = False,
       su_multiAddrs = '''', su_output = ''''\<rparr> 100 =
     Inr [split_output ''alice'' 33, split_output ''alice'' 33, split_output ''alice'' 34]"
  by (subst genSplitOutputs_exact) (simp_all add: Let_def numeral_2_eq_2)

lemma SetUpAccount_keeps:
  "SetUpAccount E c i = Inr c' \<Longrightarrow>
     su_isGenRawTx c' = su_isGenRawTx c \<and> su_num c' = su_num c \<and> su_accountPath c' = su_accountPath c \<and>
     su_account c' = (if su_account c = '''' then i else su_account c)"
  by (auto simp: SetUpAccount_def Let_def split: if_splits prod.splits)

lemma sign_and_post_cases:
  assumes "sign_and_post E ct path tx w = (Inr (), w')"
  obtains signs auth txid r where
    "signTxForInitiator E ct tx w = Inr signs"
    "ct_signTx E ct (tx\<lparr>tx_InitiatorSigns := signs\<rparr>) path w = Inr auth"
    "MakeTxId (cd_Tx (e_lib E)) (e_MakeTransactionID E)
       (Some (tx\<lparr>tx_InitiatorSigns := signs, tx_AuthRequireSigns := auth\<rparr>)) = Inr txid"
    "postTx E ct (tx\<lparr>tx_InitiatorSigns := signs, tx_AuthRequireSigns := auth, tx_Txid := txid\<rparr>) w = (Inr r, w')"
  using assms that unfolding sign_and_post_def Let_def io_Inr_simps
  unfolding io_bind_Inr_iff io_simps prod.inject by blast

lemma splitUtxo_cases:
  assumes "splitUtxo E ro c w = (Inr (), w')"
  obtains c' initiator ct need ins delta outs tx w1 w2 w3 where
    "0 < sint (su_num c)" "readAddress E (ro_Keys ro) w = Inr initiator" "SetUpAccount E c initiator = Inr c'"
    "GenTxInputs E ct need w1 = (Inr (ins, delta), w2)" "genSplitOutputs c' need = Inr outs"
    "(if su_isGenRawTx c' then GenTxFile E ct tx else sign_and_post E ct (su_accountPath c') tx) w3 = (Inr (), w')"
    "tx_TxInputs tx = ins" "tx_TxOutputs tx = outs @ opt_list delta"
proof -
  have pos: "0 < sint (su_num c)" using assms by (auto simp: splitUtxo_def split: if_splits)
  show ?thesis
    using assms
    unfolding splitUtxo_def if_not_P[OF linorder_not_le[THEN iffD2, OF pos]] io_Inr_simps map_err_Inr Let_def
    apply (clarsimp simp: io_bind_Inr_iff io_Inr_simps simp del: io_bind_simps io_read_simps(2,3) new_Transaction_def
        split del: if_split)
    apply (rule that[OF pos], assumption, assumption, assumption, assumption, assumption)
    by (simp_all add: with_preExec_def)
qed

text \<open>C17: A split that is posted is balanced, and besides the change it has exactly the asked number of outputs,
  each positive and to the account that is split, together worth the balance.\<close>

theorem splitUtxo_posts_balanced:
  assumes "splitUtxo E ro c w = (Inr (), w')" "\<not> su_isGenRawTx c" "honest_node E"
  shows "\<exists>initiator account need ct tx outs delta logid w1 rep.
    readAddress E (ro_Keys ro) w = Inr initiator \<and>
    account = (if su_account c = '''' then initiator else su_account c) \<and>
    tx_TxOutputs tx = outs @ opt_list delta \<and> length outs = nat (sint (su_num c)) \<and> sum_out outs = need \<and>
    (\<forall>out \<in> set outs. 0 < out_amount out \<and> txout_ToAddr out = account) \<and>
    sum_in (tx_TxInputs tx) = sum_out (tx_TxOutputs tx) \<and>
    xc_PostTx (e_client E) (posted_status ct logid tx) w1 = (Inr rep, w') \<and> reply_ok rep"
proof (rule splitUtxo_cases[OF assms(1)])
  fix c' initiator ct need ins delta outs tx w1 w2 w3
  assume r: "0 < sint (su_num c)" "readAddress E (ro_Keys ro) w = Inr initiator" "SetUpAccount E c initiator = Inr c'"
    "GenTxInputs E ct need w1 = (Inr (ins, delta), w2)" "genSplitOutputs c' need = Inr outs"
    "(if su_isGenRawTx c' then GenTxFile E ct tx else sign_and_post E ct (su_accountPath c') tx) w3 = (Inr (), w')"
    "tx_TxInputs tx = ins" "tx_TxOutputs tx = outs @ opt_list delta"
  note keep = SetUpAccount_keeps[OF r(3)]
  have num: "0 < sint (su_num c')" using keep r(1) by simp
  note f = genSplitOutputs_facts[OF num r(5)]
  have "sign_and_post E ct (su_accountPath c') tx w3 = (Inr (), w')"
    using r(6) keep assms(2) by simp
  then obtain signs auth txid s where p:
    "postTx E ct (tx\<lparr>tx_InitiatorSigns := signs, tx_AuthRequireSigns := auth, tx_Txid := txid\<rparr>) w3 = (Inr s, w')"
    by (rule sign_and_post_cases)
  let ?tx = "tx\<lparr>tx_InitiatorSigns := signs, tx_AuthRequireSigns := auth, tx_Txid := txid\<rparr>"
  obtain logid w4 rep where q: "xc_PostTx (e_client E) (posted_status ct logid ?tx) w4 = (Inr rep, w')" "reply_ok rep"
    using p unfolding postTx_Inr by blast
  have bal: "sum_in (tx_TxInputs ?tx) = sum_out (tx_TxOutputs ?tx)"
    using GenTxInputs_covers[OF r(4) assms(3)] f(2) r(7,8) by simp
  have outs: "tx_TxOutputs ?tx = outs @ opt_list delta" using r(8) by simp
  have len: "length outs = nat (sint (su_num c))" using f(1) keep by simp
  have acc: "su_account c' = (if su_account c = '''' then initiator else su_account c)" using keep by blast
  show ?thesis
    by (intro exI conjI, rule r(2), rule acc, rule outs, rule len, rule f(2), rule f(3), rule bal, rule q(1), rule q(2))
qed

text \<open>The merge asks the node for all it can select; an honest node states the sum of what it selected.\<close>

definition honest_by_size :: "('w, 'x, 'sk) Env \<Rightarrow> bool" where
  "honest_by_size E \<longleftrightarrow>
     (\<forall>req w res w'. xc_SelectUTXOBySize (e_client E) req w = (Inr res, w') \<longrightarrow>
        selection_ok res = Inr () \<longrightarrow> honest_selection res 0)"

lemma GenTxInputsWithMergeUTXO_covers:
  assumes "GenTxInputsWithMergeUTXO E ct w = (Inr (ins, out), w')" "honest_by_size E"
  shows "sum_in ins = out_amount out" "\<exists>addr. genInitiator E ct w = Inr addr \<and> txout_ToAddr out = addr"
proof -
  obtain fr req res w1 tot where r: "genInitiator E ct w = Inr fr"
      "xc_SelectUTXOBySize (e_client E) req w = (Inr res, w1)" "selection_ok res = Inr ()"
      "big_parse (uout_TotalSelected res) = Some tot" "ins = map utxo_input (uout_UtxoList res)"
      "out = \<lparr>txout_Amount = big_bytes tot, txout_ToAddr = fr, txout_FrozenHeight = 0\<rparr>"
    using assms(1) unfolding GenTxInputsWithMergeUTXO_def Let_def io_Inr_simps
    by (auto simp: io_bind_Inr_iff io_map_err_Inr res_bind_Inr_iff split: sum.splits option.splits
        simp del: new_UtxoInput_def)
  have "honest_selection res 0" using assms(2) r(2,3) unfolding honest_by_size_def by blast
  with r show "sum_in ins = out_amount out"
    by (auto simp: honest_selection_def out_amount_def)
  show "\<exists>addr. genInitiator E ct w = Inr addr \<and> txout_ToAddr out = addr" using r by simp
qed

lemma mergeUtxo_cases:
  assumes "mergeUtxo E ro c w = (Inr (), w')"
  obtains account ins out tx w1 w2 w3 where
    "GenTxInputsWithMergeUTXO E (merge_CommTrans E ro account) w1 = (Inr (ins, out), w2)" "ins \<noteq> []"
    "sign_and_post E (merge_CommTrans E ro account) (mu_accountPath c) tx w3 = (Inr (), w')"
    "tx_TxInputs tx = ins" "tx_TxOutputs tx = [out]"
    "mu_account c \<noteq> '''' \<longrightarrow> account = mu_account c"
proof -
  have g: "\<not> (lib_IsAccount (e_lib E) (mu_account c) \<and> mu_accountPath c = '''')"
    using assms by (auto simp: mergeUtxo_def)
  show ?thesis
    using assms unfolding mergeUtxo_def if_not_P[OF g] io_Inr_simps map_err_Inr Let_def
    apply (clarsimp simp: io_bind_Inr_iff io_Inr_simps simp del: io_bind_simps io_read_simps(2,3) new_Transaction_def
        split del: if_split split: if_split_asm)
    by (rule that, assumption, assumption, assumption, simp add: with_preExec_def, simp add: with_preExec_def, simp)+
qed

text \<open>A merge that succeeds has posted one transaction that spends everything the node selected, at least one
  output, and pays all of it back in a single output.\<close>

theorem mergeUtxo_one_output:
  assumes "mergeUtxo E ro c w = (Inr (), w')" "honest_by_size E"
  shows "\<exists>ct tx out logid w1 rep.
    tx_TxInputs tx \<noteq> [] \<and> tx_TxOutputs tx = [out] \<and> sum_in (tx_TxInputs tx) = out_amount out \<and>
    (mu_account c \<noteq> '''' \<longrightarrow> txout_ToAddr out = mu_account c) \<and>
    xc_PostTx (e_client E) (posted_status ct logid tx) w1 = (Inr rep, w') \<and> reply_ok rep"
proof (rule mergeUtxo_cases[OF assms(1)])
  fix account ins out tx w1 w2 w3
  assume r: "GenTxInputsWithMergeUTXO E (merge_CommTrans E ro account) w1 = (Inr (ins, out), w2)" "ins \<noteq> []"
    "sign_and_post E (merge_CommTrans E ro account) (mu_accountPath c) tx w3 = (Inr (), w')"
    "tx_TxInputs tx = ins" "tx_TxOutputs tx = [out]" "mu_account c \<noteq> '''' \<longrightarrow> account = mu_account c"
  obtain signs auth txid s where p: "postTx E (merge_CommTrans E ro account)
      (tx\<lparr>tx_InitiatorSigns := signs, tx_AuthRequireSigns := auth, tx_Txid := txid\<rparr>) w3 = (Inr s, w')"
    by (rule sign_and_post_cases[OF r(3)])
  let ?tx = "tx\<lparr>tx_InitiatorSigns := signs, tx_AuthRequireSigns := auth, tx_Txid := txid\<rparr>"
  obtain logid w4 rep where q: "xc_PostTx (e_client E)
      (posted_status (merge_CommTrans E ro account) logid ?tx) w4 = (Inr rep, w')" "reply_ok rep"
    using p unfolding postTx_Inr by blast
  note cov = GenTxInputsWithMergeUTXO_covers[OF r(1) assms(2)]
  have a: "mu_account c \<noteq> '''' \<longrightarrow> txout_ToAddr out = mu_account c"
    using cov(2) r(6) by (auto simp: genInitiator_def merge_CommTrans_def)
  have t: "tx_TxInputs ?tx \<noteq> []" "tx_TxOutputs ?tx = [out]" "sum_in (tx_TxInputs ?tx) = out_amount out"
    using r(2,4,5) cov(1) by simp_all
  show ?thesis
    by (intro exI conjI, rule t(1), rule t(2), rule t(3), rule a, rule q(1), rule q(2))
qed

section \<open>Instances\<close>

definition ex_ro :: RootOptions where
  "ex_ro = NewRootOptions\<lparr>ro_Keys := ''keys''\<rparr>"

lemma ex_ro_simps [simp]: "ro_Keys ex_ro = ''keys''" "ro_Name ex_ro = ''xuper''"
  by (simp_all add: ex_ro_def NewRootOptions_def setDefaultConf_def zero_RootOptions_def)

lemma ex_GetBalance [simp]:
  "xc_GetBalance ex_client req w =
     (Inr (req\<lparr>adst_Bcs := map (\<lambda>b. b\<lparr>tokd_Balance := ''100''\<rparr>) (adst_Bcs req)\<rparr>), w)"
  by (simp add: ex_client_def)

lemma ex_signTx [simp]:
  "ct_Keys ct = ''keys'' \<Longrightarrow>
   ct_signTx ex_env ct tx '''' w = Inr [\<lparr>sig_PublicKey = ''alice'', sig_Sign = ''signed''\<rparr>]"
  by (simp add: ct_signTx_def)

lemma ex_sign_post [simp]: "ct_Keys ct = ''keys'' \<Longrightarrow> fst (sign_and_post ex_env ct '''' tx w) = Inr ()"
  by (simp add: sign_and_post_def Let_def io_bind_def io_read_def postTx_def io_draw_def ex_ok_def)

definition ex_split :: SplitUtxoCommand where
  "ex_split = \<lparr>su_account = '''', su_num = 3, su_accountPath = '''', su_isGenRawTx = False,
       su_multiAddrs = '''', su_output = ''''\<rparr>"

lemma ex_split_runs: "fst (splitUtxo ex_env ex_ro ex_split []) = Inr ()"
proof -
  have g: "genSplitOutputs (ex_split\<lparr>su_account := ''alice''\<rparr>) 100 = Inr [split_output ''alice'' 33,
      split_output ''alice'' 33, split_output ''alice'' 34]"
    by (subst genSplitOutputs_eq) (simp_all add: ex_split_def Let_def numeral_2_eq_2)
  have s: "SetUpAccount ex_env ex_split ''alice'' = Inr (ex_split\<lparr>su_account := ''alice''\<rparr>)"
    by (simp add: SetUpAccount_def ex_split_def Let_def)
  have f: "sint (su_num ex_split) = 3" "su_isGenRawTx ex_split = False" "su_accountPath ex_split = ''''"
      "su_multiAddrs ex_split = ''''" "su_output ex_split = ''''"
    by (simp_all add: ex_split_def)
  show ?thesis
    by (simp add: splitUtxo_def s g f baseCommonTrans_def getBalanceHelper_def io_bind_def io_draw_def io_read_def
        GenTxInputs_def genInitiator_def io_map_err_def zero_CommTrans_def genAuthRequirement_def Let_def)
qed

lemma splitUtxo_posts_balanced_witness:
  "\<exists>w' (tx :: Transaction) outs delta. splitUtxo ex_env ex_ro ex_split [] = (Inr (), w') \<and>
     tx_TxOutputs tx = outs @ opt_list delta \<and> length outs = 3 \<and>
     sum_in (tx_TxInputs tx) = sum_out (tx_TxOutputs tx)"
proof -
  obtain w' where w: "splitUtxo ex_env ex_ro ex_split [] = (Inr (), w')" using ex_split_runs by (metis prod.collapse)
  have "\<not> su_isGenRawTx ex_split" "nat (sint (su_num ex_split)) = 3" by (simp_all add: ex_split_def)
  from splitUtxo_posts_balanced[OF w this(1) honest_ex_env] this(2) w show ?thesis by metis
qed

definition ex_merge :: MergeUtxoCommand where
  "ex_merge = \<lparr>mu_account = ''alice'', mu_accountPath = ''''\<rparr>"

lemma ex_merge_runs: "fst (mergeUtxo ex_env ex_ro ex_merge []) = Inr ()"
proof -
  have a: "\<not> lib_IsAccount ex_lib ''alice''" "mu_account ex_merge = ''alice''" "mu_accountPath ex_merge = ''''"
    by (simp_all add: ex_lib_def ex_merge_def)
  have l: "signLockUtxo ex_env (merge_CommTrans ex_env ex_ro ''alice'') u w =
      Inr \<lparr>sig_PublicKey = ''alice'', sig_Sign = LockedUtxo_hashKey (NewLockedUtxoAll (uin_Bcname u) (uin_Address u))\<rparr>" for u w
    by (simp add: signLockUtxo_def merge_CommTrans_def newAK_def KeyPair_SignUtxo_def ex_signer_def LockedUtxo_Hash_def ex_lib_def)
  have i: "genInitiator ex_env (merge_CommTrans ex_env ex_ro ''alice'') w = Inr ''alice''" for w
    by (simp add: genInitiator_def merge_CommTrans_def)
  show ?thesis
    by (simp add: mergeUtxo_def a l i io_bind_def io_draw_def io_read_def GenTxInputsWithMergeUTXO_def io_map_err_def
        genAuthRequirement_def Let_def)
      (simp add: merge_CommTrans_def)
qed

lemma ex_honest_by_size: "honest_by_size ex_env"
  by (simp add: honest_by_size_def honest_selection_def)

lemma mergeUtxo_one_output_witness:
  "\<exists>w' (tx :: Transaction) out. mergeUtxo ex_env ex_ro ex_merge [] = (Inr (), w') \<and> tx_TxOutputs tx = [out] \<and>
     sum_in (tx_TxInputs tx) = out_amount out"
proof -
  obtain w' where w: "mergeUtxo ex_env ex_ro ex_merge [] = (Inr (), w')" using ex_merge_runs by (metis prod.collapse)
  from mergeUtxo_one_output[OF w ex_honest_by_size] w show ?thesis by metis
qed

end
