(* ===== verification/LineScanner.thy ===== *)
theory LineScanner
  imports CommTrans
begin

text \<open>
  \<open>bufio.Scanner\<close> over a file, as \<open>readPublicKeysFromFile\<close> (\<open>cmd/client/cmd/multisig_gen.go\<close>)
  uses it: the slices \<open>scanner.Bytes()\<close> returns are kept, and they are slices of the buffer
  the scanner goes on reading into.

  A slice is a buffer number, an offset and a length, and its content is what stands there
  in the end.  The scanner is the one of the Go library: lines are cut from the data that is
  there, otherwise the data is moved to the front of the buffer when more than half of it is
  used up or it is full, a full buffer is doubled up to the largest token, and the file fills
  what is free.
\<close>

section \<open>The scanner\<close>

definition startBufSize :: nat where "startBufSize = 4096"
definition maxTokenSize :: nat where "maxTokenSize = 65536"

abbreviation nl :: char where "nl \<equiv> CHR 0x0A"

record scanner =
  ss_old :: "bytes list"
  ss_buf :: bytes
  ss_start :: nat
  ss_end :: nat
  ss_rest :: bytes
  ss_eof :: bool

definition ss_data :: "scanner \<Rightarrow> bytes" where
  "ss_data s = take (ss_end s - ss_start s) (drop (ss_start s) (ss_buf s))"

text \<open>Move the data to the front.\<close>

definition ss_shift :: "scanner \<Rightarrow> scanner" where
  "ss_shift s =
     (if ss_start s > 0 \<and> (ss_end s = length (ss_buf s) \<or> ss_start s > length (ss_buf s) div 2)
      then s\<lparr>ss_buf := ss_data s @ drop (length (ss_data s)) (ss_buf s), ss_end := ss_end s - ss_start s, ss_start := 0\<rparr>
      else s)"

text \<open>A larger buffer; the old one stays with the slices taken from it.\<close>

definition ss_grow :: "scanner \<Rightarrow> gerr + scanner" where
  "ss_grow s =
     (if ss_end s \<noteq> length (ss_buf s) then Inr s
      else if length (ss_buf s) \<ge> maxTokenSize then Inl (LibErr ''bufio.Scanner: token too long'')
      else
        (let newSize = min (if length (ss_buf s) = 0 then startBufSize else length (ss_buf s) * 2) maxTokenSize in
         Inr (s\<lparr>ss_old := ss_old s @ [ss_buf s],
                ss_buf := ss_data s @ replicate (newSize - length (ss_data s)) (CHR 0x00),
                ss_end := ss_end s - ss_start s, ss_start := 0\<rparr>)))"

definition ss_fill :: "scanner \<Rightarrow> scanner" where
  "ss_fill s =
     (let n = min (length (ss_buf s) - ss_end s) (length (ss_rest s)) in
      s\<lparr>ss_buf := take (ss_end s) (ss_buf s) @ take n (ss_rest s) @ drop (ss_end s + n) (ss_buf s),
        ss_end := ss_end s + n, ss_rest := drop n (ss_rest s), ss_eof := (n = 0)\<rparr>)"

text \<open>A line of length \<open>n\<close> at the start of the data, without its carriage return.\<close>

definition ss_token :: "scanner \<Rightarrow> nat \<Rightarrow> nat \<times> nat \<times> nat" where
  "ss_token s n = (length (ss_old s), ss_start s, length (drop_cr (take n (ss_data s))))"

definition scan_left :: "scanner \<Rightarrow> nat" where
  "scan_left s = (ss_end s - ss_start s) + 2 * length (ss_rest s) + (if ss_eof s then 0 else 1)"

lemma data_length: "length (ss_data s) \<le> ss_end s - ss_start s"
  by (simp add: ss_data_def)

lemma shift_fields:
  "ss_end (ss_shift s) - ss_start (ss_shift s) = ss_end s - ss_start s" "ss_rest (ss_shift s) = ss_rest s"
  "ss_eof (ss_shift s) = ss_eof s"
  by (simp_all add: ss_shift_def)

lemma grow_fields:
  assumes "ss_grow s = Inr s'"
  shows "ss_end s' - ss_start s' = ss_end s - ss_start s" "ss_rest s' = ss_rest s" "ss_eof s' = ss_eof s"
  using assms by (simp_all add: ss_grow_def Let_def del: replicate.simps split: if_splits) auto

lemma grow_left:
  "ss_grow (ss_shift s) = Inr s' \<Longrightarrow> ss_end s' - ss_start s' = ss_end s - ss_start s \<and> ss_rest s' = ss_rest s \<and>
     ss_eof s' = ss_eof s"
  by (simp add: grow_fields shift_fields)

function scan_all :: "scanner \<Rightarrow> (nat \<times> nat \<times> nat) list \<Rightarrow> gerr + scanner \<times> (nat \<times> nat \<times> nat) list" where
  "scan_all s toks =
     (let dat = ss_data s; i = length (takeWhile (\<lambda>c. c \<noteq> nl) dat) in
      if i < length dat then scan_all (s\<lparr>ss_start := ss_start s + i + 1\<rparr>) (toks @ [ss_token s i])
      else if ss_eof s then
        (if dat = [] then Inr (s, toks)
         else scan_all (s\<lparr>ss_start := ss_end s\<rparr>) (toks @ [ss_token s (length dat)]))
      else
        (case ss_grow (ss_shift s) of Inl err \<Rightarrow> Inl err | Inr s \<Rightarrow> scan_all (ss_fill s) toks))"
  by pat_completeness auto
termination
proof (relation "measure (scan_left \<circ> fst)")
  fix s :: scanner and toks :: "(nat \<times> nat \<times> nat) list" and dat i
  assume d: "dat = ss_data s"
  show "i = length (takeWhile (\<lambda>c. c \<noteq> nl) dat) \<Longrightarrow> i < length dat \<Longrightarrow>
      ((s\<lparr>ss_start := ss_start s + i + 1\<rparr>, toks @ [ss_token s i]), s, toks) \<in> measure (scan_left \<circ> fst)"
    using data_length[of s] d by (simp add: scan_left_def)
  show "ss_eof s \<Longrightarrow> dat \<noteq> [] \<Longrightarrow>
      ((s\<lparr>ss_start := ss_end s\<rparr>, toks @ [ss_token s (length dat)]), s, toks) \<in> measure (scan_left \<circ> fst)"
    using data_length[of s] d by (cases "ss_data s") (auto simp: scan_left_def)
next
  fix s s' :: scanner and toks :: "(nat \<times> nat \<times> nat) list"
  assume "\<not> ss_eof s" "ss_grow (ss_shift s) = Inr s'"
  with grow_left[OF this(2)]
  show "((ss_fill s', toks), s, toks) \<in> measure (scan_left \<circ> fst)"
    by (cases "ss_rest s") (auto simp: scan_left_def ss_fill_def Let_def min_def)
qed simp

declare scan_all.simps [simp del]

lemma scan_line:
  assumes "length (takeWhile (\<lambda>c. c \<noteq> nl) (ss_data s)) < length (ss_data s)"
  shows "scan_all s toks =
    scan_all (s\<lparr>ss_start := ss_start s + length (takeWhile (\<lambda>c. c \<noteq> nl) (ss_data s)) + 1\<rparr>)
      (toks @ [ss_token s (length (takeWhile (\<lambda>c. c \<noteq> nl) (ss_data s)))])"
  using assms by (subst scan_all.simps) (simp add: Let_def)

lemma scan_more:
  assumes "\<not> length (takeWhile (\<lambda>c. c \<noteq> nl) (ss_data s)) < length (ss_data s)"
  shows "scan_all s toks =
    (if ss_eof s then
       if ss_data s = [] then Inr (s, toks)
       else scan_all (s\<lparr>ss_start := ss_end s\<rparr>) (toks @ [ss_token s (length (ss_data s))])
     else case ss_grow (ss_shift s) of Inl err \<Rightarrow> Inl err | Inr s \<Rightarrow> scan_all (ss_fill s) toks)"
  using assms by (subst scan_all.simps) (simp add: Let_def)

text \<open>The scanner of a file, and what the kept slices hold when it is done.\<close>

definition new_scanner :: "bytes \<Rightarrow> scanner" where
  "new_scanner file = \<lparr>ss_old = [], ss_buf = [], ss_start = 0, ss_end = 0, ss_rest = file, ss_eof = False\<rparr>"

definition slice :: "scanner \<Rightarrow> nat \<times> nat \<times> nat \<Rightarrow> bytes" where
  "slice s t = (case t of (b, st, n) \<Rightarrow> take n (drop st ((ss_old s @ [ss_buf s]) ! b)))"

definition scan_kept :: "bytes \<Rightarrow> gerr + bytes list" where
  "scan_kept file = res_bind (scan_all (new_scanner file) []) (\<lambda>(s, toks). Inr (map (slice s) toks))"

section \<open>Small files\<close>

text \<open>Without the buffer: the lines of the data.\<close>

lemma raw_lines_nil [simp]: "raw_lines [] = []"
  by (simp add: raw_lines_def)

lemma raw_lines_line: "nl \<notin> set l \<Longrightarrow> raw_lines (l @ nl # ls) = l # raw_lines ls"
  by (simp add: raw_lines_def split_char_append Let_def)

lemma raw_lines_last: "nl \<notin> set l \<Longrightarrow> l \<noteq> [] \<Longrightarrow> raw_lines l = [l]"
  by (simp add: raw_lines_def split_char_no_sep)

text \<open>A scanner that has the whole of a small file in its first buffer.\<close>

definition holding :: "scanner \<Rightarrow> bytes \<Rightarrow> bool" where
  "holding s file \<longleftrightarrow>
     ss_rest s = [] \<and> ss_end s = length file \<and> take (length file) (ss_buf s) = file \<and>
     2 * length file \<le> length (ss_buf s) \<and> length (ss_buf s) > 0 \<and> ss_start s \<le> length file"

definition kept_of :: "scanner \<Rightarrow> scanner \<Rightarrow> bool" where
  "kept_of s s' \<longleftrightarrow> ss_old s' = ss_old s \<and> ss_buf s' = ss_buf s"

lemma holding_data: "holding s file \<Longrightarrow> ss_data s = drop (ss_start s) file"
  unfolding holding_def ss_data_def by (metis drop_take)

lemma drop_cr_prefix: "drop_cr xs = take (length (drop_cr xs)) xs"
  by (cases xs rule: rev_cases) (auto simp: drop_cr_def)

lemma slice_line:
  assumes "holding s file" "kept_of s s'" "n \<le> length (ss_data s)"
  shows "slice s' (ss_token s n) = drop_cr (take n (ss_data s))"
proof -
  let ?l = "drop_cr (take n (ss_data s))"
  have "?l = take (length ?l) (take n (ss_data s))" by (rule drop_cr_prefix)
  moreover have "length ?l \<le> n" "length ?l \<le> length (ss_data s)"
    using assms(3) by (auto simp: drop_cr_def)
  moreover have "length ?l \<le> ss_end s - ss_start s"
    using calculation(3) data_length by (rule le_trans)
  ultimately have "?l = take (length ?l) (drop (ss_start s) (ss_buf s))"
    by (simp add: ss_data_def min_def split: if_splits)
  then show ?thesis using assms(2) by (simp add: slice_def ss_token_def kept_of_def nth_append)
qed

text \<open>The loop over the data of a small file.\<close>

lemma scan_held:
  assumes "holding s file"
  shows "\<exists>s' new. scan_all s toks = Inr (s', toks @ new) \<and> kept_of s s' \<and>
    map (slice s') new = map drop_cr (raw_lines (drop (ss_start s) file))"
  using assms
proof (induction "scan_left s" arbitrary: s toks rule: less_induct)
  case less
  let ?d = "drop (ss_start s) file"
  let ?l = "takeWhile (\<lambda>c. c \<noteq> nl) ?d"
  have d: "ss_data s = ?d" by (rule holding_data[OF less.prems])
  have fin: "ss_start s \<le> length file" "ss_end s = length file" using less.prems by (auto simp: holding_def)
  have nonl: "nl \<notin> set ?l" by (auto dest: set_takeWhileD)
  show ?case
  proof (cases "length ?l < length ?d")
    case True
    let ?s = "s\<lparr>ss_start := ss_start s + length ?l + 1\<rparr>"
    have h: "holding ?s file" using less.prems True by (auto simp: holding_def)
    have "scan_left ?s < scan_left s" using True fin by (simp add: scan_left_def)
    from less.hyps[OF this h, of "toks @ [ss_token s (length ?l)]"] obtain s' new where
      r: "scan_all ?s (toks @ [ss_token s (length ?l)]) = Inr (s', (toks @ [ss_token s (length ?l)]) @ new)"
        "kept_of ?s s'" "map (slice s') new = map drop_cr (raw_lines (drop (ss_start ?s) file))" by blast
    have k: "kept_of s s'" using r(2) by (simp add: kept_of_def)
    have w: "take (length ?l) ?d = ?l" by (metis takeWhile_eq_take length_takeWhile_le take_all takeWhile_eq_take)
    have "?d ! length ?l = nl" using True nth_length_takeWhile by blast
    then have "?d = ?l @ nl # drop (length ?l + 1) ?d"
      using True w by (metis Cons_nth_drop_Suc Suc_eq_plus1 append_take_drop_id)
    then have "raw_lines ?d = ?l # raw_lines (drop (ss_start ?s) file)"
      using raw_lines_line[OF nonl, of "drop (length ?l + 1) ?d"] by (simp add: add.commute add.left_commute)
    moreover have "slice s' (ss_token s (length ?l)) = drop_cr ?l"
      using slice_line[OF less.prems k, of "length ?l"] True d w by simp
    moreover have "scan_all s toks = scan_all ?s (toks @ [ss_token s (length ?l)])"
      by (rule scan_line[of s toks, unfolded d, OF True])
    ultimately show ?thesis using r k by auto
  next
    case False
    then have all: "?l = ?d" by (metis length_takeWhile_le le_antisym not_less takeWhile_eq_take take_all)
    show ?thesis
    proof (cases "ss_eof s")
      case eof: True
      show ?thesis
      proof (cases "?d = []")
        case True
        then have "scan_all s toks = Inr (s, toks)" using scan_more[of s toks] d eof by simp
        then show ?thesis using True by (simp add: kept_of_def)
      next
        case ne: False
        let ?s = "s\<lparr>ss_start := ss_end s\<rparr>"
        have h: "holding ?s file" using less.prems by (auto simp: holding_def)
        have "scan_left ?s < scan_left s" using ne fin by (simp add: scan_left_def)
        from less.hyps[OF this h, of "toks @ [ss_token s (length ?d)]"] obtain s' new where
          r: "scan_all ?s (toks @ [ss_token s (length ?d)]) = Inr (s', (toks @ [ss_token s (length ?d)]) @ new)"
            "kept_of ?s s'" "map (slice s') new = map drop_cr (raw_lines (drop (ss_start ?s) file))" by blast
        have k: "kept_of s s'" using r(2) by (simp add: kept_of_def)
        have "raw_lines ?d = [?d]" using raw_lines_last nonl ne all by simp
        moreover have "slice s' (ss_token s (length ?d)) = drop_cr ?d"
          using slice_line[OF less.prems k, of "length ?d"] d by simp
        moreover have "scan_all s toks = scan_all ?s (toks @ [ss_token s (length ?d)])"
          using scan_more[of s toks, unfolded d, OF False] ne eof by simp
        ultimately show ?thesis using r k fin by auto
      qed
    next
      case neof: False
      have f: "ss_start s \<le> ss_end s" "2 * ss_end s \<le> length (ss_buf s)" "0 < length (ss_buf s)" "ss_rest s = []"
        using less.prems by (simp_all add: holding_def)
      then have sh: "ss_shift s = s" by (auto simp: ss_shift_def)
      have gr: "ss_grow s = Inr s" using f by (auto simp: ss_grow_def)
      have fl: "ss_fill s = s\<lparr>ss_eof := True\<rparr>" using f by (simp add: ss_fill_def)
      have h: "holding (s\<lparr>ss_eof := True\<rparr>) file" using less.prems by (auto simp: holding_def)
      have "scan_left (s\<lparr>ss_eof := True\<rparr>) < scan_left s" using neof by (simp add: scan_left_def)
      moreover have "scan_all s toks = scan_all (s\<lparr>ss_eof := True\<rparr>) toks"
        using scan_more[of s toks] False neof d sh gr fl by simp
      ultimately show ?thesis using less.hyps[OF _ h, of toks] by (simp add: kept_of_def)
    qed
  qed
qed

text \<open>The first read takes the whole of a small file.\<close>

definition first_read :: "bytes \<Rightarrow> scanner" where
  "first_read file =
     \<lparr>ss_old = [[]], ss_buf = file @ replicate (startBufSize - length file) (CHR 0x00), ss_start = 0,
      ss_end = length file, ss_rest = [], ss_eof = (file = [])\<rparr>"

lemma scan_first:
  assumes "length file \<le> startBufSize"
  shows "scan_all (new_scanner file) [] = scan_all (first_read file) []"
proof -
  have "ss_fill (new_scanner file\<lparr>ss_old := [[]], ss_buf := replicate startBufSize (CHR 0x00)\<rparr>) = first_read file"
    using assms by (simp add: ss_fill_def new_scanner_def first_read_def Let_def)
  moreover have "ss_grow (ss_shift (new_scanner file)) =
      Inr (new_scanner file\<lparr>ss_old := [[]], ss_buf := replicate startBufSize (CHR 0x00)\<rparr>)"
    by (simp add: ss_grow_def ss_shift_def new_scanner_def startBufSize_def maxTokenSize_def ss_data_def)
  ultimately show ?thesis
    using scan_more[of "new_scanner file" "[]"] by (simp add: new_scanner_def ss_data_def)
qed

text \<open>A file of at most half the first buffer is read as its lines.\<close>

lemma scan_kept_small:
  assumes "2 * length file \<le> startBufSize"
  shows "scan_kept file = Inr (map drop_cr (raw_lines file))"
proof -
  have "holding (first_read file) file"
    using assms by (auto simp: holding_def first_read_def startBufSize_def)
  from scan_held[OF this, of "[]"] obtain s' new where
    "scan_all (first_read file) [] = Inr (s', new)" "map (slice s') new = map drop_cr (raw_lines file)"
    by (auto simp: first_read_def)
  then show ?thesis using scan_first assms by (simp add: scan_kept_def)
qed

section \<open>A line that overwrites another\<close>

text \<open>A first line that fills more than half of the buffer, and a second one without a line end: when the scanner
  asks for the rest of it, it moves what it has of the second line over the first.\<close>

lemma scan_kept_clobbered:
  assumes "startBufSize div 2 \<le> length l1" "length l1 + 1 + length l2 < startBufSize" "l2 \<noteq> []"
    "nl \<notin> set l1" "nl \<notin> set l2"
  shows "scan_kept (l1 @ nl # l2) =
    Inr [take (length (drop_cr l1)) (l2 @ drop (length l2) l1), drop_cr l2]"
proof -
  let ?file = "l1 @ nl # l2"
  let ?s0 = "first_read ?file"
  let ?n1 = "length l1" and ?n2 = "length l2"
  let ?pad = "replicate (startBufSize - length ?file) (CHR 0x00) :: bytes"
  let ?s1 = "?s0\<lparr>ss_start := ?n1 + 1\<rparr>"
  let ?buf = "l2 @ drop ?n2 (l1 @ nl # l2 @ ?pad)"
  let ?s2 = "?s0\<lparr>ss_buf := ?buf, ss_end := ?n2, ss_eof := True\<rparr>"
  have small: "length ?file \<le> startBufSize" using assms(2) by simp
  have tw: "takeWhile (\<lambda>c. c \<noteq> nl) l2 = l2" "takeWhile (\<lambda>c. c \<noteq> nl) ?file = l1"
    using assms(4,5) by (auto simp: takeWhile_eq_all_conv takeWhile_append)
  have d0: "ss_data ?s0 = ?file" by (simp add: ss_data_def first_read_def)
  have d1: "ss_data ?s1 = l2" by (simp add: ss_data_def first_read_def)
  have d2: "ss_data ?s2 = l2" by (simp add: ss_data_def first_read_def)
  have t1: "ss_token ?s0 ?n1 = (1, 0, length (drop_cr l1))"
    unfolding ss_token_def d0 by (simp add: first_read_def)
  have t2: "ss_token ?s2 ?n2 = (1, 0, length (drop_cr l2))"
    unfolding ss_token_def d2 by (simp add: first_read_def)
  have "scan_all ?s0 [] = scan_all ?s1 [ss_token ?s0 ?n1]"
    using scan_line[of ?s0 "[]", unfolded d0 tw] by (simp add: first_read_def)
  also have "\<dots> = scan_all (ss_fill (?s0\<lparr>ss_buf := ?buf, ss_end := ?n2\<rparr>)) [ss_token ?s0 ?n1]"
  proof -
    have "ss_shift ?s1 = ?s0\<lparr>ss_buf := ?buf, ss_end := ?n2\<rparr>"
      unfolding ss_shift_def d1 using assms(1,2) by (simp add: first_read_def)
    moreover have "ss_grow (?s0\<lparr>ss_buf := ?buf, ss_end := ?n2\<rparr>) = Inr (?s0\<lparr>ss_buf := ?buf, ss_end := ?n2\<rparr>)"
      using assms(2) by (simp add: ss_grow_def first_read_def)
    ultimately show ?thesis
      using scan_more[of ?s1 "[ss_token ?s0 ?n1]", unfolded d1 tw] by (simp add: first_read_def)
  qed
  also have "ss_fill (?s0\<lparr>ss_buf := ?buf, ss_end := ?n2\<rparr>) = ?s2"
    by (simp add: ss_fill_def first_read_def Let_def)
  also have "scan_all ?s2 [ss_token ?s0 ?n1] =
      scan_all (?s2\<lparr>ss_start := ?n2\<rparr>) [ss_token ?s0 ?n1, ss_token ?s2 ?n2]"
    using scan_more[of ?s2 "[ss_token ?s0 ?n1]", unfolded d2 tw] assms(3) by simp
  also have "\<dots> = Inr (?s2\<lparr>ss_start := ?n2\<rparr>, [ss_token ?s0 ?n1, ss_token ?s2 ?n2])"
    using scan_more[of "?s2\<lparr>ss_start := ?n2\<rparr>"] by (simp add: ss_data_def)
  finally have run: "scan_all (new_scanner ?file) [] = \<dots>" using scan_first[OF small] by simp
  have le: "length (drop_cr l1) \<le> ?n1" by (simp add: drop_cr_def)
  have c1: "slice (?s2\<lparr>ss_start := ?n2\<rparr>) (1, 0, length (drop_cr l1)) = take (length (drop_cr l1)) (l2 @ drop ?n2 l1)"
    using le by (auto simp: slice_def first_read_def)
  have c2: "slice (?s2\<lparr>ss_start := ?n2\<rparr>) (1, 0, length (drop_cr l2)) = drop_cr l2"
  proof -
    have "length (drop_cr l2) \<le> ?n2" by (simp add: drop_cr_def)
    then show ?thesis using drop_cr_prefix[of l2] by (simp add: slice_def first_read_def)
  qed
  show ?thesis unfolding scan_kept_def run t1 t2 by (simp only: res_bind_simps prod.case list.map c1 c2)
qed

end
