(* ===== verification/Views.thy ===== *)
theory Views
  imports PbTypes
begin

text \<open>
  \<open>cmd/client/cmd/types.go\<close>: the readable forms of transactions, blocks, the status of a node
  and the blocks of a subscription, as the commands print them and as \<open>multisig check\<close> shows them
  to a signer.  The types of the file have the names of the messages; here they end in
  \<open>_view\<close>.  \<open>BigInt\<close> is an integer, \<open>HexID\<close> a list of bytes with a JSON form of its own.
\<close>

section \<open>Numbers and ids in JSON\<close>

type_synonym HexID = bytes
type_synonym BigInt = int

text \<open>\<open>json.Marshal\<close> of text without special characters.\<close>

definition json_plain :: "string \<Rightarrow> bytes" where
  "json_plain s = CHR 0x22 # s @ [CHR 0x22]"

definition HexID_MarshalJSON :: "HexID \<Rightarrow> bytes" where
  "HexID_MarshalJSON h = json_plain (hex_encode h)"

definition FromAmountBytes :: "bytes \<Rightarrow> BigInt" where
  "FromAmountBytes buf = big_set_bytes buf"

definition BigInt_MarshalJSON :: "BigInt \<Rightarrow> bytes" where
  "BigInt_MarshalJSON b = json_plain (big_show b)"

section \<open>Transactions\<close>

record TxInput_view =
  vin_RefTxid :: HexID
  vin_RefOffset :: int32
  vin_FromAddr :: string
  vin_Amount :: BigInt

record TxOutput_view =
  vout_Amount :: BigInt
  vout_ToAddr :: string

record TxInputExt_view =
  vine_Bucket :: string
  vine_Key :: string
  vine_RefTxid :: HexID
  vine_RefOffset :: int32

record TxOutputExt_view =
  voute_Bucket :: string
  voute_Key :: string
  voute_Value :: string

record ResourceLimit_view =
  vrl_Type :: string
  vrl_Limit :: int64

record InvokeRequest_view =
  vreq_ModuleName :: string
  vreq_ContractName :: string
  vreq_MethodName :: string
  vreq_Args :: "string \<rightharpoonup> string"
  vreq_ResouceLimits :: "ResourceLimit_view list"

record SignatureInfo_view =
  vsig_PublicKey :: string
  vsig_Sign :: HexID

record ModifyBlock_view =
  vmb_Marked :: bool
  vmb_EffectiveHeight :: int64
  vmb_EffectiveTxid :: string

record Transaction_view =
  vtx_Txid :: HexID
  vtx_Blockid :: HexID
  vtx_TxInputs :: "TxInput_view list"
  vtx_TxOutputs :: "TxOutput_view list"
  vtx_Desc :: string
  vtx_Nonce :: string
  vtx_Timestamp :: int64
  vtx_Version :: int32
  vtx_Autogen :: bool
  vtx_Coinbase :: bool
  vtx_TxInputsExt :: "TxInputExt_view list"
  vtx_TxOutputsExt :: "TxOutputExt_view list"
  vtx_ContractRequests :: "InvokeRequest_view list"
  vtx_Initiator :: string
  vtx_AuthRequire :: "string list"
  vtx_InitiatorSigns :: "SignatureInfo_view list"
  vtx_AuthRequireSigns :: "SignatureInfo_view list"
  vtx_ReceivedTimestamp :: int64
  vtx_ModifyBlock :: ModifyBlock_view

fun ResourceType_String :: "ResourceType \<Rightarrow> string" where
  "ResourceType_String ResourceType_CPU = ''CPU''"
| "ResourceType_String ResourceType_MEMORY = ''MEMORY''"
| "ResourceType_String ResourceType_DISK = ''DISK''"
| "ResourceType_String ResourceType_XFEE = ''XFEE''"

definition view_input :: "TxInput \<Rightarrow> TxInput_view" where
  "view_input i =
     \<lparr>vin_RefTxid = txin_RefTxid i, vin_RefOffset = txin_RefOffset i, vin_FromAddr = txin_FromAddr i,
      vin_Amount = FromAmountBytes (txin_Amount i)\<rparr>"

definition view_output :: "TxOutput \<Rightarrow> TxOutput_view" where
  "view_output o' = \<lparr>vout_Amount = FromAmountBytes (txout_Amount o'), vout_ToAddr = txout_ToAddr o'\<rparr>"

definition view_input_ext :: "TxInputExt \<Rightarrow> TxInputExt_view" where
  "view_input_ext i =
     \<lparr>vine_Bucket = txie_Bucket i, vine_Key = txie_Key i, vine_RefTxid = txie_RefTxid i, vine_RefOffset = txie_RefOffset i\<rparr>"

definition view_output_ext :: "TxOutputExt \<Rightarrow> TxOutputExt_view" where
  "view_output_ext o' = \<lparr>voute_Bucket = txoe_Bucket o', voute_Key = txoe_Key o', voute_Value = txoe_Value o'\<rparr>"

definition view_limit :: "ResourceLimit \<Rightarrow> ResourceLimit_view" where
  "view_limit l = \<lparr>vrl_Type = ResourceType_String (rl_Type l), vrl_Limit = rl_Limit l\<rparr>"

definition view_request :: "InvokeRequest \<Rightarrow> InvokeRequest_view" where
  "view_request r =
     \<lparr>vreq_ModuleName = ireq_ModuleName r, vreq_ContractName = ireq_ContractName r,
      vreq_MethodName = ireq_MethodName r, vreq_Args = ireq_Args r,
      vreq_ResouceLimits = map view_limit (ireq_ResourceLimits r)\<rparr>"

definition view_sign :: "SignatureInfo \<Rightarrow> SignatureInfo_view" where
  "view_sign s = \<lparr>vsig_PublicKey = sig_PublicKey s, vsig_Sign = sig_Sign s\<rparr>"

definition view_modify_block :: "ModifyBlock option \<Rightarrow> ModifyBlock_view" where
  "view_modify_block m =
     (case m of
        None \<Rightarrow> \<lparr>vmb_Marked = False, vmb_EffectiveHeight = 0, vmb_EffectiveTxid = ''''\<rparr>
      | Some m \<Rightarrow> \<lparr>vmb_Marked = mblk_Marked m, vmb_EffectiveHeight = mblk_EffectiveHeight m,
                  vmb_EffectiveTxid = mblk_EffectiveTxid m\<rparr>)"

definition FromPBTx :: "Transaction \<Rightarrow> Transaction_view" where
  "FromPBTx tx =
     \<lparr>vtx_Txid = tx_Txid tx, vtx_Blockid = tx_Blockid tx,
      vtx_TxInputs = map view_input (tx_TxInputs tx), vtx_TxOutputs = map view_output (tx_TxOutputs tx),
      vtx_Desc = tx_Desc tx, vtx_Nonce = tx_Nonce tx, vtx_Timestamp = tx_Timestamp tx, vtx_Version = tx_Version tx,
      vtx_Autogen = tx_Autogen tx, vtx_Coinbase = tx_Coinbase tx,
      vtx_TxInputsExt = map view_input_ext (tx_TxInputsExt tx),
      vtx_TxOutputsExt = map view_output_ext (tx_TxOutputsExt tx),
      vtx_ContractRequests = map view_request (tx_ContractRequests tx),
      vtx_Initiator = tx_Initiator tx, vtx_AuthRequire = tx_AuthRequire tx,
      vtx_InitiatorSigns = map view_sign (tx_InitiatorSigns tx),
      vtx_AuthRequireSigns = map view_sign (tx_AuthRequireSigns tx),
      vtx_ReceivedTimestamp = tx_ReceivedTimestamp tx,
      vtx_ModifyBlock = view_modify_block (tx_ModifyBlock tx)\<rparr>"

section \<open>Blocks\<close>

record SignInfo_view =
  vsi_Address :: string
  vsi_PublicKey :: string
  vsi_Sign :: bytes

record QuorumCert_view =
  vqc_ProposalId :: string
  vqc_ProposalMsg :: bytes
  vqc_Type :: int32
  vqc_ViewNumber :: int64
  vqc_SignInfos :: "SignInfo_view list option"

record InternalBlock_view =
  vib_Version :: int32
  vib_Blockid :: HexID
  vib_PreHash :: HexID
  vib_Proposer :: string
  vib_Sign :: HexID
  vib_Pubkey :: string
  vib_MerkleRoot :: HexID
  vib_Height :: int64
  vib_Timestamp :: int64
  vib_Transactions :: "Transaction_view list"
  vib_TxCount :: int32
  vib_MerkleTree :: "HexID list"
  vib_InTrunk :: bool
  vib_NextHash :: HexID
  vib_FailedTxs :: "string \<rightharpoonup> string"
  vib_CurTerm :: int64
  vib_CurBlockNum :: int64
  vib_Justify :: QuorumCert_view

text \<open>A certificate without \<open>SignInfos\<close> is dereferenced all the same.\<close>

definition FromPBJustify :: "QuorumCert option \<Rightarrow> QuorumCert_view outcome" where
  "FromPBJustify qc =
     (case qc of
        None \<Rightarrow> Ret \<lparr>vqc_ProposalId = '''', vqc_ProposalMsg = '''', vqc_Type = 0, vqc_ViewNumber = 0, vqc_SignInfos = None\<rparr>
      | Some qc \<Rightarrow>
          (case qc_SignInfos qc of
             None \<Rightarrow> Panic
           | Some infos \<Rightarrow>
               Ret \<lparr>vqc_ProposalId = hex_encode (qc_ProposalId qc), vqc_ProposalMsg = qc_ProposalMsg qc,
                    vqc_Type = qc_Type qc, vqc_ViewNumber = qc_ViewNumber qc,
                    vqc_SignInfos = Some (map (\<lambda>s. \<lparr>vsi_Address = qsi_Address s, vsi_PublicKey = qsi_PublicKey s,
                                                 vsi_Sign = qsi_Sign s\<rparr>) (qcs_QCSignInfos infos))\<rparr>))"

definition FromInternalBlockPB :: "InternalBlock \<Rightarrow> InternalBlock_view outcome" where
  "FromInternalBlockPB block =
     out_bind (FromPBJustify (iblk_Justify block)) (\<lambda>justify.
       Ret \<lparr>vib_Version = iblk_Version block, vib_Blockid = iblk_Blockid block, vib_PreHash = iblk_PreHash block,
            vib_Proposer = iblk_Proposer block, vib_Sign = iblk_Sign block, vib_Pubkey = iblk_Pubkey block,
            vib_MerkleRoot = iblk_MerkleRoot block, vib_Height = iblk_Height block, vib_Timestamp = iblk_Timestamp block,
            vib_Transactions = map FromPBTx (iblk_Transactions block), vib_TxCount = iblk_TxCount block,
            vib_MerkleTree = iblk_MerkleTree block, vib_InTrunk = iblk_InTrunk block, vib_NextHash = iblk_NextHash block,
            vib_FailedTxs = iblk_FailedTxs block, vib_CurTerm = iblk_CurTerm block,
            vib_CurBlockNum = iblk_CurBlockNum block, vib_Justify = justify\<rparr>)"

section \<open>The status of a node\<close>

record LedgerMeta_view =
  vlm_RootBlockid :: HexID
  vlm_TipBlockid :: HexID
  vlm_TrunkHeight :: int64

record GasPrice_view =
  vgp_CpuRate :: int64
  vgp_MemRate :: int64
  vgp_DiskRate :: int64
  vgp_XfeeRate :: int64

record UtxoMeta_view =
  vum_LatestBlockid :: HexID
  vum_LockKeyList :: "string list"
  vum_UtxoTotal :: string
  vum_AvgDelay :: int64
  vum_UnconfirmTxAmount :: int64
  vum_MaxBlockSize :: int64
  vum_ReservedContracts :: "InvokeRequest_view list"
  vum_ForbiddenContract :: InvokeRequest_view
  vum_NewAccountResourceAmount :: int64
  vum_IrreversibleBlockHeight :: int64
  vum_IrreversibleSlideWindow :: int64
  vum_GasPrice :: GasPrice_view

record ChainStatus_view =
  vcs_Name :: string
  vcs_LedgerMeta :: LedgerMeta_view
  vcs_UtxoMeta :: UtxoMeta_view
  vcs_BranchBlockid :: "string list"

record SystemStatus_view =
  vss_ChainStatus :: "ChainStatus_view list"
  vss_Peers :: "string list"
  vss_Speeds :: "Speeds option"

text \<open>A contract named in the status; the getters take a nil one as empty.\<close>

definition view_contract :: "InvokeRequest option \<Rightarrow> InvokeRequest_view" where
  "view_contract rc =
     \<lparr>vreq_ModuleName = nilget '''' ireq_ModuleName rc, vreq_ContractName = nilget '''' ireq_ContractName rc,
      vreq_MethodName = nilget '''' ireq_MethodName rc, vreq_Args = nilget Map.empty ireq_Args rc,
      vreq_ResouceLimits = []\<rparr>"

definition view_chain :: "BCStatus \<Rightarrow> ChainStatus_view" where
  "view_chain chain =
     (let ledgerMeta = bcst_Meta chain; utxoMeta = bcst_UtxoMeta chain; gas = nilget None umeta_GasPrice utxoMeta in
      \<lparr>vcs_Name = bcst_Bcname chain,
       vcs_LedgerMeta =
         \<lparr>vlm_RootBlockid = nilget '''' lmeta_RootBlockid ledgerMeta, vlm_TipBlockid = nilget '''' lmeta_TipBlockid ledgerMeta,
          vlm_TrunkHeight = nilget 0 lmeta_TrunkHeight ledgerMeta\<rparr>,
       vcs_UtxoMeta =
         \<lparr>vum_LatestBlockid = nilget '''' umeta_LatestBlockid utxoMeta, vum_LockKeyList = nilget [] umeta_LockKeyList utxoMeta,
          vum_UtxoTotal = nilget '''' umeta_UtxoTotal utxoMeta, vum_AvgDelay = nilget 0 umeta_AvgDelay utxoMeta,
          vum_UnconfirmTxAmount = nilget 0 umeta_UnconfirmTxAmount utxoMeta,
          vum_MaxBlockSize = nilget 0 umeta_MaxBlockSize utxoMeta,
          vum_ReservedContracts = map (view_contract \<circ> Some) (nilget [] umeta_ReservedContracts utxoMeta),
          vum_ForbiddenContract = view_contract (nilget None umeta_ForbiddenContract utxoMeta),
          vum_NewAccountResourceAmount = nilget 0 umeta_NewAccountResourceAmount utxoMeta,
          vum_IrreversibleBlockHeight = nilget 0 umeta_IrreversibleBlockHeight utxoMeta,
          vum_IrreversibleSlideWindow = nilget 0 umeta_IrreversibleSlideWindow utxoMeta,
          vum_GasPrice =
            \<lparr>vgp_CpuRate = nilget 0 gas_CpuRate gas, vgp_MemRate = nilget 0 gas_MemRate gas,
             vgp_DiskRate = nilget 0 gas_DiskRate gas, vgp_XfeeRate = nilget 0 gas_XfeeRate gas\<rparr>\<rparr>,
       vcs_BranchBlockid = bcst_BranchBlockid chain\<rparr>)"

definition FromSystemStatusPB :: "SystemsStatus option \<Rightarrow> string \<Rightarrow> SystemStatus_view" where
  "FromSystemStatusPB statuspb cname =
     \<lparr>vss_ChainStatus =
        map view_chain (filter (\<lambda>chain. \<not> (cname \<noteq> ''xuper'' \<and> bcst_Bcname chain \<noteq> cname))
          (nilget [] syst_BcsStatus statuspb)),
      vss_Peers = nilget [] syst_PeerUrls statuspb,
      vss_Speeds = nilget None syst_Speeds statuspb\<rparr>"

section \<open>Blocks of a subscription\<close>

text \<open>The messages of \<open>service/pb/event.proto\<close>, and their readable forms.\<close>

record ContractEvent =
  cev_Contract :: string
  cev_Name :: string
  cev_Body :: bytes

record FilteredTransaction =
  ftx_Txid :: string
  ftx_Events :: "ContractEvent list"

record FilteredBlock =
  fb_Bcname :: string
  fb_Blockid :: string
  fb_BlockHeight :: int64
  fb_Txs :: "FilteredTransaction list"

record ContractEvent_view =
  vev_Contract :: string
  vev_Name :: string
  vev_Body :: string

record FilteredTransaction_view =
  vft_Txid :: string
  vft_Events :: "ContractEvent_view list"

record FilteredBlock_view =
  vfb_Bcname :: string
  vfb_Blockid :: string
  vfb_BlockHeight :: int64
  vfb_Txs :: "FilteredTransaction_view list"

definition FromFilteredBlockPB :: "FilteredBlock \<Rightarrow> FilteredBlock_view" where
  "FromFilteredBlockPB pbblock =
     \<lparr>vfb_Bcname = fb_Bcname pbblock, vfb_Blockid = fb_Blockid pbblock, vfb_BlockHeight = fb_BlockHeight pbblock,
      vfb_Txs = map (\<lambda>pbtx.
        \<lparr>vft_Txid = ftx_Txid pbtx,
         vft_Events = map (\<lambda>pbevent. \<lparr>vev_Contract = cev_Contract pbevent, vev_Name = cev_Name pbevent,
                                      vev_Body = cev_Body pbevent\<rparr>) (ftx_Events pbtx)\<rparr>) (fb_Txs pbblock)\<rparr>"

section \<open>What the readable form shows\<close>

text \<open>What a signer sees of the pieces of a transaction: everything but the leading zeros of an amount, the
  heights an output is frozen to, the amount a request transfers to a contract, and the key and signature of a
  modified block.\<close>

definition seen_input :: "TxInput \<Rightarrow> TxInput" where
  "seen_input i = i\<lparr>txin_Amount := big_bytes (big_set_bytes (txin_Amount i)), txin_FrozenHeight := 0\<rparr>"

definition seen_output :: "TxOutput \<Rightarrow> TxOutput" where
  "seen_output o' = o'\<lparr>txout_Amount := big_bytes (big_set_bytes (txout_Amount o')), txout_FrozenHeight := 0\<rparr>"

definition seen_request :: "InvokeRequest \<Rightarrow> InvokeRequest" where
  "seen_request r = r\<lparr>ireq_Amount := ''''\<rparr>"

definition seen_modify :: "ModifyBlock option \<Rightarrow> ModifyBlock option" where
  "seen_modify m =
     (case m of
        None \<Rightarrow> Some \<lparr>mblk_EffectiveTxid = '''', mblk_Marked = False, mblk_EffectiveHeight = 0,
                      mblk_PublicKey = '''', mblk_Sign = ''''\<rparr>
      | Some m \<Rightarrow> Some (m\<lparr>mblk_PublicKey := '''', mblk_Sign := ''''\<rparr>))"

definition seen :: "Transaction \<Rightarrow> Transaction" where
  "seen tx =
     tx\<lparr>tx_TxInputs := map seen_input (tx_TxInputs tx), tx_TxOutputs := map seen_output (tx_TxOutputs tx),
        tx_ContractRequests := map seen_request (tx_ContractRequests tx),
        tx_ModifyBlock := seen_modify (tx_ModifyBlock tx), tx_XuperSign := None, tx_HDInfo := None\<rparr>"

lemma map_eq_map_iff:
  assumes "\<And>x y. f x = f y \<longleftrightarrow> g x = g y"
  shows "map f xs = map f ys \<longleftrightarrow> map g xs = map g ys"
  using assms by (auto simp: list_eq_iff_nth_eq)

lemma ResourceType_String_inj: "ResourceType_String a = ResourceType_String b \<longleftrightarrow> a = b"
  by (cases a; cases b) simp_all

lemma big_bytes_canonical:
  "big_bytes (big_set_bytes a) = big_bytes (big_set_bytes b) \<longleftrightarrow> big_set_bytes a = big_set_bytes b"
  by (metis abs_of_nonneg big_set_bytes_big_bytes big_set_bytes_nonneg)

lemma view_input_eq: "view_input i = view_input i' \<longleftrightarrow> seen_input i = seen_input i'"
  by (cases i; cases i') (auto simp: view_input_def seen_input_def FromAmountBytes_def big_bytes_canonical)

lemma view_output_eq: "view_output i = view_output i' \<longleftrightarrow> seen_output i = seen_output i'"
  by (cases i; cases i') (auto simp: view_output_def seen_output_def FromAmountBytes_def big_bytes_canonical)

lemma view_input_ext_eq: "view_input_ext i = view_input_ext i' \<longleftrightarrow> id i = id i'"
  by (cases i; cases i') (auto simp: view_input_ext_def)

lemma view_output_ext_eq: "view_output_ext i = view_output_ext i' \<longleftrightarrow> id i = id i'"
  by (cases i; cases i') (auto simp: view_output_ext_def)

lemma view_limit_eq: "view_limit i = view_limit i' \<longleftrightarrow> id i = id i'"
  by (cases i; cases i') (auto simp: view_limit_def ResourceType_String_inj)

lemma view_sign_eq: "view_sign i = view_sign i' \<longleftrightarrow> id i = id i'"
  by (cases i; cases i') (auto simp: view_sign_def)

lemma view_request_eq: "view_request i = view_request i' \<longleftrightarrow> seen_request i = seen_request i'"
  by (cases i; cases i') (auto simp: view_request_def seen_request_def map_eq_map_iff[of view_limit id, OF view_limit_eq])

lemma view_modify_eq: "view_modify_block m = view_modify_block m' \<longleftrightarrow> seen_modify m = seen_modify m'"
proof -
  have "view_modify_block m = view_modify_block (seen_modify m)" for m
    by (cases m) (auto simp: view_modify_block_def seen_modify_def)
  moreover have "seen_modify m = seen_modify m'" if "view_modify_block m = view_modify_block m'" for m m'
    using that by (cases m; cases m') (auto simp: view_modify_block_def seen_modify_def intro!: ModifyBlock.equality)
  ultimately show ?thesis by metis
qed

lemmas view_lists_eq =
  map_eq_map_iff[of view_input seen_input, OF view_input_eq] map_eq_map_iff[of view_output seen_output, OF view_output_eq]
  map_eq_map_iff[of view_input_ext id, OF view_input_ext_eq] map_eq_map_iff[of view_output_ext id, OF view_output_ext_eq]
  map_eq_map_iff[of view_request seen_request, OF view_request_eq] map_eq_map_iff[of view_sign id, OF view_sign_eq]

text \<open>C31: What a signer is shown: two transactions have the same readable form exactly when they agree on everything
  but the leading zeros of amounts, the heights that inputs and outputs are frozen to, the amounts that requests
  transfer to contracts, the multi-signature, the HD data, and the key and signature of a modification.\<close>

theorem FromPBTx_shows:
  "FromPBTx tx = FromPBTx tx' \<longleftrightarrow> seen tx = seen tx'"
  by (cases tx; cases tx') (auto simp: FromPBTx_def seen_def view_lists_eq view_modify_eq)

text \<open>So the check of a raw transaction does not show that its outputs are frozen.\<close>

lemma FromPBTx_hides_frozen:
  "FromPBTx (tx\<lparr>tx_TxOutputs := map (txout_FrozenHeight_update (\<lambda>_. h)) (tx_TxOutputs tx)\<rparr>) = FromPBTx tx"
  by (simp add: FromPBTx_def view_output_def comp_def)

lemma FromPBTx_hides_contract_amount:
  "FromPBTx (tx\<lparr>tx_ContractRequests := map (ireq_Amount_update (\<lambda>_. n)) (tx_ContractRequests tx)\<rparr>) = FromPBTx tx"
  by (simp add: FromPBTx_def view_request_def comp_def)

text \<open>The printed ids are read back.\<close>

lemma HexID_MarshalJSON_inj: "HexID_MarshalJSON a = HexID_MarshalJSON b \<longleftrightarrow> a = b"
  by (auto simp: HexID_MarshalJSON_def json_plain_def) (metis hex_decode_encode option.inject)

text \<open>A chain is shown under its own name and under the name of the root chain.\<close>

lemma FromSystemStatusPB_chains:
  "map vcs_Name (vss_ChainStatus (FromSystemStatusPB (Some s) cname)) =
     filter (\<lambda>n. cname = ''xuper'' \<or> n = cname) (map bcst_Bcname (syst_BcsStatus s))"
  by (auto simp: FromSystemStatusPB_def view_chain_def Let_def filter_map comp_def)

text \<open>A block whose certificate has no signatures field cannot be shown.\<close>

lemma FromInternalBlockPB_panics:
  "FromInternalBlockPB b = Panic \<longleftrightarrow> (\<exists>qc. iblk_Justify b = Some qc \<and> qc_SignInfos qc = None)"
  by (auto simp: FromInternalBlockPB_def FromPBJustify_def out_bind_def split: option.splits)

end
