(* ===== verification/Multisig.thy ===== *)
theory Multisig
  imports LineScanner Compliance Views
begin

text \<open>
  The \<open>multisig\<close> commands of the client (\<open>cmd/client/cmd/multisig*.go\<close>): make a raw transaction,
  show it, sign it, ask the endorser for its signature, and send it with the signatures.

  The multi-party signature scheme of the crypto plugin and the JSON forms are given
  functions in an \<open>MsEnv\<close> beside the environment of all commands; the random source is part of
  the world.  A Go \<open>int\<close> has 64 bits.
\<close>

section \<open>Given functions\<close>

record MultisigData =
  msd_R :: bytes
  msd_C :: bytes
  msd_KList :: "bytes list"
  msd_PubKeys :: "bytes list"

record PartialSign =
  ps_Si :: bytes
  ps_Index :: int64

record ('w, 'sk, 'pk) crypto_client =
  xcc_GetRandom32Bytes :: "('w, gerr, bytes) io"
  xcc_GetEcdsaPublicKeyFromJsonStr :: "string \<Rightarrow> gerr + 'pk"
  xcc_GetEcdsaPrivateKeyFromJsonStr :: "string \<Rightarrow> gerr + 'sk"
  xcc_GetAddressFromPublicKey :: "'pk \<Rightarrow> gerr + string"
  xcc_GetRiUsingRandomBytes :: "'pk \<Rightarrow> bytes \<Rightarrow> bytes"
  xcc_GetRUsingAllRi :: "'pk \<Rightarrow> bytes list \<Rightarrow> bytes"
  xcc_GetSharedPublicKeyForPublicKeys :: "'pk list \<Rightarrow> gerr + bytes"
  xcc_GetSiUsingKCRM :: "'sk \<Rightarrow> bytes \<Rightarrow> bytes \<Rightarrow> bytes \<Rightarrow> bytes \<Rightarrow> bytes"
  xcc_GetSUsingAllSi :: "bytes list \<Rightarrow> bytes"
  xcc_GenerateMultiSignSignature :: "bytes \<Rightarrow> bytes \<Rightarrow> gerr + bytes"

record ('w, 'sk, 'pk) MsEnv =
  ms_ClientFromJSONPublicKey :: "bytes \<Rightarrow> gerr + ('w, 'sk, 'pk) crypto_client"
  ms_ClientFromJSONPrivateKey :: "bytes \<Rightarrow> gerr + ('w, 'sk, 'pk) crypto_client"
  mj_MultisigData :: "MultisigData \<Rightarrow> gerr + bytes"
  un_MultisigData :: "bytes \<Rightarrow> gerr + MultisigData"
  mj_PartialSign :: "PartialSign \<Rightarrow> gerr + bytes"
  un_PartialSign :: "bytes \<Rightarrow> gerr + PartialSign"
  mj_SignatureInfo :: "SignatureInfo option \<Rightarrow> gerr + bytes"
  un_SignatureInfo :: "bytes \<Rightarrow> gerr + SignatureInfo"
  mj_Transaction :: "Transaction_view \<Rightarrow> gerr + bytes"
  un_Args :: "string \<Rightarrow> gerr + (string \<rightharpoonup> bytes)"

definition loadMultisig :: "('w, 'x, 'sk) Env \<Rightarrow> ('w, 'k, 'pk) MsEnv \<Rightarrow> string \<Rightarrow> 'w \<Rightarrow> gerr + MultisigData" where
  "loadMultisig E M txFile w =
     res_bind (e_ReadFile E (txFile @ ''.ext'') w) (\<lambda>signData.
       case un_MultisigData M signData of
         Inl err \<Rightarrow> Inl (Errorf ''Unmarshal MultisigData failed'')
       | Inr msd \<Rightarrow> Inr msd)"

text \<open>The commands read the same kind of file, with different errors.\<close>

definition read_tx :: "('w, 'x, 'sk) Env \<Rightarrow> string \<Rightarrow> 'w \<Rightarrow> gerr + Transaction" where
  "read_tx E file w = res_bind (e_ReadFile E file w) (pb_Unmarshal (cd_Tx (e_lib E)))"

section \<open>gen\<close>

record MultisigGenCommand =
  mg_to :: string
  mg_amount :: string
  mg_descfile :: string
  mg_fee :: string
  mg_frozenHeight :: int64
  mg_version :: int32
  mg_output :: string
  mg_multiAddrs :: string
  mg_pubkeys :: string
  mg_from :: string
  mg_signType :: string
  mg_moduleName :: string
  mg_contractName :: string
  mg_methodName :: string
  mg_args :: string

text \<open>The lines are kept as slices of the scanner's buffer.\<close>

definition readPublicKeysFromFile :: "('w, 'x, 'sk) Env \<Rightarrow> string \<Rightarrow> 'w \<Rightarrow> gerr + bytes list" where
  "readPublicKeysFromFile E filename w = res_bind (e_ReadFile E filename w) scan_kept"

text \<open>One key of the loop: its random value, itself, and its share of \<open>R\<close>.\<close>

definition key_share :: "('w, 'k, 'pk) crypto_client \<Rightarrow> bytes \<Rightarrow> ('w, gerr, bytes \<times> 'pk \<times> bytes) io" where
  "key_share xcc pubkey =
     io_bind (xcc_GetRandom32Bytes xcc) (\<lambda>ki.
     io_bind (io_lift (xcc_GetEcdsaPublicKeyFromJsonStr xcc pubkey)) (\<lambda>pki.
       io_return (ki, pki, xcc_GetRiUsingRandomBytes xcc pki ki)))"

definition getMultiSignData :: "('w, 'k, 'pk) MsEnv \<Rightarrow> bytes list \<Rightarrow> ('w, gerr, MultisigData) io" where
  "getMultiSignData M pubkeys =
     (if length pubkeys < 2 then io_throw (Errorf ''invalid public keys'')
      else
        io_bind (io_lift (ms_ClientFromJSONPublicKey M (pubkeys ! 0))) (\<lambda>xcc.
        io_bind (io_traverse (key_share xcc) pubkeys) (\<lambda>shares.
        let klist = map fst shares; pklist = map (fst \<circ> snd) shares; rlist = map (snd \<circ> snd) shares;
            r = xcc_GetRUsingAllRi xcc (pklist ! 0) rlist in
        io_bind (io_lift (xcc_GetSharedPublicKeyForPublicKeys xcc pklist)) (\<lambda>spk.
          io_return \<lparr>msd_R = r, msd_C = spk, msd_KList = klist, msd_PubKeys = pubkeys\<rparr>))))"

definition gen_CommTrans :: "RootOptions \<Rightarrow> MultisigGenCommand \<Rightarrow> CommTrans" where
  "gen_CommTrans ro c =
     zero_CommTrans\<lparr>ct_To := mg_to c, ct_Amount := mg_amount c, ct_Descfile := mg_descfile c, ct_Fee := mg_fee c,
        ct_FrozenHeight := mg_frozenHeight c, ct_Version := mg_version c, ct_From := mg_from c,
        ct_ModuleName := mg_moduleName c, ct_ContractName := mg_contractName c, ct_MethodName := mg_methodName c,
        ct_Args := Map.empty, ct_MultiAddrs := mg_multiAddrs c, ct_Output := mg_output c, ct_IsPrint := True,
        ct_IsQuick := True, ct_ChainName := ro_Name ro, ct_Keys := ro_Keys ro, ct_RootOptions := ro\<rparr>"

definition gen_generateTx ::
  "('w, 'x, 'sk) Env \<Rightarrow> ('w, 'k, 'pk) MsEnv \<Rightarrow> RootOptions \<Rightarrow> MultisigGenCommand \<Rightarrow> ('w, gerr, unit) io" where
  "gen_generateTx E M ro c =
     io_bind
       (if mg_signType c = ''multi'' then
          io_bind (io_read (readPublicKeysFromFile E (mg_pubkeys c))) (\<lambda>pubkeys.
          io_bind (getMultiSignData M pubkeys) (\<lambda>msd. io_return (Some msd)))
        else if mg_signType c \<noteq> '''' then io_throw (Errorf ''SignType is not supported'')
        else io_return None) (\<lambda>msd.
     io_bind
       (if mg_args c \<noteq> ''''
        then io_bind (io_lift (un_Args M (mg_args c))) (\<lambda>args. io_return ((gen_CommTrans ro c)\<lparr>ct_Args := args\<rparr>))
        else io_return (gen_CommTrans ro c)) (\<lambda>ct.
     io_bind
       (case msd of
          None \<Rightarrow> io_return ()
        | Some msd \<Rightarrow>
            io_bind (io_lift (mj_MultisigData M msd)) (\<lambda>jsonData.
              io_map_err (\<lambda>_. Errorf ''write file error'') (e_WriteFile E (mg_output c @ ''.ext'') jsonData))) (\<lambda>_.
       GenerateMultisigGenRawTx E ct)))"

section \<open>check\<close>

text \<open>An error of the JSON encoder is printed, and the file is written without content.\<close>

definition multisig_check :: "('w, 'x, 'sk) Env \<Rightarrow> ('w, 'k, 'pk) MsEnv \<Rightarrow> string \<Rightarrow> string \<Rightarrow> ('w, gerr, unit) io" where
  "multisig_check E M input output =
     io_bind (io_read (read_tx E input)) (\<lambda>tx.
       io_map_err (\<lambda>_. Errorf ''Write visual file error'')
         (e_WriteFile E output (case mj_Transaction M (FromPBTx tx) of Inl err \<Rightarrow> '''' | Inr output \<Rightarrow> output)))"

section \<open>sign\<close>

record MultisigSignCommand =
  mgs_tx :: string
  mgs_output :: string
  mgs_signType :: string

definition address_of_json :: "('w, 'k, 'pk) crypto_client \<Rightarrow> bytes \<Rightarrow> gerr + string" where
  "address_of_json xcc pubJSON =
     res_bind (xcc_GetEcdsaPublicKeyFromJsonStr xcc pubJSON) (xcc_GetAddressFromPublicKey xcc)"

text \<open>The search through the list; the list of keys may be shorter than the one of random values.\<close>

fun find_k ::
  "('w, 'k, 'pk) crypto_client \<Rightarrow> string \<Rightarrow> bytes list \<Rightarrow> bytes list \<Rightarrow> nat \<Rightarrow> gerr + bytes \<times> nat" where
  "find_k xcc addr [] pks idx = Inl (Errorf ''Public key not found in multisig data'')"
| "find_k xcc addr (ki # ks) [] idx = Inl go_panic"
| "find_k xcc addr (ki # ks) (pk # pks) idx =
     (case address_of_json xcc pk of
        Inl err \<Rightarrow> find_k xcc addr ks pks (idx + 1)
      | Inr tmpaddr \<Rightarrow> if addr = tmpaddr then Inr (ki, idx) else find_k xcc addr ks pks (idx + 1))"

definition findKFromKList :: "('w, 'k, 'pk) MsEnv \<Rightarrow> MultisigData \<Rightarrow> bytes \<Rightarrow> gerr + bytes \<times> nat" where
  "findKFromKList M msd pubJSON =
     res_bind (ms_ClientFromJSONPublicKey M pubJSON) (\<lambda>xcc.
     res_bind (address_of_json xcc pubJSON) (\<lambda>addr.
       find_k xcc addr (msd_KList msd) (msd_PubKeys msd) 0))"

definition signMulti ::
  "('w, 'x, 'sk) Env \<Rightarrow> ('w, 'k, 'pk) MsEnv \<Rightarrow> MultisigSignCommand \<Rightarrow> KeyPair \<Rightarrow> Transaction \<Rightarrow> ('w, gerr, unit) io" where
  "signMulti E M c from tx =
     io_bind (io_read (loadMultisig E M (mgs_tx c))) (\<lambda>msd.
     io_bind (io_lift (ms_ClientFromJSONPrivateKey M (kp_secretKey from))) (\<lambda>crypto.
     io_bind (io_lift (xcc_GetEcdsaPrivateKeyFromJsonStr crypto (kp_secretKey from))) (\<lambda>ecdsaPrivateKey.
     io_bind (io_lift (MakeTxDigestHash (cd_Tx (e_lib E)) (e_MakeTxDigestHash E) (Some tx))) (\<lambda>digestHash.
     io_bind (io_lift (findKFromKList M msd (kp_publicKey from))) (\<lambda>(ki, idx).
     let si = xcc_GetSiUsingKCRM crypto ecdsaPrivateKey ki (msd_C msd) (msd_R msd) digestHash;
         psd = \<lparr>ps_Si = si, ps_Index = of_nat idx\<rparr> in
     io_bind (io_lift (mj_PartialSign M psd)) (\<lambda>jsonContent.
       io_map_err (\<lambda>_. Errorf ''WriteFile error'') (e_WriteFile E (mgs_output c) jsonContent)))))))"

definition genSignFile ::
  "('w, 'x, 'sk) Env \<Rightarrow> ('w, 'k, 'pk) MsEnv \<Rightarrow> MultisigSignCommand \<Rightarrow> SignatureInfo option \<Rightarrow> ('w, gerr, unit) io" where
  "genSignFile E M c signInfo =
     io_bind (io_lift (mj_SignatureInfo M signInfo)) (\<lambda>signJSON.
       io_map_err (\<lambda>_. Errorf ''WriteFile error'') (e_WriteFile E (mgs_output c) signJSON))"

definition signDefault ::
  "('w, 'x, 'sk) Env \<Rightarrow> ('w, 'k, 'pk) MsEnv \<Rightarrow> RootOptions \<Rightarrow> MultisigSignCommand \<Rightarrow> KeyPair \<Rightarrow> Transaction \<Rightarrow>
   ('w, gerr, unit) io" where
  "signDefault E M ro c from tx =
     io_bind (io_lift (e_CreateCryptoClient E (ro_Crypto ro))) (\<lambda>crypto.
     io_bind (io_lift (KeyPair_SignTx E from tx crypto)) (\<lambda>signInfo.
       genSignFile E M c (Some signInfo)))"

text \<open>The test for an unsupported type comes first and refuses \<open>multi\<close> too.\<close>

definition multisig_sign ::
  "('w, 'x, 'sk) Env \<Rightarrow> ('w, 'k, 'pk) MsEnv \<Rightarrow> RootOptions \<Rightarrow> MultisigSignCommand \<Rightarrow> ('w, gerr, unit) io" where
  "multisig_sign E M ro c =
     io_bind (io_read (read_tx E (mgs_tx c))) (\<lambda>tx.
     io_bind (io_read (keyPair E (newAK (ro_Keys ro)))) (\<lambda>from.
       if mgs_signType c \<noteq> '''' then io_throw (Errorf ''SignType is not supported'')
       else if mgs_signType c = ''multi'' then signMulti E M c from tx
       else signDefault E M ro c from tx))"

section \<open>send\<close>

record MultisigSendCommand =
  mss_tx :: string
  mss_signType :: string

definition loadPartialSign :: "('w, 'x, 'sk) Env \<Rightarrow> ('w, 'k, 'pk) MsEnv \<Rightarrow> string \<Rightarrow> 'w \<Rightarrow> gerr + PartialSign" where
  "loadPartialSign E M file w =
     (case e_ReadFile E file w of
        Inl err \<Rightarrow> Inl (Errorf ''Failed to open sign file'')
      | Inr sign \<Rightarrow>
          (case un_PartialSign M sign of
             Inl err \<Rightarrow> Inl (Errorf ''Unmarshal PartialSign failed'') | Inr psi \<Rightarrow> Inr psi))"

definition loadTx :: "('w, 'x, 'sk) Env \<Rightarrow> MultisigSendCommand \<Rightarrow> 'w \<Rightarrow> gerr + Transaction" where
  "loadTx E c w =
     (case e_ReadFile E (mss_tx c) w of
        Inl err \<Rightarrow> Inl (Errorf ''Fail to open serialized transaction data file'')
      | Inr dat \<Rightarrow>
          (case pb_Unmarshal (cd_Tx (e_lib E)) dat of
             Inl err \<Rightarrow> Inl (Errorf ''Fail to Unmarshal proto'') | Inr tx \<Rightarrow> Inr tx))"

definition getSign :: "('w, 'x, 'sk) Env \<Rightarrow> ('w, 'k, 'pk) MsEnv \<Rightarrow> 'w \<Rightarrow> string \<Rightarrow> gerr + SignatureInfo" where
  "getSign E M w file =
     (case e_ReadFile E file w of
        Inl err \<Rightarrow> Inl (Errorf ''Failed to open sign file'')
      | Inr buf \<Rightarrow>
          (case un_SignatureInfo M buf of
             Inl err \<Rightarrow> Inl (Errorf ''Failed to json unmarshal sign file'') | Inr sign \<Rightarrow> Inr sign))"

definition getSigns ::
  "('w, 'x, 'sk) Env \<Rightarrow> ('w, 'k, 'pk) MsEnv \<Rightarrow> string \<Rightarrow> 'w \<Rightarrow> gerr + SignatureInfo list" where
  "getSigns E M path w = traverse (getSign E M w) (split_char (CHR '','') path)"

text \<open>\<open>sendTx\<close> is \<open>postTx\<close> of the commands that build their own transaction, over the name of the chain.\<close>

definition sendTx :: "('w, 'x, 'sk) Env \<Rightarrow> RootOptions \<Rightarrow> Transaction \<Rightarrow> ('w, gerr, string) io" where
  "sendTx E ro tx =
     io_bind (io_draw (e_GenLogId E)) (\<lambda>logid.
     io_bind (xc_PostTx (e_client E)
                (new_TxStatus\<lparr>txst_Bcname := ro_Name ro, txst_Status := 4, txst_Tx := Some tx,
                              txst_Header := Some (new_Header\<lparr>hdr_Logid := logid\<rparr>),
                              txst_Txid := tx_Txid tx\<rparr>)) (\<lambda>rep.
     io_lift
       (case crep_Header rep of
          None \<Rightarrow> Inl go_panic
        | Some h \<Rightarrow>
            if hdr_Error h \<noteq> SUCCESS then Inl (Errorf ''Failed to post tx'')
            else Inr (hex_encode (tx_Txid tx)))))"

definition multisig_send ::
  "('w, 'x, 'sk) Env \<Rightarrow> ('w, 'k, 'pk) MsEnv \<Rightarrow> RootOptions \<Rightarrow> MultisigSendCommand \<Rightarrow> string \<Rightarrow> string \<Rightarrow>
   ('w, gerr, unit) io" where
  "multisig_send E M ro c initPath authPath =
     io_bind (io_read (loadTx E c)) (\<lambda>tx.
     io_bind (io_read (getSigns E M initPath)) (\<lambda>signs.
     io_bind (io_read (getSigns E M authPath)) (\<lambda>signAuths.
     let tx = tx\<lparr>tx_InitiatorSigns := signs, tx_AuthRequireSigns := signAuths\<rparr> in
     case MakeTxId (cd_Tx (e_lib E)) (e_MakeTransactionID E) (Some tx) of
       Inl err \<Rightarrow> io_throw (Errorf ''MakeTxDigesthash txid error'')
     | Inr txid \<Rightarrow> io_bind (sendTx E ro (tx\<lparr>tx_Txid := txid\<rparr>)) (\<lambda>_. io_return ()))))"

text \<open>The partial signatures go to their positions; nothing keeps two of them from naming the same one.\<close>

primrec collect_si ::
  "('w, 'x, 'sk) Env \<Rightarrow> ('w, 'k, 'pk) MsEnv \<Rightarrow> 'w \<Rightarrow> int \<Rightarrow> string list \<Rightarrow> bytes list \<Rightarrow> gerr + bytes list" where
  "collect_si E M w needLen [] siList = Inr siList"
| "collect_si E M w needLen (file # files) siList =
     res_bind (loadPartialSign E M file w) (\<lambda>psi.
       if sint (ps_Index psi) > needLen - 1 \<or> sint (ps_Index psi) < 0
       then Inl (Errorf ''partial signature data is invalid'')
       else collect_si E M w needLen files (siList[nat (sint (ps_Index psi)) := ps_Si psi]))"

definition sendXuper ::
  "('w, 'x, 'sk) Env \<Rightarrow> ('w, 'k, 'pk) MsEnv \<Rightarrow> RootOptions \<Rightarrow> MultisigSendCommand \<Rightarrow> string \<Rightarrow> ('w, gerr, unit) io" where
  "sendXuper E M ro c signs =
     io_bind (io_read (loadTx E c)) (\<lambda>tx.
     io_bind (io_read (loadMultisig E M (mss_tx c))) (\<lambda>msd.
     let needLen = length (msd_KList msd); signFiles = split_char (CHR '','') signs in
     if needLen \<le> 1 then io_throw (Errorf ''multisig need at least two parties'')
     else if length signFiles \<noteq> needLen then io_throw (Errorf ''sign file is not equal to multisig public keys'')
     else
       io_bind (io_read (\<lambda>w. collect_si E M w (int needLen) signFiles (replicate needLen ''''))) (\<lambda>siList.
       if msd_PubKeys msd = [] then io_throw go_panic
       else
         (case ms_ClientFromJSONPublicKey M (msd_PubKeys msd ! 0) of
            Inl err \<Rightarrow> io_throw (Errorf ''create crypto client failed'')
          | Inr xcc \<Rightarrow>
              (case xcc_GenerateMultiSignSignature xcc (xcc_GetSUsingAllSi xcc siList) (msd_R msd) of
                 Inl err \<Rightarrow> io_throw (Errorf ''GenerateMultiSignSignature failed'')
               | Inr finalSign \<Rightarrow>
                   let tx = tx\<lparr>tx_XuperSign := Some \<lparr>xsig_PublicKeys = msd_PubKeys msd, xsig_Signature = finalSign\<rparr>\<rparr> in
                   (case MakeTxId (cd_Tx (e_lib E)) (e_MakeTransactionID E) (Some tx) of
                      Inl err \<Rightarrow> io_throw (Errorf ''Make Tx ID error'')
                    | Inr txid \<Rightarrow>
                        io_bind (io_map_err (\<lambda>_. Errorf ''sendTx failed'') (sendTx E ro (tx\<lparr>tx_Txid := txid\<rparr>)))
                          (\<lambda>_. io_return ())))))))"

text \<open>The command chooses by the type and the number of its arguments.\<close>

definition multisig_send_run ::
  "('w, 'x, 'sk) Env \<Rightarrow> ('w, 'k, 'pk) MsEnv \<Rightarrow> RootOptions \<Rightarrow> MultisigSendCommand \<Rightarrow> string list \<Rightarrow>
   ('w, gerr, unit) io" where
  "multisig_send_run E M ro c args =
     (case args of
        [] \<Rightarrow> io_throw (Errorf ''requires at least 1 arg(s)'')
      | a # rest \<Rightarrow>
          if mss_signType c = ''multi'' then sendXuper E M ro c a
          else if mss_signType c \<noteq> '''' then io_throw (Errorf ''SignType is not supported'')
          else (case rest of
                  [] \<Rightarrow> io_throw (Errorf ''Args error, need at least two arguments'')
                | b # _ \<Rightarrow> multisig_send E M ro c a b))"

section \<open>get\<close>

record GetComplianceCheckSignCommand =
  gc_from :: string
  gc_tx :: string
  gc_version :: int32
  gc_output :: string

definition get_CommTrans :: "RootOptions \<Rightarrow> GetComplianceCheckSignCommand \<Rightarrow> CommTrans" where
  "get_CommTrans ro c =
     zero_CommTrans\<lparr>ct_FrozenHeight := 0, ct_Version := gc_version c, ct_From := gc_from c, ct_Output := gc_output c,
        ct_ChainName := ro_Name ro, ct_Keys := ro_Keys ro, ct_CryptoType := ro_Crypto ro, ct_RootOptions := ro\<rparr>"

text \<open>The endorser is dialled at the host of the node.  The error of the dial is dropped, and the nil client
  called.\<close>

definition XEndorserClient_call ::
  "('w, 'x, 'sk) Env \<Rightarrow> RootOptions \<Rightarrow> EndorserRequest \<Rightarrow> ('w, gerr, EndorserResponse) io" where
  "XEndorserClient_call E ro req w =
     (case e_Dial E (ro_Host ro) Insecure w of
        Inl err \<Rightarrow> (Inl go_panic, w)
      | Inr _ \<Rightarrow> e_EndorserCall E (ro_Host ro) req w)"

definition compliance_sign_get ::
  "('w, 'x, 'sk) Env \<Rightarrow> ('w, 'k, 'pk) MsEnv \<Rightarrow> RootOptions \<Rightarrow> GetComplianceCheckSignCommand \<Rightarrow> ('w, gerr, unit) io" where
  "compliance_sign_get E M ro c =
     io_bind (io_read (\<lambda>w. case e_ReadFile E (gc_tx c) w of
         Inl err \<Rightarrow> Inl (Errorf ''Fail to open serialized transaction data file'')
       | Inr dat \<Rightarrow> (case pb_Unmarshal (cd_Tx (e_lib E)) dat of
           Inl err \<Rightarrow> Inl (Errorf ''Fail to Unmarshal proto'') | Inr tx \<Rightarrow> Inr tx))) (\<lambda>tx.
     let ct = get_CommTrans ro c in
     io_bind (if gc_from c \<noteq> '''' then io_return (gc_from c) else io_read (readAddress E (ct_Keys ct))) (\<lambda>fromAddr.
     let totalNeed = sint (cc_EndorseServiceFee (ro_ComplianceCheck ro)) in
     io_bind (xc_SelectUTXO (e_client E)
                (new_UtxoInput\<lparr>uin_Bcname := ct_ChainName ct, uin_Address := fromAddr, uin_TotalNeed := big_show totalNeed,
                               uin_NeedLock := False\<rparr>)) (\<lambda>utxoOutput.
     io_bind (GenComplianceCheckTx E ct (Some utxoOutput)) (\<lambda>feeTx.
     io_bind (io_lift (e_mj_TxStatus E (new_TxStatus\<lparr>txst_Bcname := ro_Name ro, txst_Tx := Some tx\<rparr>))) (\<lambda>requestData.
     io_bind (XEndorserClient_call E ro
                (new_EndorserRequest\<lparr>ereq_RequestName := ''ComplianceCheck'', ereq_BcName := ro_Name ro,
                   ereq_Fee := Some feeTx, ereq_RequestData := Some requestData\<rparr>)) (\<lambda>reply.
     case eres_Header reply of
       None \<Rightarrow> io_throw go_panic
     | Some h \<Rightarrow>
         if hdr_Error h \<noteq> SUCCESS then io_throw (Errorf ''Failed to get sign for tx'')
         else
           io_bind (io_lift (mj_SignatureInfo M (eres_EndorserSign reply))) (\<lambda>signJSON.
             io_map_err (\<lambda>_. Errorf ''WriteFile error'') (e_WriteFile E (gc_output c) signJSON))))))))"

section \<open>Reading the keys\<close>

text \<open>Up to half of the first buffer of the scanner, the keys of a file are its lines.  Beyond it the slices alias:
  a first line that fills more than half of the buffer is overwritten by the start of a second line that
  has no line end, so the keys are not the ones in the file.\<close>

theorem readPublicKeysFromFile_aliases:
  assumes "e_ReadFile E filename w = Inr file"
  shows "(2 * length file \<le> startBufSize \<longrightarrow>
      readPublicKeysFromFile E filename w = Inr (map drop_cr (raw_lines file))) \<and>
    (\<forall>l1 l2. file = l1 @ nl # l2 \<longrightarrow> nl \<notin> set l1 \<longrightarrow> nl \<notin> set l2 \<longrightarrow> l2 \<noteq> [] \<longrightarrow>
      startBufSize div 2 \<le> length l1 \<longrightarrow> length file < startBufSize \<longrightarrow>
      readPublicKeysFromFile E filename w =
        Inr [take (length (drop_cr l1)) (l2 @ drop (length l2) l1), drop_cr l2])"
  using assms scan_kept_small scan_kept_clobbered by (auto simp: readPublicKeysFromFile_def)

section \<open>Signing\<close>

text \<open>The sign type \<open>multi\<close>, which the usage names and \<open>signMulti\<close> serves, is refused.\<close>

lemma multisig_sign_multi_refused:
  assumes "mgs_signType c = ''multi''"
  shows "\<exists>err. multisig_sign E M ro c w = (Inl err, w)"
  using assms by (auto simp: multisig_sign_def split: sum.splits)

text \<open>The position found for a key is one whose entry has its address, and the random value is the one there.\<close>

lemma find_k_position:
  assumes "find_k xcc addr ks pks base = Inr (ki, idx)"
  shows "base \<le> idx \<and> idx - base < length ks \<and> idx - base < length pks \<and> ks ! (idx - base) = ki \<and>
    address_of_json xcc (pks ! (idx - base)) = Inr addr"
  using assms
proof (induction xcc addr ks pks base rule: find_k.induct)
  case (3 xcc addr ki' ks pk pks base)
  show ?case
  proof (cases "address_of_json xcc pk = Inr addr")
    case True
    then show ?thesis using "3.prems" by auto
  next
    case False
    then have rec: "find_k xcc addr ks pks (base + 1) = Inr (ki, idx)"
      using "3.prems" by (auto split: sum.splits if_splits)
    from False have "base + 1 \<le> idx \<and> idx - (base + 1) < length ks \<and> idx - (base + 1) < length pks \<and>
        ks ! (idx - (base + 1)) = ki \<and> address_of_json xcc (pks ! (idx - (base + 1))) = Inr addr"
      using "3.IH" rec by (cases "address_of_json xcc pk") auto
    moreover from this have "idx - base = Suc (idx - (base + 1))" by linarith
    ultimately show ?thesis by simp
  qed
qed auto

text \<open>What the file system and the JSON of signatures do.\<close>

definition file_law :: "('w, 'x, 'sk) Env \<Rightarrow> bool" where
  "file_law E \<longleftrightarrow> (\<forall>f b w w'. e_WriteFile E f b w = (Inr (), w') \<longrightarrow> e_ReadFile E f w' = Inr b)"

definition sign_json_law :: "('w, 'k, 'pk) MsEnv \<Rightarrow> bool" where
  "sign_json_law M \<longleftrightarrow> (\<forall>s b. mj_SignatureInfo M (Some s) = Inr b \<longrightarrow> un_SignatureInfo M b = Inr s)"


section \<open>Sending\<close>

lemma sendTx_Inr:
  "sendTx E ro tx w = (Inr r, w') \<longleftrightarrow>
   (\<exists>logid w1 rep. e_GenLogId E w = (logid, w1) \<and>
      xc_PostTx (e_client E) (posted_status (zero_CommTrans\<lparr>ct_ChainName := ro_Name ro\<rparr>) logid tx) w1 = (Inr rep, w') \<and>
      reply_ok rep \<and> r = hex_encode (tx_Txid tx))"
proof -
  have "sendTx E ro = postTx E (zero_CommTrans\<lparr>ct_ChainName := ro_Name ro\<rparr>)"
    by (simp add: sendTx_def postTx_def fun_eq_iff)
  then show ?thesis using postTx_Inr by metis
qed

text \<open>Where the partial signatures end up: the last file that names a position fills it.\<close>

definition slots :: "PartialSign list \<Rightarrow> bytes list \<Rightarrow> bytes list" where
  "slots psis siList = foldl (\<lambda>l psi. l[nat (sint (ps_Index psi)) := ps_Si psi]) siList psis"

lemma collect_si_Inr:
  "collect_si E M w n files l = Inr siList \<longleftrightarrow>
   (\<exists>psis. traverse (\<lambda>f. loadPartialSign E M f w) files = Inr psis \<and>
      (\<forall>psi \<in> set psis. 0 \<le> sint (ps_Index psi) \<and> sint (ps_Index psi) < n) \<and> siList = slots psis l)"
proof (induction files arbitrary: l)
  case Nil
  then show ?case by (auto simp: slots_def)
next
  case (Cons f fs)
  show ?case
    by (cases "loadPartialSign E M f w") (auto simp: Cons.IH res_bind_Inr_iff slots_def)
qed

lemma slots_length [simp]: "length (slots psis l) = length l"
  by (induction psis arbitrary: l) (simp_all add: slots_def)

lemma slots_Cons: "slots (p # ps) l = slots ps (l[nat (sint (ps_Index p)) := ps_Si p])"
  by (simp add: slots_def)

text \<open>A position no file names stays empty; when all name different ones, each has its own.\<close>

lemma slots_unnamed:
  "i \<notin> (\<lambda>p. nat (sint (ps_Index p))) ` set psis \<Longrightarrow> slots psis l ! i = l ! i"
  by (induction psis arbitrary: l) (auto simp: slots_def[of "[]"] slots_Cons)

lemma slots_distinct:
  assumes "distinct (map (\<lambda>p. nat (sint (ps_Index p))) psis)" "p \<in> set psis" "nat (sint (ps_Index p)) < length l"
  shows "slots psis l ! nat (sint (ps_Index p)) = ps_Si p"
  using assms
proof (induction psis arbitrary: l)
  case (Cons q qs)
  show ?case
  proof (cases "p \<in> set qs")
    case True
    then show ?thesis using Cons.prems by (simp add: slots_Cons Cons.IH)
  next
    case False
    then have pq: "p = q" using Cons.prems(2) by simp
    then have "slots qs (l[nat (sint (ps_Index q)) := ps_Si q]) ! nat (sint (ps_Index q)) =
        l[nat (sint (ps_Index q)) := ps_Si q] ! nat (sint (ps_Index q))"
      using Cons.prems(1) by (intro slots_unnamed) auto
    then show ?thesis using pq Cons.prems(3) by (simp add: slots_Cons)
  qed
qed simp

text \<open>C32: What \<open>multisig send\<close> of the type \<open>multi\<close> posts: with one file for each of at least two parties, the raw
  transaction with the combined signature and its id.  Each position holds the partial signature of the
  file that names it; two files that name the same position are not refused, and the positions no file
  names go into the signature empty.\<close>

theorem sendXuper_posts:
  assumes "sendXuper E M ro c signs w = (Inr (), w')"
  shows "\<exists>tx msd psis siList xcc sg txid logid w1 rep.
    loadTx E c w = Inr tx \<and> loadMultisig E M (mss_tx c) w = Inr msd \<and> 2 \<le> length (msd_KList msd) \<and>
    traverse (\<lambda>f. loadPartialSign E M f w) (split_char (CHR '','') signs) = Inr psis \<and>
    length psis = length (msd_KList msd) \<and> length siList = length (msd_KList msd) \<and>
    (\<forall>i < length siList. if i \<in> (\<lambda>p. nat (sint (ps_Index p))) ` set psis
       then distinct (map (\<lambda>p. nat (sint (ps_Index p))) psis) \<longrightarrow>
         (\<exists>p \<in> set psis. nat (sint (ps_Index p)) = i \<and> siList ! i = ps_Si p)
       else siList ! i = '''') \<and>
    ms_ClientFromJSONPublicKey M (msd_PubKeys msd ! 0) = Inr xcc \<and>
    xcc_GenerateMultiSignSignature xcc (xcc_GetSUsingAllSi xcc siList) (msd_R msd) = Inr sg \<and>
    (let signed = tx\<lparr>tx_XuperSign := Some \<lparr>xsig_PublicKeys = msd_PubKeys msd, xsig_Signature = sg\<rparr>\<rparr> in
     MakeTxId (cd_Tx (e_lib E)) (e_MakeTransactionID E) (Some signed) = Inr txid \<and>
     e_GenLogId E w = (logid, w1) \<and> reply_ok rep \<and>
     xc_PostTx (e_client E) (posted_status (zero_CommTrans\<lparr>ct_ChainName := ro_Name ro\<rparr>) logid (signed\<lparr>tx_Txid := txid\<rparr>)) w1
       = (Inr rep, w'))"
proof -
  obtain tx msd siList xcc sg txid r where a: "loadTx E c w = Inr tx" "loadMultisig E M (mss_tx c) w = Inr msd"
      "\<not> length (msd_KList msd) \<le> 1" "length (split_char (CHR '','') signs) = length (msd_KList msd)"
      "collect_si E M w (int (length (msd_KList msd))) (split_char (CHR '','') signs) (replicate (length (msd_KList msd)) '''') = Inr siList"
      "ms_ClientFromJSONPublicKey M (msd_PubKeys msd ! 0) = Inr xcc"
      "xcc_GenerateMultiSignSignature xcc (xcc_GetSUsingAllSi xcc siList) (msd_R msd) = Inr sg"
      "MakeTxId (cd_Tx (e_lib E)) (e_MakeTransactionID E)
         (Some (tx\<lparr>tx_XuperSign := Some \<lparr>xsig_PublicKeys = msd_PubKeys msd, xsig_Signature = sg\<rparr>\<rparr>)) = Inr txid"
      "sendTx E ro (tx\<lparr>tx_XuperSign := Some \<lparr>xsig_PublicKeys = msd_PubKeys msd, xsig_Signature = sg\<rparr>, tx_Txid := txid\<rparr>) w
         = (Inr r, w')"
    using assms unfolding sendXuper_def
    by (auto simp: Let_def io_bind_Inr_iff io_map_err_Inr split: sum.splits if_splits)
  from a(5) obtain psis where p: "traverse (\<lambda>f. loadPartialSign E M f w) (split_char (CHR '','') signs) = Inr psis"
      "\<forall>psi \<in> set psis. 0 \<le> sint (ps_Index psi) \<and> sint (ps_Index psi) < int (length (msd_KList msd))"
      "siList = slots psis (replicate (length (msd_KList msd)) '''')"
    unfolding collect_si_Inr by blast
  have len: "length psis = length (msd_KList msd)" using traverse_length[OF p(1)] a(4) by simp
  have slot: "if i \<in> (\<lambda>p. nat (sint (ps_Index p))) ` set psis
      then distinct (map (\<lambda>p. nat (sint (ps_Index p))) psis) \<longrightarrow>
        (\<exists>p \<in> set psis. nat (sint (ps_Index p)) = i \<and> siList ! i = ps_Si p)
      else siList ! i = ''''" if i: "i < length siList" for i
    using i p(3) slots_distinct slots_unnamed[of i psis "replicate (length (msd_KList msd)) ''''"] by fastforce
  from a(9) obtain logid w1 rep where s: "e_GenLogId E w = (logid, w1)" "reply_ok rep"
      "xc_PostTx (e_client E) (posted_status (zero_CommTrans\<lparr>ct_ChainName := ro_Name ro\<rparr>) logid
         (tx\<lparr>tx_XuperSign := Some \<lparr>xsig_PublicKeys = msd_PubKeys msd, xsig_Signature = sg\<rparr>, tx_Txid := txid\<rparr>)) w1 = (Inr rep, w')"
    unfolding sendTx_Inr by blast
  have two: "2 \<le> length (msd_KList msd)" and lenS: "length siList = length (msd_KList msd)"
    using a(3) p(3) by simp_all
  have slots: "\<forall>i < length siList. if i \<in> (\<lambda>p. nat (sint (ps_Index p))) ` set psis
      then distinct (map (\<lambda>p. nat (sint (ps_Index p))) psis) \<longrightarrow>
        (\<exists>p \<in> set psis. nat (sint (ps_Index p)) = i \<and> siList ! i = ps_Si p)
      else siList ! i = ''''"
    using slot by blast
  show ?thesis
    unfolding Let_def
    by (intro exI conjI, rule a(1), rule a(2), rule two, rule p(1), rule len, rule lenS, rule slots,
        rule a(6), rule a(7), rule a(8), rule s(1), rule s(2), rule s(3))
qed

section \<open>Instances\<close>

text \<open>A client whose keys are their own text and whose signatures are concatenated; both partial signatures name the
  first position.\<close>

definition ex_xcc :: "(TxStatus list, string, string) crypto_client" where
  "ex_xcc =
     \<lparr>xcc_GetRandom32Bytes = io_return ''k'', xcc_GetEcdsaPublicKeyFromJsonStr = Inr, xcc_GetEcdsaPrivateKeyFromJsonStr = Inr,
      xcc_GetAddressFromPublicKey = Inr, xcc_GetRiUsingRandomBytes = (@), xcc_GetRUsingAllRi = (\<lambda>pk rs. concat rs),
      xcc_GetSharedPublicKeyForPublicKeys = (\<lambda>pks. Inr (concat pks)), xcc_GetSiUsingKCRM = (\<lambda>sk k c r d. sk @ k),
      xcc_GetSUsingAllSi = concat, xcc_GenerateMultiSignSignature = (\<lambda>s r. Inr (s @ r))\<rparr>"

definition ex_ms :: "(TxStatus list, string, string) MsEnv" where
  "ex_ms =
     \<lparr>ms_ClientFromJSONPublicKey = (\<lambda>_. Inr ex_xcc), ms_ClientFromJSONPrivateKey = (\<lambda>_. Inr ex_xcc),
      mj_MultisigData = (\<lambda>_. Inr ''msd''),
      un_MultisigData = (\<lambda>_. Inr \<lparr>msd_R = ''r'', msd_C = ''c'', msd_KList = [''k0'', ''k1''], msd_PubKeys = [''p0'', ''p1'']\<rparr>),
      mj_PartialSign = (\<lambda>_. Inr ''psi''), un_PartialSign = (\<lambda>b. Inr \<lparr>ps_Si = b, ps_Index = 0\<rparr>),
      mj_SignatureInfo = (\<lambda>s. if s = Some \<lparr>sig_PublicKey = ''alice'', sig_Sign = ''signed''\<rparr> then Inr ''sig''
                              else Inl (LibErr ''json'')),
      un_SignatureInfo = (\<lambda>b. Inr \<lparr>sig_PublicKey = ''alice'', sig_Sign = ''signed''\<rparr>),
      mj_Transaction = (\<lambda>t. Inr ''tx''), un_Args = (\<lambda>s. Inr Map.empty)\<rparr>"

text \<open>The example world with files: a written file is an entry of the world.\<close>

definition ex_files :: "(TxStatus list, string, string) Env" where
  "ex_files = ex_env
     \<lparr>e_ReadFile := \<lambda>f w. case find (\<lambda>st. txst_Bcname st = f) (rev w) of
          None \<Rightarrow> e_ReadFile ex_env f w | Some st \<Rightarrow> Inr (txst_Txid st),
      e_WriteFile := \<lambda>f b w. (Inr (), w @ [new_TxStatus\<lparr>txst_Bcname := f, txst_Txid := b\<rparr>])\<rparr>"

definition ex_keys_root :: RootOptions where "ex_keys_root = NewRootOptions\<lparr>ro_Keys := ''keys''\<rparr>"

lemma ex_laws: "file_law ex_files" "sign_json_law ex_ms"
  by (auto simp: file_law_def ex_files_def sign_json_law_def ex_ms_def split: if_splits)

lemma readPublicKeysFromFile_aliases_witness:
  "readPublicKeysFromFile (ex_env\<lparr>e_ReadFile := \<lambda>f w. Inr (replicate 3000 (CHR ''a'') @ nl # ''bc'')\<rparr>) ''pubkeys'' [] =
     Inr [take 3000 (''bc'' @ drop 2 (replicate 3000 (CHR ''a''))), ''bc'']"
proof -
  let ?l1 = "replicate 3000 (CHR ''a'') :: string"
  let ?E = "ex_env\<lparr>e_ReadFile := \<lambda>f w. Inr (?l1 @ nl # ''bc'')\<rparr>"
  have "last ?l1 = CHR ''a''" by (rule last_replicate) simp
  then have cr: "drop_cr ?l1 = ?l1" "drop_cr ''bc'' = ''bc''" by (simp_all add: drop_cr_def)
  have "e_ReadFile ?E ''pubkeys'' [] = Inr (?l1 @ nl # ''bc'')" by simp
  from readPublicKeysFromFile_aliases[OF this, THEN conjunct2, rule_format, OF refl]
  show ?thesis by (simp add: cr startBufSize_def)
qed

lemma ex_ms_simps [simp]:
  "ms_ClientFromJSONPublicKey ex_ms b = Inr ex_xcc" "un_PartialSign ex_ms b = Inr \<lparr>ps_Si = b, ps_Index = 0\<rparr>"
  "un_MultisigData ex_ms b = Inr \<lparr>msd_R = ''r'', msd_C = ''c'', msd_KList = [''k0'', ''k1''], msd_PubKeys = [''p0'', ''p1'']\<rparr>"
  "mj_SignatureInfo ex_ms (Some \<lparr>sig_PublicKey = ''alice'', sig_Sign = ''signed''\<rparr>) = Inr ''sig''"
  "xcc_GetSUsingAllSi ex_xcc ss = concat ss" "xcc_GenerateMultiSignSignature ex_xcc b b' = Inr (b @ b')"
  by (simp_all add: ex_ms_def ex_xcc_def)

lemma ex_files_simps [simp]:
  "e_ReadFile ex_files f [] = e_ReadFile ex_env f []" "e_lib ex_files = ex_lib"
  "e_CreateCryptoClient ex_files k = Inr ex_signer"
  "e_WriteFile ex_files f b w = (Inr (), w @ [new_TxStatus\<lparr>txst_Bcname := f, txst_Txid := b\<rparr>])"
  "KeyPair_SignTx ex_files kp tx crypto = Inr \<lparr>sig_PublicKey = kp_publicKey kp, sig_Sign = ''signed''\<rparr>"
  by (simp_all add: ex_files_def KeyPair_SignTx_def ComputeTxSign_def TxToXledger_def reencode_def ex_lib_def ex_codec_def)

lemma ex_unmarshal [simp]: "pb_Unmarshal (cd_Tx ex_lib) ''sk'' = Inr new_Transaction"
  by (simp add: ex_lib_def ex_codec_def)

lemma ex_sendTx [simp]:
  "sendTx ex_env ro tx w =
     (Inr (hex_encode (tx_Txid tx)), w @ [posted_status (zero_CommTrans\<lparr>ct_ChainName := ro_Name ro\<rparr>) ''log'' tx])"
  by (simp add: sendTx_def posted_status_def io_draw_def io_bind_def ex_ok_def)


lemma sendXuper_posts_witness:
  "\<exists>w' siList. sendXuper ex_env ex_ms NewRootOptions \<lparr>mss_tx = ''tx'', mss_signType = ''multi''\<rparr> ''a,b'' [] = (Inr (), w') \<and>
     length w' = 1 \<and> length siList = 2 \<and> siList ! 1 = ([] :: bytes)"
proof -
  let ?c = "\<lparr>mss_tx = ''tx'', mss_signType = ''multi''\<rparr>"
  have sp: "split_char (CHR '','') ''a,b'' = [''a'', ''b'']" by simp
  have l: "loadTx ex_env ?c [] = Inr new_Transaction" by (simp add: loadTx_def)
  have m: "loadMultisig ex_env ex_ms ''tx'' [] =
      Inr \<lparr>msd_R = ''r'', msd_C = ''c'', msd_KList = [''k0'', ''k1''], msd_PubKeys = [''p0'', ''p1'']\<rparr>"
    by (simp add: loadMultisig_def)
  have "\<exists>w'. sendXuper ex_env ex_ms NewRootOptions ?c ''a,b'' [] = (Inr (), w') \<and> length w' = 1"
    by (simp add: sendXuper_def l m sp loadPartialSign_def del: new_Transaction_def)
       (simp add: io_bind_def io_map_err_def del: new_Transaction_def)
  then obtain w' where e: "sendXuper ex_env ex_ms NewRootOptions ?c ''a,b'' [] = (Inr (), w')" "length w' = 1" by blast
  have p: "loadPartialSign ex_env ex_ms f [] = Inr psi \<Longrightarrow> ps_Index psi = 0" for f psi
    by (auto simp: loadPartialSign_def)
  from sendXuper_posts[OF e(1)] obtain psis siList msd where
    "loadMultisig ex_env ex_ms (mss_tx ?c) [] = Inr msd" "length siList = length (msd_KList msd)"
    "traverse (\<lambda>f. loadPartialSign ex_env ex_ms f []) (split_char (CHR '','') ''a,b'') = Inr psis"
    "\<forall>i < length siList. if i \<in> (\<lambda>p. nat (sint (ps_Index p))) ` set psis
       then distinct (map (\<lambda>p. nat (sint (ps_Index p))) psis) \<longrightarrow>
         (\<exists>p \<in> set psis. nat (sint (ps_Index p)) = i \<and> siList ! i = ps_Si p)
       else siList ! i = ''''" by blast
  moreover from this(1,2) have "length siList = 2" by (auto simp: loadMultisig_def ex_ms_def)
  moreover from calculation(3) have "1 \<notin> (\<lambda>p. nat (sint (ps_Index p))) ` set psis"
    unfolding traverse_Inr_iff using p by (auto simp: sp list_all2_Cons1)
  ultimately have "length siList = 2 \<and> siList ! 1 = ''''" by auto
  with e show ?thesis by blast
qed

end
