(* ===== verification/ApiTx.thy ===== *)
theory ApiTx
  imports ExampleNode
begin

text \<open>
  \<open>service/rpc/api.go\<close>, the operations that post, pre-execute or lock: one function per
  handler.  A handler returns the response with an optional error, and the server's
  state: the node behind the engine and the messages given to \<open>Net.SendMessage\<close> (which
  the code starts in a goroutine and whose result it drops).  The response is an
  initialised message on every path and its \<open>Header\<close> is left for the interceptor.
\<close>

record ('w, 'x) RpcState =
  st_node :: 'w
  st_sent :: "(string \<times> 'x \<times> string) list"

type_synonym 'r reply = "'r \<times> gerr option"

text \<open>Run an operation of the node inside the server's state.\<close>

definition on_node :: "('w \<Rightarrow> 'a \<times> 'w) \<Rightarrow> ('w, 'x) RpcState \<Rightarrow> 'a \<times> ('w, 'x) RpcState" where
  "on_node f s = (let (r, w) = f (st_node s) in (r, s\<lparr>st_node := w\<rparr>))"

section \<open>\<open>PostTx\<close>\<close>

definition PostTx ::
  "'x xlib \<Rightarrow> ('w, 'x, 'k) ReqCtx \<Rightarrow> TxStatus option \<Rightarrow> ('w, 'x) RpcState \<Rightarrow>
   CommonReply reply \<times> ('w, 'x) RpcState" where
  "PostTx L rctx req s =
     (let resp = new_CommonReply in
      if req = None \<or> nilget None txst_Tx req = None \<or> nilget '''' txst_Bcname req = ''''
      then ((resp, Some (Ecom ErrParameter)), s)
      else
        (case TxToXledger (cd_Tx L) (nilget None txst_Tx req) of
           None \<Rightarrow> ((resp, Some (Ecom ErrParameter)), s)
         | Some tx \<Rightarrow>
             (case NewChainHandle (nilget '''' txst_Bcname req) (Some rctx) (st_node s) of
                Inl err \<Rightarrow> ((resp, Some err), s)
              | Inr handle \<Rightarrow>
                  (case on_node (SubmitTx handle tx) s of
                     (None, s') \<Rightarrow>
                       ((resp, None),
                        s'\<lparr>st_sent := st_sent s' @ [(nilget '''' txst_Bcname req, tx, rc_LogId rctx)]\<rparr>)
                   | (Some err, s') \<Rightarrow> ((resp, Some err), s')))))"

section \<open>\<open>PreExec\<close>\<close>

definition PreExec ::
  "'x xlib \<Rightarrow> ('w, 'x, 'k) ReqCtx \<Rightarrow> InvokeRPCRequest option \<Rightarrow> ('w, 'x) RpcState \<Rightarrow>
   InvokeRPCResponse reply \<times> ('w, 'x) RpcState" where
  "PreExec L rctx req s =
     (let resp = new_InvokeRPCResponse in
      if req = None \<or> nilget '''' irpc_Bcname req = ''''
      then ((resp, Some (Ecom ErrParameter)), s)
      else
        (case ConvertInvokeReq (cd_InvokeReq L) (nilget None irpc_Requests req) of
           Inl err \<Rightarrow> ((resp, Some (Ecom ErrParameter)), s)
         | Inr reqs \<Rightarrow>
             (case NewChainHandle (nilget '''' irpc_Bcname req) (Some rctx) (st_node s) of
                Inl err \<Rightarrow> ((resp, Some err), s)
              | Inr handle \<Rightarrow>
                  (case on_node (handle_PreExec handle reqs (nilget '''' irpc_Initiator req)
                                   (nilget [] irpc_AuthRequire req)) s of
                     (Inl err, s') \<Rightarrow> ((resp, Some err), s')
                   | (Inr res, s') \<Rightarrow>
                       ((resp\<lparr>irpr_Bcname := nilget '''' irpc_Bcname req,
                              irpr_Response := ConvertInvokeResp (cd_InvokeResp L) res\<rparr>, None), s')))))"

section \<open>\<open>SelectUTXO\<close> and \<open>SelectUTXOBySize\<close>\<close>

text \<open>What both do with the outputs of the chain.  \<open>GetUtxoList\<close> of the response is read
  through its elements from here on, so a nil list and an empty one are the same response.\<close>

definition utxo_reply :: "'x xlib \<Rightarrow> 'x XUtxoOutput option \<Rightarrow> UtxoOutput reply" where
  "utxo_reply L res =
     (let resp = new_UtxoOutput in
      case UtxoListToXchain (cd_Utxo L) (nilget None xuo_UtxoList res) of
        Inl err \<Rightarrow> (resp, Some (Ecom ErrInternal))
      | Inr utxoList \<Rightarrow>
          (resp\<lparr>uout_UtxoList := elems utxoList,
                uout_TotalSelected := nilget '''' xuo_TotalSelected res\<rparr>, None))"

definition SelectUTXO ::
  "'x xlib \<Rightarrow> ('w, 'x, 'k) ReqCtx \<Rightarrow> UtxoInput option \<Rightarrow> ('w, 'x) RpcState \<Rightarrow>
   UtxoOutput reply \<times> ('w, 'x) RpcState" where
  "SelectUTXO L rctx req s =
     (let resp = new_UtxoOutput in
      if req = None \<or> nilget '''' uin_Bcname req = '''' \<or> nilget '''' uin_TotalNeed req = ''''
      then ((resp, Some (Ecom ErrParameter)), s)
      else
        (case big_parse (nilget '''' uin_TotalNeed req) of
           None \<Rightarrow> ((resp, Some (Ecom ErrParameter)), s)
         | Some totalNeed \<Rightarrow>
             (case NewChainHandle (nilget '''' uin_Bcname req) (Some rctx) (st_node s) of
                Inl err \<Rightarrow> ((resp, Some err), s)
              | Inr handle \<Rightarrow>
                  (case on_node (SelectUtxo L handle (nilget '''' uin_Address req) totalNeed
                                   (nilget False uin_NeedLock req) False
                                   (nilget '''' uin_Publickey req) (nilget '''' uin_UserSign req)) s of
                     (Inl err, s') \<Rightarrow> ((resp, Some err), s')
                   | (Inr res, s') \<Rightarrow> (utxo_reply L res, s')))))"

definition SelectUTXOBySize ::
  "'x xlib \<Rightarrow> ('w, 'x, 'k) ReqCtx \<Rightarrow> UtxoInput option \<Rightarrow> ('w, 'x) RpcState \<Rightarrow>
   UtxoOutput reply \<times> ('w, 'x) RpcState" where
  "SelectUTXOBySize L rctx req s =
     (let resp = new_UtxoOutput in
      if req = None \<or> nilget '''' uin_Bcname req = ''''
      then ((resp, Some (Ecom ErrParameter)), s)
      else
        (case NewChainHandle (nilget '''' uin_Bcname req) (Some rctx) (st_node s) of
           Inl err \<Rightarrow> ((resp, Some err), s)
         | Inr handle \<Rightarrow>
             (case on_node (handle_SelectUTXOBySize L handle (nilget '''' uin_Address req)
                              (nilget False uin_NeedLock req) False
                              (nilget '''' uin_Publickey req) (nilget '''' uin_UserSign req)) s of
                (Inl err, s') \<Rightarrow> ((resp, Some err), s')
              | (Inr res, s') \<Rightarrow> (utxo_reply L res, s'))))"

section \<open>\<open>PreExecWithSelectUTXO\<close>\<close>

text \<open>The amount to select is \<open>req.GetTotalAmount() + preExecRes.GetResponse().GetGasUsed()\<close>,
  an \<open>int64\<close> sum that wraps.\<close>

definition PreExecWithSelectUTXO ::
  "'x xlib \<Rightarrow> ('w, 'x, 'k) ReqCtx \<Rightarrow> PreExecWithSelectUTXORequest option \<Rightarrow> ('w, 'x) RpcState \<Rightarrow>
   PreExecWithSelectUTXOResponse reply \<times> ('w, 'x) RpcState" where
  "PreExecWithSelectUTXO L rctx req s =
     (let resp = new_PreExecWithSelectUTXOResponse in
      if req = None \<or> nilget '''' pesreq_Bcname req = '''' \<or> nilget None pesreq_Request req = None
      then ((resp, Some (Ecom ErrParameter)), s)
      else
        (case PreExec L rctx (nilget None pesreq_Request req) s of
           ((preExecRes, Some err), s') \<Rightarrow> ((resp, Some err), s')
         | ((preExecRes, None), s') \<Rightarrow>
             (let resp = resp\<lparr>pesres_Bcname := nilget '''' pesreq_Bcname req,
                              pesres_Response := irpr_Response preExecRes\<rparr>;
                  totalAmount = nilget 0 pesreq_TotalAmount req
                                + nilget 0 iresp_GasUsed (irpr_Response preExecRes)
              in
              if sint totalAmount < 1 then ((resp, None), s')
              else
                (let utxoInput =
                       \<lparr>uin_Header = nilget None pesreq_Header req,
                        uin_Bcname = nilget '''' pesreq_Bcname req,
                        uin_Address = nilget '''' pesreq_Address req,
                        uin_Publickey = nilget '''' sig_PublicKey (nilget None pesreq_SignInfo req),
                        uin_TotalNeed = big_show (sint totalAmount),
                        uin_UserSign = nilget '''' sig_Sign (nilget None pesreq_SignInfo req),
                        uin_NeedLock = nilget False pesreq_NeedLock req\<rparr>
                 in
                 (case SelectUTXO L rctx (Some utxoInput) s' of
                    ((utxoOut, Some err), s'') \<Rightarrow> ((resp, Some err), s'')
                  | ((utxoOut, None), s'') \<Rightarrow>
                      (let utxoOut = utxoOut\<lparr>uout_Header := nilget None pesreq_Header req\<rparr> in
                       ((resp\<lparr>pesres_UtxoOutput := Some utxoOut\<rparr>, None), s'')))))))"

section \<open>Facts\<close>

lemma on_node_eq: "on_node f s = (fst (f (st_node s)), s\<lparr>st_node := snd (f (st_node s))\<rparr>)"
  by (simp add: on_node_def case_prod_beta)

lemma on_node_sent: "on_node f s = (r, s') \<Longrightarrow> st_sent s' = st_sent s"
  by (auto simp: on_node_def split: prod.splits)


section \<open>The contract of a handler\<close>

text \<open>
  What the interceptor relies on, and the comment at the top of \<open>api.go\<close> asks of every
  handler: it leaves the header of the response unset, and a nil request is a parameter
  error that touches nothing.
\<close>

locale rpc_handler =
  fixes resp_header :: "'r \<Rightarrow> Header option"
    and handler :: "'q option \<Rightarrow> 's \<Rightarrow> 'r reply \<times> 's"
  assumes header_unset: "resp_header (fst (fst (handler req s))) = None"
    and nil_request: "snd (fst (handler None s)) = Some (Ecom ErrParameter)"
    and nil_request_state: "snd (handler None s) = s"
begin

lemma nil_refused: "\<exists>r. handler None s = ((r, Some (Ecom ErrParameter)), s) \<and> resp_header r = None"
  using header_unset[of None s] nil_request[of s] nil_request_state[of s]
  by (metis prod.collapse)

end

interpretation rpc_PostTx: rpc_handler crep_Header "PostTx L rctx" for L rctx
  by unfold_locales (auto simp: PostTx_def Let_def split: option.splits sum.splits prod.splits)

interpretation rpc_PreExec: rpc_handler irpr_Header "PreExec L rctx" for L rctx
  by unfold_locales (auto simp: PreExec_def Let_def split: option.splits sum.splits prod.splits)

lemma utxo_reply_header [simp]: "uout_Header (fst (utxo_reply L res)) = None"
  by (simp add: utxo_reply_def Let_def split: sum.splits)

interpretation rpc_SelectUTXO: rpc_handler uout_Header "SelectUTXO L rctx" for L rctx
  by unfold_locales (auto simp: SelectUTXO_def Let_def split: option.splits sum.splits prod.splits)

interpretation rpc_SelectUTXOBySize: rpc_handler uout_Header "SelectUTXOBySize L rctx" for L rctx
  by unfold_locales (auto simp: SelectUTXOBySize_def Let_def split: option.splits sum.splits prod.splits)

interpretation rpc_PreExecWithSelectUTXO: rpc_handler pesres_Header "PreExecWithSelectUTXO L rctx" for L rctx
  by unfold_locales
    (auto simp: PreExecWithSelectUTXO_def Let_def split: option.splits sum.splits prod.splits)

section \<open>Properties\<close>

text \<open>The transaction of a request is accepted when the request is complete, the transaction
  converts, the chain exists and the chain takes it.\<close>

definition accepted ::
  "'x xlib \<Rightarrow> ('w, 'x, 'k) ReqCtx \<Rightarrow> TxStatus option \<Rightarrow> 'w \<Rightarrow> (string \<times> 'x \<times> 'w) option" where
  "accepted L rctx req w =
     (case req of
        None \<Rightarrow> None
      | Some q \<Rightarrow>
          (case (TxToXledger (cd_Tx L) (txst_Tx q), NewChainHandle (txst_Bcname q) (Some rctx) w) of
             (Some x, Inr h) \<Rightarrow>
               (case ch_SubmitTx (h_chain h) x w of
                  (None, w') \<Rightarrow> Some (txst_Bcname q, x, w')
                | _ \<Rightarrow> None)
           | _ \<Rightarrow> None))"

lemma PostTx_cases:
  "case accepted L rctx req (st_node s) of
     Some (bc, x, w') \<Rightarrow>
       PostTx L rctx req s =
         ((new_CommonReply, None), \<lparr>st_node = w', st_sent = st_sent s @ [(bc, x, rc_LogId rctx)]\<rparr>)
   | None \<Rightarrow>
       (\<exists>e. fst (PostTx L rctx req s) = (new_CommonReply, Some e)) \<and>
       st_sent (snd (PostTx L rctx req s)) = st_sent s"
proof (cases "accepted L rctx req (st_node s)")
  case (Some r)
  then obtain q x h w' where "req = Some q" "TxToXledger (cd_Tx L) (txst_Tx q) = Some x"
      "NewChainHandle (txst_Bcname q) (Some rctx) (st_node s) = Inr h"
      "ch_SubmitTx (h_chain h) x (st_node s) = (None, w')" "r = (txst_Bcname q, x, w')"
    by (auto simp: accepted_def split: option.splits sum.splits prod.splits)
  moreover from this have "txst_Tx q \<noteq> None" "txst_Bcname q \<noteq> []"
    by (auto simp: TxToXledger_def reencode_Some_iff NewChainHandle_Inr_iff)
  ultimately show ?thesis
    using Some by (cases s) (simp add: PostTx_def Let_def on_node_eq SubmitTx_def)
next
  case None
  then show ?thesis
    by (cases req) (auto simp: accepted_def PostTx_def Let_def on_node_eq SubmitTx_def
        split: option.splits sum.splits prod.splits)
qed

text \<open>C3: \<open>PostTx\<close> broadcasts exactly the transactions the chain accepted.  When the chain takes the
  converted transaction the reply has no error, the node moves to the state the chain left and one
  message (chain name, transaction, log id of the request) is handed to the network; in every
  other case the reply carries an error and nothing is sent.\<close>

theorem PostTx_broadcasts_accepted:
  "case accepted L rctx req (st_node s) of
     Some (bc, x, w') \<Rightarrow>
       PostTx L rctx req s =
         ((new_CommonReply, None), \<lparr>st_node = w', st_sent = st_sent s @ [(bc, x, rc_LogId rctx)]\<rparr>)
   | None \<Rightarrow>
       (\<exists>e. fst (PostTx L rctx req s) = (new_CommonReply, Some e)) \<and>
       st_sent (snd (PostTx L rctx req s)) = st_sent s"
  by (rule PostTx_cases)

text \<open>Locking outputs through \<open>SelectUTXO\<close> needs the owner.  If the call changed the state of the
  server, then the request names a chain and an amount, and the signature check of the handle
  passed for the account, the amount and the lock flag of the request.\<close>

theorem SelectUTXO_change_authorised:
  assumes "snd (SelectUTXO L rctx req s) \<noteq> s"
  shows "\<exists>q n h. req = Some q \<and> big_parse (uin_TotalNeed q) = Some n \<and>
           NewChainHandle (uin_Bcname q) (Some rctx) (st_node s) = Inr h \<and>
           checkSelectUtxoSign L h (uin_Address q) (uin_Publickey q) (uin_UserSign q) (uin_NeedLock q) n"
proof -
  from assms obtain q n h where q: "req = Some q" "big_parse (uin_TotalNeed q) = Some n"
      "NewChainHandle (uin_Bcname q) (Some rctx) (st_node s) = Inr h"
      "snd (on_node (SelectUtxo L h (uin_Address q) n (uin_NeedLock q) False
              (uin_Publickey q) (uin_UserSign q)) s) \<noteq> s"
    by (auto simp: SelectUTXO_def Let_def split: option.splits sum.splits prod.splits if_splits)
  from q(4) have "snd (SelectUtxo L h (uin_Address q) n (uin_NeedLock q) False
              (uin_Publickey q) (uin_UserSign q) (st_node s)) \<noteq> st_node s"
    by (auto simp: on_node_eq)
  then have "lock_check L h (uin_Address q, n, uin_NeedLock q, False, uin_Publickey q, uin_UserSign q)"
    using sel.changed_only_if_checked[of L h
        "(uin_Address q, n, uin_NeedLock q, False, uin_Publickey q, uin_UserSign q)" "st_node s"]
    by simp
  with q show ?thesis by (auto simp: lock_check_def)
qed

definition ex_lock_request :: UtxoInput where
  "ex_lock_request = \<lparr>uin_Header = None, uin_Bcname = ''xuper'', uin_Address = ''alice'',
     uin_Publickey = ''alice'', uin_TotalNeed = ''10'', uin_UserSign = ''xuperalice10true'',
     uin_NeedLock = True\<rparr>"

lemma SelectUTXO_change_authorised_witness:
  "\<exists>q n h. Some ex_lock_request = Some q \<and> big_parse (uin_TotalNeed q) = Some n \<and>
     NewChainHandle (uin_Bcname q) (Some ex_ctx) (0::nat) = Inr h \<and>
     checkSelectUtxoSign ex_lib h (uin_Address q) (uin_Publickey q) (uin_UserSign q) (uin_NeedLock q) n"
proof -
  have "st_node (snd (SelectUTXO ex_lib ex_ctx (Some ex_lock_request) \<lparr>st_node = 0, st_sent = []\<rparr>)) = 1"
    by code_simp
  then have "snd (SelectUTXO ex_lib ex_ctx (Some ex_lock_request) \<lparr>st_node = 0, st_sent = []\<rparr>) \<noteq>
      \<lparr>st_node = 0, st_sent = []\<rparr>" by auto
  from SelectUTXO_change_authorised[OF this] show ?thesis by simp
qed

text \<open>The response of a successful pre-execution, before any output is selected.\<close>

definition preexec_response :: "PreExecWithSelectUTXORequest \<Rightarrow> InvokeRPCResponse \<Rightarrow> PreExecWithSelectUTXOResponse" where
  "preexec_response q res = new_PreExecWithSelectUTXOResponse
     \<lparr>pesres_Bcname := pesreq_Bcname q, pesres_Response := irpr_Response res\<rparr>"

definition gas_of :: "InvokeRPCResponse \<Rightarrow> int64" where
  "gas_of res = nilget 0 iresp_GasUsed (irpr_Response res)"

lemma sint_plus_int64:
  "min_int64 \<le> sint a + sint b \<Longrightarrow> sint a + sint b \<le> max_int64 \<Longrightarrow> sint (a + b :: int64) = sint a + sint b"
  by (subst sint_of_int64[symmetric]) simp_all

lemma sint_plus_int64_wrap:
  assumes "0 \<le> sint a" "0 \<le> sint b" "max_int64 < sint a + sint b"
  shows "sint (a + b :: int64) = sint a + sint b - 2 ^ 64"
proof -
  have "a + b = word_of_int (sint a + sint b - 2 ^ 64)"
    by (simp add: word_of_int_2p[symmetric] word_of_int_power_hom of_int_diff)
  moreover have "min_int64 \<le> sint a + sint b - 2 ^ 64" "sint a + sint b - 2 ^ 64 \<le> max_int64"
    using assms(3) sint_int64_bounds[of a] sint_int64_bounds[of b]
    by (simp_all add: min_int64_def max_int64_def)
  ultimately show ?thesis by (simp only: sint_of_int64)
qed

lemma PreExecWithSelectUTXO_unfold:
  assumes "PreExec L rctx (pesreq_Request q) s = ((res, None), s')"
    and "pesreq_Bcname q \<noteq> ''''" "pesreq_Request q \<noteq> None"
  shows "PreExecWithSelectUTXO L rctx (Some q) s =
    (let total = pesreq_TotalAmount q + gas_of res in
     if sint total < 1 then ((preexec_response q res, None), s')
     else case SelectUTXO L rctx (Some \<lparr>uin_Header = pesreq_Header q, uin_Bcname = pesreq_Bcname q,
                 uin_Address = pesreq_Address q,
                 uin_Publickey = nilget '''' sig_PublicKey (pesreq_SignInfo q),
                 uin_TotalNeed = big_show (sint total),
                 uin_UserSign = nilget '''' sig_Sign (pesreq_SignInfo q),
                 uin_NeedLock = pesreq_NeedLock q\<rparr>) s' of
        ((uo, Some err), s'') \<Rightarrow> ((preexec_response q res, Some err), s'')
      | ((uo, None), s'') \<Rightarrow>
          (((preexec_response q res)\<lparr>pesres_UtxoOutput := Some (uo\<lparr>uout_Header := pesreq_Header q\<rparr>)\<rparr>, None), s''))"
  using assms by (simp add: PreExecWithSelectUTXO_def preexec_response_def gas_of_def Let_def
      split: option.split prod.split)

text \<open>After a successful pre-execution the outputs to select cover the requested amount plus the gas
  used: when the sum fits an \<open>int64\<close> and is at least one, the chain is asked, through its permission check,
  for exactly that sum, and its outputs are returned under the header of the request.\<close>

theorem PreExecWithSelectUTXO_selects_sum:
  assumes "PreExec L rctx (pesreq_Request q) s = ((res, None), s')"
    and "pesreq_Bcname q \<noteq> ''''" "pesreq_Request q \<noteq> None"
    and total: "1 \<le> sint (pesreq_TotalAmount q) + sint (gas_of res)"
      "sint (pesreq_TotalAmount q) + sint (gas_of res) \<le> max_int64"
    and "NewChainHandle (pesreq_Bcname q) (Some rctx) (st_node s') = Inr h"
    and "SelectUtxo L h (pesreq_Address q) (sint (pesreq_TotalAmount q) + sint (gas_of res))
           (pesreq_NeedLock q) False (nilget '''' sig_PublicKey (pesreq_SignInfo q))
           (nilget '''' sig_Sign (pesreq_SignInfo q)) (st_node s') = (Inr out, w'')"
    and "utxo_reply L out = (uo, None)"
  shows "PreExecWithSelectUTXO L rctx (Some q) s =
    (((preexec_response q res)\<lparr>pesres_UtxoOutput := Some (uo\<lparr>uout_Header := pesreq_Header q\<rparr>)\<rparr>, None),
     s'\<lparr>st_node := w''\<rparr>)"
proof -
  have "sint (pesreq_TotalAmount q + gas_of res) = sint (pesreq_TotalAmount q) + sint (gas_of res)"
    using total by (intro sint_plus_int64) (simp_all add: min_int64_def)
  then show ?thesis
    using total(1) assms(2,6-8) PreExecWithSelectUTXO_unfold[OF assms(1-3)]
    by (simp add: SelectUTXO_def Let_def on_node_eq)
qed

definition ex_preexec_request :: PreExecWithSelectUTXORequest where
  "ex_preexec_request = new_PreExecWithSelectUTXORequest
     \<lparr>pesreq_Bcname := ''xuper'', pesreq_Address := ''alice'', pesreq_TotalAmount := 7,
      pesreq_Request := Some (new_InvokeRPCRequest\<lparr>irpc_Bcname := ''xuper''\<rparr>)\<rparr>"

definition ex_preexec_result :: InvokeRPCResponse where
  "ex_preexec_result = new_InvokeRPCResponse\<lparr>irpr_Bcname := ''xuper'',
     irpr_Response := Some (new_InvokeResponse\<lparr>iresp_GasUsed := 5\<rparr>)\<rparr>"

lemma ex_preexec:
  "PreExec ex_lib ex_ctx (Some (new_InvokeRPCRequest\<lparr>irpc_Bcname := ''xuper''\<rparr>)) \<lparr>st_node = n, st_sent = []\<rparr> =
   ((ex_preexec_result, None), \<lparr>st_node = n, st_sent = []\<rparr>)"
  by (simp add: PreExec_def Let_def ConvertInvokeReq_def ex_handle on_node_eq handle_PreExec_def
      ConvertInvokeResp_def reencode_def ex_preexec_result_def)
     (simp add: ex_defs ConvertInvokeResp_def reencode_def)

lemma PreExecWithSelectUTXO_selects_sum_witness:
  "PreExecWithSelectUTXO ex_lib ex_ctx (Some ex_preexec_request) \<lparr>st_node = 0, st_sent = []\<rparr> =
    (((preexec_response ex_preexec_request ex_preexec_result)
        \<lparr>pesres_UtxoOutput := Some (new_UtxoOutput\<lparr>uout_UtxoList := [ex_utxo], uout_TotalSelected := ''12''\<rparr>)\<rparr>, None),
     \<lparr>st_node = 0, st_sent = []\<rparr>)"
proof -
  have "sint (gas_of ex_preexec_result) = 5" "sint (pesreq_TotalAmount ex_preexec_request) = 7"
    by (simp_all add: gas_of_def ex_preexec_result_def ex_preexec_request_def)
  moreover have "big_show 12 = ''12''" by code_simp
  ultimately show ?thesis
    using PreExecWithSelectUTXO_selects_sum[of ex_lib ex_ctx ex_preexec_request "\<lparr>st_node = 0, st_sent = []\<rparr>"
        ex_preexec_result "\<lparr>st_node = 0, st_sent = []\<rparr>" ex_handle
        "Some \<lparr>xuo_UtxoList = Some [Some ''u''], xuo_TotalSelected = ''12''\<rparr>" 0
        "new_UtxoOutput\<lparr>uout_UtxoList := [ex_utxo], uout_TotalSelected := ''12''\<rparr>"]
    by (simp add: ex_preexec_request_def ex_preexec[simplified] ex_handle max_int64_def SelectUtxo_def
        checkSelectUtxoSign_def utxo_reply_def UtxoListToXchain_def UtxoToXchain_def reencode_def)
       (simp add: ex_defs)
qed

text \<open>The sum is an \<open>int64\<close>.  When a non-negative amount and a non-negative gas exceed its range the
  sum is negative, and the call succeeds without selecting or locking any output.\<close>

theorem PreExecWithSelectUTXO_overflow:
  assumes "PreExec L rctx (pesreq_Request q) s = ((res, None), s')"
    and "pesreq_Bcname q \<noteq> ''''" "pesreq_Request q \<noteq> None"
    and "0 \<le> sint (pesreq_TotalAmount q)" "0 \<le> sint (gas_of res)"
      "max_int64 < sint (pesreq_TotalAmount q) + sint (gas_of res)"
  shows "PreExecWithSelectUTXO L rctx (Some q) s = ((preexec_response q res, None), s')"
proof -
  have "sint (pesreq_TotalAmount q + gas_of res) < 1"
    using sint_plus_int64_wrap[OF assms(4-6)] sint_int64_bounds(2)[of "pesreq_TotalAmount q"]
      sint_int64_bounds(2)[of "gas_of res"]
    by (simp add: max_int64_def)
  then show ?thesis
    using PreExecWithSelectUTXO_unfold[OF assms(1-3)] by (simp add: Let_def)
qed

lemma PreExecWithSelectUTXO_overflow_witness:
  "PreExecWithSelectUTXO ex_lib ex_ctx
     (Some (ex_preexec_request\<lparr>pesreq_TotalAmount := word_of_int max_int64\<rparr>)) \<lparr>st_node = 0, st_sent = []\<rparr> =
   ((preexec_response (ex_preexec_request\<lparr>pesreq_TotalAmount := word_of_int max_int64\<rparr>) ex_preexec_result, None),
    \<lparr>st_node = 0, st_sent = []\<rparr>)"
proof -
  have "sint (gas_of ex_preexec_result) = 5" by (simp add: gas_of_def ex_preexec_result_def)
  moreover have "sint (word_of_int max_int64 :: int64) = max_int64"
    by (rule sint_of_int64) (simp_all add: min_int64_def max_int64_def)
  ultimately show ?thesis
    by (intro PreExecWithSelectUTXO_overflow) (simp_all add: ex_preexec_request_def ex_preexec[simplified] max_int64_def)
qed

end
