(* ===== verification/ApiQuery.thy ===== *)
theory ApiQuery
  imports ApiTx
begin

text \<open>
  \<open>service/rpc/api.go\<close>, the queries.  A query reads the node and changes nothing, so it is
  a function of the node's state; \<open>as_handler\<close> makes it a handler of the server.
\<close>

definition as_handler :: "('q option \<Rightarrow> 'w \<Rightarrow> 'r reply) \<Rightarrow> 'q option \<Rightarrow> ('w, 'x) RpcState \<Rightarrow>
   'r reply \<times> ('w, 'x) RpcState" where
  "as_handler f req s = (f req (st_node s), s)"

section \<open>Contracts, accounts and permissions\<close>

definition QueryContractStatData ::
  "('w, 'x, 'k) ReqCtx \<Rightarrow> ContractStatDataRequest option \<Rightarrow> 'w \<Rightarrow> ContractStatDataResponse reply" where
  "QueryContractStatData rctx req w =
     (let resp = new_ContractStatDataResponse in
      if req = None \<or> nilget '''' csdreq_Bcname req = '''' then (resp, Some (Ecom ErrParameter))
      else
        (case NewChainHandle (nilget '''' csdreq_Bcname req) (Some rctx) w of
           Inl err \<Rightarrow> (resp, Some err)
         | Inr handle \<Rightarrow>
             (case handle_QueryContractStatData handle w of
                Inl err \<Rightarrow> (resp, Some err)
              | Inr res \<Rightarrow>
                  (resp\<lparr>csdres_Bcname := nilget '''' csdreq_Bcname req,
                        csdres_Data := Some \<lparr>csd_AccountCount = nilget 0 xcsd_AccountCount res,
                                             csd_ContractCount = nilget 0 xcsd_ContractCount res\<rparr>\<rparr>,
                   None))))"

definition QueryUtxoRecord ::
  "('w, 'x, 'k) ReqCtx \<Rightarrow> UtxoRecordDetail option \<Rightarrow> 'w \<Rightarrow> UtxoRecordDetail reply" where
  "QueryUtxoRecord rctx req w =
     (let resp = new_UtxoRecordDetail in
      if req = None \<or> nilget '''' urd_Bcname req = '''' then (resp, Some (Ecom ErrParameter))
      else
        (case NewChainHandle (nilget '''' urd_Bcname req) (Some rctx) w of
           Inl err \<Rightarrow> (resp, Some err)
         | Inr handle \<Rightarrow>
             (case handle_QueryUtxoRecord handle (nilget '''' urd_AccountName req)
                     (nilget 0 urd_DisplayCount req) w of
                Inl err \<Rightarrow> (resp, Some err)
              | Inr res \<Rightarrow>
                  (resp\<lparr>urd_Bcname := nilget '''' urd_Bcname req,
                        urd_AccountName := nilget '''' urd_AccountName req,
                        urd_OpenUtxoRecord := UtxoRecordToXchain (nilget None xurd_OpenUtxo res),
                        urd_LockedUtxoRecord := UtxoRecordToXchain (nilget None xurd_LockedUtxo res),
                        urd_FrozenUtxoRecord := UtxoRecordToXchain (nilget None xurd_FrozenUtxo res),
                        urd_DisplayCount := nilget 0 urd_DisplayCount req\<rparr>, None))))"

definition QueryACL ::
  "'x xlib \<Rightarrow> ('w, 'x, 'k) ReqCtx \<Rightarrow> AclStatus option \<Rightarrow> 'w \<Rightarrow> AclStatus reply" where
  "QueryACL L rctx req w =
     (let resp = new_AclStatus;
          accountName = nilget '''' acst_AccountName req;
          contractName = nilget '''' acst_ContractName req;
          methodName = nilget '''' acst_MethodName req
      in
      if req = None \<or> nilget '''' acst_Bcname req = '''' then (resp, Some (Ecom ErrParameter))
      else if length accountName < 1 \<and> (length contractName < 1 \<or> length methodName < 1)
      then (resp, Some (Ecom ErrParameter))
      else
        (case NewChainHandle (nilget '''' acst_Bcname req) (Some rctx) w of
           Inl err \<Rightarrow> (resp, Some err)
         | Inr handle \<Rightarrow>
             (case (if length accountName > 0 then QueryAccountACL handle accountName w
                    else if length contractName > 0 \<and> length methodName > 0
                    then QueryContractMethodACL handle contractName methodName w
                    else Inr None) of
                Inl err \<Rightarrow> (resp, Some err)
              | Inr aclRes \<Rightarrow>
                  (case aclRes of
                     None \<Rightarrow> (resp\<lparr>acst_Confirmed := False\<rparr>, None)
                   | Some a \<Rightarrow>
                       (case AclToXchain (cd_Acl L) (Some a) of
                          None \<Rightarrow> (resp, Some (Ecom ErrInternal))
                        | Some xchainAcl \<Rightarrow>
                            (resp\<lparr>acst_Bcname := nilget '''' acst_Bcname req,
                                  acst_AccountName := accountName,
                                  acst_ContractName := contractName,
                                  acst_MethodName := methodName,
                                  acst_Confirmed := True,
                                  acst_Acl := Some xchainAcl\<rparr>, None))))))"

text \<open>An account without contracts is an internal error: \<open>xchainContractStatus == nil\<close>.\<close>

definition GetAccountContracts ::
  "'x xlib \<Rightarrow> ('w, 'x, 'k) ReqCtx \<Rightarrow> GetAccountContractsRequest option \<Rightarrow> 'w \<Rightarrow>
   GetAccountContractsResponse reply" where
  "GetAccountContracts L rctx req w =
     (let resp = new_GetAccountContractsResponse in
      if req = None \<or> nilget '''' gacreq_Bcname req = '''' \<or> nilget '''' gacreq_Account req = ''''
      then (resp, Some (Ecom ErrParameter))
      else
        (case NewChainHandle (nilget '''' gacreq_Bcname req) (Some rctx) w of
           Inl err \<Rightarrow> (resp, Some err)
         | Inr handle \<Rightarrow>
             (case handle_GetAccountContracts handle (nilget '''' gacreq_Account req) w of
                Inl err \<Rightarrow> (resp, Some err)
              | Inr res \<Rightarrow>
                  (case ContractStatusListToXchain (cd_ContractStatus L) res of
                     Inl err \<Rightarrow> (resp, Some (Ecom ErrInternal))
                   | Inr None \<Rightarrow> (resp, Some (Ecom ErrInternal))
                   | Inr (Some xchainContractStatus) \<Rightarrow>
                       (resp\<lparr>gacres_ContractsStatus := xchainContractStatus\<rparr>, None)))))"

definition GetAccountByAK ::
  "('w, 'x, 'k) ReqCtx \<Rightarrow> AK2AccountRequest option \<Rightarrow> 'w \<Rightarrow> AK2AccountResponse reply" where
  "GetAccountByAK rctx req w =
     (let resp = new_AK2AccountResponse in
      if req = None \<or> nilget '''' akreq_Bcname req = '''' \<or> nilget '''' akreq_Address req = ''''
      then (resp, Some (Ecom ErrParameter))
      else
        (case NewChainHandle (nilget '''' akreq_Bcname req) (Some rctx) w of
           Inl err \<Rightarrow> (resp, Some err)
         | Inr handle \<Rightarrow>
             (case handle_GetAccountByAK handle (nilget '''' akreq_Address req) w of
                Inl err \<Rightarrow> (resp, Some err)
              | Inr None \<Rightarrow> (resp, None)
              | Inr (Some accounts) \<Rightarrow>
                  (resp\<lparr>akres_Account := accounts,
                        akres_Bcname := nilget '''' akreq_Bcname req\<rparr>, None))))"

text \<open>The loop over the accounts of an address.  When the query of one account fails the code
  logs \<open>req.Header.Logid\<close>, which panics on a request without header.\<close>

primrec address_contracts ::
  "'x xlib \<Rightarrow> ('w, 'x, 'k) ChainHandle \<Rightarrow> Header option \<Rightarrow> 'w \<Rightarrow> string list \<Rightarrow>
   (string \<rightharpoonup> ContractStatus list) \<Rightarrow> (string \<rightharpoonup> ContractStatus list) outcome" where
  "address_contracts L handle hdr w [] acc = Ret acc"
| "address_contracts L handle hdr w (account # accounts) acc =
     (case handle_GetAccountContracts handle account w of
        Inl err \<Rightarrow>
          (case hdr of None \<Rightarrow> Panic | Some _ \<Rightarrow> address_contracts L handle hdr w accounts acc)
      | Inr contracts \<Rightarrow>
          if length (elems contracts) > 0
          then (case ContractStatusListToXchain (cd_ContractStatus L) contracts of
                  Inr (Some xchainContracts) \<Rightarrow>
                    address_contracts L handle hdr w accounts (acc(account \<mapsto> xchainContracts))
                | _ \<Rightarrow> address_contracts L handle hdr w accounts acc)
          else address_contracts L handle hdr w accounts acc)"

definition GetAddressContracts ::
  "'x xlib \<Rightarrow> ('w, 'x, 'k) ReqCtx \<Rightarrow> AddressContractsRequest option \<Rightarrow> 'w \<Rightarrow>
   AddressContractsResponse reply outcome" where
  "GetAddressContracts L rctx req w =
     (let resp = new_AddressContractsResponse in
      if req = None \<or> nilget '''' acreq_Bcname req = '''' \<or> nilget '''' acreq_Address req = ''''
      then Ret (resp, Some (Ecom ErrParameter))
      else
        (case NewChainHandle (nilget '''' acreq_Bcname req) (Some rctx) w of
           Inl err \<Rightarrow> Ret (resp, Some err)
         | Inr handle \<Rightarrow>
             (case handle_GetAccountByAK handle (nilget '''' acreq_Address req) w of
                Inl err \<Rightarrow> Ret (resp, Some err)
              | Inr None \<Rightarrow> Ret (resp, None)
              | Inr (Some accounts) \<Rightarrow>
                  out_bind (address_contracts L handle (nilget None acreq_Header req) w accounts
                              (\<lambda>_. None))
                    (\<lambda>contracts. Ret (resp\<lparr>acres_Contracts := contracts\<rparr>, None)))))"

section \<open>Transactions and blocks\<close>

definition QueryTx ::
  "'x xlib \<Rightarrow> ('w, 'x, 'k) ReqCtx \<Rightarrow> TxStatus option \<Rightarrow> 'w \<Rightarrow> TxStatus reply" where
  "QueryTx L rctx req w =
     (let resp = new_TxStatus in
      if req = None \<or> nilget '''' txst_Bcname req = '''' \<or> length (nilget '''' txst_Txid req) = 0
      then (resp, Some (Ecom ErrParameter))
      else
        (case NewChainHandle (nilget '''' txst_Bcname req) (Some rctx) w of
           Inl err \<Rightarrow> (resp, Some (EcomMore ErrInternal ''new chain handle''))
         | Inr handle \<Rightarrow>
             (case handle_QueryTx handle (nilget '''' txst_Txid req) w of
                Inl err \<Rightarrow> (resp, Some err)
              | Inr txInfo \<Rightarrow>
                  (case TxToXchain (cd_Tx L) (xti_Tx txInfo) of
                     None \<Rightarrow> (resp, Some (Ecom ErrInternal))
                   | Some tx \<Rightarrow>
                       (resp\<lparr>txst_Bcname := nilget '''' txst_Bcname req,
                             txst_Txid := nilget '''' txst_Txid req,
                             txst_Tx := Some tx,
                             txst_Status := xti_Status txInfo,
                             txst_Distance := xti_Distance txInfo\<rparr>, None)))))"

definition GetBlock ::
  "'x xlib \<Rightarrow> ('w, 'x, 'k) ReqCtx \<Rightarrow> BlockID option \<Rightarrow> 'w \<Rightarrow> Block reply" where
  "GetBlock L rctx req w =
     (let resp = new_Block in
      if req = None \<or> nilget '''' blkid_Bcname req = '''' \<or> length (nilget '''' blkid_Blockid req) = 0
      then (resp, Some (Ecom ErrParameter))
      else
        (case NewChainHandle (nilget '''' blkid_Bcname req) (Some rctx) w of
           Inl err \<Rightarrow> (resp, Some err)
         | Inr handle \<Rightarrow>
             (case QueryBlock handle (nilget '''' blkid_Blockid req) True w of
                Inl err \<Rightarrow> (resp, Some err)
              | Inr blockInfo \<Rightarrow>
                  (case BlockToXchain (cd_Block L) (xbi_Block blockInfo) of
                     None \<Rightarrow> (resp, Some (Ecom ErrInternal))
                   | Some block \<Rightarrow>
                       (resp\<lparr>blk_Block := Some block,
                             blk_Status := xbi_Status blockInfo,
                             blk_Bcname := nilget '''' blkid_Bcname req,
                             blk_Blockid := nilget '''' blkid_Blockid req\<rparr>, None)))))"

definition GetBlockByHeight ::
  "'x xlib \<Rightarrow> ('w, 'x, 'k) ReqCtx \<Rightarrow> BlockHeight option \<Rightarrow> 'w \<Rightarrow> Block reply" where
  "GetBlockByHeight L rctx req w =
     (let resp = new_Block in
      if req = None \<or> nilget '''' blkh_Bcname req = '''' then (resp, Some (Ecom ErrParameter))
      else
        (case NewChainHandle (nilget '''' blkh_Bcname req) (Some rctx) w of
           Inl err \<Rightarrow> (resp, Some err)
         | Inr handle \<Rightarrow>
             (case QueryBlockByHeight handle (nilget 0 blkh_Height req) True w of
                Inl err \<Rightarrow> (resp, Some err)
              | Inr blockInfo \<Rightarrow>
                  (case BlockToXchain (cd_Block L) (xbi_Block blockInfo) of
                     None \<Rightarrow> (resp, Some (Ecom ErrInternal))
                   | Some block \<Rightarrow>
                       (resp\<lparr>blk_Block := Some block,
                             blk_Status := xbi_Status blockInfo,
                             blk_Bcname := nilget '''' blkh_Bcname req,
                             blk_Blockid := nilget '''' (lib_BlockBlockid L) (xbi_Block blockInfo)\<rparr>,
                        None)))))"

section \<open>Status of a chain, of the node and of the network\<close>

text \<open>A failed conversion returns \<open>resp, err\<close> with the \<open>err\<close> of the query before it, which is nil.\<close>

definition GetBlockChainStatus ::
  "'x xlib \<Rightarrow> ('w, 'x, 'k) ReqCtx \<Rightarrow> BCStatus option \<Rightarrow> 'w \<Rightarrow> BCStatus reply" where
  "GetBlockChainStatus L rctx req w =
     (let resp = new_BCStatus in
      if req = None \<or> nilget '''' bcst_Bcname req = '''' then (resp, Some (Ecom ErrParameter))
      else
        (case NewChainHandle (nilget '''' bcst_Bcname req) (Some rctx) w of
           Inl err \<Rightarrow> (resp, Some err)
         | Inr handle \<Rightarrow>
             (case QueryChainStatus handle w of
                Inl err \<Rightarrow> (resp, Some err)
              | Inr status \<Rightarrow>
                  (case BlockToXchain (cd_Block L) (xcs_Block status) of
                     None \<Rightarrow> (resp, None)
                   | Some block \<Rightarrow>
                       (case LedgerMetaToXchain (cd_LedgerMeta L) (xcs_LedgerMeta status) of
                          None \<Rightarrow> (resp, None)
                        | Some ledgerMeta \<Rightarrow>
                            (case UtxoMetaToXchain (cd_UtxoMeta L) (xcs_UtxoMeta status) of
                               None \<Rightarrow> (resp, None)
                             | Some utxoMeta \<Rightarrow>
                                 (resp\<lparr>bcst_Bcname := nilget '''' bcst_Bcname req,
                                       bcst_Meta := Some ledgerMeta,
                                       bcst_Block := Some block,
                                       bcst_UtxoMeta := Some utxoMeta,
                                       bcst_BranchBlockid := xcs_BranchIds status\<rparr>, None)))))))"

definition ConfirmBlockChainStatus ::
  "('w, 'x, 'k) ReqCtx \<Rightarrow> BCStatus option \<Rightarrow> 'w \<Rightarrow> BCTipStatus reply" where
  "ConfirmBlockChainStatus rctx req w =
     (let resp = new_BCTipStatus in
      if req = None \<or> nilget '''' bcst_Bcname req = '''' then (resp, Some (Ecom ErrParameter))
      else
        (case NewChainHandle (nilget '''' bcst_Bcname req) (Some rctx) w of
           Inl err \<Rightarrow> (resp, Some err)
         | Inr handle \<Rightarrow>
             (case IsTrunkTipBlock handle (nilget '''' iblk_Blockid (nilget None bcst_Block req)) w of
                Inl err \<Rightarrow> (resp, Some err)
              | Inr isTrunkTip \<Rightarrow> (resp\<lparr>btip_IsTrunkTip := isTrunkTip\<rparr>, None))))"

definition GetBlockChains ::
  "('w, 'x, 'k) Engine \<Rightarrow> CommonIn option \<Rightarrow> 'w \<Rightarrow> BlockChains reply" where
  "GetBlockChains t req w =
     (let resp = new_BlockChains in
      if req = None then (resp, Some (Ecom ErrParameter))
      else (resp\<lparr>bchs_Blockchains := eng_GetChains t w\<rparr>, None))"

text \<open>An error of one chain is logged and its empty status is still appended.\<close>

definition GetSystemStatus ::
  "'x xlib \<Rightarrow> ('w, 'x, 'k) Engine \<Rightarrow> ('w, 'x, 'k) ReqCtx \<Rightarrow> CommonIn option \<Rightarrow> 'w \<Rightarrow>
   SystemsStatusReply reply" where
  "GetSystemStatus L t rctx req w =
     (let resp = new_SystemsStatusReply in
      case req of
        None \<Rightarrow> (resp, Some (Ecom ErrParameter))
      | Some r \<Rightarrow>
          (let systemsStatus = new_SystemsStatus\<lparr>syst_Speeds :=
                 Some \<lparr>spd_SumSpeeds = (\<lambda>_. None), spd_BcSpeeds = (\<lambda>_. None)\<rparr>\<rparr>;
               bcs = eng_GetChains t w;
               systemsStatus = systemsStatus\<lparr>syst_BcsStatus :=
                 map (\<lambda>bcName. fst (GetBlockChainStatus L rctx
                        (Some (new_BCStatus\<lparr>bcst_Header := cin_Header r, bcst_Bcname := bcName\<rparr>)) w)) bcs\<rparr>;
               systemsStatus =
                 (if cin_ViewOption r = ViewOption_NONE \<or> cin_ViewOption r = ViewOption_PEERS
                  then systemsStatus\<lparr>syst_PeerUrls := PeerInfoToStrings (eng_PeerInfo t w)\<rparr>
                  else systemsStatus)
           in (resp\<lparr>systr_SystemsStatus := Some systemsStatus\<rparr>, None)))"

definition GetNetURL ::
  "('w, 'x, 'k) Engine \<Rightarrow> CommonIn option \<Rightarrow> 'w \<Rightarrow> RawUrl reply" where
  "GetNetURL t req w =
     (let resp = new_RawUrl in
      if req = None then (resp, Some (Ecom ErrParameter))
      else (resp\<lparr>rurl_RawUrl := xpi_Address (eng_PeerInfo t w)\<rparr>, None))"

definition GetConsensusStatus ::
  "('w, 'x, 'k) ReqCtx \<Rightarrow> ConsensusStatRequest option \<Rightarrow> 'w \<Rightarrow> ConsensusStatus reply" where
  "GetConsensusStatus rctx req w =
     (let resp = new_ConsensusStatus in
      if req = None \<or> nilget '''' csreq_Bcname req = '''' then (resp, Some (Ecom ErrParameter))
      else
        (case NewChainHandle (nilget '''' csreq_Bcname req) (Some rctx) w of
           Inl err \<Rightarrow> (resp, Some (Ecom ErrForbidden))
         | Inr handle \<Rightarrow>
             (case QueryConsensusStatus handle w of
                Inl err \<Rightarrow> (resp, Some (Ecom ErrForbidden))
              | Inr status \<Rightarrow>
                  (resp\<lparr>cons_ConsensusName := xco_ConsensusName status,
                        cons_Version := xco_Version status,
                        cons_StartHeight := xco_StartHeight status,
                        cons_ValidatorsInfo := xco_ValidatorsInfo status\<rparr>, None))))"

section \<open>Balances\<close>

text \<open>The three loops over the chains of the request: one entry per chain, in order, and no
  chain stops the loop.\<close>

definition balance_entry ::
  "(('w, 'x, 'k) ChainHandle \<Rightarrow> 'w \<Rightarrow> gerr + string) \<Rightarrow> ('w, 'x, 'k) ReqCtx \<Rightarrow> 'w \<Rightarrow> TokenDetail \<Rightarrow> TokenDetail" where
  "balance_entry get rctx w bc =
     (let tmpTokenDetail = \<lparr>tokd_Bcname = tokd_Bcname bc, tokd_Balance = '''', tokd_Error = SUCCESS\<rparr> in
      case NewChainHandle (tokd_Bcname bc) (Some rctx) w of
        Inl err \<Rightarrow> tmpTokenDetail\<lparr>tokd_Error := BLOCKCHAIN_NOTEXIST, tokd_Balance := ''''\<rparr>
      | Inr handle \<Rightarrow>
          (case get handle w of
             Inl err \<Rightarrow> tmpTokenDetail\<lparr>tokd_Error := UNKNOW_ERROR, tokd_Balance := ''''\<rparr>
           | Inr balance \<Rightarrow> tmpTokenDetail\<lparr>tokd_Error := SUCCESS, tokd_Balance := balance\<rparr>))"

definition GetBalance ::
  "('w, 'x, 'k) ReqCtx \<Rightarrow> AddressStatus option \<Rightarrow> 'w \<Rightarrow> AddressStatus reply" where
  "GetBalance rctx req w =
     (let resp = new_AddressStatus in
      case req of
        None \<Rightarrow> (resp, Some (Ecom ErrParameter))
      | Some r \<Rightarrow>
          if adst_Address r = '''' then (resp, Some (Ecom ErrParameter))
          else (resp\<lparr>adst_Bcs := map (balance_entry (\<lambda>h. handle_GetBalance h (adst_Address r)) rctx w) (adst_Bcs r),
                     adst_Address := adst_Address r\<rparr>, None))"

definition GetFrozenBalance ::
  "('w, 'x, 'k) ReqCtx \<Rightarrow> AddressStatus option \<Rightarrow> 'w \<Rightarrow> AddressStatus reply" where
  "GetFrozenBalance rctx req w =
     (let resp = new_AddressStatus in
      case req of
        None \<Rightarrow> (resp, Some (Ecom ErrParameter))
      | Some r \<Rightarrow>
          if adst_Address r = '''' then (resp, Some (Ecom ErrParameter))
          else (resp\<lparr>adst_Bcs := map (balance_entry (\<lambda>h. handle_GetFrozenBalance h (adst_Address r)) rctx w) (adst_Bcs r),
                     adst_Address := adst_Address r\<rparr>, None))"

text \<open>In the success branch the conversion error is set first and then overwritten:
  \<open>Error = SUCCESS\<close>, \<open>Tfd = xchainTfd\<close> (nil when the conversion failed).\<close>

definition balance_detail_entry ::
  "'x xlib \<Rightarrow> ('w, 'x, 'k) ReqCtx \<Rightarrow> string \<Rightarrow> 'w \<Rightarrow> TokenFrozenDetails \<Rightarrow> TokenFrozenDetails" where
  "balance_detail_entry L rctx address w bc =
     (let tmp = \<lparr>tfds_Bcname = tfds_Bcname bc, tfds_Tfd = [], tfds_Error = SUCCESS\<rparr> in
      case NewChainHandle (tfds_Bcname bc) (Some rctx) w of
        Inl err \<Rightarrow> tmp\<lparr>tfds_Error := BLOCKCHAIN_NOTEXIST, tfds_Tfd := []\<rparr>
      | Inr handle \<Rightarrow>
          (case handle_GetBalanceDetail handle address w of
             Inl err \<Rightarrow> tmp\<lparr>tfds_Error := UNKNOW_ERROR, tfds_Tfd := []\<rparr>
           | Inr tfd \<Rightarrow>
               (let (xchainTfd, tmp) =
                  (case BalanceDetailsToXchain (cd_BalanceDetail L) tfd of
                     Inl err \<Rightarrow> ([], tmp\<lparr>tfds_Error := UNKNOW_ERROR, tfds_Tfd := []\<rparr>)
                   | Inr l \<Rightarrow> (elems l, tmp))
                in tmp\<lparr>tfds_Error := SUCCESS, tfds_Tfd := xchainTfd\<rparr>)))"

definition GetBalanceDetail ::
  "'x xlib \<Rightarrow> ('w, 'x, 'k) ReqCtx \<Rightarrow> AddressBalanceStatus option \<Rightarrow> 'w \<Rightarrow> AddressBalanceStatus reply" where
  "GetBalanceDetail L rctx req w =
     (let resp = new_AddressBalanceStatus in
      case req of
        None \<Rightarrow> (resp, Some (Ecom ErrParameter))
      | Some r \<Rightarrow>
          if abst_Address r = '''' then (resp, Some (Ecom ErrParameter))
          else (resp\<lparr>abst_Tfds := map (balance_detail_entry L rctx (abst_Address r) w) (abst_Tfds r),
                     abst_Address := abst_Address r\<rparr>, None))"

section \<open>The retired consensus queries\<close>

text \<open>The \<open>Dpos\<close> queries check the chain name, and some the address, of the request and then
  always refuse.  A request is given by these fields; the response is the empty message
  in every case, so the function is the error.\<close>

definition DposCandidates :: "string option \<Rightarrow> gerr" where
  "DposCandidates bcname = (if bcname = None \<or> nilget '''' id bcname = '''' then Ecom ErrParameter else Ecom ErrForbidden)"

definition DposNominateRecords :: "(string \<times> string) option \<Rightarrow> gerr" where
  "DposNominateRecords req =
     (if req = None \<or> nilget '''' fst req = '''' \<or> nilget '''' snd req = '''' then Ecom ErrParameter else Ecom ErrForbidden)"

definition DposNomineeRecords :: "(string \<times> string) option \<Rightarrow> gerr" where
  "DposNomineeRecords req =
     (if req = None \<or> nilget '''' fst req = '''' \<or> nilget '''' snd req = '''' then Ecom ErrParameter else Ecom ErrForbidden)"

definition DposVoteRecords :: "(string \<times> string) option \<Rightarrow> gerr" where
  "DposVoteRecords req =
     (if req = None \<or> nilget '''' fst req = '''' \<or> nilget '''' snd req = '''' then Ecom ErrParameter else Ecom ErrForbidden)"

definition DposVotedRecords :: "(string \<times> string) option \<Rightarrow> gerr" where
  "DposVotedRecords req =
     (if req = None \<or> nilget '''' fst req = '''' \<or> nilget '''' snd req = '''' then Ecom ErrParameter else Ecom ErrForbidden)"

definition DposCheckResults :: "string option \<Rightarrow> gerr" where
  "DposCheckResults bcname = (if bcname = None \<or> nilget '''' id bcname = '''' then Ecom ErrParameter else Ecom ErrForbidden)"

definition DposStatus :: "string option \<Rightarrow> gerr" where
  "DposStatus bcname = (if bcname = None \<or> nilget '''' id bcname = '''' then Ecom ErrParameter else Ecom ErrForbidden)"

section \<open>The queries are handlers\<close>

lemmas handler_splits = option.splits sum.splits prod.splits if_splits

lemma rpc_handler_query:
  assumes "\<And>req w. hdr (fst (f req w)) = None" and "\<And>w. snd (f None w) = Some (Ecom ErrParameter)"
  shows "rpc_handler hdr (as_handler f)"
  by unfold_locales (simp_all add: as_handler_def assms)

interpretation rpc_QueryContractStatData: rpc_handler csdres_Header "as_handler (QueryContractStatData rctx)" for rctx
  by (rule rpc_handler_query) (auto simp: QueryContractStatData_def Let_def split: handler_splits)

interpretation rpc_QueryUtxoRecord: rpc_handler urd_Header "as_handler (QueryUtxoRecord rctx)" for rctx
  by (rule rpc_handler_query) (auto simp: QueryUtxoRecord_def Let_def split: handler_splits)

interpretation rpc_QueryACL: rpc_handler acst_Header "as_handler (QueryACL L rctx)" for L rctx
  by (rule rpc_handler_query) (auto simp: QueryACL_def Let_def split: option.splits sum.splits)

interpretation rpc_GetAccountContracts: rpc_handler gacres_Header "as_handler (GetAccountContracts L rctx)" for L rctx
  by (rule rpc_handler_query) (auto simp: GetAccountContracts_def Let_def split: handler_splits)

interpretation rpc_GetAccountByAK: rpc_handler akres_Header "as_handler (GetAccountByAK rctx)" for rctx
  by (rule rpc_handler_query) (auto simp: GetAccountByAK_def Let_def split: handler_splits)

interpretation rpc_QueryTx: rpc_handler txst_Header "as_handler (QueryTx L rctx)" for L rctx
  by (rule rpc_handler_query) (auto simp: QueryTx_def Let_def split: handler_splits)

interpretation rpc_GetBlock: rpc_handler blk_Header "as_handler (GetBlock L rctx)" for L rctx
  by (rule rpc_handler_query) (auto simp: GetBlock_def Let_def split: handler_splits)

interpretation rpc_GetBlockByHeight: rpc_handler blk_Header "as_handler (GetBlockByHeight L rctx)" for L rctx
  by (rule rpc_handler_query) (auto simp: GetBlockByHeight_def Let_def split: handler_splits)

interpretation rpc_GetBlockChainStatus: rpc_handler bcst_Header "as_handler (GetBlockChainStatus L rctx)" for L rctx
  by (rule rpc_handler_query) (auto simp: GetBlockChainStatus_def Let_def split: handler_splits)

interpretation rpc_ConfirmBlockChainStatus:
  rpc_handler btip_Header "as_handler (ConfirmBlockChainStatus rctx)" for rctx
  by (rule rpc_handler_query) (auto simp: ConfirmBlockChainStatus_def Let_def split: handler_splits)

interpretation rpc_GetBlockChains: rpc_handler bchs_Header "as_handler (GetBlockChains t)" for t
  by (rule rpc_handler_query) (auto simp: GetBlockChains_def Let_def)

interpretation rpc_GetSystemStatus: rpc_handler systr_Header "as_handler (GetSystemStatus L t rctx)" for L t rctx
  by (rule rpc_handler_query) (auto simp: GetSystemStatus_def Let_def split: option.splits)

interpretation rpc_GetNetURL: rpc_handler rurl_Header "as_handler (GetNetURL t)" for t
  by (rule rpc_handler_query) (auto simp: GetNetURL_def Let_def)

interpretation rpc_GetConsensusStatus: rpc_handler cons_Header "as_handler (GetConsensusStatus rctx)" for rctx
  by (rule rpc_handler_query) (auto simp: GetConsensusStatus_def Let_def split: handler_splits)

interpretation rpc_GetBalance: rpc_handler adst_Header "as_handler (GetBalance rctx)" for rctx
  by (rule rpc_handler_query) (auto simp: GetBalance_def Let_def split: option.splits)

interpretation rpc_GetFrozenBalance: rpc_handler adst_Header "as_handler (GetFrozenBalance rctx)" for rctx
  by (rule rpc_handler_query) (auto simp: GetFrozenBalance_def Let_def split: option.splits)

interpretation rpc_GetBalanceDetail: rpc_handler abst_Header "as_handler (GetBalanceDetail L rctx)" for L rctx
  by (rule rpc_handler_query) (auto simp: GetBalanceDetail_def Let_def split: option.splits)

section \<open>Properties\<close>

text \<open>\<open>GetBalance\<close> answers for every chain of the request, in the order of the request, and a chain
  that fails does not affect the others: an entry names its chain, says BLOCKCHAIN_NOTEXIST exactly
  when no handle can be made for the chain, SUCCESS exactly when the chain knows the balance, and carries
  that balance then and an empty one otherwise.\<close>

theorem GetBalance_per_chain:
  assumes "adst_Address r \<noteq> ''''" "i < length (adst_Bcs r)"
    and e: "e = adst_Bcs (fst (GetBalance rctx (Some r) w)) ! i"
    and h: "hd_i = NewChainHandle (tokd_Bcname (adst_Bcs r ! i)) (Some rctx) w"
  shows "length (adst_Bcs (fst (GetBalance rctx (Some r) w))) = length (adst_Bcs r) \<and>
         snd (GetBalance rctx (Some r) w) = None \<and>
         tokd_Bcname e = tokd_Bcname (adst_Bcs r ! i) \<and>
         (tokd_Error e = BLOCKCHAIN_NOTEXIST \<longleftrightarrow> (\<exists>err. hd_i = Inl err)) \<and>
         (tokd_Error e = SUCCESS \<longleftrightarrow> (\<exists>h b. hd_i = Inr h \<and> ut_GetBalance (h_chain h) (adst_Address r) w = Inr b)) \<and>
         tokd_Balance e = (case hd_i of Inl _ \<Rightarrow> '''' | Inr h \<Rightarrow>
            (case ut_GetBalance (h_chain h) (adst_Address r) w of Inl _ \<Rightarrow> '''' | Inr b \<Rightarrow> b))"
  using assms(1,2) unfolding e h
  by (auto simp: GetBalance_def Let_def balance_entry_def handle_GetBalance_def split: sum.splits)

definition ex_balance_request :: AddressStatus where
  "ex_balance_request = \<lparr>adst_Header = None, adst_Address = ''alice'',
     adst_Bcs = [\<lparr>tokd_Bcname = ''none'', tokd_Balance = '''', tokd_Error = SUCCESS\<rparr>,
                 \<lparr>tokd_Bcname = ''xuper'', tokd_Balance = '''', tokd_Error = SUCCESS\<rparr>]\<rparr>"

lemma GetBalance_per_chain_witness:
  "tokd_Error (adst_Bcs (fst (GetBalance ex_ctx (Some ex_balance_request) 0)) ! 1) = SUCCESS \<and>
   tokd_Error (adst_Bcs (fst (GetBalance ex_ctx (Some ex_balance_request) 0)) ! 0) = BLOCKCHAIN_NOTEXIST"
proof -
  have "NewChainHandle ''none'' (Some ex_ctx) 0 = Inl (Ecom ErrChainNotExist)"
    by (simp add: NewChainHandle_def ex_ctx_def ex_engine_def)
  then show ?thesis
    using GetBalance_per_chain[of ex_balance_request 1 _ ex_ctx 0, OF _ _ refl refl]
      GetBalance_per_chain[of ex_balance_request 0 _ ex_ctx 0, OF _ _ refl refl]
    by (simp add: ex_balance_request_def ex_handle) (simp add: ex_handle_def ex_chain_def)
qed

text \<open>In \<open>GetBalanceDetail\<close> a chain whose details cannot be converted is reported as SUCCESS with no
  details: the error the code sets for that case is overwritten two lines later.\<close>

theorem GetBalanceDetail_conversion_error_lost:
  assumes "abst_Address r \<noteq> ''''" "i < length (abst_Tfds r)"
    and "NewChainHandle (tfds_Bcname (abst_Tfds r ! i)) (Some rctx) w = Inr h"
    and "ut_GetBalanceDetail (h_chain h) (abst_Address r) w = Inr tfd"
    and "BalanceDetailsToXchain (cd_BalanceDetail L) tfd = Inl err"
  shows "abst_Tfds (fst (GetBalanceDetail L rctx (Some r) w)) ! i =
         \<lparr>tfds_Bcname = tfds_Bcname (abst_Tfds r ! i), tfds_Tfd = [], tfds_Error = SUCCESS\<rparr>"
  using assms by (simp add: GetBalanceDetail_def Let_def balance_detail_entry_def handle_GetBalanceDetail_def)

definition ex_detail_request :: AddressBalanceStatus where
  "ex_detail_request = \<lparr>abst_Header = None, abst_Address = ''odd'',
     abst_Tfds = [\<lparr>tfds_Bcname = ''xuper'', tfds_Tfd = [], tfds_Error = SUCCESS\<rparr>]\<rparr>"

lemma GetBalanceDetail_conversion_error_lost_witness:
  "abst_Tfds (fst (GetBalanceDetail ex_lib ex_ctx (Some ex_detail_request) 0)) ! 0 =
   \<lparr>tfds_Bcname = ''xuper'', tfds_Tfd = [], tfds_Error = SUCCESS\<rparr>"
  using GetBalanceDetail_conversion_error_lost[of ex_detail_request 0 ex_ctx 0 ex_handle
      "Some [Some ''bad'']" ex_lib "Errorf ''convert balance detail failed''"]
  by (simp add: ex_detail_request_def ex_handle BalanceDetailsToXchain_def BalanceDetailToXchain_def reencode_def)
     (simp add: ex_defs)

text \<open>The contracts the loop collects for one account.\<close>

definition contracts_of ::
  "'x xlib \<Rightarrow> ('w, 'x, 'k) ChainHandle \<Rightarrow> 'w \<Rightarrow> string \<Rightarrow> ContractStatus list option" where
  "contracts_of L h w account =
     (case cr_GetAccountContracts (h_chain h) account w of
        Inl err \<Rightarrow> None
      | Inr cs \<Rightarrow> if elems cs = [] then None
                  else (case ContractStatusListToXchain (cd_ContractStatus L) cs of
                          Inr (Some ys) \<Rightarrow> Some ys | _ \<Rightarrow> None))"

lemma address_contracts_spec:
  "address_contracts L h hdr w accounts acc =
     (if hdr = None \<and> (\<exists>a \<in> set accounts. \<exists>e. cr_GetAccountContracts (h_chain h) a w = Inl e) then Panic
      else Ret (\<lambda>a. if a \<in> set accounts \<and> contracts_of L h w a \<noteq> None then contracts_of L h w a else acc a))"
proof (induction accounts arbitrary: acc)
  case (Cons a accounts)
  show ?case
  proof (cases "cr_GetAccountContracts (h_chain h) a w")
    case (Inl e)
    then show ?thesis
      using Cons.IH by (auto simp: handle_GetAccountContracts_def contracts_of_def fun_eq_iff split: option.split)
  next
    case (Inr cs)
    then show ?thesis
    proof (cases "contracts_of L h w a")
      case None
      with Inr have "address_contracts L h hdr w (a # accounts) acc = address_contracts L h hdr w accounts acc"
        by (auto simp: handle_GetAccountContracts_def contracts_of_def split: if_splits sum.splits option.splits)
      with None Inr Cons.IH show ?thesis by (auto simp: fun_eq_iff)
    next
      case (Some ys)
      with Inr have "address_contracts L h hdr w (a # accounts) acc =
          address_contracts L h hdr w accounts (acc(a \<mapsto> ys))"
        by (auto simp: handle_GetAccountContracts_def contracts_of_def split: if_splits sum.splits option.splits)
      with Some Inr Cons.IH show ?thesis by (auto simp: fun_eq_iff)
    qed
  qed
qed (simp add: fun_eq_iff)

text \<open>For an address that belongs to some accounts \<open>GetAddressContracts\<close> returns exactly the accounts
  whose contracts could be read and converted, skipping the others; but when the request has no header
  and one account cannot be read, the handler panics on the log line that reports it.\<close>

theorem GetAddressContracts_result:
  assumes "acreq_Bcname q \<noteq> ''''" "acreq_Address q \<noteq> ''''"
    and "NewChainHandle (acreq_Bcname q) (Some rctx) w = Inr h"
    and "cr_GetAccountByAK (h_chain h) (acreq_Address q) w = Inr (Some accounts)"
  shows "GetAddressContracts L rctx (Some q) w =
    (if acreq_Header q = None \<and> (\<exists>a \<in> set accounts. \<exists>e. cr_GetAccountContracts (h_chain h) a w = Inl e)
     then Panic
     else Ret (new_AddressContractsResponse
                 \<lparr>acres_Contracts := (\<lambda>a. if a \<in> set accounts then contracts_of L h w a else None)\<rparr>, None))"
  using assms
  by (auto simp: GetAddressContracts_def Let_def handle_GetAccountByAK_def address_contracts_spec fun_eq_iff)

definition ex_address_request :: AddressContractsRequest where
  "ex_address_request = \<lparr>acreq_Header = None, acreq_Bcname = ''xuper'', acreq_Address = ''alice'',
     acreq_NeedContent = False\<rparr>"

lemma GetAddressContracts_result_witness:
  "GetAddressContracts ex_lib ex_ctx (Some ex_address_request) 0 = Panic"
  using GetAddressContracts_result[of ex_address_request ex_ctx 0 ex_handle "[''XC1'', ''gone'']" ex_lib]
  by (simp add: ex_address_request_def ex_handle) (simp add: ex_handle_def ex_chain_def)

text \<open>A chain status whose block, ledger meta or utxo meta does not convert is returned as an empty
  status without an error, so the client sees SUCCESS.\<close>

theorem GetBlockChainStatus_silent_failure:
  assumes "bcst_Bcname q \<noteq> ''''" "NewChainHandle (bcst_Bcname q) (Some rctx) w = Inr h"
    and "rd_GetChainStatus (h_chain h) w = Inr st"
    and "BlockToXchain (cd_Block L) (xcs_Block st) = None \<or>
         LedgerMetaToXchain (cd_LedgerMeta L) (xcs_LedgerMeta st) = None \<or>
         UtxoMetaToXchain (cd_UtxoMeta L) (xcs_UtxoMeta st) = None"
  shows "GetBlockChainStatus L rctx (Some q) w = (new_BCStatus, None)"
  using assms by (auto simp: GetBlockChainStatus_def Let_def QueryChainStatus_def split: option.splits)

lemma GetBlockChainStatus_silent_failure_witness:
  "GetBlockChainStatus ex_lib ex_ctx (Some (new_BCStatus\<lparr>bcst_Bcname := ''xuper''\<rparr>)) 0 = (new_BCStatus, None)"
  using GetBlockChainStatus_silent_failure[of "new_BCStatus\<lparr>bcst_Bcname := ''xuper''\<rparr>" ex_ctx 0 ex_handle
      "\<lparr>xcs_Block = Some ''bad'', xcs_LedgerMeta = Some ''lm'', xcs_UtxoMeta = Some ''um'', xcs_BranchIds = []\<rparr>" ex_lib]
  by (simp add: ex_handle BlockToXchain_def reencode_def) (simp add: ex_defs)

end
