(* ===== verification/RpcServ.thy ===== *)
theory RpcServ
  imports ApiQuery
begin

text \<open>
  \<open>service/rpc/rpc.go\<close>: the interceptor around every call.  It completes the header of the
  request, makes the request context, runs the handler and writes the header of the
  response.  The request and the response are any messages with a \<open>Header\<close> field (the code
  uses reflection), given by functions that read and write it; the handler may panic, or
  return a nil response.
\<close>

section \<open>The server and its helpers\<close>

datatype peer = PeerAbsent | PeerNoAddr | PeerAddr string

text \<open>\<open>RpcServ\<close> and the library functions it calls: \<open>NewReqCtx\<close>, the source of log ids, the
  name of the host, the code of each standard error and \<open>CastError\<close> (as the code of the
  standard error it makes of an error).\<close>

record ('w, 'x, 'k) RpcServ =
  t_engine :: "('w, 'x, 'k) Engine"
  t_NewReqCtx :: "('w, 'x, 'k) Engine \<Rightarrow> string \<Rightarrow> string \<Rightarrow> gerr + ('w, 'x, 'k) ReqCtx"
  t_GenLogId :: "nat \<Rightarrow> string"
  t_HostName :: string
  t_code :: "ecom \<Rightarrow> int"
  t_CastError :: "gerr \<Rightarrow> int"

definition NewRpcServ where
  "NewRpcServ engine newctx gen host code cast =
     \<lparr>t_engine = engine, t_NewReqCtx = newctx, t_GenLogId = gen, t_HostName = host,
      t_code = code, t_CastError = cast\<rparr>"

definition defReqHeader :: "string \<Rightarrow> Header" where
  "defReqHeader logid = \<lparr>hdr_Logid = logid, hdr_FromNode = '''', hdr_Error = UNKNOW_ERROR\<rparr>"

definition getClietIP :: "peer \<Rightarrow> gerr + string" where
  "getClietIP pr =
     (case pr of
        PeerAbsent \<Rightarrow> Inl (Errorf ''create peer form context failed'')
      | PeerNoAddr \<Rightarrow> Inl (Errorf ''get client_ip failed because peer.Addr is nil'')
      | PeerAddr addr \<Rightarrow> (let addrSlice = split_char CHR '':'' addr in Inr (hd addrSlice)))"

definition createReqCtx ::
  "('w, 'x, 'k) RpcServ \<Rightarrow> peer \<Rightarrow> Header option \<Rightarrow> gerr + ('w, 'x, 'k) ReqCtx" where
  "createReqCtx t pr reqHeader =
     (case getClietIP pr of
        Inl err \<Rightarrow> Inl (Errorf ''get client ip failed'')
      | Inr clientIp \<Rightarrow>
          (case t_NewReqCtx t (t_engine t) (nilget '''' hdr_Logid reqHeader) clientIp of
             Inl err \<Rightarrow> Inl (Errorf ''create request context failed'')
           | Inr rctx \<Rightarrow> Inr rctx))"

definition genTraceId :: "('w, 'x, 'k) RpcServ \<Rightarrow> string" where
  "genTraceId t = t_HostName t"

definition convertErr :: "(ecom \<Rightarrow> int) \<Rightarrow> int option \<Rightarrow> XChainErrorEnum" where
  "convertErr code stdErr =
     (case stdErr of
        None \<Rightarrow> UNKNOW_ERROR
      | Some c \<Rightarrow>
          (case StdErrToXchainErrMap code c of
             Some errCode \<Rightarrow> errCode
           | None \<Rightarrow> UNKNOW_ERROR))"

section \<open>The interceptor\<close>

text \<open>How the interceptor sees a message: its header field.\<close>

record 'm header_field =
  get_Header :: "'m \<Rightarrow> Header option"
  set_Header :: "Header option \<Rightarrow> 'm \<Rightarrow> 'm"

definition fill_header :: "(nat \<Rightarrow> string) \<Rightarrow> 'q header_field \<Rightarrow> 'q \<Rightarrow> 'q" where
  "fill_header gen Q req =
     (let req = (if get_Header Q req = None then set_Header Q (Some (defReqHeader (gen 0))) req else req)
      in case get_Header Q req of
           None \<Rightarrow> req
         | Some hdr \<Rightarrow>
             if hdr_Logid hdr = '''' then set_Header Q (Some (hdr\<lparr>hdr_Logid := gen 1\<rparr>)) req
             else req)"

text \<open>What the caller of the interceptor gets: the two results, or a panic that leaves it.\<close>

datatype 'r rpc_result = Returned "'r option" "gerr option" | Crashed

type_synonym ('q, 'r, 's) rpc_body = "'q \<Rightarrow> 's \<Rightarrow> ('r option \<times> gerr option) outcome \<times> 's"

text \<open>The recover function turns a panic of the handler, or of the reflection on a nil response, into
  an internal error with the log id.\<close>

definition panic_error :: "('w, 'x, 'k) ReqCtx \<Rightarrow> gerr" where
  "panic_error rctx = Errorf (''ErrInternal log_id = '' @ rc_LogId rctx)"

definition UnaryInterceptor ::
  "('w, 'x, 'k) RpcServ \<Rightarrow> 'q header_field \<Rightarrow> 'r header_field \<Rightarrow>
   (('w, 'x, 'k) ReqCtx \<Rightarrow> ('q, 'r, 's) rpc_body) \<Rightarrow> peer \<Rightarrow> 'q \<Rightarrow> 's \<Rightarrow> 'r rpc_result \<times> 's" where
  "UnaryInterceptor t Q R handler pr req0 s =
     (let req = fill_header (t_GenLogId t) Q req0;
          reqHeader = get_Header Q req
      in
      case createReqCtx t pr reqHeader of
        Inl _ \<Rightarrow> (Crashed, s)
      | Inr reqCtx \<Rightarrow>
          (case handler reqCtx req s of
             (Panic, s') \<Rightarrow> (Returned None (Some (panic_error reqCtx)), s')
           | (Ret (respRes, err), s') \<Rightarrow>
               (let stdErr = (case err of None \<Rightarrow> t_code t ErrSuccess | Some e \<Rightarrow> t_CastError t e);
                    respHeader = \<lparr>hdr_Logid = nilget '''' hdr_Logid reqHeader,
                                  hdr_FromNode = genTraceId t,
                                  hdr_Error = convertErr (t_code t) (Some stdErr)\<rparr>
                in
                case respRes of
                  None \<Rightarrow> (Returned None (Some (panic_error reqCtx)), s')
                | Some resp \<Rightarrow>
                    (let resp' = (if get_Header R resp = None
                                  then set_Header R (Some respHeader) resp else resp)
                     in (Returned (Some resp') err, s')))))"

text \<open>A handler of \<open>api.go\<close> as the body of an intercepted call.\<close>

definition body_of :: "('q option \<Rightarrow> 's \<Rightarrow> 'r reply \<times> 's) \<Rightarrow> ('q, 'r, 's) rpc_body" where
  "body_of f req s = (case f (Some req) s of ((resp, err), s') \<Rightarrow> (Ret (Some resp, err), s'))"

section \<open>Facts\<close>

definition good_field :: "'m header_field \<Rightarrow> bool" where
  "good_field F \<longleftrightarrow> (\<forall>h m. get_Header F (set_Header F h m) = h)"

lemma fill_header_logid:
  assumes "good_field Q" "gen 0 \<noteq> ''''" "gen 1 \<noteq> ''''"
  shows "\<exists>hdr. get_Header Q (fill_header gen Q req) = Some hdr \<and> hdr_Logid hdr \<noteq> '''' \<and>
     (\<forall>h0. get_Header Q req = Some h0 \<and> hdr_Logid h0 \<noteq> '''' \<longrightarrow> hdr = h0 \<and> fill_header gen Q req = req)"
  using assms by (cases "get_Header Q req") (auto simp: fill_header_def good_field_def defReqHeader_def Let_def)

lemma convertErr_table: "inj code \<Longrightarrow> (e, x) \<in> set err_table \<Longrightarrow> convertErr code (Some (code e)) = x"
  by (simp add: convertErr_def StdErrToXchainErrMap_table)

lemma convertErr_unknown: "c \<notin> range code \<Longrightarrow> convertErr code (Some c) = UNKNOW_ERROR"
  by (simp add: convertErr_def StdErrToXchainErrMap_None)

lemma convertErr_SUCCESS_iff:
  assumes "inj code"
  shows "convertErr code (Some c) = SUCCESS \<longleftrightarrow> c = code ErrSuccess"
proof (cases "c \<in> range code")
  case True
  then obtain e where c: "c = code e" by auto
  obtain x where e: "(e, x) \<in> set err_table" using err_table_total by blast
  have "\<forall>(e, x) \<in> set err_table. x = SUCCESS \<longleftrightarrow> e = ErrSuccess"
    by (simp add: err_table_def)
  with e have "x = SUCCESS \<longleftrightarrow> e = ErrSuccess" by blast
  then show ?thesis
    using convertErr_table[OF assms e] assms by (simp add: c inj_eq)
next
  case False
  then show ?thesis using convertErr_unknown[of c code] by auto
qed

text \<open>The response header that belongs to an outcome of the handler.\<close>

definition response_header :: "('w, 'x, 'k) RpcServ \<Rightarrow> string \<Rightarrow> gerr option \<Rightarrow> Header" where
  "response_header t logid err =
     \<lparr>hdr_Logid = logid, hdr_FromNode = t_HostName t,
      hdr_Error = convertErr (t_code t)
        (Some (case err of None \<Rightarrow> t_code t ErrSuccess | Some e \<Rightarrow> t_CastError t e))\<rparr>"

context rpc_handler
begin

text \<open>Through the interceptor, a handler that keeps the contract always answers with the header
  made from its error.\<close>

lemma intercepted:
  assumes "get_Header R = resp_header" "good_field Q" "t_GenLogId t 0 \<noteq> ''''" "t_GenLogId t 1 \<noteq> ''''"
    and "createReqCtx t pr (get_Header Q (fill_header (t_GenLogId t) Q req)) = Inr rctx"
    and "H rctx = body_of handler"
    and "handler (Some (fill_header (t_GenLogId t) Q req)) s = ((resp, err), s')"
  shows "\<exists>hdr. get_Header Q (fill_header (t_GenLogId t) Q req) = Some hdr \<and> hdr_Logid hdr \<noteq> '''' \<and>
     UnaryInterceptor t Q R H pr req s =
       (Returned (Some (set_Header R (Some (response_header t (hdr_Logid hdr) err)) resp)) err, s')"
proof -
  obtain hdr where hdr: "get_Header Q (fill_header (t_GenLogId t) Q req) = Some hdr" "hdr_Logid hdr \<noteq> ''''"
    using fill_header_logid[OF assms(2-4)] by blast
  have "resp_header resp = None"
    using header_unset[of "Some (fill_header (t_GenLogId t) Q req)" s] assms(7) by simp
  then show ?thesis
    using hdr assms(1,5-7)
    by (auto simp: UnaryInterceptor_def Let_def body_of_def response_header_def genTraceId_def)
qed

end

section \<open>Properties\<close>

text \<open>The error code of a reply is SUCCESS for the code of \<open>ErrSuccess\<close> and for no other number: every
  standard error maps to the code of its row of the table, an unknown code to UNKNOW_ERROR.\<close>

theorem convertErr_success_only:
  assumes "inj code"
  shows "(convertErr code (Some c) = SUCCESS \<longleftrightarrow> c = code ErrSuccess) \<and>
         (\<forall>(e, x) \<in> set err_table. convertErr code (Some (code e)) = x) \<and>
         (c \<notin> range code \<longrightarrow> convertErr code (Some c) = UNKNOW_ERROR)"
  using assms convertErr_SUCCESS_iff convertErr_table convertErr_unknown by fastforce

text \<open>Distinct codes for the instance: the position in the table.\<close>

definition ex_code :: "ecom \<Rightarrow> int" where
  "ex_code e = int (length (takeWhile (\<lambda>(a, x). a \<noteq> e) err_table))"

lemma ex_code_nth: "fst (err_table ! nat (ex_code e)) = e"
  by (induction e; code_simp)

lemma ex_code_inj: "inj ex_code"
  by (rule injI) (metis ex_code_nth)

lemma ex_code_Success [simp]: "ex_code ErrSuccess = 0"
  by (simp add: ex_code_def err_table_def)

lemma convertErr_success_only_witness:
  "convertErr ex_code (Some (ex_code ErrTxAlreadyExist)) = TX_DUPLICATE_ERROR \<and>
   convertErr ex_code (Some (ex_code ErrTxAlreadyExist)) \<noteq> SUCCESS"
  using convertErr_success_only[OF ex_code_inj, of "ex_code ErrTxAlreadyExist"]
  by (simp add: err_table_def)


definition ex_server :: "(nat, string, string) RpcServ" where
  "ex_server = NewRpcServ ex_engine (\<lambda>eng logid ip. Inr \<lparr>rc_Engine = Some eng, rc_LogId = logid, rc_ClientIp = ip\<rparr>)
     (\<lambda>n. ''gen'') ''host1'' ex_code (\<lambda>e. case e of Ecom x \<Rightarrow> if x = ErrSuccess then ex_code ErrUnknown else ex_code x | _ \<Rightarrow> ex_code ErrUnknown)"

definition txst_field :: "TxStatus header_field" where
  "txst_field = \<lparr>get_Header = txst_Header, set_Header = (\<lambda>h m. m\<lparr>txst_Header := h\<rparr>)\<rparr>"

definition crep_field :: "CommonReply header_field" where
  "crep_field = \<lparr>get_Header = crep_Header, set_Header = (\<lambda>h m. m\<lparr>crep_Header := h\<rparr>)\<rparr>"

lemma fields_good [simp]: "good_field txst_field" "good_field crep_field"
  by (simp_all add: good_field_def txst_field_def crep_field_def)

lemma ex_server_ctx:
  "createReqCtx ex_server (PeerAddr ''10.0.0.1:99'') (Some hdr) =
     Inr \<lparr>rc_Engine = Some ex_engine, rc_LogId = hdr_Logid hdr, rc_ClientIp = ''10.0.0.1''\<rparr>"
  by (simp add: createReqCtx_def getClietIP_def ex_server_def NewRpcServ_def)


text \<open>What a client of \<open>PostTx\<close> sees through the interceptor: a response whose header carries the log
  id of the request (generated when the request has none), and whose error code is SUCCESS exactly when
  the chain accepted the transaction.  The error of the handler is returned beside the response, although
  the comment there says that the reply is uniformly \<open>err=nil\<close>.\<close>

theorem PostTx_over_rpc:
  assumes codes: "inj (t_code t)" "\<And>e. t_CastError t e \<noteq> t_code t ErrSuccess"
    and ids: "t_GenLogId t 0 \<noteq> ''''" "t_GenLogId t 1 \<noteq> ''''"
    and ctx: "createReqCtx t pr (txst_Header q') = Inr rctx"
    and q': "q' = fill_header (t_GenLogId t) txst_field q"
  shows "\<exists>hdr hdr' err s'. txst_Header q' = Some hdr \<and> hdr_Logid hdr \<noteq> '''' \<and>
     UnaryInterceptor t txst_field crep_field (\<lambda>rctx. body_of (PostTx L rctx)) pr q s =
       (Returned (Some \<lparr>crep_Header = Some hdr'\<rparr>) err, s') \<and>
     hdr_Logid hdr' = hdr_Logid hdr \<and>
     (hdr_Error hdr' = SUCCESS \<longleftrightarrow> accepted L rctx (Some q') (st_node s) \<noteq> None) \<and>
     (hdr_Error hdr' = SUCCESS \<longleftrightarrow> err = None)"
proof -
  obtain resp err s' where r: "PostTx L rctx (Some q') s = ((resp, err), s')" by (metis prod.collapse)
  have "get_Header crep_field = crep_Header" "get_Header txst_field = txst_Header"
    by (simp_all add: txst_field_def crep_field_def)
  then obtain hdr where hdr: "txst_Header q' = Some hdr" "hdr_Logid hdr \<noteq> ''''"
      "UnaryInterceptor t txst_field crep_field (\<lambda>rctx. body_of (PostTx L rctx)) pr q s =
        (Returned (Some (set_Header crep_field (Some (response_header t (hdr_Logid hdr) err)) resp)) err, s')"
    using rpc_PostTx.intercepted[of crep_field txst_field t pr q rctx
        "\<lambda>rctx. body_of (PostTx L rctx)" L rctx s resp err s'] ids ctx r unfolding q' by auto
  have code: "hdr_Error (response_header t l err) = SUCCESS \<longleftrightarrow> err = None" for l
    by (cases err) (simp_all add: response_header_def convertErr_SUCCESS_iff codes)
  have acc: "err = None \<longleftrightarrow> accepted L rctx (Some q') (st_node s) \<noteq> None"
    using r PostTx_cases[of L rctx "Some q'" s] by (auto split: option.splits)
  show ?thesis
    by (rule exI[of _ hdr], rule exI[of _ "response_header t (hdr_Logid hdr) err"], rule exI[of _ err],
        rule exI[of _ s']) (use hdr code acc in \<open>auto simp: crep_field_def response_header_def\<close>)
qed

definition ex_post :: TxStatus where
  "ex_post = new_TxStatus\<lparr>txst_Bcname := ''xuper'', txst_Tx := Some new_Transaction,
     txst_Header := Some \<lparr>hdr_Logid = ''l1'', hdr_FromNode = '''', hdr_Error = SUCCESS\<rparr>\<rparr>"

lemma ex_code_zero [simp]: "ex_code e = 0 \<longleftrightarrow> e = ErrSuccess"
  using ex_code_inj by (metis ex_code_Success injD)

definition ex_state :: "(nat, string) RpcState" where
  "ex_state = \<lparr>st_node = 0, st_sent = []\<rparr>"

lemma PostTx_over_rpc_witness:
  "\<exists>hdr hdr' err s'. txst_Header ex_post = Some hdr \<and> hdr_Logid hdr \<noteq> [] \<and>
     UnaryInterceptor ex_server txst_field crep_field (\<lambda>rctx. body_of (PostTx ex_lib rctx))
       (PeerAddr ''10.0.0.1:99'') ex_post ex_state =
       (Returned (Some \<lparr>crep_Header = Some hdr'\<rparr>) err, s') \<and>
     hdr_Logid hdr' = hdr_Logid hdr \<and>
     (hdr_Error hdr' = SUCCESS \<longleftrightarrow> accepted ex_lib
        \<lparr>rc_Engine = Some ex_engine, rc_LogId = ''l1'', rc_ClientIp = ''10.0.0.1''\<rparr>
        (Some ex_post) (st_node ex_state) \<noteq> None) \<and>
     (hdr_Error hdr' = SUCCESS \<longleftrightarrow> err = None)"
proof (rule PostTx_over_rpc[of ex_server "PeerAddr ''10.0.0.1:99''" ex_post _ ex_post ex_lib ex_state])
  show "inj (t_code ex_server)" by (simp add: ex_server_def NewRpcServ_def ex_code_inj)
  show "t_CastError ex_server e \<noteq> t_code ex_server ErrSuccess" for e
    by (cases e) (simp_all add: ex_server_def NewRpcServ_def)
  show "ex_post = fill_header (t_GenLogId ex_server) txst_field ex_post"
    by (simp add: fill_header_def txst_field_def ex_post_def)
qed (simp_all add: ex_server_def NewRpcServ_def ex_post_def createReqCtx_def getClietIP_def)

text \<open>\<open>net.TCPAddr.String\<close>: a host with a colon is put in brackets.\<close>

definition JoinHostPort :: "string \<Rightarrow> string \<Rightarrow> string" where
  "JoinHostPort host port =
     (if CHR '':'' \<in> set host then ''['' @ host @ '']:'' @ port else host @ '':'' @ port)"

text \<open>The client address of a request is the text before the first colon of the peer address.  For a
  host without a colon that is the host; for an IPv6 peer, whose address text is [host]:port, it is an
  opening bracket and the part of the host before its first colon, so it never is the host.\<close>

theorem getClietIP_of_address:
  "getClietIP (PeerAddr (JoinHostPort host port)) =
     (if CHR '':'' \<in> set host then Inr (CHR ''['' # takeWhile (\<lambda>c. c \<noteq> CHR '':'') host)
      else Inr host) \<and>
   (getClietIP (PeerAddr (JoinHostPort host port)) = Inr host \<longleftrightarrow> CHR '':'' \<notin> set host)"
proof (cases "CHR '':'' \<in> set host")
  case True
  have 1: "takeWhile (\<lambda>c. c \<noteq> CHR '':'') (host @ rest) = takeWhile (\<lambda>c. c \<noteq> CHR '':'') host" for rest
    using True by (induction host) auto
  have "CHR '':'' \<notin> set (CHR ''['' # takeWhile (\<lambda>c. c \<noteq> CHR '':'') host)"
    by (auto dest: set_takeWhileD)
  with True have "CHR ''['' # takeWhile (\<lambda>c. c \<noteq> CHR '':'') host \<noteq> host" by metis
  with True 1 show ?thesis
    by (simp add: getClietIP_def JoinHostPort_def hd_split_char)
next
  case False
  then have "takeWhile (\<lambda>c. c \<noteq> CHR '':'') (host @ CHR '':'' # port) = host"
    by (induction host) auto
  with False show ?thesis
    by (simp add: getClietIP_def JoinHostPort_def hd_split_char)
qed

end
