(* ===== verification/EventService.thy ===== *)
theory EventService
  imports RpcServ
begin

text \<open>
  \<open>service/rpc/event_service.go\<close>: subscriptions to events and the limit on connections from
  one address.  A subscription asks for a slot (\<open>connPermit\<close>), streams events, and gives
  the slot back when it ends (the deferred \<open>releaseConn\<close>).  Subscriptions run
  concurrently; both operations on the counter run under the mutex, so the service is a
  state machine whose steps are whole calls of these two functions.
\<close>

section \<open>\<open>net.SplitHostPort\<close>\<close>

definition SplitHostPort :: "string \<Rightarrow> gerr + string \<times> string" where
  "SplitHostPort s =
     (if CHR '':'' \<notin> set s then Inl (LibErr ''missing port in address'')
      else if hd s = CHR ''['' then
        (let host = takeWhile (\<lambda>c. c \<noteq> CHR '']'') (tl s);
             rest = dropWhile (\<lambda>c. c \<noteq> CHR '']'') (tl s)
         in
         if rest = [] then Inl (LibErr ''missing ']' in address'')
         else
           (let after = tl rest in
            if after = [] then Inl (LibErr ''missing port in address'')
            else if hd after \<noteq> CHR '':'' then Inl (LibErr ''missing port in address'')
            else if CHR '':'' \<in> set (tl after) then Inl (LibErr ''too many colons in address'')
            else if CHR ''['' \<in> set (tl s) then Inl (LibErr ''unexpected '[' in address'')
            else if CHR '']'' \<in> set after then Inl (LibErr ''unexpected ']' in address'')
            else Inr (host, tl after)))
      else
        (let host = takeWhile (\<lambda>c. c \<noteq> CHR '':'') s;
             port = tl (dropWhile (\<lambda>c. c \<noteq> CHR '':'') s)
         in
         if CHR '':'' \<in> set port then Inl (LibErr ''too many colons in address'')
         else if CHR ''['' \<in> set s then Inl (LibErr ''unexpected '[' in address'')
         else if CHR '']'' \<in> set s then Inl (LibErr ''unexpected ']' in address'')
         else Inr (host, port)))"

lemma takeWhile_until: "x \<notin> set xs \<Longrightarrow> takeWhile (\<lambda>c. c \<noteq> x) (xs @ x # ys) = xs"
  by (induction xs) auto

lemma dropWhile_until: "x \<notin> set xs \<Longrightarrow> dropWhile (\<lambda>c. c \<noteq> x) (xs @ x # ys) = x # ys"
  by (induction xs) auto

lemma SplitHostPort_JoinHostPort:
  assumes "CHR ''['' \<notin> set host" "CHR '']'' \<notin> set host"
    and "CHR '':'' \<notin> set port" "CHR ''['' \<notin> set port" "CHR '']'' \<notin> set port"
  shows "SplitHostPort (JoinHostPort host port) = Inr (host, port)"
proof (cases "CHR '':'' \<in> set host")
  case True
  with assms show ?thesis
    by (simp add: SplitHostPort_def JoinHostPort_def takeWhile_until dropWhile_until)
next
  case False
  with assms have "hd (host @ CHR '':'' # port) \<noteq> CHR ''[''"
    by (cases host) auto
  with False assms show ?thesis
    by (simp add: SplitHostPort_def JoinHostPort_def takeWhile_until dropWhile_until)
qed

section \<open>The connection counter\<close>

type_synonym counter = "string \<rightharpoonup> int"

record eventService =
  es_EnableEvent :: bool
  es_EventAddrMaxConn :: int
  es_connCounter :: counter

definition newEventService :: "bool \<Rightarrow> int \<Rightarrow> eventService" where
  "newEventService enable maxconn =
     \<lparr>es_EnableEvent = enable, es_EventAddrMaxConn = maxconn, es_connCounter = (\<lambda>_. None)\<rparr>"

text \<open>\<open>peer.Addr.String()\<close> panics on a peer without address.\<close>

definition connPermit :: "eventService \<Rightarrow> peer \<Rightarrow> (gerr + string) outcome \<times> eventService" where
  "connPermit e pr =
     (case pr of
        PeerAbsent \<Rightarrow> (Ret (Inl (Errorf ''get remote address error'')), e)
      | PeerNoAddr \<Rightarrow> (Panic, e)
      | PeerAddr addr \<Rightarrow>
          (case SplitHostPort addr of
             Inl err \<Rightarrow> (Ret (Inl err), e)
           | Inr (remoteIP, _) \<Rightarrow>
               if es_EventAddrMaxConn e = 0 then (Ret (Inr remoteIP), e)
               else
                 (case es_connCounter e remoteIP of
                    None \<Rightarrow> (Ret (Inr remoteIP), e\<lparr>es_connCounter := (es_connCounter e)(remoteIP \<mapsto> 1)\<rparr>)
                  | Some cnt \<Rightarrow>
                      if cnt \<ge> es_EventAddrMaxConn e
                      then (Ret (Inl (Errorf ''maximum connections exceeded'')), e)
                      else (Ret (Inr remoteIP),
                            e\<lparr>es_connCounter := (es_connCounter e)(remoteIP \<mapsto> cnt + 1)\<rparr>))))"

definition releaseConn :: "eventService \<Rightarrow> string \<Rightarrow> eventService" where
  "releaseConn e addr =
     (if es_EventAddrMaxConn e = 0 then e
      else
        (let cnt = (case es_connCounter e addr of None \<Rightarrow> 0 | Some n \<Rightarrow> n) in
         if cnt \<le> 1 then e\<lparr>es_connCounter := (es_connCounter e)(addr := None)\<rparr>
         else e\<lparr>es_connCounter := (es_connCounter e)(addr \<mapsto> cnt - 1)\<rparr>))"

section \<open>One subscription\<close>

text \<open>The events of a subscription: the iterator yields payloads until it stops, and a failed send
  breaks the loop.  The error of the encoder is dropped.\<close>

record ('p) event_iter =
  it_payloads :: "'p list"
  it_error :: "gerr option"

primrec send_loop :: "('p \<Rightarrow> bytes \<times> gerr option) \<Rightarrow> (bytes \<Rightarrow> gerr option) \<Rightarrow> 'p list \<Rightarrow> bytes list" where
  "send_loop encfunc send [] = []"
| "send_loop encfunc send (payload # rest) =
     (let (buf, _) = encfunc payload in
      case send buf of
        Some err \<Rightarrow> []
      | None \<Rightarrow> buf # send_loop encfunc send rest)"

text \<open>The whole call: the events delivered, the error returned and the service afterwards.\<close>

definition Subscribe ::
  "(XSubscribeType \<Rightarrow> bytes \<Rightarrow> gerr + ('p \<Rightarrow> bytes \<times> gerr option) \<times> 'p event_iter) \<Rightarrow>
   (bytes \<Rightarrow> gerr option) \<Rightarrow> peer \<Rightarrow> SubscribeType \<Rightarrow> bytes \<Rightarrow> eventService \<Rightarrow>
   (bytes list \<times> gerr option) outcome \<times> eventService" where
  "Subscribe router send pr typ filt e =
     (if \<not> es_EnableEvent e then (Ret ([], Some (Errorf ''event service disabled'')), e)
      else
        (case connPermit e pr of
           (Panic, e') \<Rightarrow> (Panic, e')
         | (Ret (Inl err), e') \<Rightarrow> (Ret ([], Some err), e')
         | (Ret (Inr remoteIP), e') \<Rightarrow>
             (case router (ConvertEventSubType typ) filt of
                Inl err \<Rightarrow> (Ret ([], Some err), releaseConn e' remoteIP)
              | Inr (encfunc, iter) \<Rightarrow>
                  (Ret (send_loop encfunc send (it_payloads iter), it_error iter),
                   releaseConn e' remoteIP))))"

section \<open>Slots\<close>

text \<open>A limiter of slots per key: the service takes a slot when a connection opens and gives it
  back when it closes.\<close>

locale slots =
  fixes inv :: "'s \<Rightarrow> bool" and held :: "'s \<Rightarrow> 'k \<Rightarrow> nat" and limit :: nat
    and acquire :: "'k \<Rightarrow> 's \<Rightarrow> 's option" and release :: "'k \<Rightarrow> 's \<Rightarrow> 's"
  assumes acquire_inv: "inv s \<Longrightarrow> acquire k s = Some s' \<Longrightarrow> inv s'"
    and acquire_held: "inv s \<Longrightarrow> acquire k s = Some s' \<Longrightarrow> held s' = (held s)(k := Suc (held s k))"
    and acquire_iff: "inv s \<Longrightarrow> acquire k s \<noteq> None \<longleftrightarrow> held s k < limit"
    and release_inv: "inv s \<Longrightarrow> 0 < held s k \<Longrightarrow> inv (release k s)"
    and release_held: "inv s \<Longrightarrow> 0 < held s k \<Longrightarrow> held (release k s) = (held s)(k := held s k - 1)"
begin

text \<open>\<open>tracks s act\<close>: the limiter agrees with the list of open connections.\<close>

definition tracks :: "'s \<Rightarrow> 'k list \<Rightarrow> bool" where
  "tracks s act \<longleftrightarrow> inv s \<and> held s = count_list act \<and> (\<forall>k. count_list act k \<le> limit)"

lemma tracks_open: "tracks s act \<Longrightarrow> acquire k s = Some s' \<Longrightarrow> tracks s' (k # act)"
  using acquire_inv acquire_held acquire_iff
  by (auto simp: tracks_def fun_eq_iff Suc_le_eq) (metis Suc_leI option.distinct(1))+

lemma count_list_remove1: "k \<in> set act \<Longrightarrow> count_list (remove1 k act) = (count_list act)(k := count_list act k - 1)"
  by (induction act) (auto simp: fun_eq_iff count_list_0_iff)

lemma count_list_pos: "k \<in> set act \<Longrightarrow> 0 < count_list act k"
  by (induction act) auto

lemma tracks_close: "tracks s act \<Longrightarrow> k \<in> set act \<Longrightarrow> tracks (release k s) (remove1 k act)"
  using release_inv release_held count_list_pos[of k act]
  by (auto simp: tracks_def count_list_remove1) (metis diff_le_self le_trans)

lemma tracks_refused: "tracks s act \<Longrightarrow> acquire k s = None \<longleftrightarrow> count_list act k = limit"
  using acquire_iff[of s k] by (auto simp: tracks_def) (metis le_neq_implies_less)

end

text \<open>The counter of the service as slots: what it says for an address that is not in the map.\<close>

definition held_by :: "eventService \<Rightarrow> string \<Rightarrow> nat" where
  "held_by e ip = (case es_connCounter e ip of None \<Rightarrow> 0 | Some n \<Rightarrow> nat n)"

definition counter_ok :: "int \<Rightarrow> eventService \<Rightarrow> bool" where
  "counter_ok m e \<longleftrightarrow> es_EventAddrMaxConn e = m \<and> (\<forall>ip n. es_connCounter e ip = Some n \<longrightarrow> 1 \<le> n \<and> m \<noteq> 0)"

definition conn_limit :: "int \<Rightarrow> nat" where
  "conn_limit m = (if m = 0 then 0 else nat (max 1 m))"

text \<open>Taking a slot for an address, as \<open>connPermit\<close> does it once the address is known.\<close>

definition take_slot :: "string \<Rightarrow> eventService \<Rightarrow> eventService option" where
  "take_slot ip e =
     (if es_EventAddrMaxConn e = 0 then None
      else
        (case es_connCounter e ip of
           None \<Rightarrow> Some (e\<lparr>es_connCounter := (es_connCounter e)(ip \<mapsto> 1)\<rparr>)
         | Some cnt \<Rightarrow>
             if cnt \<ge> es_EventAddrMaxConn e then None
             else Some (e\<lparr>es_connCounter := (es_connCounter e)(ip \<mapsto> cnt + 1)\<rparr>)))"

lemma connPermit_take_slot:
  assumes "es_EventAddrMaxConn e \<noteq> 0"
  shows "connPermit e pr = (Ret (Inr ip), e') \<longleftrightarrow>
     (\<exists>addr port. pr = PeerAddr addr \<and> SplitHostPort addr = Inr (ip, port) \<and> take_slot ip e = Some e')"
  using assms
  by (auto simp: connPermit_def take_slot_def split: peer.splits sum.splits option.splits if_splits)

lemma connPermit_refused:
  assumes "connPermit e pr = (r, e')" "\<forall>ip. r \<noteq> Ret (Inr ip)"
  shows "e' = e"
  using assms
  by (auto simp: connPermit_def split: peer.splits sum.splits option.splits if_splits)

interpretation conn: slots "counter_ok m" held_by "conn_limit m" take_slot "\<lambda>ip e. releaseConn e ip"
  for m
proof unfold_locales
  fix s s' :: eventService and k
  assume inv: "counter_ok m s"
  show "take_slot k s = Some s' \<Longrightarrow> counter_ok m s'"
    using inv by (fastforce simp: counter_ok_def take_slot_def split: if_splits option.splits)
  have pos: "es_connCounter s k = Some n \<Longrightarrow> 1 \<le> n" for n
    using inv by (simp add: counter_ok_def)
  show "take_slot k s = Some s' \<Longrightarrow> held_by s' = (held_by s)(k := Suc (held_by s k))"
    using pos by (cases "es_connCounter s k")
      (auto simp: take_slot_def held_by_def fun_eq_iff Suc_nat_eq_nat_zadd1 add.commute split: if_splits)
  show "take_slot k s \<noteq> None \<longleftrightarrow> held_by s k < conn_limit m"
    using inv pos by (cases "es_connCounter s k")
      (fastforce simp: counter_ok_def take_slot_def held_by_def conn_limit_def max_def split: if_splits)+
  show "0 < held_by s k \<Longrightarrow> counter_ok m (releaseConn s k)"
    using inv by (auto simp: counter_ok_def releaseConn_def Let_def split: option.splits)
  show "0 < held_by s k \<Longrightarrow> held_by (releaseConn s k) = (held_by s)(k := held_by s k - 1)"
    using inv
    by (auto simp: counter_ok_def releaseConn_def held_by_def Let_def fun_eq_iff conn_limit_def split: option.splits)
qed

section \<open>The service as a state machine\<close>

text \<open>The state is the service with the addresses of the subscriptions that are running.  A step is
  one call: a subscription that gets its slot, one that is refused or fails before that, and a
  subscription that ends, by whatever path, and so releases its slot.\<close>

inductive ev_step :: "eventService \<times> string list \<Rightarrow> eventService \<times> string list \<Rightarrow> bool" where
  ev_open: "connPermit e pr = (Ret (Inr ip), e') \<Longrightarrow> ev_step (e, act) (e', ip # act)"
| ev_refused: "connPermit e pr = (r, e') \<Longrightarrow> \<forall>ip. r \<noteq> Ret (Inr ip) \<Longrightarrow> ev_step (e, act) (e', act)"
| ev_close: "ip \<in> set act \<Longrightarrow> ev_step (e, act) (releaseConn e ip, remove1 ip act)"

inductive_cases ev_stepE: "ev_step (e, act) st"

inductive ev_reach :: "eventService \<Rightarrow> eventService \<times> string list \<Rightarrow> bool" for e0 where
  ev_start: "ev_reach e0 (e0, [])"
| ev_next: "ev_reach e0 st \<Longrightarrow> ev_step st st' \<Longrightarrow> ev_reach e0 st'"

lemma ev_step_tracks:
  assumes "ev_step (e, act) st" "conn.tracks m e act" "m \<noteq> 0"
  shows "conn.tracks m (fst st) (snd st)"
proof -
  have m: "es_EventAddrMaxConn e \<noteq> 0"
    using assms(2,3) by (simp add: conn.tracks_def counter_ok_def)
  from assms(1) show ?thesis
  proof (rule ev_stepE)
    fix pr ip e'
    assume st: "st = (e', ip # act)" and "connPermit e pr = (Ret (Inr ip), e')"
    then have "take_slot ip e = Some e'" using connPermit_take_slot[OF m] by blast
    with st show ?thesis using conn.tracks_open[OF assms(2)] by simp
  next
    fix pr r e'
    assume "st = (e', act)" "connPermit e pr = (r, e')" "\<forall>ip. r \<noteq> Ret (Inr ip)"
    then show ?thesis using assms(2) connPermit_refused by fastforce
  next
    fix ip
    assume "st = (releaseConn e ip, remove1 ip act)" "ip \<in> set act"
    then show ?thesis using conn.tracks_close[OF assms(2)] by simp
  qed
qed

lemma ev_reach_tracks:
  assumes "ev_reach (newEventService en m) st" "m \<noteq> 0"
  shows "conn.tracks m (fst st) (snd st)"
  using assms
proof (induction rule: ev_reach.induct)
  case ev_start
  show ?case
    unfolding conn.tracks_def by (simp add: counter_ok_def newEventService_def held_by_def fun_eq_iff)
next
  case (ev_next st st')
  then show ?case using ev_step_tracks[of "fst st" "snd st" st'] by simp
qed

section \<open>Properties\<close>

text \<open>C6: At every moment the counter of an address is the number of its running subscriptions, and that
  number never exceeds the configured limit (a negative limit acts as one); an address without
  subscriptions has no entry, so nothing leaks.  This holds for every interleaving of subscriptions
  that start, are refused and end, when the limit is set (not 0).\<close>

theorem connections_bounded:
  assumes "ev_reach (newEventService en m) (e, act)" "m \<noteq> 0"
  shows "int (count_list act ip) \<le> max 1 m \<and>
         es_connCounter e ip = (if count_list act ip = 0 then None else Some (int (count_list act ip)))"
proof -
  have t: "conn.tracks m e act" using ev_reach_tracks[OF assms] by simp
  then have h: "held_by e ip = count_list act ip" and l: "count_list act ip \<le> conn_limit m"
    and pos: "\<And>n. es_connCounter e ip = Some n \<Longrightarrow> 1 \<le> n"
    by (auto simp: conn.tracks_def counter_ok_def)
  from l assms(2) have "int (count_list act ip) \<le> max 1 m" by (simp add: conn_limit_def)
  moreover have "es_connCounter e ip = (if count_list act ip = 0 then None else Some (int (count_list act ip)))"
    using h pos by (cases "es_connCounter e ip") (auto simp: held_by_def)
  ultimately show ?thesis ..
qed

lemma connections_bounded_witness:
  "int (count_list [''10.0.0.1''] ''10.0.0.1'') \<le> max 1 2 \<and>
   es_connCounter (snd (connPermit (newEventService True 2) (PeerAddr ''10.0.0.1:99''))) ''10.0.0.1'' = Some 1"
proof -
  have "connPermit (newEventService True 2) (PeerAddr ''10.0.0.1:99'') =
      (Ret (Inr ''10.0.0.1''), snd (connPermit (newEventService True 2) (PeerAddr ''10.0.0.1:99'')))"
    by (simp add: connPermit_def newEventService_def SplitHostPort_def)
  then have "ev_reach (newEventService True 2)
      (snd (connPermit (newEventService True 2) (PeerAddr ''10.0.0.1:99'')), [''10.0.0.1''])"
    using ev_reach.intros ev_step.ev_open by blast
  from connections_bounded[OF this, of "''10.0.0.1''"] show ?thesis by simp
qed

text \<open>A new subscription from an address gets in exactly while fewer subscriptions than the limit are
  running for that address, and a refused one changes nothing.\<close>

theorem connPermit_exact:
  assumes "ev_reach (newEventService en m) (e, act)" "0 < m"
    and "SplitHostPort addr = Inr (ip, port)"
  shows "((\<exists>e'. connPermit e (PeerAddr addr) = (Ret (Inr ip), e')) \<longleftrightarrow> int (count_list act ip) < m) \<and>
    (int (count_list act ip) \<ge> m \<longrightarrow>
      connPermit e (PeerAddr addr) = (Ret (Inl (Errorf ''maximum connections exceeded'')), e))"
proof (intro conjI impI)
  have t: "conn.tracks m e act" using ev_reach_tracks[OF assms(1)] assms(2) by simp
  then have m: "es_EventAddrMaxConn e = m" by (simp add: conn.tracks_def counter_ok_def)
  have 1: "(\<exists>e'. connPermit e (PeerAddr addr) = (Ret (Inr ip), e')) \<longleftrightarrow> take_slot ip e \<noteq> None"
    using connPermit_take_slot[of e "PeerAddr addr" ip] m assms(2,3) by auto
  have 2: "take_slot ip e = None \<longleftrightarrow> count_list act ip = nat m"
    using conn.tracks_refused[OF t, of ip] assms(2) by (simp add: conn_limit_def)
  have 3: "count_list act ip \<le> nat m"
    using t assms(2) unfolding conn.tracks_def by (simp add: conn_limit_def)
  show "(\<exists>e'. connPermit e (PeerAddr addr) = (Ret (Inr ip), e')) \<longleftrightarrow> int (count_list act ip) < m"
  proof -
    have "int (count_list act ip) < m \<longleftrightarrow> count_list act ip \<noteq> nat m" using 3 assms(2) by linarith
    then show ?thesis using 1 2 by simp
  qed
  assume "int (count_list act ip) \<ge> m"
  with 2 3 have "take_slot ip e = None" by auto
  then show "connPermit e (PeerAddr addr) = (Ret (Inl (Errorf ''maximum connections exceeded'')), e)"
    using m assms(2,3) by (auto simp: connPermit_def take_slot_def split: option.splits if_splits)
qed

lemma connPermit_exact_witness:
  "\<exists>e'. connPermit (newEventService True 2) (PeerAddr ''10.0.0.1:99'') = (Ret (Inr ''10.0.0.1''), e')"
  using connPermit_exact[OF ev_start[of "newEventService True 2"], of "''10.0.0.1:99''" "''10.0.0.1''" "''99''"]
  by (simp add: SplitHostPort_def)

text \<open>A subscription that returns has given back what it took: the counter after the call is the
  counter before it, on every path, for a service whose counters are positive.\<close>

theorem Subscribe_restores_counter:
  assumes "counter_ok m e"
  shows "es_connCounter (snd (Subscribe router send pr typ filt e)) = es_connCounter e"
proof -
  have rel: "es_connCounter (releaseConn e' ip) = es_connCounter e"
    if p: "connPermit e pr = (Ret (Inr ip), e')" for e' ip
  proof (cases "es_EventAddrMaxConn e = 0")
    case True
    then show ?thesis
      using p by (auto simp: connPermit_def releaseConn_def split: peer.splits sum.splits option.splits if_splits)
  next
    case False
    then have "take_slot ip e = Some e'" using p connPermit_take_slot by blast
    with assms False show ?thesis
      by (force simp: take_slot_def releaseConn_def counter_ok_def Let_def fun_eq_iff
          split: option.splits if_splits)
  qed
  then show ?thesis
    using connPermit_refused[of e pr]
    by (fastforce simp: Subscribe_def split: prod.splits outcome.splits sum.splits)
qed

lemma Subscribe_restores_counter_witness:
  "es_connCounter (snd (Subscribe (\<lambda>_ f. Inr (\<lambda>p. (p, None), \<lparr>it_payloads = [f], it_error = None\<rparr>))
     (\<lambda>_. None) (PeerAddr ''10.0.0.1:99'') SubscribeType_BLOCK ''x'' (newEventService True 2))) ''10.0.0.1'' = None"
  using Subscribe_restores_counter[of 2 "newEventService True 2"
      "\<lambda>_ f. Inr (\<lambda>p. (p, None), \<lparr>it_payloads = [f], it_error = None\<rparr>)"
      "\<lambda>_. None" "PeerAddr ''10.0.0.1:99''" SubscribeType_BLOCK "''x''"]
  by (simp add: counter_ok_def newEventService_def)

end
