(* ===== verification/Watch.thy ===== *)
theory Watch
  imports Views EventService ClientBase
begin

text \<open>
  \<open>cmd/client/cmd/watch.go\<close>: the subscription to the blocks of a chain, from the side of the client.  The loop
  receives until the stream ends or fails; a server may keep it open for ever, so the loop is a partial
  function, and \<open>None\<close> is a watch that never returns.
\<close>

section \<open>The loop\<close>

record BlockRange =
  brg_Start :: string
  brg_End :: string

record BlockFilter =
  bf_Bcname :: string
  bf_Range :: "BlockRange option"
  bf_ExcludeTx :: bool
  bf_ExcludeTxEvent :: bool
  bf_Contract :: string
  bf_EventName :: string
  bf_Initiator :: string
  bf_AuthRequire :: string
  bf_FromAddr :: string
  bf_ToAddr :: string

record SubscribeRequest =
  sreq_Type :: SubscribeType
  sreq_Filter :: bytes

text \<open>What \<open>stream.Recv\<close> gives: an event with its payload, the end of the stream, or another error.\<close>

datatype received = REvent bytes | REOF | RError gerr

record 'w WatchClient =
  wc_Subscribe :: "SubscribeRequest \<Rightarrow> ('w, gerr, unit) io"
  wc_Recv :: "'w \<Rightarrow> received \<times> 'w"
  wc_un_BlockFilter :: "bytes \<Rightarrow> BlockFilter \<Rightarrow> gerr + BlockFilter"
  wc_Marshal_BlockFilter :: "BlockFilter \<Rightarrow> gerr + bytes"
  wc_Unmarshal_FilteredBlock :: "bytes \<Rightarrow> gerr + FilteredBlock"

record watchCommand =
  wcm_filter :: bytes
  wcm_skipEmptyTx :: bool

text \<open>The blocks printed, the error returned and the world afterwards.\<close>

type_synonym 'w watched = "FilteredBlock_view list \<times> gerr option \<times> 'w"

partial_function (option) recv_loop :: "'w WatchClient \<Rightarrow> bool \<Rightarrow> 'w \<Rightarrow> 'w watched option" where
  "recv_loop W skipEmptyTx w =
     (case wc_Recv W w of
        (REOF, w') \<Rightarrow> Some ([], None, w')
      | (RError err, w') \<Rightarrow> Some ([], Some err, w')
      | (REvent payload, w') \<Rightarrow>
          (case wc_Unmarshal_FilteredBlock W payload of
             Inl err \<Rightarrow> Some ([], Some err, w')
           | Inr block \<Rightarrow>
               if fb_Txs block = [] \<and> skipEmptyTx then recv_loop W skipEmptyTx w'
               else
                 Option.bind (recv_loop W skipEmptyTx w')
                   (\<lambda>(out, err, w''). Some (FromFilteredBlockPB block # out, err, w''))))"

definition watch :: "'w WatchClient \<Rightarrow> RootOptions \<Rightarrow> watchCommand \<Rightarrow> 'w \<Rightarrow> 'w watched option" where
  "watch W ro c w =
     (case wc_un_BlockFilter W (wcm_filter c)
             \<lparr>bf_Bcname = ro_Name ro, bf_Range = None, bf_ExcludeTx = False, bf_ExcludeTxEvent = False,
              bf_Contract = '''', bf_EventName = '''', bf_Initiator = '''', bf_AuthRequire = '''', bf_FromAddr = '''',
              bf_ToAddr = ''''\<rparr> of
        Inl err \<Rightarrow> Some ([], Some err, w)
      | Inr filt \<Rightarrow>
          (let buf = (case wc_Marshal_BlockFilter W filt of Inl err \<Rightarrow> '''' | Inr buf \<Rightarrow> buf) in
           case wc_Subscribe W \<lparr>sreq_Type = SubscribeType_BLOCK, sreq_Filter = buf\<rparr> w of
             (Inl err, w') \<Rightarrow> Some ([], Some err, w')
           | (Inr _, w') \<Rightarrow> recv_loop W (wcm_skipEmptyTx c) w'))"

section \<open>Streams\<close>

text \<open>\<open>stream_of W w bufs fin w'\<close>: from the world \<open>w\<close> the stream delivers the payloads \<open>bufs\<close> and then \<open>fin\<close>.\<close>

primrec stream_of :: "'w WatchClient \<Rightarrow> 'w \<Rightarrow> bytes list \<Rightarrow> received \<Rightarrow> 'w \<Rightarrow> bool" where
  "stream_of W w [] fin w' \<longleftrightarrow> wc_Recv W w = (fin, w')"
| "stream_of W w (buf # bufs) fin w' \<longleftrightarrow> (\<exists>w1. wc_Recv W w = (REvent buf, w1) \<and> stream_of W w1 bufs fin w')"

text \<open>What ends the loop: the end, an error, or a payload that is not a block.\<close>

definition stops :: "'w WatchClient \<Rightarrow> received \<Rightarrow> gerr option \<Rightarrow> bool" where
  "stops W fin err \<longleftrightarrow>
     (case fin of
        REOF \<Rightarrow> err = None
      | RError e \<Rightarrow> err = Some e
      | REvent buf \<Rightarrow> (\<exists>e. wc_Unmarshal_FilteredBlock W buf = Inl e \<and> err = Some e))"

definition printed :: "bool \<Rightarrow> FilteredBlock list \<Rightarrow> FilteredBlock_view list" where
  "printed skipEmptyTx blocks =
     map FromFilteredBlockPB (filter (\<lambda>b. \<not> (fb_Txs b = [] \<and> skipEmptyTx)) blocks)"

definition decodes :: "'w WatchClient \<Rightarrow> bytes list \<Rightarrow> FilteredBlock list \<Rightarrow> bool" where
  "decodes W bufs blocks \<longleftrightarrow> list_all2 (\<lambda>buf b. wc_Unmarshal_FilteredBlock W buf = Inr b) bufs blocks"

lemma printed_simps [simp]:
  "printed skip [] = []"
  "printed skip (b # bs) = (if fb_Txs b = [] \<and> skip then printed skip bs else FromFilteredBlockPB b # printed skip bs)"
  by (simp_all add: printed_def)

lemma recv_loop_returns:
  assumes "stream_of W w bufs fin w'" "decodes W bufs blocks" "stops W fin err"
  shows "recv_loop W skip w = Some (printed skip blocks, err, w')"
  using assms
proof (induction bufs arbitrary: w blocks)
  case Nil
  then show ?case
    by (subst recv_loop.simps) (auto simp: decodes_def stops_def split: received.splits)
next
  case (Cons buf bufs)
  then obtain w1 b bs where s: "wc_Recv W w = (REvent buf, w1)" "stream_of W w1 bufs fin w'" "blocks = b # bs"
      "wc_Unmarshal_FilteredBlock W buf = Inr b" "decodes W bufs bs"
    by (auto simp: decodes_def list_all2_Cons1)
  with Cons.IH[OF s(2,5) Cons.prems(3)] show ?case by (subst recv_loop.simps) auto
qed

lemma recv_loop_stream:
  assumes "recv_loop W skip w = Some r"
  shows "\<exists>bufs fin w' blocks err. stream_of W w bufs fin w' \<and> decodes W bufs blocks \<and> stops W fin err \<and>
    r = (printed skip blocks, err, w')"
proof (rule recv_loop.raw_induct[OF _ assms, where P = "\<lambda>W skip w r.
    \<exists>bufs fin w' blocks err. stream_of W w bufs fin w' \<and> decodes W bufs blocks \<and> stops W fin err \<and>
      r = (printed skip blocks, err, w')"])
  fix loop and W :: "'w WatchClient" and skip w r
  assume IH: "\<And>W skip w r. loop W skip w = Some r \<Longrightarrow>
      \<exists>bufs fin w' blocks err. stream_of W w bufs fin w' \<and> decodes W bufs blocks \<and> stops W fin err \<and>
        r = (printed skip blocks, err, w')"
    and body: "(case wc_Recv W w of
        (REOF, w') \<Rightarrow> Some ([], None, w')
      | (RError err, w') \<Rightarrow> Some ([], Some err, w')
      | (REvent payload, w') \<Rightarrow>
          (case wc_Unmarshal_FilteredBlock W payload of
             Inl err \<Rightarrow> Some ([], Some err, w')
           | Inr block \<Rightarrow>
               if fb_Txs block = [] \<and> skip then loop W skip w'
               else
                 Option.bind (loop W skip w')
                   (\<lambda>(out, err, w''). Some (FromFilteredBlockPB block # out, err, w'')))) = Some r"
  obtain x w1 where x: "wc_Recv W w = (x, w1)" by (cases "wc_Recv W w")
  consider (stop) err where "stops W x err" "r = ([], err, w1)"
    | (go) buf b r' where "x = REvent buf" "wc_Unmarshal_FilteredBlock W buf = Inr b" "loop W skip w1 = Some r'"
        "r = (if fb_Txs b = [] \<and> skip then r' else (FromFilteredBlockPB b # fst r', snd r'))"
    using body x by (auto simp: stops_def bind_eq_Some_conv split: received.splits sum.splits if_splits)
  then show "\<exists>bufs fin w' blocks err. stream_of W w bufs fin w' \<and> decodes W bufs blocks \<and> stops W fin err \<and>
      r = (printed skip blocks, err, w')"
  proof cases
    case stop
    then show ?thesis
      using x by (intro exI[of _ "[]"] exI[of _ x] exI[of _ w1] exI[of _ err]) (simp add: decodes_def)
  next
    case go
    from IH[OF go(3)] obtain bufs fin w' blocks err where
      "stream_of W w1 bufs fin w'" "decodes W bufs blocks" "stops W fin err" "r' = (printed skip blocks, err, w')"
      by blast
    with go x show ?thesis
      by (intro exI[of _ "buf # bufs"] exI[of _ fin] exI[of _ w'] exI[of _ "b # blocks"] exI[of _ err])
         (auto simp: decodes_def)
  qed
qed

section \<open>Properties\<close>

text \<open>C35: A watch returns exactly when its stream delivers finitely many blocks and then ends, fails or delivers something
  that is no block; it then has printed the blocks received before that, in their order, without those
  that have no transaction if asked so.  If every message is a block for ever, it never returns.\<close>

theorem watch_returns_iff:
  assumes "wc_un_BlockFilter W (wcm_filter c)
      \<lparr>bf_Bcname = ro_Name ro, bf_Range = None, bf_ExcludeTx = False, bf_ExcludeTxEvent = False,
       bf_Contract = '''', bf_EventName = '''', bf_Initiator = '''', bf_AuthRequire = '''', bf_FromAddr = '''',
       bf_ToAddr = ''''\<rparr> = Inr filt"
    and "wc_Marshal_BlockFilter W filt = Inr buf"
    and "wc_Subscribe W \<lparr>sreq_Type = SubscribeType_BLOCK, sreq_Filter = buf\<rparr> w = (Inr (), w1)"
  shows "(watch W ro c w = Some (out, err, w') \<longleftrightarrow>
      (\<exists>bufs fin blocks. stream_of W w1 bufs fin w' \<and> decodes W bufs blocks \<and> stops W fin err \<and>
         out = printed (wcm_skipEmptyTx c) blocks)) \<and>
    (watch W ro c w = None \<longleftrightarrow>
      (\<nexists>bufs fin w' blocks err. stream_of W w1 bufs fin w' \<and> decodes W bufs blocks \<and> stops W fin err))"
proof -
  have run: "watch W ro c w = recv_loop W (wcm_skipEmptyTx c) w1"
    using assms by (simp add: watch_def)
  have all: "recv_loop W skip w1 = Some (out, err, w') \<longleftrightarrow>
      (\<exists>bufs fin blocks. stream_of W w1 bufs fin w' \<and> decodes W bufs blocks \<and> stops W fin err \<and>
         out = printed skip blocks)" for skip out err w'
    using recv_loop_stream[of W skip w1] recv_loop_returns[of W w1] by blast
  have none: "recv_loop W skip w1 = None \<longleftrightarrow>
      (\<nexists>bufs fin w' blocks err. stream_of W w1 bufs fin w' \<and> decodes W bufs blocks \<and> stops W fin err)" for skip
  proof -
    have "recv_loop W skip w1 = None \<longleftrightarrow> (\<nexists>out err w'. recv_loop W skip w1 = Some (out, err, w'))"
      by (metis not_Some_eq prod_cases3)
    then show ?thesis unfolding all by blast
  qed
  show ?thesis unfolding run using all none by blast
qed

text \<open>The events the server sends are a prefix of what the iterator yields: all of them when no send fails.\<close>

lemma send_loop_prefix:
  "\<exists>n. send_loop enc send ps = map (\<lambda>p. fst (enc p)) (take n ps)"
proof (induction ps)
  case (Cons p ps)
  then obtain n where n: "send_loop enc send ps = map (\<lambda>p. fst (enc p)) (take n ps)" by blast
  show ?case
  proof (cases "send (fst (enc p))")
    case None
    with n show ?thesis by (intro exI[of _ "Suc n"]) (simp add: split_def)
  next
    case (Some e)
    then show ?thesis by (intro exI[of _ 0]) (simp add: split_def)
  qed
qed simp

lemma send_loop_all:
  "(\<And>b. send b = None) \<Longrightarrow> send_loop enc send ps = map (\<lambda>p. fst (enc p)) ps"
  by (induction ps) (simp_all add: split_def)

text \<open>C36: A watch against the event service of the node: if the stream hands over what \<open>Subscribe\<close> sent and then ends, and the
  payloads decode to the blocks they were made from, the watch returns without an error and has
  printed the blocks of the subscription, up to the first event that could not be sent.\<close>

theorem watch_prints_subscription:
  assumes watch: "wc_un_BlockFilter W (wcm_filter c)
      \<lparr>bf_Bcname = ro_Name ro, bf_Range = None, bf_ExcludeTx = False, bf_ExcludeTxEvent = False,
       bf_Contract = '''', bf_EventName = '''', bf_Initiator = '''', bf_AuthRequire = '''', bf_FromAddr = '''',
       bf_ToAddr = ''''\<rparr> = Inr filt"
      "wc_Marshal_BlockFilter W filt = Inr buf"
      "wc_Subscribe W \<lparr>sreq_Type = SubscribeType_BLOCK, sreq_Filter = buf\<rparr> w = (Inr (), w1)"
    and server: "router XSubscribeType_BLOCK buf = Inr (enc, iter)"
      "Subscribe router send pr SubscribeType_BLOCK buf e = (Ret (bufs, None), e')"
      "es_EnableEvent e" "connPermit e pr = (Ret (Inr ip), e1)"
    and carried: "stream_of W w1 bufs REOF w'"
    and codec: "\<And>p. wc_Unmarshal_FilteredBlock W (fst (enc p)) = Inr (block_of p)"
  shows "\<exists>n. watch W ro c w =
      Some (printed (wcm_skipEmptyTx c) (map block_of (take n (it_payloads iter))), None, w') \<and>
    ((\<forall>b. send b = None) \<longrightarrow> take n (it_payloads iter) = it_payloads iter)"
proof -
  have b: "bufs = send_loop enc send (it_payloads iter)"
    using server by (simp add: Subscribe_def ConvertEventSubType_def)
  obtain n where n: "bufs = map (\<lambda>p. fst (enc p)) (take n (it_payloads iter))"
      "(\<forall>b. send b = None) \<longrightarrow> take n (it_payloads iter) = it_payloads iter"
  proof (cases "\<forall>b. send b = None")
    case True
    then have "bufs = map (\<lambda>p. fst (enc p)) (take (length (it_payloads iter)) (it_payloads iter))"
      using b send_loop_all[of send enc] by simp
    then show ?thesis by (rule that) simp
  next
    case False
    then show ?thesis using that b send_loop_prefix[of enc send] by metis
  qed
  have "decodes W bufs (map block_of (take n (it_payloads iter)))"
    by (simp add: decodes_def n(1) list_all2_map1 list_all2_map2 codec list.rel_refl)
  moreover have "stops W REOF None" by (simp add: stops_def)
  ultimately have "watch W ro c w =
      Some (printed (wcm_skipEmptyTx c) (map block_of (take n (it_payloads iter))), None, w')"
    using recv_loop_returns[OF carried] watch by (simp add: watch_def)
  with n(2) show ?thesis by blast
qed

section \<open>Instances\<close>

text \<open>A node that sends one block without and one block with a transaction, then ends the stream; the world is what is
  left to send.\<close>

definition ex_fblock :: "string \<Rightarrow> FilteredBlock" where
  "ex_fblock x = \<lparr>fb_Bcname = ''xuper'', fb_Blockid = x, fb_BlockHeight = 1,
     fb_Txs = (if x = ''empty'' then [] else [\<lparr>ftx_Txid = ''t1'', ftx_Events = []\<rparr>])\<rparr>"

definition ex_watch :: "string list WatchClient" where
  "ex_watch =
     \<lparr>wc_Subscribe = (\<lambda>req w. (Inr (), [''empty'', ''full''])),
      wc_Recv = (\<lambda>w. case w of [] \<Rightarrow> (REOF, []) | b # bs \<Rightarrow> (REvent b, bs)),
      wc_un_BlockFilter = (\<lambda>b f. Inr f), wc_Marshal_BlockFilter = (\<lambda>f. Inr ''filter''),
      wc_Unmarshal_FilteredBlock = (\<lambda>b. Inr (ex_fblock b))\<rparr>"

lemma ex_watch_simps [simp]:
  "wc_un_BlockFilter ex_watch b f = Inr f" "wc_Marshal_BlockFilter ex_watch f = Inr ''filter''"
  "wc_Subscribe ex_watch req w = (Inr (), [''empty'', ''full''])"
  "wc_Unmarshal_FilteredBlock ex_watch b = Inr (ex_fblock b)"
  by (simp_all add: ex_watch_def)

lemma ex_stream: "stream_of ex_watch [''empty'', ''full''] [''empty'', ''full''] REOF []"
  by (simp add: ex_watch_def)

lemma watch_returns_iff_witness:
  "watch ex_watch zero_RootOptions \<lparr>wcm_filter = ''{}'', wcm_skipEmptyTx = True\<rparr> [] =
     Some ([FromFilteredBlockPB (ex_fblock ''full'')], None, [])"
proof -
  let ?c = "\<lparr>wcm_filter = ''{}'', wcm_skipEmptyTx = True\<rparr>"
  have d: "decodes ex_watch [''empty'', ''full''] [ex_fblock ''empty'', ex_fblock ''full'']"
    by (simp add: decodes_def)
  have e: "stops ex_watch REOF None" by (simp add: stops_def)
  have p: "[FromFilteredBlockPB (ex_fblock ''full'')] =
      printed (wcm_skipEmptyTx ?c) [ex_fblock ''empty'', ex_fblock ''full'']"
    by (simp add: ex_fblock_def)
  note iff = watch_returns_iff[of ex_watch ?c zero_RootOptions, OF ex_watch_simps(1) ex_watch_simps(2) ex_watch_simps(3)]
  show ?thesis
    by (rule iff[THEN conjunct1, THEN iffD2]) (use ex_stream d e p in blast)
qed

lemma watch_prints_subscription_witness:
  "\<exists>n. watch ex_watch zero_RootOptions \<lparr>wcm_filter = ''{}'', wcm_skipEmptyTx = False\<rparr> [] =
     Some (printed False (map ex_fblock (take n [''empty'', ''full''])), None, [])"
proof -
  let ?router = "\<lambda>_ _. Inr (\<lambda>p. (p, None), \<lparr>it_payloads = [''empty'', ''full''], it_error = None\<rparr>)
      :: gerr + (string \<Rightarrow> bytes \<times> gerr option) \<times> string event_iter"
  let ?c = "\<lparr>wcm_filter = ''{}'', wcm_skipEmptyTx = False\<rparr>"
  let ?pr = "PeerAddr ''10.0.0.1:99''" and ?e = "newEventService True 0"
  have "SplitHostPort ''10.0.0.1:99'' = Inr (''10.0.0.1'', ''99'')" by (simp add: SplitHostPort_def)
  then have c: "connPermit ?e ?pr = (Ret (Inr ''10.0.0.1''), ?e)"
    by (simp add: connPermit_def newEventService_def)
  have e: "es_EnableEvent ?e" by (simp add: newEventService_def)
  have sub: "Subscribe ?router (\<lambda>_. None) ?pr SubscribeType_BLOCK ''filter'' ?e =
      (Ret ([''empty'', ''full''], None), releaseConn ?e ''10.0.0.1'')"
    by (simp add: Subscribe_def c e)
  have "wc_Unmarshal_FilteredBlock ex_watch (fst ((\<lambda>p. (p, None)) p)) = Inr (ex_fblock p)" for p by simp
  then show ?thesis
    using watch_prints_subscription[of ex_watch ?c zero_RootOptions, OF ex_watch_simps(1) ex_watch_simps(2) ex_watch_simps(3)
        refl sub e c ex_stream] by auto
qed

end
