(* ===== verification/KernelCmds.thy ===== *)
theory KernelCmds
  imports Compliance CliTransfer
begin

text \<open>
  The commands of the client that fill in a contract call and hand it to the transaction path of
  \<open>comm_trans.go\<close>: contracts (\<open>contract_*.go\<close>), accounts (\<open>account_new.go\<close>), proposals
  (\<open>proposal_*.go\<close>, \<open>vote.go\<close>), the governance token (\<open>govern_token_*.go\<close>) and the consensus
  (\<open>consensus_invoke.go\<close>).

  A JSON object that is decoded into a \<open>map[string]interface{}\<close> is the list of its entries, each a
  string or another value; \<open>null\<close> leaves the nil map \<open>None\<close>, which can be read but
  not written.  The JSON forms, the constants of xupercore and the one more call of
  the node are given functions in a \<open>CmdEnv\<close>.
\<close>

section \<open>Given functions\<close>

datatype json_val = JString string | JOther bytes

type_synonym json_object = "(string \<times> json_val) list"
type_synonym json_map = "json_object option"

record 'w CmdEnv =
  ce_un_object :: "bytes \<Rightarrow> gerr + json_map"
  ce_mj_object :: "json_map \<Rightarrow> gerr + bytes"
  ce_mj_argmap :: "(string \<rightharpoonup> bytes) \<Rightarrow> bytes"
  ce_mj_weights :: "(string \<rightharpoonup> float64) \<Rightarrow> gerr + bytes"
  ce_mj_vote :: "string \<Rightarrow> bytes"
  ce_un_proposalData :: "bytes \<Rightarrow> gerr + string"
  ce_Marshal_WasmCodeDesc :: "string \<Rightarrow> string \<Rightarrow> bytes"
  ce_show_float :: "float64 \<Rightarrow> string"
  ce_TypeEvm :: string
  ce_ProposalKernelContract :: string
  ce_GovernTokenKernelContract :: string
  ce_QueryACL :: "AclStatus \<Rightarrow> ('w, gerr, AclStatus) io"

section \<open>Arguments of a contract\<close>

primrec all_strings :: "json_object \<Rightarrow> gerr + (string \<times> bytes) list" where
  "all_strings [] = Inr []"
| "all_strings (kv # kvs) =
     (case snd kv of
        JOther v \<Rightarrow> Inl (Errorf ''bad key, expect string value'')
      | JString s \<Rightarrow> res_bind (all_strings kvs) (\<lambda>rest. Inr ((fst kv, s) # rest)))"

definition entries :: "json_map \<Rightarrow> json_object" where "entries args = nilget [] (\<lambda>kvs. kvs) args"

definition convertToXuper3Args :: "json_map \<Rightarrow> gerr + (string \<rightharpoonup> bytes)" where
  "convertToXuper3Args args = res_bind (all_strings (entries args)) (\<lambda>kvs. Inr (map_of kvs))"

definition convertToXuper3EvmArgs :: "'w CmdEnv \<Rightarrow> json_map \<Rightarrow> gerr + (string \<rightharpoonup> bytes)" where
  "convertToXuper3EvmArgs X args =
     res_bind (ce_mj_object X args) (\<lambda>input. Inr [''input'' \<mapsto> input, ''jsonEncoded'' \<mapsto> ''true''])"

definition convert_args :: "'w CmdEnv \<Rightarrow> string \<Rightarrow> json_map \<Rightarrow> gerr + (string \<rightharpoonup> bytes)" where
  "convert_args X module args =
     (if module = ce_TypeEvm X then convertToXuper3EvmArgs X args else convertToXuper3Args args)"

text \<open>\<open>args[k] = v\<close>.\<close>

definition args_set :: "string \<Rightarrow> json_val \<Rightarrow> json_object \<Rightarrow> json_object" where
  "args_set k v args = (k, v) # filter (\<lambda>kv. fst kv \<noteq> k) args"

text \<open>The fields most of the commands set from the options.\<close>

definition root_CommTrans :: "('w, 'x, 'sk) Env \<Rightarrow> RootOptions \<Rightarrow> CommTrans" where
  "root_CommTrans E ro =
     zero_CommTrans\<lparr>ct_FrozenHeight := 0, ct_Version := e_TxVersion E, ct_ChainName := ro_Name ro, ct_Keys := ro_Keys ro,
        ct_CryptoType := ro_Crypto ro, ct_RootOptions := ro\<rparr>"

text \<open>Write the raw transaction for the signers, or sign and post.\<close>

definition gen_or_post :: "('w, 'x, 'sk) Env \<Rightarrow> bool \<Rightarrow> CommTrans \<Rightarrow> ('w, gerr, unit) io" where
  "gen_or_post E isMulti ct = (if isMulti then GenerateMultisigGenRawTx E ct else ct_Transfer E ct)"

section \<open>Contracts\<close>

record ContractDeployCommand =
  cdc_module :: string
  cdc_account :: string
  cdc_contractName :: string
  cdc_args :: string
  cdc_runtime :: string
  cdc_fee :: string
  cdc_isMulti :: bool
  cdc_multiAddrs :: string
  cdc_output :: string
  cdc_abiFile :: string

definition prepareCodeDesc :: "'w CmdEnv \<Rightarrow> ContractDeployCommand \<Rightarrow> bytes" where
  "prepareCodeDesc X c = ce_Marshal_WasmCodeDesc X (cdc_runtime c) (cdc_module c)"

definition deploy ::
  "('w, 'x, 'sk) Env \<Rightarrow> 'w CmdEnv \<Rightarrow> RootOptions \<Rightarrow> ContractDeployCommand \<Rightarrow> string \<Rightarrow> ('w, gerr, unit) io" where
  "deploy E X ro c codepath =
     (let ct = (root_CommTrans E ro)\<lparr>ct_Amount := ''0'', ct_Fee := cdc_fee c, ct_ModuleName := ''xkernel'',
                  ct_ContractName := ''$contract'', ct_MethodName := ''deployContract'', ct_MultiAddrs := cdc_multiAddrs c,
                  ct_From := cdc_account c, ct_Output := cdc_output c, ct_IsQuick := cdc_isMulti c\<rparr> in
      io_bind (io_read (readAddress E (ct_Keys ct))) (\<lambda>to.
      io_bind (io_lift (ce_un_object X (cdc_args c))) (\<lambda>args.
      io_bind
        (if cdc_module c = ce_TypeEvm X then
           io_bind (io_read (e_ReadFile E (cdc_abiFile c))) (\<lambda>abiCode.
           io_bind (io_lift (convertToXuper3EvmArgs X args)) (\<lambda>x3args. io_return (abiCode, x3args)))
         else
           io_bind (io_lift (convertToXuper3Args args)) (\<lambda>x3args. io_return ('''', x3args))) (\<lambda>(abiCode, x3args).
      io_bind (io_read (e_ReadFile E codepath)) (\<lambda>codeBuf.
      gen_or_post E (cdc_isMulti c)
        (ct\<lparr>ct_To := to,
            ct_Args := [''account_name'' \<mapsto> cdc_account c, ''contract_name'' \<mapsto> cdc_contractName c,
                        ''contract_code'' \<mapsto> codeBuf, ''contract_desc'' \<mapsto> prepareCodeDesc X c,
                        ''init_args'' \<mapsto> ce_mj_argmap X x3args, ''contract_abi'' \<mapsto> abiCode]\<rparr>))))))"

record ContractUpgradeCommand =
  cuc_account :: string
  cuc_contractName :: string
  cuc_fee :: string
  cuc_isMulti :: bool
  cuc_multiAddrs :: string
  cuc_output :: string

definition upgrade ::
  "('w, 'x, 'sk) Env \<Rightarrow> RootOptions \<Rightarrow> ContractUpgradeCommand \<Rightarrow> string \<Rightarrow> ('w, gerr, unit) io" where
  "upgrade E ro c codepath =
     (let ct = (root_CommTrans E ro)\<lparr>ct_Amount := ''0'', ct_Fee := cuc_fee c, ct_ModuleName := ''xkernel'',
                  ct_ContractName := ''$contract'', ct_MethodName := ''upgradeContract'', ct_MultiAddrs := cuc_multiAddrs c,
                  ct_From := cuc_account c, ct_Output := cuc_output c, ct_IsQuick := cuc_isMulti c\<rparr> in
      io_bind (io_read (readAddress E (ct_Keys ct))) (\<lambda>to.
      io_bind (io_read (e_ReadFile E codepath)) (\<lambda>codebuf.
      gen_or_post E (cuc_isMulti c)
        (ct\<lparr>ct_To := to, ct_Args := [''contract_name'' \<mapsto> cuc_contractName c, ''contract_code'' \<mapsto> codebuf]\<rparr>))))"

record ContractInvokeCommand =
  cic_module :: string
  cic_args :: string
  cic_account :: string
  cic_fee :: string
  cic_isMulti :: bool
  cic_multiAddrs :: string
  cic_output :: string
  cic_methodName :: string
  cic_amount :: string
  cic_debug :: bool

definition contract_invoke ::
  "('w, 'x, 'sk) Env \<Rightarrow> 'w CmdEnv \<Rightarrow> RootOptions \<Rightarrow> ContractInvokeCommand \<Rightarrow> string \<Rightarrow> ('w, gerr, unit) io" where
  "contract_invoke E X ro c codeName =
     (let ct = (root_CommTrans E ro)\<lparr>ct_Fee := cic_fee c, ct_From := cic_account c, ct_ModuleName := cic_module c,
                  ct_ContractName := codeName, ct_MethodName := cic_methodName c, ct_MultiAddrs := cic_multiAddrs c,
                  ct_IsQuick := cic_isMulti c, ct_Output := cic_output c, ct_DebugTx := cic_debug c\<rparr>;
          ct = (if cic_amount c \<noteq> '''' then ct\<lparr>ct_To := ct_ContractName ct, ct_Amount := cic_amount c\<rparr> else ct) in
      io_bind (io_lift (ce_un_object X (cic_args c))) (\<lambda>args.
      io_bind (io_lift (convert_args X (cic_module c) args)) (\<lambda>x3args.
        gen_or_post E (cic_isMulti c) (ct\<lparr>ct_Args := x3args\<rparr>))))"

record ContractQueryCommand =
  cqc_module :: string
  cqc_args :: string
  cqc_methodName :: string
  cqc_isMulti :: bool
  cqc_verbose :: bool
  cqc_multiAddrs :: string

text \<open>The read-only calls share their fields and the end: the pre-execution.\<close>

definition query_CommTrans :: "RootOptions \<Rightarrow> string \<Rightarrow> string \<Rightarrow> string \<Rightarrow> bool \<Rightarrow> string \<Rightarrow> CommTrans" where
  "query_CommTrans ro module contract method isMulti multiAddrs =
     zero_CommTrans\<lparr>ct_ModuleName := module, ct_ContractName := contract, ct_MethodName := method, ct_IsQuick := isMulti,
        ct_Keys := ro_Keys ro, ct_MultiAddrs := multiAddrs, ct_ChainName := ro_Name ro\<rparr>"

definition pre_execute :: "('w, 'x, 'sk) Env \<Rightarrow> CommTrans \<Rightarrow> ('w, gerr, unit) io" where
  "pre_execute E ct = io_bind (GenPreExeRes E ct) (\<lambda>_. io_return ())"

definition contract_query ::
  "('w, 'x, 'sk) Env \<Rightarrow> 'w CmdEnv \<Rightarrow> RootOptions \<Rightarrow> ContractQueryCommand \<Rightarrow> string \<Rightarrow> ('w, gerr, unit) io" where
  "contract_query E X ro c codeName =
     io_bind (io_lift (ce_un_object X (cqc_args c))) (\<lambda>args.
     io_bind (io_lift (convert_args X (cqc_module c) args)) (\<lambda>x3args.
       pre_execute E ((query_CommTrans ro (cqc_module c) codeName (cqc_methodName c) (cqc_isMulti c) (cqc_multiAddrs c))
         \<lparr>ct_Args := x3args\<rparr>)))"

section \<open>Accounts\<close>

record AccountNewCommand =
  anc_accountName :: string
  anc_descfile :: string
  anc_fee :: string
  anc_debug :: bool

text \<open>The access list of a new account: its creator alone.  The lines of the text literal.\<close>

definition simpleACL :: "string \<Rightarrow> bytes" where
  "simpleACL to =
     (let q = (\<lambda>s. CHR 0x22 # s @ [CHR 0x22]); sp = (\<lambda>n. replicate n (CHR '' '')) in
      join_str [CHR 0x0A]
        ['''',
         sp 8 @ ''{'',
         sp 12 @ q ''pm'' @ '': {'',
         sp 16 @ q ''rule'' @ '': 1,'',
         sp 16 @ q ''acceptValue'' @ '': 1.0'',
         sp 12 @ ''},'',
         sp 12 @ q ''aksWeight'' @ '': {'',
         sp 16 @ q to @ '': 1.0'',
         sp 12 @ ''}'',
         sp 8 @ ''}'',
         sp 8])"

text \<open>What is left of printing the name are its errors, after the transaction was posted.\<close>

definition readPreExeParamWithDesc ::
  "('w, 'x, 'sk) Env \<Rightarrow> bytes \<Rightarrow> gerr + InvokeRequest" where
  "readPreExeParamWithDesc E buf =
     (case e_un_invokeRequestWrapper E buf of
        Inl err \<Rightarrow> Inl (Errorf ''unmarshal json error'')
      | Inr (ireq, args) \<Rightarrow> Inr (ireq\<lparr>ireq_Args := args\<rparr>))"

definition printRealAccountName ::
  "('w, 'x, 'sk) Env \<Rightarrow> AccountNewCommand \<Rightarrow> string \<Rightarrow> 'w \<Rightarrow> gerr + unit" where
  "printRealAccountName E c name w =
     (if name \<noteq> '''' then Inr ()
      else
        res_bind (e_ReadFile E (anc_descfile c) w) (\<lambda>desc.
        res_bind (readPreExeParamWithDesc E desc) (\<lambda>preExeParam. Inr ())))"

definition newAccount :: "('w, 'x, 'sk) Env \<Rightarrow> RootOptions \<Rightarrow> AccountNewCommand \<Rightarrow> ('w, gerr, unit) io" where
  "newAccount E ro c =
     (if anc_descfile c = '''' \<and> anc_accountName c = '''' then io_throw (Errorf ''account name or desc file required'')
      else
        (let ct = (root_CommTrans E ro)\<lparr>ct_Amount := ''0'', ct_Fee := anc_fee c, ct_MethodName := ''NewAccount'',
                     ct_Descfile := anc_descfile c, ct_IsQuick := False, ct_DebugTx := anc_debug c\<rparr> in
         io_bind (io_read (readAddress E (ct_Keys ct))) (\<lambda>to.
         let ct = ct\<lparr>ct_To := to\<rparr>;
             ct = (if anc_accountName c \<noteq> ''''
                   then ct\<lparr>ct_ModuleName := ''xkernel'', ct_ContractName := ''$acl'',
                           ct_Args := [''account_name'' \<mapsto> anc_accountName c, ''acl'' \<mapsto> simpleACL to]\<rparr>
                   else ct) in
         io_bind (ct_Transfer E ct) (\<lambda>_. io_read (printRealAccountName E c (anc_accountName c))))))"

section \<open>Proposals\<close>

record ProposalProposeCommand =
  ppc_proposal :: string
  ppc_fee :: string

definition getProposal :: "('w, 'x, 'sk) Env \<Rightarrow> ProposalProposeCommand \<Rightarrow> 'w \<Rightarrow> gerr + bytes" where
  "getProposal E c w = (if ppc_proposal c = '''' then Inr ''no proposal'' else e_ReadFile E (ppc_proposal c) w)"

text \<open>The height of the chain among those of the node; a chain the node does not name is not checked.\<close>

definition validate_height :: "string \<Rightarrow> int \<Rightarrow> BCStatus list \<Rightarrow> gerr + unit" where
  "validate_height bcname stopVotingHeight statuses =
     (case find (\<lambda>st. bcst_Bcname st = bcname) statuses of
        None \<Rightarrow> Inr ()
      | Some st \<Rightarrow>
          (case bcst_Meta st of
             None \<Rightarrow> Inl go_panic
           | Some m \<Rightarrow>
               if sint (lmeta_TrunkHeight m) \<ge> stopVotingHeight
               then Inl (Errorf ''stop voting height must be larger than current trunk height'')
               else Inr ()))"

definition validateProposal ::
  "('w, 'x, 'sk) Env \<Rightarrow> 'w CmdEnv \<Rightarrow> RootOptions \<Rightarrow> bytes \<Rightarrow> ('w, gerr, unit) io" where
  "validateProposal E X ro dat =
     io_bind (io_lift (ce_un_proposalData X dat)) (\<lambda>StopVotingHeight.
     io_bind (xc_GetSystemStatus (e_client E) \<lparr>cin_Header = None, cin_ViewOption = ViewOption_NONE\<rparr>) (\<lambda>status.
     io_lift
       (case big_parse StopVotingHeight of
          None \<Rightarrow> Inl (Errorf ''invalid stop_voting_height'')
        | Some stopVotingHeight \<Rightarrow>
            (case systr_SystemsStatus status of
               None \<Rightarrow> Inl go_panic
             | Some s \<Rightarrow> validate_height (ro_Name ro) stopVotingHeight (syst_BcsStatus s)))))"

definition proposeProposal ::
  "('w, 'x, 'sk) Env \<Rightarrow> 'w CmdEnv \<Rightarrow> RootOptions \<Rightarrow> ProposalProposeCommand \<Rightarrow> ('w, gerr, unit) io" where
  "proposeProposal E X ro c =
     (let ct = (root_CommTrans E ro)\<lparr>ct_Amount := ''0'', ct_Fee := ppc_fee c, ct_MethodName := ''Propose''\<rparr> in
      io_bind (io_read (readAddress E (ct_Keys ct))) (\<lambda>to.
      io_bind (io_read (getProposal E c)) (\<lambda>proposal.
      io_bind (validateProposal E X ro proposal) (\<lambda>_.
        ct_Transfer E (ct\<lparr>ct_To := to, ct_ModuleName := ''xkernel'', ct_ContractName := ''$proposal'',
                          ct_Args := [''proposal'' \<mapsto> proposal]\<rparr>)))))"

record ProposalVoteCommand =
  pvc_proposalID :: string
  pvc_amount :: string
  pvc_fee :: string

text \<open>The options of the client are not handed on here, nor by the initialisation of the governance token and
  the consensus command.\<close>

definition voteProposal :: "('w, 'x, 'sk) Env \<Rightarrow> RootOptions \<Rightarrow> ProposalVoteCommand \<Rightarrow> ('w, gerr, unit) io" where
  "voteProposal E ro c =
     (let ct = (root_CommTrans E ro)\<lparr>ct_Amount := ''0'', ct_Fee := pvc_fee c, ct_MethodName := ''Vote'',
                  ct_RootOptions := zero_RootOptions\<rparr> in
      io_bind (io_read (readAddress E (ct_Keys ct))) (\<lambda>to.
        if pvc_proposalID c = '''' \<or> pvc_amount c = '''' then io_throw (Errorf ''proposal id or amount is nil'')
        else
          ct_Transfer E (ct\<lparr>ct_To := to, ct_ModuleName := ''xkernel'', ct_ContractName := ''$proposal'',
                            ct_Args := [''proposal_id'' \<mapsto> pvc_proposalID c, ''amount'' \<mapsto> pvc_amount c]\<rparr>)))"

record ProposalThawCommand =
  ptc_proposalID :: string
  ptc_fee :: string

definition thawProposal :: "('w, 'x, 'sk) Env \<Rightarrow> RootOptions \<Rightarrow> ProposalThawCommand \<Rightarrow> ('w, gerr, unit) io" where
  "thawProposal E ro c =
     (let ct = (root_CommTrans E ro)\<lparr>ct_Amount := ''0'', ct_Fee := ptc_fee c, ct_MethodName := ''Thaw''\<rparr> in
      io_bind (io_read (readAddress E (ct_Keys ct))) (\<lambda>to.
        if ptc_proposalID c = '''' then io_throw (Errorf ''proposal id or amount is nil'')
        else
          ct_Transfer E (ct\<lparr>ct_To := to, ct_ModuleName := ''xkernel'', ct_ContractName := ''$proposal'',
                            ct_Args := [''proposal_id'' \<mapsto> ptc_proposalID c]\<rparr>)))"

definition proposal_query ::
  "('w, 'x, 'sk) Env \<Rightarrow> 'w CmdEnv \<Rightarrow> RootOptions \<Rightarrow> bool \<Rightarrow> string \<Rightarrow> string \<Rightarrow> ('w, gerr, unit) io" where
  "proposal_query E X ro isMulti multiAddrs proposalID =
     (if proposalID = '''' then io_throw (Errorf ''no proposal id found'')
      else
        pre_execute E ((query_CommTrans ro ''xkernel'' (ce_ProposalKernelContract X) ''Query'' isMulti multiAddrs)
          \<lparr>ct_Args := [''proposal_id'' \<mapsto> proposalID]\<rparr>))"

record VoteCommand =
  vc_frozenHeight :: int64
  vc_amount :: string

definition vote :: "('w, 'x, 'sk) Env \<Rightarrow> 'w CmdEnv \<Rightarrow> RootOptions \<Rightarrow> VoteCommand \<Rightarrow> string \<Rightarrow> ('w, gerr, unit) io" where
  "vote E X ro c txid =
     io_bind (io_read (readAddress E (ro_Keys ro))) (\<lambda>myaddress.
     io_bind (cli_Transfer E
                \<lparr>topt_BlockchainName = ro_Name ro, topt_KeyPath = ro_Keys ro, topt_CryptoType = ro_Crypto ro,
                 topt_To = myaddress, topt_Amount = vc_amount c, topt_Fee = '''', topt_Desc = ce_mj_vote X txid,
                 topt_FrozenHeight = vc_frozenHeight c, topt_Version = e_TxVersion E, topt_From = '''',
                 topt_AccountPath = '''', topt_Debug = False\<rparr>) (\<lambda>newtxid. io_return ()))"

section \<open>The governance token\<close>

definition initGovernToken :: "('w, 'x, 'sk) Env \<Rightarrow> RootOptions \<Rightarrow> string \<Rightarrow> ('w, gerr, unit) io" where
  "initGovernToken E ro fee =
     (let ct = (root_CommTrans E ro)\<lparr>ct_Amount := ''0'', ct_Fee := fee, ct_MethodName := ''Init'',
                  ct_RootOptions := zero_RootOptions\<rparr> in
      io_bind (io_read (readAddress E (ct_Keys ct))) (\<lambda>to.
        ct_Transfer E (ct\<lparr>ct_To := to, ct_ModuleName := ''xkernel'', ct_ContractName := ''$govern_token''\<rparr>)))"

record GovernTransferCommand =
  gtc_to :: string
  gtc_amount :: string
  gtc_fee :: string

text \<open>Without a receiver no contract is named, and an empty transfer is made.\<close>

definition transferGovernToken ::
  "('w, 'x, 'sk) Env \<Rightarrow> RootOptions \<Rightarrow> GovernTransferCommand \<Rightarrow> ('w, gerr, unit) io" where
  "transferGovernToken E ro c =
     (let ct = (root_CommTrans E ro)\<lparr>ct_Amount := ''0'', ct_Fee := gtc_fee c, ct_MethodName := ''Transfer''\<rparr> in
      io_bind (io_read (readAddress E (ct_Keys ct))) (\<lambda>to.
      let ct = ct\<lparr>ct_To := to\<rparr> in
      ct_Transfer E
        (if gtc_to c \<noteq> ''''
         then ct\<lparr>ct_ModuleName := ''xkernel'', ct_ContractName := ''$govern_token'',
                 ct_Args := [''to'' \<mapsto> gtc_to c, ''amount'' \<mapsto> gtc_amount c]\<rparr>
         else ct)))"

definition govern_token_query ::
  "('w, 'x, 'sk) Env \<Rightarrow> 'w CmdEnv \<Rightarrow> RootOptions \<Rightarrow> bool \<Rightarrow> string \<Rightarrow> string \<Rightarrow> ('w, gerr, unit) io" where
  "govern_token_query E X ro isMulti multiAddrs account =
     (if account = '''' then io_throw (Errorf ''no account found'')
      else
        pre_execute E ((query_CommTrans ro ''xkernel'' (ce_GovernTokenKernelContract X) ''Query'' isMulti multiAddrs)
          \<lparr>ct_Args := [''account'' \<mapsto> account]\<rparr>))"

section \<open>The consensus\<close>

record ConsensusInvokeCommand =
  cnc_bucket :: string
  cnc_method :: string
  cnc_descFile :: string
  cnc_account :: string
  cnc_fee :: string
  cnc_isMulti :: bool
  cnc_multiAddrs :: string
  cnc_output :: string

text \<open>The account the function sets when none is given is not read any more.\<close>

definition tdposInvoke ::
  "('w, 'x, 'sk) Env \<Rightarrow> 'w CmdEnv \<Rightarrow> ConsensusInvokeCommand \<Rightarrow> CommTrans \<Rightarrow> ('w, gerr, unit) io" where
  "tdposInvoke E X c ct =
     (if cnc_method c = ''getTdposInfos'' then pre_execute E ct
      else if cnc_descFile c = '''' then io_throw (Errorf ''tdpos needs desc file.'')
      else
        io_bind (io_read (e_ReadFile E (cnc_descFile c))) (\<lambda>desc.
        io_bind (io_lift (ce_un_object X desc)) (\<lambda>args.
        io_bind (io_lift (convertToXuper3Args args)) (\<lambda>x3args.
        io_bind (io_read (readAddress E (ct_Keys ct))) (\<lambda>to.
          gen_or_post E (cnc_isMulti c) (ct\<lparr>ct_Args := x3args, ct_To := to\<rparr>))))))"

text \<open>The access list of the account, as arguments.\<close>

definition xpoa_args :: "'w CmdEnv \<Rightarrow> Acl option \<Rightarrow> json_map \<Rightarrow> gerr + (string \<rightharpoonup> bytes)" where
  "xpoa_args X acl args =
     (case acl of
        None \<Rightarrow> Inl (Errorf ''xpoa query acl error. pls check.'')
      | Some acl \<Rightarrow>
          (case ce_mj_weights X (acl_AksWeight acl) of
             Inl err \<Rightarrow> Inl (Errorf ''xpoa query acl marshal error.'')
           | Inr aksB \<Rightarrow>
               (case args of
                  None \<Rightarrow> Inl go_panic
                | Some args \<Rightarrow>
                    (let args = args_set ''aksWeight'' (JString aksB) args in
                     case acl_Pm acl of
                       None \<Rightarrow> Inl (Errorf ''xpoa query acl error.'')
                     | Some pm \<Rightarrow>
                         convertToXuper3Args
                           (Some (args_set ''rule'' (JString (big_show (sint (pm_Rule pm))))
                             (args_set ''acceptValue'' (JString (ce_show_float X (pm_AcceptValue pm))) args)))))))"

definition xpoaInvoke ::
  "('w, 'x, 'sk) Env \<Rightarrow> 'w CmdEnv \<Rightarrow> RootOptions \<Rightarrow> ConsensusInvokeCommand \<Rightarrow> CommTrans \<Rightarrow> ('w, gerr, unit) io" where
  "xpoaInvoke E X ro c ct =
     (if cnc_method c = ''getValidates'' then pre_execute E ct
      else if cnc_account c = '''' then io_throw (Errorf ''xpoa needs acl account.'')
      else
        io_bind (io_draw (e_GenLogId E)) (\<lambda>logid.
        io_bind (ce_QueryACL X
                   (new_AclStatus\<lparr>acst_Header := Some (new_Header\<lparr>hdr_Logid := logid\<rparr>), acst_Bcname := ro_Name ro,
                                  acst_AccountName := cnc_account c\<rparr>)) (\<lambda>reply.
        io_bind (io_read (e_ReadFile E (cnc_descFile c))) (\<lambda>desc.
        io_bind (io_lift (ce_un_object X desc)) (\<lambda>args.
        io_bind (io_lift (xpoa_args X (acst_Acl reply) args)) (\<lambda>x3args.
        io_bind (io_read (readAddress E (ct_Keys ct))) (\<lambda>to.
          GenerateMultisigGenRawTx E (ct\<lparr>ct_From := cnc_account c, ct_Args := x3args, ct_To := to\<rparr>))))))))"

text \<open>An unknown consensus is reported as success.\<close>

definition consensus_invoke ::
  "('w, 'x, 'sk) Env \<Rightarrow> 'w CmdEnv \<Rightarrow> RootOptions \<Rightarrow> ConsensusInvokeCommand \<Rightarrow> ('w, gerr, unit) io" where
  "consensus_invoke E X ro c =
     (let ct = zero_CommTrans\<lparr>ct_Version := e_TxVersion E, ct_Amount := ''0'', ct_From := cnc_account c,
                 ct_ModuleName := ''xkernel'', ct_ContractName := ''$'' @ cnc_bucket c, ct_MethodName := cnc_method c,
                 ct_MultiAddrs := cnc_multiAddrs c, ct_IsQuick := cnc_isMulti c, ct_ChainName := ro_Name ro,
                 ct_Keys := ro_Keys ro, ct_CryptoType := ro_Crypto ro, ct_Fee := cnc_fee c, ct_Output := cnc_output c\<rparr> in
      if cnc_bucket c \<in> {''tdpos'', ''xpos''} then tdposInvoke E X c ct
      else if cnc_bucket c \<in> {''poa'', ''xpoa''} then xpoaInvoke E X ro c ct
      else io_return ())"

section \<open>Arguments\<close>

text \<open>The conversion takes the entries as they are, and fails when one is not a string.\<close>

definition str_val :: "json_val option \<Rightarrow> bytes option" where
  "str_val v = (case v of Some (JString s) \<Rightarrow> Some s | _ \<Rightarrow> None)"

lemma all_strings_Inr:
  "all_strings args = Inr kvs \<longleftrightarrow> list_all2 (\<lambda>kv kv'. fst kv' = fst kv \<and> snd kv = JString (snd kv')) args kvs"
proof (induction args arbitrary: kvs)
  case (Cons kv args)
  then show ?case
    by (cases "snd kv") (auto simp: res_bind_Inr_iff list_all2_Cons1 intro: prod_eqI)
qed auto

lemma all_strings_map_of:
  assumes "all_strings args = Inr kvs"
  shows "map_of kvs k = str_val (map_of args k)"
  using assms
proof (induction args arbitrary: kvs)
  case Nil
  then show ?case by (simp add: str_val_def)
next
  case (Cons kv args)
  then show ?case
    by (cases kv; cases "snd kv") (auto simp: res_bind_Inr_iff str_val_def)
qed

lemma convertToXuper3Args_Inr:
  assumes "convertToXuper3Args args = Inr m"
  shows "m = (\<lambda>k. str_val (map_of (entries args) k))" "\<forall>(k, v) \<in> set (entries args). \<exists>s. v = JString s"
proof -
  obtain kvs where k: "all_strings (entries args) = Inr kvs" "m = map_of kvs"
    using assms by (auto simp: convertToXuper3Args_def res_bind_Inr_iff)
  show "m = (\<lambda>k. str_val (map_of (entries args) k))" using all_strings_map_of[OF k(1)] k(2) by (simp add: fun_eq_iff)
  show "\<forall>(k, v) \<in> set (entries args). \<exists>s. v = JString s"
    using k(1) unfolding all_strings_Inr by (fastforce simp: list_all2_conv_all_nth in_set_conv_nth)
qed

lemma map_of_args_set:
  "map_of (args_set k v args) k' = (if k' = k then Some v else map_of args k')"
  by (induction args) (auto simp: args_set_def)

text \<open>The arguments of an xpoa call: the access list the node answered overrides what the description says of it.\<close>

lemma xpoa_args_Inr:
  assumes "xpoa_args X acl args = Inr m"
  shows "\<exists>a aksB pm. acl = Some a \<and> ce_mj_weights X (acl_AksWeight a) = Inr aksB \<and> acl_Pm a = Some pm \<and>
    m ''aksWeight'' = Some aksB \<and> m ''acceptValue'' = Some (ce_show_float X (pm_AcceptValue pm)) \<and>
    m ''rule'' = Some (big_show (sint (pm_Rule pm))) \<and>
    (\<forall>k. k \<notin> {''aksWeight'', ''acceptValue'', ''rule''} \<longrightarrow> m k = str_val (map_of (entries args) k))"
proof -
  obtain a aksB pm kvs where a: "acl = Some a" "ce_mj_weights X (acl_AksWeight a) = Inr aksB" "acl_Pm a = Some pm"
      "args = Some kvs"
      "convertToXuper3Args (Some (args_set ''rule'' (JString (big_show (sint (pm_Rule pm))))
         (args_set ''acceptValue'' (JString (ce_show_float X (pm_AcceptValue pm)))
           (args_set ''aksWeight'' (JString aksB) kvs)))) = Inr m"
    using assms by (auto simp: xpoa_args_def Let_def split: option.splits sum.splits)
  from convertToXuper3Args_Inr(1)[OF a(5)]
  have "m ''aksWeight'' = Some aksB" "m ''acceptValue'' = Some (ce_show_float X (pm_AcceptValue pm))"
    "m ''rule'' = Some (big_show (sint (pm_Rule pm)))"
    "\<forall>k. k \<notin> {''aksWeight'', ''acceptValue'', ''rule''} \<longrightarrow> m k = str_val (map_of (entries args) k)"
    by (simp_all add: map_of_args_set str_val_def entries_def a(4))
  then show ?thesis using a by blast
qed

section \<open>Properties\<close>

text \<open>An xpoa command that succeeds has asked the node for the access list of its account, and writes a raw
  transaction whose weights, threshold and rule are those of the answer, whatever the description file
  says of them; the other arguments are the strings of that file, and the initiator is the account.\<close>

theorem xpoaInvoke_acl_from_node:
  assumes "xpoaInvoke E X ro c ct w = (Inr (), w')" "cnc_method c \<noteq> ''getValidates''"
  shows "\<exists>asked reply w1 w2 acl aksB pm desc args ct'.
    acst_AccountName asked = cnc_account c \<and> acst_Bcname asked = ro_Name ro \<and>
    ce_QueryACL X asked w1 = (Inr reply, w2) \<and> acst_Acl reply = Some acl \<and> acl_Pm acl = Some pm \<and>
    ce_mj_weights X (acl_AksWeight acl) = Inr aksB \<and>
    e_ReadFile E (cnc_descFile c) w2 = Inr desc \<and> ce_un_object X desc = Inr args \<and>
    GenerateMultisigGenRawTx E ct' w2 = (Inr (), w') \<and> ct_From ct' = cnc_account c \<and>
    ct_Args ct' ''aksWeight'' = Some aksB \<and>
    ct_Args ct' ''acceptValue'' = Some (ce_show_float X (pm_AcceptValue pm)) \<and>
    ct_Args ct' ''rule'' = Some (big_show (sint (pm_Rule pm))) \<and>
    (\<forall>k. k \<notin> {''aksWeight'', ''acceptValue'', ''rule''} \<longrightarrow> ct_Args ct' k = str_val (map_of (entries args) k))"
proof -
  let ?asked = "\<lambda>logid. new_AclStatus\<lparr>acst_Header := Some (new_Header\<lparr>hdr_Logid := logid\<rparr>), acst_Bcname := ro_Name ro,
      acst_AccountName := cnc_account c\<rparr>"
  obtain logid w1 reply w2 desc args m to where r:
      "ce_QueryACL X (?asked logid) w1 = (Inr reply, w2)" "e_ReadFile E (cnc_descFile c) w2 = Inr desc"
      "ce_un_object X desc = Inr args" "xpoa_args X (acst_Acl reply) args = Inr m"
      "GenerateMultisigGenRawTx E (ct\<lparr>ct_From := cnc_account c, ct_Args := m, ct_To := to\<rparr>) w2 = (Inr (), w')"
    using assms unfolding xpoaInvoke_def io_Inr_simps
    by (clarsimp simp: io_bind_Inr_iff io_Inr_simps split: if_splits
        simp del: io_bind_simps io_read_simps(2,3) new_AclStatus_def new_Header_def)
       (rule that, assumption, erule sym, assumption, assumption, assumption)
  obtain acl aksB pm where a: "acst_Acl reply = Some acl"
      "ce_mj_weights X (acl_AksWeight acl) = Inr aksB" "acl_Pm acl = Some pm"
      "m ''aksWeight'' = Some aksB" "m ''acceptValue'' = Some (ce_show_float X (pm_AcceptValue pm))"
      "m ''rule'' = Some (big_show (sint (pm_Rule pm)))"
      "\<forall>k. k \<notin> {''aksWeight'', ''acceptValue'', ''rule''} \<longrightarrow> m k = str_val (map_of (entries args) k)"
    using xpoa_args_Inr[OF r(4)] by (elim exE conjE) (rule that; assumption)
  let ?ct = "ct\<lparr>ct_From := cnc_account c, ct_Args := m, ct_To := to\<rparr>"
  have f: "acst_AccountName (?asked logid) = cnc_account c" "acst_Bcname (?asked logid) = ro_Name ro"
      "ct_From ?ct = cnc_account c" "ct_Args ?ct = m"
    by simp_all
  have g: "ct_Args ?ct ''aksWeight'' = Some aksB" "ct_Args ?ct ''acceptValue'' = Some (ce_show_float X (pm_AcceptValue pm))"
      "ct_Args ?ct ''rule'' = Some (big_show (sint (pm_Rule pm)))"
      "\<forall>k. k \<notin> {''aksWeight'', ''acceptValue'', ''rule''} \<longrightarrow> ct_Args ?ct k = str_val (map_of (entries args) k)"
    unfolding f(4) by (rule a(4), rule a(5), rule a(6), rule a(7))
  show ?thesis
    by (intro exI conjI, rule f(1), rule f(2), rule r(1), rule a(1), rule a(3), rule a(2), rule r(2), rule r(3), rule r(5),
        rule f(3), rule g(1), rule g(2), rule g(3), rule g(4))
qed

text \<open>C34: A proposal is proposed only with a height to stop voting at that is a number, and above the height the node
  reports for the chain; a node that does not report the chain is not asked further.\<close>

theorem proposeProposal_checked:
  assumes "proposeProposal E X ro c w = (Inr (), w')"
  shows "\<exists>proposal stop n status s w1 to.
    getProposal E c w = Inr proposal \<and> ce_un_proposalData X proposal = Inr stop \<and> big_parse stop = Some n \<and>
    xc_GetSystemStatus (e_client E) \<lparr>cin_Header = None, cin_ViewOption = ViewOption_NONE\<rparr> w = (Inr status, w1) \<and>
    systr_SystemsStatus status = Some s \<and>
    (\<forall>st. find (\<lambda>st. bcst_Bcname st = ro_Name ro) (syst_BcsStatus s) = Some st \<longrightarrow>
       (\<exists>m. bcst_Meta st = Some m \<and> sint (lmeta_TrunkHeight m) < n)) \<and>
    ct_Transfer E ((root_CommTrans E ro)\<lparr>ct_Amount := ''0'', ct_Fee := ppc_fee c, ct_MethodName := ''Propose'',
       ct_To := to, ct_ModuleName := ''xkernel'', ct_ContractName := ''$proposal'',
       ct_Args := [''proposal'' \<mapsto> proposal]\<rparr>) w1 = (Inr (), w')"
proof -
  obtain to proposal w1 where p: "getProposal E c w = Inr proposal" "validateProposal E X ro proposal w = (Inr (), w1)"
      "ct_Transfer E ((root_CommTrans E ro)\<lparr>ct_Amount := ''0'', ct_Fee := ppc_fee c, ct_MethodName := ''Propose'',
         ct_To := to, ct_ModuleName := ''xkernel'', ct_ContractName := ''$proposal'',
         ct_Args := [''proposal'' \<mapsto> proposal]\<rparr>) w1 = (Inr (), w')"
    using assms by (auto simp: proposeProposal_def Let_def io_bind_Inr_iff split: sum.splits)
  obtain stop status n s where v: "ce_un_proposalData X proposal = Inr stop"
      "xc_GetSystemStatus (e_client E) \<lparr>cin_Header = None, cin_ViewOption = ViewOption_NONE\<rparr> w = (Inr status, w1)"
      "big_parse stop = Some n" "systr_SystemsStatus status = Some s"
      "validate_height (ro_Name ro) n (syst_BcsStatus s) = Inr ()"
    using p(2) by (auto simp: validateProposal_def io_bind_Inr_iff split: sum.splits option.splits)
  have h: "\<forall>st. find (\<lambda>st. bcst_Bcname st = ro_Name ro) (syst_BcsStatus s) = Some st \<longrightarrow>
      (\<exists>m. bcst_Meta st = Some m \<and> sint (lmeta_TrunkHeight m) < n)"
    using v(5) by (auto simp: validate_height_def split: option.splits if_splits)
  show ?thesis
    by (intro exI conjI, rule p(1), rule v(1), rule v(3), rule v(2), rule v(4), rule h, rule p(3))
qed

text \<open>A transfer under the compliance check has asked the endorser.\<close>

definition endorser_asked :: "('w, 'x, 'sk) Env \<Rightarrow> RootOptions \<Rightarrow> bool" where
  "endorser_asked E ro \<longleftrightarrow> (\<exists>req resp w1 w2. ereq_RequestName req = ''ComplianceCheck'' \<and>
     e_EndorserCall E (ro_EndorseServiceHost ro) req w1 = (Inr resp, w2))"

lemma ct_Transfer_endorsed:
  assumes "ct_Transfer E t w = (Inr (), w')" "cc_IsNeedComplianceCheck (ct_ComplianceCheck t)"
  shows "endorser_asked E (ct_RootOptions t)"
proof -
  from assms obtain pre w0 where "GenCompleteTxAndPost E t pre w0 = (Inr (), w')"
    by (auto simp: ct_Transfer_def io_bind_Inr_iff)
  then obtain tx fee w1 es w2 where "ct_ComplianceCheck_call E t tx fee w1 = (Inr es, w2)"
    unfolding GenCompleteTxAndPost_def Let_def io_bind_Inr_iff by auto
  then obtain dat resp where "e_EndorserCall E (ro_EndorseServiceHost (ct_RootOptions t))
      (new_EndorserRequest\<lparr>ereq_RequestName := ''ComplianceCheck'', ereq_BcName := ct_ChainName t,
         ereq_Fee := Some fee, ereq_RequestData := Some dat\<rparr>) w1 = (Inr resp, w2)"
    unfolding ct_ComplianceCheck_call_def
    by (auto simp: io_bind_Inr_iff io_map_err_Inr io_lift_eq simp del: io_bind_simps io_read_simps(2,3)
        new_EndorserRequest_def new_TxStatus_def)
  moreover have "ereq_RequestName (new_EndorserRequest\<lparr>ereq_RequestName := ''ComplianceCheck'', ereq_BcName := ct_ChainName t,
      ereq_Fee := Some fee, ereq_RequestData := Some dat\<rparr>) = ''ComplianceCheck''" by simp
  ultimately show ?thesis unfolding endorser_asked_def by blast
qed

text \<open>Under the compliance check the commands differ: an upgrade, a thaw, a governance transfer and a proposal
  reach the node only after the endorser was asked, while voting for a proposal, the initialisation of the
  governance token and the consensus commands do the same whatever the check is set to.\<close>

theorem compliance_by_command:
  assumes "cc_IsNeedComplianceCheck (ro_ComplianceCheck ro)"
  shows "(\<not> cuc_isMulti u \<longrightarrow> upgrade E ro u path w = (Inr (), w') \<longrightarrow> endorser_asked E ro) \<and>
    (thawProposal E ro t w = (Inr (), w') \<longrightarrow> endorser_asked E ro) \<and>
    (transferGovernToken E ro g w = (Inr (), w') \<longrightarrow> endorser_asked E ro) \<and>
    (proposeProposal E X ro p w = (Inr (), w') \<longrightarrow> endorser_asked E ro) \<and>
    voteProposal E ro v = voteProposal E (ro\<lparr>ro_ComplianceCheck := cc\<rparr>) v \<and>
    initGovernToken E ro fee = initGovernToken E (ro\<lparr>ro_ComplianceCheck := cc\<rparr>) fee \<and>
    consensus_invoke E X ro c = consensus_invoke E X (ro\<lparr>ro_ComplianceCheck := cc\<rparr>) c"
proof -
  have ask: "ct_Transfer E ct w1 = (Inr (), w2) \<Longrightarrow> ct_RootOptions ct = ro \<Longrightarrow> endorser_asked E ro" for ct w1 w2
    using ct_Transfer_endorsed assms by metis
  have root: "ct_RootOptions (root_CommTrans E ro) = ro" by (simp add: root_CommTrans_def)
  have u: "endorser_asked E ro" if "\<not> cuc_isMulti u" "upgrade E ro u path w = (Inr (), w')"
    using that by (auto simp: upgrade_def Let_def gen_or_post_def root dest!: ask split: sum.splits)
  have t: "endorser_asked E ro" if "thawProposal E ro t w = (Inr (), w')"
    using that by (auto simp: thawProposal_def Let_def root dest!: ask split: sum.splits if_splits)
  have g: "endorser_asked E ro" if "transferGovernToken E ro g w = (Inr (), w')"
    using that by (auto simp: transferGovernToken_def Let_def root dest!: ask split: sum.splits)
  have p: "endorser_asked E ro" if "proposeProposal E X ro p w = (Inr (), w')"
    using that by (auto simp: proposeProposal_def Let_def root io_bind_Inr_iff dest!: ask split: sum.splits)
  have x: "xpoaInvoke E X (ro\<lparr>ro_ComplianceCheck := cc\<rparr>) = xpoaInvoke E X ro"
    by (simp add: xpoaInvoke_def fun_eq_iff)
  have "voteProposal E ro v = voteProposal E (ro\<lparr>ro_ComplianceCheck := cc\<rparr>) v"
    "initGovernToken E ro fee = initGovernToken E (ro\<lparr>ro_ComplianceCheck := cc\<rparr>) fee"
    by (simp_all add: voteProposal_def initGovernToken_def root_CommTrans_def)
  moreover have "consensus_invoke E X ro c = consensus_invoke E X (ro\<lparr>ro_ComplianceCheck := cc\<rparr>) c"
    unfolding consensus_invoke_def x by simp
  ultimately show ?thesis using u t g p by blast
qed

section \<open>Instances\<close>

text \<open>The example world with a node whose contracts use no gas and whose chain is at height 3.\<close>

definition ex_free :: "(TxStatus list, string, string) Env" where
  "ex_free = ex_env\<lparr>e_client := ex_client
     \<lparr>xc_PreExec := \<lambda>req w. (Inr (new_InvokeRPCResponse\<lparr>irpr_Response := Some new_InvokeResponse\<rparr>), w),
      xc_GetSystemStatus := \<lambda>req w. (Inr (new_SystemsStatusReply\<lparr>systr_Header := ex_ok,
        systr_SystemsStatus := Some (new_SystemsStatus\<lparr>syst_BcsStatus :=
          [new_BCStatus\<lparr>bcst_Bcname := ''xuper'',
             bcst_Meta := Some \<lparr>lmeta_RootBlockid = '''', lmeta_TipBlockid = '''', lmeta_TrunkHeight = 3\<rparr>\<rparr>]\<rparr>)\<rparr>), w)\<rparr>\<rparr>"

definition ex_cmd :: "TxStatus list CmdEnv" where
  "ex_cmd =
     \<lparr>ce_un_object = \<lambda>b. Inr (Some [(''validates'', JString ''v''), (''rule'', JString ''9'')]), ce_mj_object = \<lambda>_. Inr '''',
      ce_mj_argmap = \<lambda>_. '''', ce_mj_weights = \<lambda>_. Inr ''weights'', ce_mj_vote = \<lambda>_. '''', ce_un_proposalData = \<lambda>_. Inr ''100'',
      ce_Marshal_WasmCodeDesc = \<lambda>_ _. '''', ce_show_float = \<lambda>_. ''0.6'', ce_TypeEvm = ''evm'',
      ce_ProposalKernelContract = ''$proposal'', ce_GovernTokenKernelContract = ''$govern_token'',
      ce_QueryACL = \<lambda>st w. (Inr (st\<lparr>acst_Acl := Some \<lparr>acl_Pm = Some \<lparr>pm_Rule = 1, pm_AcceptValue = 0\<rparr>,
         acl_AksWeight = Map.empty, acl_AkSets = None\<rparr>\<rparr>), w)\<rparr>"

definition ex_call :: "ConsensusInvokeCommand" where
  "ex_call = \<lparr>cnc_bucket = ''xpoa'', cnc_method = ''editValidates'', cnc_descFile = ''desc'', cnc_account = ''XC1'',
     cnc_fee = '''', cnc_isMulti = True, cnc_multiAddrs = ''addrs'', cnc_output = ''tx.out''\<rparr>"

lemma ex_free_simps [simp]:
  "e_lib ex_free = ex_lib" "e_ReadFile ex_free f w = e_ReadFile ex_env f w" "e_TxVersion ex_free = 3"
  "e_GenLogId ex_free w = (''log'', w)" "e_GenNonce ex_free w = (''nonce'', w)" "e_Now ex_free w = (7, w)"
  "e_CreateCryptoClient ex_free k = Inr ex_signer" "e_WriteFile ex_free f b w = (Inr (), w)"
  "e_StatusErrorThreshold ex_free = 400" "e_MakeTransactionID ex_free x = Inr ''id''"
  "e_ProcessSignTx ex_free signer x sk = Inr ''signed''"
  "xc_PreExec (e_client ex_free) req w = (Inr (new_InvokeRPCResponse\<lparr>irpr_Response := Some new_InvokeResponse\<rparr>), w)"
  "xc_SelectUTXO (e_client ex_free) ureq w = xc_SelectUTXO ex_client ureq w"
  "xc_PostTx (e_client ex_free) st w = (Inr (new_CommonReply\<lparr>crep_Header := ex_ok\<rparr>), w @ [st])"
  by (simp_all add: ex_free_def)

lemma ex_free_zero: "big_show 0 = ''0''"
  by code_simp

lemma ex_free_files:
  "readAddress ex_free ''keys'' w = Inr ''alice''"
  "keyPair ex_free ''keys'' w = Inr \<lparr>kp_publicKey = ''alice'', kp_secretKey = ''sk''\<rparr>"
  "GenAuthRequire ex_free ''addrs'' w = Inr [''sk'']"
proof -
  show "readAddress ex_free ''keys'' w = Inr ''alice''"
    "keyPair ex_free ''keys'' w = Inr \<lparr>kp_publicKey = ''alice'', kp_secretKey = ''sk''\<rparr>"
    by (simp_all add: readAddress_def readKeys_def keyPair_def readPublicKey_def readPrivateKey_def ex_paths)
  have "scan_lines ''sk'' = Inr [''sk'']" by (simp add: scan_lines_def raw_lines_def drop_cr_def Let_def)
  then show "GenAuthRequire ex_free ''addrs'' w = Inr [''sk'']" by (simp add: GenAuthRequire_def)
qed

text \<open>A command without amount and fee makes a transaction in this world.\<close>

definition ex_ready :: "CommTrans \<Rightarrow> TxStatus list \<Rightarrow> bool" where
  "ex_ready t w \<longleftrightarrow> ct_Amount t = ''0'' \<and> ct_Fee t = '''' \<and> ct_ModuleName t \<noteq> '''' \<and>
     (\<exists>a. genInitiator ex_free t w = Inr a) \<and> (\<exists>auth. auth_require_for ex_free t w = Inr auth)"

lemma ex_free_GenPreExeRes:
  assumes "ex_ready t w"
  shows "\<exists>reqs. GenPreExeRes ex_free t w =
    (Inr (new_InvokeRPCResponse\<lparr>irpr_Response := Some new_InvokeResponse\<rparr>, reqs), w)"
  using assms unfolding ex_ready_def
  by (auto simp: GenPreExeRes_def io_bind_def io_map_err_def io_read_def io_draw_def check_responses_def)

lemma ex_free_GenRawTx:
  assumes "ex_ready t w"
  shows "\<exists>tx. GenRawTx ex_free t desc (Some new_InvokeResponse) reqs w = (Inr tx, w)"
proof -
  obtain a where a: "genInitiator ex_free t w = Inr a" using assms by (auto simp: ex_ready_def)
  have o: "GenTxOutputs ex_free t 0 = Inr ([], 0)"
    using assms by (simp add: ex_ready_def GenTxOutputs_def transfer_accounts_def)
  obtain ins out where i: "GenTxInputs ex_free t 0 w = (Inr (ins, out), w)"
    by (simp add: GenTxInputs_def a io_bind_def io_map_err_def io_read_def ex_free_zero del: big_show_def)
  show ?thesis
    by (simp add: GenRawTx_def o a io_bind_Inr[where m = "GenTxInputs ex_free t 0", OF i])
qed

lemma ex_free_GenerateTx:
  assumes "ex_ready t w"
  shows "\<exists>tx. GenerateTx ex_free t w = (Inr tx, w)"
proof -
  obtain reqs where p: "GenPreExeRes ex_free t w =
      (Inr (new_InvokeRPCResponse\<lparr>irpr_Response := Some new_InvokeResponse\<rparr>, reqs), w)"
    using ex_free_GenPreExeRes assms by blast
  obtain desc where d: "(\<lambda>w. Inr (case GetDesc ex_free t w of Inl err \<Rightarrow> '''' | Inr desc \<Rightarrow> desc)) w = Inr desc" by auto
  obtain tx where r: "GenRawTx ex_free t desc (Some new_InvokeResponse) reqs w = (Inr tx, w)"
    using ex_free_GenRawTx assms by blast
  show ?thesis
    unfolding GenerateTx_def using p d r by (auto simp: io_bind_Inr_iff)
qed

lemma ex_free_GenerateMultisigGenRawTx:
  assumes "ex_ready t w" "ct_MultiAddrs t = ''addrs''"
  shows "GenerateMultisigGenRawTx ex_free t w = (Inr (), w)"
proof -
  obtain tx where g: "GenerateTx ex_free t w = (Inr tx, w)" using ex_free_GenerateTx assms(1) by blast
  show ?thesis
    unfolding GenerateMultisigGenRawTx_def
    by (rule trans[OF io_bind_Inr[where m = "GenerateTx ex_free t", OF g]])
       (simp add: assms ex_free_files GenTxFile_def ex_lib_def ex_codec_def io_map_err_def)
qed

lemma ex_free_postTx: "\<exists>w'. postTx ex_free t tx w = (Inr (hex_encode (tx_Txid tx)), w')"
  by (simp add: postTx_def io_bind_def io_draw_def ex_ok_def)

lemma ex_free_SendTx:
  assumes "ct_Keys t = ''keys''"
  shows "\<exists>id w'. SendTx ex_free t tx w = (Inr id, w')"
proof -
  have "signTxForInitiator ex_free t tx w = Inr [\<lparr>sig_PublicKey = ''alice'', sig_Sign = ''signed''\<rparr>]" for tx w
    using assms by (simp add: signTxForInitiator_def newAK_def signTxForAK_def KeyPair_SignTx_def ex_free_files
      ComputeTxSign_def ex_lib_def ex_codec_def TxToXledger_def reencode_def)
  moreover have "MakeTxId (cd_Tx ex_lib) (e_MakeTransactionID ex_free) (Some tx) = Inr ''id''" for tx
    by (simp add: MakeTxId_def ex_lib_def ex_codec_def TxToXledger_def reencode_def)
  ultimately show ?thesis
    using assms ex_free_postTx by (simp add: SendTx_def Let_def ex_free_files) metis
qed

lemma ex_free_Transfer:
  assumes "ex_ready t w" "ct_Keys t = ''keys''" "\<not> cc_IsNeedComplianceCheck (ct_ComplianceCheck t)"
  shows "\<exists>w'. ct_Transfer ex_free t w = (Inr (), w')"
proof -
  obtain tx where g: "GenerateTx ex_free t w = (Inr tx, w)" using ex_free_GenerateTx assms(1) by blast
  obtain id w' where s: "SendTx ex_free t tx w = (Inr id, w')" using ex_free_SendTx assms(2) by blast
  have "ct_Transfer ex_free t w =
      (if ct_DebugTx t then io_return () else io_bind (SendTx ex_free t tx) (\<lambda>_. io_return ())) w"
    using assms(3) by (simp add: ct_Transfer_def io_bind_Inr[where m = "GenerateTx ex_free t", OF g])
  then show ?thesis using s by (auto simp: io_bind_def)
qed

definition ex_root :: RootOptions where
  "ex_root = zero_RootOptions\<lparr>ro_Name := ''xuper'', ro_Keys := ''keys''\<rparr>"

lemma proposeProposal_checked_witness:
  "\<exists>w' status w1. proposeProposal ex_free ex_cmd ex_root \<lparr>ppc_proposal = ''p.json'', ppc_fee = ''''\<rparr> [] = (Inr (), w') \<and>
     xc_GetSystemStatus (e_client ex_free) \<lparr>cin_Header = None, cin_ViewOption = ViewOption_NONE\<rparr> [] = (Inr status, w1)"
proof -
  let ?c = "\<lparr>ppc_proposal = ''p.json'', ppc_fee = ''''\<rparr>"
  have g: "getProposal ex_free ?c [] = Inr ''sk''" by (simp add: getProposal_def)
  have v: "validateProposal ex_free ex_cmd ex_root ''sk'' [] = (Inr (), [])"
    by (simp add: validateProposal_def ex_cmd_def ex_free_def ex_root_def validate_height_def io_bind_def)
  have r: "ex_ready ((root_CommTrans ex_free ex_root)\<lparr>ct_Amount := ''0'', ct_Fee := '''', ct_MethodName := ''Propose'',
      ct_To := ''alice'', ct_ModuleName := ''xkernel'', ct_ContractName := ''$proposal'', ct_Args := a\<rparr>) []" for a
    by (simp add: ex_ready_def root_CommTrans_def ex_root_def zero_CommTrans_def genInitiator_def auth_require_for_def
        genAuthRequireQuick_def ex_free_files)
  obtain w' where "ct_Transfer ex_free ((root_CommTrans ex_free ex_root)\<lparr>ct_Amount := ''0'', ct_Fee := '''',
      ct_MethodName := ''Propose'', ct_To := ''alice'', ct_ModuleName := ''xkernel'', ct_ContractName := ''$proposal'',
      ct_Args := [''proposal'' \<mapsto> ''sk'']\<rparr>) [] = (Inr (), w')"
    using ex_free_Transfer[OF r] by (auto simp: root_CommTrans_def ex_root_def zero_RootOptions_def)
  moreover have "ct_Keys (root_CommTrans ex_free ex_root) = ''keys''" by (simp add: root_CommTrans_def ex_root_def)
  ultimately have e: "proposeProposal ex_free ex_cmd ex_root ?c [] = (Inr (), w')"
    by (simp add: proposeProposal_def Let_def ex_free_files g io_bind_Inr[where m = "validateProposal ex_free ex_cmd ex_root ''sk''", OF v])
  from proposeProposal_checked[OF e] e show ?thesis by blast
qed

lemma xpoaInvoke_acl_from_node_witness:
  "\<exists>ct' w2. GenerateMultisigGenRawTx ex_free ct' w2 = (Inr (), []) \<and> ct_Args ct' ''rule'' = Some (big_show 1) \<and>
     ct_Args ct' ''validates'' = Some ''v''"
proof -
  let ?ct = "zero_CommTrans\<lparr>ct_Amount := ''0'', ct_ModuleName := ''xkernel'', ct_IsQuick := True, ct_MultiAddrs := ''addrs'',
      ct_Keys := ''keys''\<rparr>"
  have g: "GenerateMultisigGenRawTx ex_free (?ct\<lparr>ct_From := ''XC1'', ct_Args := a, ct_To := ''alice''\<rparr>) [] = (Inr (), [])" for a
    by (rule ex_free_GenerateMultisigGenRawTx)
       (simp_all add: ex_ready_def zero_CommTrans_def genInitiator_def auth_require_for_def ex_free_files)
  have k: "ct_Keys ?ct = ''keys''" by simp
  obtain m where m: "xpoa_args ex_cmd (Some \<lparr>acl_Pm = Some \<lparr>pm_Rule = 1, pm_AcceptValue = 0\<rparr>,
         acl_AksWeight = Map.empty, acl_AkSets = None\<rparr>) (Some [(''validates'', JString ''v''), (''rule'', JString ''9'')]) = Inr m"
    by (simp add: xpoa_args_def ex_cmd_def Let_def convertToXuper3Args_def entries_def args_set_def)
  have q: "ce_QueryACL ex_cmd st w = (Inr (st\<lparr>acst_Acl := Some \<lparr>acl_Pm = Some \<lparr>pm_Rule = 1, pm_AcceptValue = 0\<rparr>,
         acl_AksWeight = Map.empty, acl_AkSets = None\<rparr>\<rparr>), w)"
      "ce_un_object ex_cmd b = Inr (Some [(''validates'', JString ''v''), (''rule'', JString ''9'')])" for st w b
    by (simp_all add: ex_cmd_def)
  have e: "xpoaInvoke ex_free ex_cmd ex_root ex_call ?ct [] = (Inr (), [])"
    using m g by (simp add: xpoaInvoke_def q ex_call_def ex_free_files io_bind_def io_draw_def io_read_def)
  have n: "cnc_method ex_call \<noteq> ''getValidates''" by (simp add: ex_call_def)
  obtain asked reply w1 w2 acl pm desc args ct' where t:
      "ce_QueryACL ex_cmd asked w1 = (Inr reply, w2)" "acst_Acl reply = Some acl" "acl_Pm acl = Some pm"
      "ce_un_object ex_cmd desc = Inr args"
      "GenerateMultisigGenRawTx ex_free ct' w2 = (Inr (), [])"
      "ct_Args ct' ''rule'' = Some (big_show (sint (pm_Rule pm)))"
      "\<forall>k. k \<notin> {''aksWeight'', ''acceptValue'', ''rule''} \<longrightarrow> ct_Args ct' k = str_val (map_of (entries args) k)"
    using xpoaInvoke_acl_from_node[OF e n] by (elim exE conjE) (rule that; assumption)
  have "acst_Acl reply = Some \<lparr>acl_Pm = Some \<lparr>pm_Rule = 1, pm_AcceptValue = 0\<rparr>,
         acl_AksWeight = Map.empty, acl_AkSets = None\<rparr>" using t(1) unfolding q by auto
  then have "pm_Rule pm = 1" using t(2,3) by auto
  moreover have "sint (1 :: int32) = 1" by simp
  ultimately have r: "ct_Args ct' ''rule'' = Some (big_show 1)" using t(6) by (simp only:)
  have "args = Some [(''validates'', JString ''v''), (''rule'', JString ''9'')]" using t(4) unfolding q by blast
  moreover have "ct_Args ct' ''validates'' = str_val (map_of (entries args) ''validates'')" using t(7) by simp
  ultimately have "ct_Args ct' ''validates'' = Some ''v''" by (simp add: str_val_def entries_def)
  with t(5) r show ?thesis by blast
qed

lemma compliance_by_command_witness:
  "voteProposal ex_env (zero_RootOptions\<lparr>ro_ComplianceCheck := ro_ComplianceCheck zero_RootOptions
       \<lparr>cc_IsNeedComplianceCheck := True\<rparr>\<rparr>) \<lparr>pvc_proposalID = ''1'', pvc_amount = ''2'', pvc_fee = ''''\<rparr> =
   voteProposal ex_env zero_RootOptions \<lparr>pvc_proposalID = ''1'', pvc_amount = ''2'', pvc_fee = ''''\<rparr>"
  using compliance_by_command[of "zero_RootOptions\<lparr>ro_ComplianceCheck := ro_ComplianceCheck zero_RootOptions
       \<lparr>cc_IsNeedComplianceCheck := True\<rparr>\<rparr>" _ ex_env _ _ _ _ _ _ _ "\<lparr>pvc_proposalID = ''1'', pvc_amount = ''2'', pvc_fee = ''''\<rparr>"
       "ro_ComplianceCheck zero_RootOptions"]
  by simp

end
