(* ===== verification/DposTypes.thy ===== *)
theory DposTypes
  imports PbTypes
begin

text \<open>
  The messages of the retired consensus queries in \<open>service/pb/xchain.pb.go\<close>, as records like those of \<open>PbTypes\<close>.
  The message \<open>DposStatus\<close> is \<open>DposStatus_msg\<close> here, beside the handler of the server of that name.
\<close>

record DposCandidatesRequest =
  dcq_Header :: "Header option"
  dcq_Bcname :: string

record DposCandidatesResponse =
  dcr_Header :: "Header option"
  dcr_CandidatesInfo :: "string list"

record DposNominateRecordsRequest =
  dnq_Header :: "Header option"
  dnq_Bcname :: string
  dnq_Address :: string

record DposNominateInfo =
  dni_Candidate :: string
  dni_Txid :: string

record DposNominateRecordsResponse =
  dnr_Header :: "Header option"
  dnr_NominateRecords :: "DposNominateInfo list"

record DposNomineeRecordsRequest =
  deq_Header :: "Header option"
  deq_Bcname :: string
  deq_Address :: string

record DposNomineeRecordsResponse =
  der_Header :: "Header option"
  der_Txid :: string

record DposVoteRecordsRequest =
  dvq_Header :: "Header option"
  dvq_Bcname :: string
  dvq_Address :: string

record VoteRecord =
  vrec_Candidate :: string
  vrec_Txid :: string

record DposVoteRecordsResponse =
  dvr_Header :: "Header option"
  dvr_VoteTxidRecords :: "VoteRecord list"

record DposVotedRecordsRequest =
  ddq_Header :: "Header option"
  ddq_Bcname :: string
  ddq_Address :: string

record VotedRecord =
  vdrec_Voter :: string
  vdrec_Txid :: string

record DposVotedRecordsResponse =
  ddr_Header :: "Header option"
  ddr_VotedTxidRecords :: "VotedRecord list"

record DposCheckResultsRequest =
  dkq_Header :: "Header option"
  dkq_Bcname :: string
  dkq_Term :: int64

record DposCheckResultsResponse =
  dkr_Header :: "Header option"
  dkr_Term :: int64
  dkr_CheckResult :: "string list"

record DposStatus_msg =
  dst_Term :: int64
  dst_BlockNum :: int64
  dst_Proposer :: string
  dst_ProposerNum :: int64
  dst_CheckResult :: "string list"

record DposStatusRequest =
  dsq_Header :: "Header option"
  dsq_Bcname :: string

record DposStatusResponse =
  dsr_Header :: "Header option"
  dsr_Status :: "DposStatus_msg option"

end
