(* ===== verification/QueryCmds.thy ===== *)
theory QueryCmds
  imports KernelCmds Views DposTypes
begin

text \<open>
  The query commands of the client: blocks (\<open>block.go\<close>), transactions (\<open>tx_query.go\<close>), the status of the node
  (\<open>status.go\<close>), accounts and their contracts (\<open>account_balance.go\<close>, \<open>account_query.go\<close>,
  \<open>account_contracts.go\<close>), access lists (\<open>acl_query.go\<close>), outputs (\<open>utxo_list.go\<close>), the consensus
  (\<open>consensus_status.go\<close>, \<open>tdpos_*.go\<close>), statistics (\<open>contract_stat_query.go\<close>) and the address of the node
  (\<open>neturl_get.go\<close>).

  A command is the calls it makes and what it prints.  A value printed as JSON is the value itself: the layout is
  \<open>encoding/json\<close>.  Where the encoding can fail, on a number that is not finite, its error is part of the
  model.
\<close>

section \<open>Output\<close>

datatype 'v shown = Json 'v | Line string | ErrLine gerr

text \<open>The names of the error codes, by which a reply is refused.\<close>

primrec XChainErrorEnum_String :: "XChainErrorEnum \<Rightarrow> string" where
  "XChainErrorEnum_String SUCCESS = ''SUCCESS''"
| "XChainErrorEnum_String UNKNOW_ERROR = ''UNKNOW_ERROR''"
| "XChainErrorEnum_String CONNECT_REFUSE = ''CONNECT_REFUSE''"
| "XChainErrorEnum_String NOT_ENOUGH_UTXO_ERROR = ''NOT_ENOUGH_UTXO_ERROR''"
| "XChainErrorEnum_String UTXOVM_ALREADY_UNCONFIRM_ERROR = ''UTXOVM_ALREADY_UNCONFIRM_ERROR''"
| "XChainErrorEnum_String UTXOVM_NOT_FOUND_ERROR = ''UTXOVM_NOT_FOUND_ERROR''"
| "XChainErrorEnum_String INPUT_OUTPUT_NOT_EQUAL_ERROR = ''INPUT_OUTPUT_NOT_EQUAL_ERROR''"
| "XChainErrorEnum_String TX_NOT_FOUND_ERROR = ''TX_NOT_FOUND_ERROR''"
| "XChainErrorEnum_String TX_SIGN_ERROR = ''TX_SIGN_ERROR''"
| "XChainErrorEnum_String BLOCKCHAIN_NOTEXIST = ''BLOCKCHAIN_NOTEXIST''"
| "XChainErrorEnum_String VALIDATE_ERROR = ''VALIDATE_ERROR''"
| "XChainErrorEnum_String CANNOT_SYNC_BLOCK_ERROR = ''CANNOT_SYNC_BLOCK_ERROR''"
| "XChainErrorEnum_String CONFIRM_BLOCK_ERROR = ''CONFIRM_BLOCK_ERROR''"
| "XChainErrorEnum_String UTXOVM_PLAY_ERROR = ''UTXOVM_PLAY_ERROR''"
| "XChainErrorEnum_String WALK_ERROR = ''WALK_ERROR''"
| "XChainErrorEnum_String NOT_READY_ERROR = ''NOT_READY_ERROR''"
| "XChainErrorEnum_String BLOCK_EXIST_ERROR = ''BLOCK_EXIST_ERROR''"
| "XChainErrorEnum_String ROOT_BLOCK_EXIST_ERROR = ''ROOT_BLOCK_EXIST_ERROR''"
| "XChainErrorEnum_String TX_DUPLICATE_ERROR = ''TX_DUPLICATE_ERROR''"
| "XChainErrorEnum_String SERVICE_REFUSED_ERROR = ''SERVICE_REFUSED_ERROR''"
| "XChainErrorEnum_String TXDATA_SIGN_ERROR = ''TXDATA_SIGN_ERROR''"
| "XChainErrorEnum_String TX_SLE_ERROR = ''TX_SLE_ERROR''"
| "XChainErrorEnum_String TX_FEE_NOT_ENOUGH_ERROR = ''TX_FEE_NOT_ENOUGH_ERROR''"
| "XChainErrorEnum_String UTXO_SIGN_ERROR = ''UTXO_SIGN_ERROR''"
| "XChainErrorEnum_String DPOS_QUERY_ERROR = ''DPOS_QUERY_ERROR''"
| "XChainErrorEnum_String RWSET_INVALID_ERROR = ''RWSET_INVALID_ERROR''"
| "XChainErrorEnum_String RWACL_INVALID_ERROR = ''RWACL_INVALID_ERROR''"
| "XChainErrorEnum_String GAS_NOT_ENOUGH_ERROR = ''GAS_NOT_ENOUGH_ERROR''"
| "XChainErrorEnum_String TX_VERSION_INVALID_ERROR = ''TX_VERSION_INVALID_ERROR''"
| "XChainErrorEnum_String COMPLIANCE_CHECK_NOT_APPROVED = ''COMPLIANCE_CHECK_NOT_APPROVED''"
| "XChainErrorEnum_String ACCOUNT_CONTRACT_STATUS_ERROR = ''ACCOUNT_CONTRACT_STATUS_ERROR''"
| "XChainErrorEnum_String TX_VERIFICATION_ERROR = ''TX_VERIFICATION_ERROR''"

definition header_ok :: "Header option \<Rightarrow> gerr + unit" where
  "header_ok h =
     (case h of
        None \<Rightarrow> Inl go_panic
      | Some h \<Rightarrow> if hdr_Error h \<noteq> SUCCESS then Inl (Errorf (XChainErrorEnum_String (hdr_Error h))) else Inr ())"

section \<open>The calls of the node\<close>

record 'w QueryClient =
  qc_QueryTx :: "TxStatus \<Rightarrow> ('w, gerr, TxStatus) io"
  qc_GetBlock :: "BlockID \<Rightarrow> ('w, gerr, Block) io"
  qc_GetBlockByHeight :: "BlockHeight \<Rightarrow> ('w, gerr, Block) io"
  qc_GetBalance :: "AddressStatus \<Rightarrow> ('w, gerr, AddressStatus) io"
  qc_GetFrozenBalance :: "AddressStatus \<Rightarrow> ('w, gerr, AddressStatus) io"
  qc_GetSystemStatus :: "CommonIn \<Rightarrow> ('w, gerr, SystemsStatusReply) io"
  qc_QueryUtxoRecord :: "UtxoRecordDetail \<Rightarrow> ('w, gerr, UtxoRecordDetail) io"
  qc_QueryACL :: "AclStatus \<Rightarrow> ('w, gerr, AclStatus) io"
  qc_GetAccountByAK :: "AK2AccountRequest \<Rightarrow> ('w, gerr, AK2AccountResponse) io"
  qc_GetAccountContracts :: "GetAccountContractsRequest \<Rightarrow> ('w, gerr, GetAccountContractsResponse) io"
  qc_GetAddressContracts :: "AddressContractsRequest \<Rightarrow> ('w, gerr, AddressContractsResponse) io"
  qc_GetConsensusStatus :: "ConsensusStatRequest \<Rightarrow> ('w, gerr, ConsensusStatus) io"
  qc_QueryContractStatData :: "ContractStatDataRequest \<Rightarrow> ('w, gerr, ContractStatDataResponse) io"
  qc_GetNetURL :: "CommonIn \<Rightarrow> ('w, gerr, RawUrl) io"
  qc_DposCandidates :: "DposCandidatesRequest \<Rightarrow> ('w, gerr, DposCandidatesResponse) io"
  qc_DposNominateRecords :: "DposNominateRecordsRequest \<Rightarrow> ('w, gerr, DposNominateRecordsResponse) io"
  qc_DposNomineeRecords :: "DposNomineeRecordsRequest \<Rightarrow> ('w, gerr, DposNomineeRecordsResponse) io"
  qc_DposVoteRecords :: "DposVoteRecordsRequest \<Rightarrow> ('w, gerr, DposVoteRecordsResponse) io"
  qc_DposVotedRecords :: "DposVotedRecordsRequest \<Rightarrow> ('w, gerr, DposVotedRecordsResponse) io"
  qc_DposCheckResults :: "DposCheckResultsRequest \<Rightarrow> ('w, gerr, DposCheckResultsResponse) io"
  qc_DposStatus :: "DposStatusRequest \<Rightarrow> ('w, gerr, DposStatusResponse) io"
  qc_mj_Acl :: "Acl option \<Rightarrow> gerr + bytes"
  qc_mj_SystemStatus :: "SystemStatus_view \<Rightarrow> gerr option"

text \<open>The header the commands put on a request.\<close>

definition log_header :: "string \<Rightarrow> Header option" where
  "log_header logid = Some (new_Header\<lparr>hdr_Logid := logid\<rparr>)"

section \<open>Blocks and transactions\<close>

definition show_block :: "Block \<Rightarrow> gerr + InternalBlock_view shown list" where
  "show_block block =
     res_bind (header_ok (blk_Header block)) (\<lambda>_.
     case blk_Block block of
       None \<Rightarrow> Inl (Errorf ''block not found'')
     | Some b \<Rightarrow>
         (case FromInternalBlockPB b of
            Panic \<Rightarrow> Inl go_panic
          | Ret iblock \<Rightarrow> Inr [Json iblock]))"

definition queryBlock ::
  "('w, 'x, 'sk) Env \<Rightarrow> 'w QueryClient \<Rightarrow> RootOptions \<Rightarrow> string \<Rightarrow> ('w, gerr, InternalBlock_view shown list) io" where
  "queryBlock E Q ro blockid =
     (case hex_decode blockid of
        None \<Rightarrow> io_throw (LibErr ''encoding/hex'')
      | Some rawBlockid \<Rightarrow>
          io_bind (io_draw (e_GenLogId E)) (\<lambda>logid.
          io_bind (qc_GetBlock Q
                     \<lparr>blkid_Header = log_header logid, blkid_Bcname = ro_Name ro, blkid_Blockid = rawBlockid,
                      blkid_NeedContent = True\<rparr>) (\<lambda>block.
          io_lift (show_block block))))"

definition queryBlockByHeight ::
  "('w, 'x, 'sk) Env \<Rightarrow> 'w QueryClient \<Rightarrow> RootOptions \<Rightarrow> int64 \<Rightarrow> ('w, gerr, InternalBlock_view shown list) io" where
  "queryBlockByHeight E Q ro height =
     io_bind (io_draw (e_GenLogId E)) (\<lambda>logid.
     io_bind (qc_GetBlockByHeight Q
                \<lparr>blkh_Header = log_header logid, blkh_Bcname = ro_Name ro, blkh_Height = height\<rparr>) (\<lambda>block.
     io_lift (show_block block)))"

text \<open>\<open>strconv.Atoi\<close> on a 64-bit machine.\<close>

definition Atoi :: "string \<Rightarrow> gerr + int64" where
  "Atoi s = (case parse_int64 s of (i, ParseOk) \<Rightarrow> Inr i | _ \<Rightarrow> Inl (LibErr ''strconv.Atoi''))"

definition block_run ::
  "('w, 'x, 'sk) Env \<Rightarrow> 'w QueryClient \<Rightarrow> RootOptions \<Rightarrow> bool \<Rightarrow> string list \<Rightarrow>
   ('w, gerr, InternalBlock_view shown list) io" where
  "block_run E Q ro byHeight args =
     (case args of
        [] \<Rightarrow> io_throw (Errorf ''expect blockid'')
      | arg # _ \<Rightarrow>
          if byHeight then io_bind (io_lift (Atoi arg)) (queryBlockByHeight E Q ro)
          else queryBlock E Q ro arg)"

text \<open>The error of the encoder is dropped: then an empty file is written.\<close>

definition queryTx ::
  "('w, 'x, 'sk) Env \<Rightarrow> 'w QueryClient \<Rightarrow> RootOptions \<Rightarrow> string \<Rightarrow> string \<Rightarrow>
   ('w, gerr, Transaction_view shown list) io" where
  "queryTx E Q ro pbfile txid =
     (case hex_decode txid of
        None \<Rightarrow> io_throw (Errorf ''bad txid'')
      | Some rawTxid \<Rightarrow>
          io_bind (io_draw (e_GenLogId E)) (\<lambda>logid.
          io_bind (qc_QueryTx Q
                     (new_TxStatus\<lparr>txst_Header := log_header logid, txst_Bcname := ro_Name ro,
                                   txst_Txid := rawTxid\<rparr>)) (\<lambda>reply.
          io_bind (io_lift (header_ok (txst_Header reply))) (\<lambda>_.
          case txst_Tx reply of
            None \<Rightarrow> io_throw (Errorf ''tx not found'')
          | Some tx \<Rightarrow>
              io_bind
                (if pbfile \<noteq> ''''
                 then e_WriteFile E pbfile
                        (case pb_Marshal (cd_Tx (e_lib E)) tx of Inl err \<Rightarrow> '''' | Inr buf \<Rightarrow> buf)
                 else io_return ()) (\<lambda>_.
              io_return [Json (FromPBTx tx)])))))"

section \<open>The status of the node\<close>

record StatusCommand =
  stc_ledger :: bool
  stc_utxo :: bool
  stc_branch :: bool
  stc_peers :: bool

definition convertToFlag :: "StatusCommand \<Rightarrow> ViewOption" where
  "convertToFlag s =
     (if stc_ledger s then ViewOption_LEDGER
      else if stc_utxo s then ViewOption_UTXOINFO
      else if stc_branch s then ViewOption_BRANCHINFO
      else if stc_peers s then ViewOption_PEERS
      else ViewOption_NONE)"

text \<open>A ratio of floats that were integers, given by the two integers: it is not finite exactly when the second is
  zero, and then the encoder fails.\<close>

record BranchInfo =
  bri_Name :: string
  bri_BifurcationRatio :: "nat \<times> int64"
  bri_BranchBlockid :: "string list"

definition branch_info :: "ChainStatus_view \<Rightarrow> BranchInfo" where
  "branch_info chainStatus =
     \<lparr>bri_Name = vcs_Name chainStatus,
      bri_BifurcationRatio = (length (vcs_BranchBlockid chainStatus), vlm_TrunkHeight (vcs_LedgerMeta chainStatus)),
      bri_BranchBlockid = vcs_BranchBlockid chainStatus\<rparr>"

definition finite_ratio :: "nat \<times> int64 \<Rightarrow> bool" where
  "finite_ratio r \<longleftrightarrow> snd r \<noteq> 0"

datatype status_json =
    LedgerInfos "(string \<times> LedgerMeta_view) list"
  | UtxoMetaInfos "(string \<times> UtxoMeta_view) list"
  | BranchInfos "BranchInfo list"
  | PeersInfo "string list"
  | WholeStatus SystemStatus_view

text \<open>Print a value, or the error of the encoder and an empty line.\<close>

definition json_or_error :: "gerr option \<Rightarrow> 'v \<Rightarrow> 'v shown list" where
  "json_or_error err v = (case err of None \<Rightarrow> [Json v] | Some e \<Rightarrow> [ErrLine e, Line ''''])"

definition extractSpecificInfo :: "StatusCommand \<Rightarrow> SystemStatus_view \<Rightarrow> status_json shown list option" where
  "extractSpecificInfo s status =
     (let chains = vss_ChainStatus status in
      if stc_ledger s then Some [Json (LedgerInfos (map (\<lambda>c. (vcs_Name c, vcs_LedgerMeta c)) chains))]
      else if stc_utxo s then Some [Json (UtxoMetaInfos (map (\<lambda>c. (vcs_Name c, vcs_UtxoMeta c)) chains))]
      else if stc_branch s then
        (let branchInfos = map branch_info chains in
         Some (json_or_error
                 (if \<forall>b \<in> set branchInfos. finite_ratio (bri_BifurcationRatio b) then None
                  else Some (LibErr ''json: unsupported value''))
                 (BranchInfos branchInfos)))
      else if stc_peers s then Some [Json (PeersInfo (vss_Peers status))]
      else None)"

definition printXchainStatus ::
  "('w, 'x, 'sk) Env \<Rightarrow> 'w QueryClient \<Rightarrow> RootOptions \<Rightarrow> StatusCommand \<Rightarrow> ('w, gerr, status_json shown list) io" where
  "printXchainStatus E Q ro s =
     io_bind (io_draw (e_GenLogId E)) (\<lambda>logid.
     io_bind (qc_GetSystemStatus Q \<lparr>cin_Header = log_header logid, cin_ViewOption = convertToFlag s\<rparr>) (\<lambda>reply.
     io_bind (io_lift (header_ok (systr_Header reply))) (\<lambda>_.
     let status = FromSystemStatusPB (systr_SystemsStatus reply) (ro_Name ro) in
     case extractSpecificInfo s status of
       Some out \<Rightarrow> io_return out
     | None \<Rightarrow> io_return (json_or_error (qc_mj_SystemStatus Q status) (WholeStatus status)))))"

section \<open>Accounts\<close>

definition queryBalance ::
  "'w QueryClient \<Rightarrow> RootOptions \<Rightarrow> bool \<Rightarrow> string \<Rightarrow> ('w, gerr, string shown list) io" where
  "queryBalance Q ro frozen account =
     (let addrstatus = new_AddressStatus\<lparr>adst_Address := account,
            adst_Bcs := [\<lparr>tokd_Bcname = ro_Name ro, tokd_Balance = '''', tokd_Error = SUCCESS\<rparr>]\<rparr> in
      io_bind ((if frozen then qc_GetFrozenBalance Q else qc_GetBalance Q) addrstatus) (\<lambda>reply.
      io_lift
        (res_bind (header_ok (adst_Header reply)) (\<lambda>_.
         case adst_Bcs reply of
           [] \<Rightarrow> Inl go_panic
         | bc # _ \<Rightarrow> Inr [Line (tokd_Balance bc)]))))"

definition balance_run ::
  "('w, 'x, 'sk) Env \<Rightarrow> 'w QueryClient \<Rightarrow> RootOptions \<Rightarrow> bool \<Rightarrow> string list \<Rightarrow> ('w, gerr, string shown list) io" where
  "balance_run E Q ro frozen args =
     (case args of
        [] \<Rightarrow>
          io_bind (io_read (\<lambda>w. case readAddress E (ro_Keys ro) w of
                                  Inl err \<Rightarrow> Inl (Errorf ''not provide account but read address from file error'')
                                | Inr account \<Rightarrow> Inr account)) (queryBalance Q ro frozen)
      | account # _ \<Rightarrow> queryBalance Q ro frozen account)"

text \<open>A reply without a header counts as success here: the getters are used.\<close>

definition queryAccount ::
  "('w, 'x, 'sk) Env \<Rightarrow> 'w QueryClient \<Rightarrow> RootOptions \<Rightarrow> string \<Rightarrow> ('w, gerr, string list shown list) io" where
  "queryAccount E Q ro address =
     io_bind (if address = ''''
              then io_read (\<lambda>w. case readAddress E (ro_Keys ro) w of
                                  Inl err \<Rightarrow> Inl (Errorf ''not provide account but read address from file error'')
                                | Inr address \<Rightarrow> Inr address)
              else io_return address) (\<lambda>address.
     io_bind (io_draw (e_GenLogId E)) (\<lambda>logid.
     io_bind (qc_GetAccountByAK Q
                \<lparr>akreq_Header = log_header logid, akreq_Bcname = ro_Name ro, akreq_Address = address\<rparr>) (\<lambda>reply.
     if nilget SUCCESS hdr_Error (akres_Header reply) \<noteq> SUCCESS
     then io_throw (Errorf (XChainErrorEnum_String (nilget SUCCESS hdr_Error (akres_Header reply))))
     else io_return [Json (akres_Account reply)])))"

definition queryAccountContracts ::
  "'w QueryClient \<Rightarrow> RootOptions \<Rightarrow> string \<Rightarrow> ('w, gerr, ContractStatus list) io" where
  "queryAccountContracts Q ro accountName =
     io_bind (qc_GetAccountContracts Q
                \<lparr>gacreq_Header = None, gacreq_Bcname = ro_Name ro, gacreq_Account = accountName\<rparr>) (\<lambda>res.
     io_return (gacres_ContractsStatus res))"

definition queryAddressContracts ::
  "'w QueryClient \<Rightarrow> RootOptions \<Rightarrow> string \<Rightarrow> bool \<Rightarrow> ('w, gerr, string \<rightharpoonup> ContractStatus list) io" where
  "queryAddressContracts Q ro address verbose =
     io_bind (qc_GetAddressContracts Q
                \<lparr>acreq_Header = None, acreq_Bcname = ro_Name ro, acreq_Address = address,
                 acreq_NeedContent = verbose\<rparr>) (\<lambda>res.
     io_return (acres_Contracts res))"

datatype contracts_json = OfAccount "ContractStatus list" | OfAddress "string \<rightharpoonup> ContractStatus list"

text \<open>An error of the query is printed, and the command succeeds.\<close>

definition print_failed :: "('w, gerr, 'v shown list) io \<Rightarrow> ('w, gerr, 'v shown list) io" where
  "print_failed m w = (case m w of (Inl err, w') \<Rightarrow> (Inr [Line ''query failed, err='', ErrLine err], w') | r \<Rightarrow> r)"

definition queryContracts ::
  "'w QueryClient \<Rightarrow> RootOptions \<Rightarrow> string \<Rightarrow> string \<Rightarrow> bool \<Rightarrow> ('w, gerr, contracts_json shown list) io" where
  "queryContracts Q ro accountName address verbose =
     (if accountName \<noteq> '''' then
        print_failed (io_bind (queryAccountContracts Q ro accountName) (\<lambda>cs. io_return [Json (OfAccount cs)]))
      else if address \<noteq> '''' then
        print_failed (io_bind (queryAddressContracts Q ro address verbose) (\<lambda>cs. io_return [Json (OfAddress cs)]))
      else io_return [Line ''this query must use '--address' or '--account' option''])"

section \<open>Access lists and outputs\<close>

definition show_acl :: "gerr + bytes \<Rightarrow> bool \<Rightarrow> unit shown list" where
  "show_acl output confirmed =
     (case output of
        Inl err \<Rightarrow> [ErrLine err, Line '''']
      | Inr out \<Rightarrow>
          Line out # (if out \<noteq> ''{}'' then [Line (if \<not> confirmed then ''unconfirmed'' else ''confirmed'')] else []))"

definition queryACL ::
  "('w, 'x, 'sk) Env \<Rightarrow> 'w QueryClient \<Rightarrow> RootOptions \<Rightarrow> string \<Rightarrow> string \<Rightarrow> string \<Rightarrow>
   ('w, gerr, unit shown list) io" where
  "queryACL E Q ro accountName contractName methodName =
     io_bind (io_draw (e_GenLogId E)) (\<lambda>logid.
     if length accountName = 0 \<and> length contractName = 0 then io_throw (Errorf ''param error'')
     else
       io_bind (qc_QueryACL Q
                  (new_AclStatus\<lparr>acst_Header := log_header logid, acst_Bcname := ro_Name ro,
                                 acst_AccountName := accountName, acst_ContractName := contractName,
                                 acst_MethodName := methodName\<rparr>)) (\<lambda>reply.
       io_bind (io_lift (header_ok (acst_Header reply))) (\<lambda>_.
       io_return (show_acl (qc_mj_Acl Q (acst_Acl reply)) (acst_Confirmed reply)))))"

text \<open>An unreadable key directory leaves the address empty.\<close>

definition queryUtxoRecords ::
  "('w, 'x, 'sk) Env \<Rightarrow> 'w QueryClient \<Rightarrow> RootOptions \<Rightarrow> string \<Rightarrow> int64 \<Rightarrow>
   ('w, gerr, UtxoRecordDetail shown list) io" where
  "queryUtxoRecords E Q ro addr utxoItemNum =
     io_bind (io_read (\<lambda>w. Inr (if addr = '''' then (case readAddress E (ro_Keys ro) w of Inl _ \<Rightarrow> '''' | Inr a \<Rightarrow> a)
                                else addr))) (\<lambda>addr.
     io_bind (qc_QueryUtxoRecord Q
                (new_UtxoRecordDetail\<lparr>urd_Bcname := ro_Name ro, urd_AccountName := addr,
                                      urd_DisplayCount := utxoItemNum\<rparr>)) (\<lambda>response.
     io_return [Json response]))"

section \<open>Consensus, statistics and the address of the node\<close>

definition getStatus ::
  "('w, 'x, 'sk) Env \<Rightarrow> 'w QueryClient \<Rightarrow> RootOptions \<Rightarrow> ('w, gerr, ConsensusStatus shown list) io" where
  "getStatus E Q ro =
     io_bind (io_draw (e_GenLogId E)) (\<lambda>logid.
     io_bind (qc_GetConsensusStatus Q \<lparr>csreq_Header = log_header logid, csreq_Bcname = ro_Name ro\<rparr>) (\<lambda>statusPb.
     io_return [Json (statusPb\<lparr>cons_Header := None\<rparr>)]))"

definition queryContractStatData ::
  "('w, 'x, 'sk) Env \<Rightarrow> 'w QueryClient \<Rightarrow> RootOptions \<Rightarrow> ('w, gerr, ContractStatDataResponse shown list) io" where
  "queryContractStatData E Q ro =
     io_bind (io_draw (e_GenLogId E)) (\<lambda>logid.
     io_bind (qc_QueryContractStatData Q
                \<lparr>csdreq_Header = log_header logid, csdreq_Bcname = ro_Name ro\<rparr>) (\<lambda>reply.
     io_bind (io_lift (header_ok (csdres_Header reply))) (\<lambda>_.
     io_return [Json reply])))"

definition getNetURL :: "'w QueryClient \<Rightarrow> ('w, gerr, string shown list) io" where
  "getNetURL Q =
     io_bind (qc_GetNetURL Q \<lparr>cin_Header = None, cin_ViewOption = ViewOption_NONE\<rparr>) (\<lambda>res.
     io_return [Json (rurl_RawUrl res)])"

definition queryCandidates :: "'w QueryClient \<Rightarrow> RootOptions \<Rightarrow> ('w, gerr, string list shown list) io" where
  "queryCandidates Q ro =
     io_bind (qc_DposCandidates Q \<lparr>dcq_Header = None, dcq_Bcname = ro_Name ro\<rparr>) (\<lambda>res.
     io_return [Json (dcr_CandidatesInfo res)])"

definition queryCheckResult ::
  "'w QueryClient \<Rightarrow> RootOptions \<Rightarrow> int64 \<Rightarrow> ('w, gerr, string list shown list) io" where
  "queryCheckResult Q ro term =
     io_bind (qc_DposCheckResults Q \<lparr>dkq_Header = None, dkq_Bcname = ro_Name ro, dkq_Term = term\<rparr>) (\<lambda>response.
     io_return [Line (''term:'' @ show_int64 term), Json (dkr_CheckResult response)])"

definition queryNominateRecords ::
  "'w QueryClient \<Rightarrow> RootOptions \<Rightarrow> string \<Rightarrow> ('w, gerr, DposNominateInfo list shown list) io" where
  "queryNominateRecords Q ro addr =
     io_bind (qc_DposNominateRecords Q \<lparr>dnq_Header = None, dnq_Bcname = ro_Name ro, dnq_Address = addr\<rparr>) (\<lambda>response.
     io_return [Json (dnr_NominateRecords response)])"

definition queryNomineeRecord ::
  "'w QueryClient \<Rightarrow> RootOptions \<Rightarrow> string \<Rightarrow> ('w, gerr, unit shown list) io" where
  "queryNomineeRecord Q ro addr =
     io_bind (qc_DposNomineeRecords Q \<lparr>deq_Header = None, deq_Bcname = ro_Name ro, deq_Address = addr\<rparr>) (\<lambda>response.
     io_return [Line (''nominee:'' @ addr), Line (''txid:'' @ der_Txid response)])"

definition queryVoteRecords ::
  "'w QueryClient \<Rightarrow> RootOptions \<Rightarrow> string \<Rightarrow> ('w, gerr, VoteRecord list shown list) io" where
  "queryVoteRecords Q ro addr =
     io_bind (qc_DposVoteRecords Q \<lparr>dvq_Header = None, dvq_Bcname = ro_Name ro, dvq_Address = addr\<rparr>) (\<lambda>response.
     io_return [Json (dvr_VoteTxidRecords response)])"

definition queryVotedRecords ::
  "'w QueryClient \<Rightarrow> RootOptions \<Rightarrow> string \<Rightarrow> ('w, gerr, VotedRecord list shown list) io" where
  "queryVotedRecords Q ro addr =
     io_bind (qc_DposVotedRecords Q \<lparr>ddq_Header = None, ddq_Bcname = ro_Name ro, ddq_Address = addr\<rparr>) (\<lambda>response.
     io_return [Json (ddr_VotedTxidRecords response)])"

definition queryConsensusStatus ::
  "'w QueryClient \<Rightarrow> RootOptions \<Rightarrow> ('w, gerr, DposStatus_msg option shown list) io" where
  "queryConsensusStatus Q ro =
     io_bind (qc_DposStatus Q \<lparr>dsq_Header = None, dsq_Bcname = ro_Name ro\<rparr>) (\<lambda>response.
     io_return [Json (dsr_Status response)])"

section \<open>Properties\<close>

text \<open>\<open>status\<close> with \<open>-B\<close> prints the branches of the chains it shows exactly when none of them is at height 0: the
  ratio of branches to height is not finite for a chain that has only its first block, and then the
  branches of no chain are printed, while the command succeeds.\<close>

theorem status_branches_shown:
  assumes reply: "qc_GetSystemStatus Q \<lparr>cin_Header = log_header logid, cin_ViewOption = ViewOption_BRANCHINFO\<rparr> w1 = (Inr reply, w2)"
    and head: "systr_Header reply = Some h" "hdr_Error h = SUCCESS"
    and log: "e_GenLogId E w = (logid, w1)"
    and flags: "\<not> stc_ledger s" "\<not> stc_utxo s" "stc_branch s"
    and shown: "cs = map view_chain (filter (\<lambda>c. ro_Name ro = ''xuper'' \<or> bcst_Bcname c = ro_Name ro)
                   (nilget [] syst_BcsStatus (systr_SystemsStatus reply)))"
  shows "printXchainStatus E Q ro s w =
    (Inr (if \<forall>c \<in> set cs. vlm_TrunkHeight (vcs_LedgerMeta c) \<noteq> 0
          then [Json (BranchInfos (map branch_info cs))]
          else [ErrLine (LibErr ''json: unsupported value''), Line '''']), w2)"
proof -
  have flag: "convertToFlag s = ViewOption_BRANCHINFO" using flags by (simp add: convertToFlag_def)
  have view: "vss_ChainStatus (FromSystemStatusPB (systr_SystemsStatus reply) (ro_Name ro)) = cs"
    unfolding shown FromSystemStatusPB_def by (auto intro!: arg_cong[where f = "map view_chain"] filter_cong)
  show ?thesis
    unfolding printXchainStatus_def io_read_simps(3) log fst_conv snd_conv flag
    by (rule trans[OF io_bind_Inr[where m = "qc_GetSystemStatus Q _", OF reply]])
       (simp add: head header_ok_def extractSpecificInfo_def flags view Let_def json_or_error_def finite_ratio_def
          branch_info_def)
qed

text \<open>The contracts command never fails.\<close>

lemma queryContracts_succeeds: "\<exists>out. fst (queryContracts Q ro accountName address verbose w) = Inr out"
  by (auto simp: queryContracts_def print_failed_def split: prod.splits sum.splits)

section \<open>A plain world\<close>

text \<open>Instances over any world: every call is refused, and nothing is written.  The witnesses replace the calls they
  are about.\<close>

definition refused :: "'q \<Rightarrow> ('w, gerr, 'r) io" where "refused q w = (Inl (LibErr ''refused''), w)"

definition plain_client :: "'w XchainClient" where
  "plain_client =
     \<lparr>xc_PreExec = refused, xc_PreExecWithSelectUTXO = refused, xc_SelectUTXO = refused,
      xc_SelectUTXOBySize = refused, xc_PostTx = refused, xc_GetBalance = refused, xc_GetSystemStatus = refused\<rparr>"

definition plain_env :: "('w, string, string) Env" where
  "plain_env =
     \<lparr>e_lib = ex_lib, e_client = plain_client, e_Dial = (\<lambda>addr sec w. Inr ()), e_ClientOf = (\<lambda>addr. plain_client),
      e_EndorserCall = (\<lambda>host. refused), e_ReadFile = (\<lambda>f w. Inl (LibErr ''no file'')),
      e_ReadDir = (\<lambda>f w. Inr []), e_Stat = (\<lambda>f w. False), e_WriteFile = (\<lambda>f. refused),
      e_GenLogId = (\<lambda>w. (''log'', w)), e_GenNonce = (\<lambda>w. (''nonce'', w)), e_Now = (\<lambda>w. (7, w)),
      e_CreateCryptoClient = (\<lambda>c. Inr ex_signer), e_MakeTransactionID = (\<lambda>x. Inr ''id''),
      e_ProcessSignTx = (\<lambda>c x sk. Inr ''signed''), e_MakeTxDigestHash = (\<lambda>x. Inr ''digest''),
      e_FeePlaceholder = ''$'', e_TxVersion = 3, e_StatusErrorThreshold = 400,
      e_un_invokeRequestWrapper = (\<lambda>b. Inl (LibErr ''json'')), e_ParseAddressType = (\<lambda>a. (0, a \<noteq> '''')),
      e_AddressAccount = 1, e_AddressAK = 0, e_AppendCertsFromPEM = (\<lambda>b. False),
      e_LoadX509KeyPair = (\<lambda>c k w. Inr ''pair''), e_mj_TxStatus = (\<lambda>st. Inr ''{}'')\<rparr>"

definition plain_query :: "'w QueryClient" where
  "plain_query =
     \<lparr>qc_QueryTx = refused, qc_GetBlock = refused, qc_GetBlockByHeight = refused, qc_GetBalance = refused,
      qc_GetFrozenBalance = refused, qc_GetSystemStatus = refused, qc_QueryUtxoRecord = refused, qc_QueryACL = refused,
      qc_GetAccountByAK = refused, qc_GetAccountContracts = refused, qc_GetAddressContracts = refused,
      qc_GetConsensusStatus = refused, qc_QueryContractStatData = refused, qc_GetNetURL = refused,
      qc_DposCandidates = refused, qc_DposNominateRecords = refused, qc_DposNomineeRecords = refused,
      qc_DposVoteRecords = refused, qc_DposVotedRecords = refused, qc_DposCheckResults = refused,
      qc_DposStatus = refused, qc_mj_Acl = (\<lambda>a. Inr ''{}''), qc_mj_SystemStatus = (\<lambda>s. None)\<rparr>"

lemma status_branches_shown_witness:
  "printXchainStatus plain_env (plain_query\<lparr>qc_GetSystemStatus := (\<lambda>q w. (Inr (new_SystemsStatusReply
       \<lparr>systr_Header := ex_ok, systr_SystemsStatus := Some (new_SystemsStatus\<lparr>syst_BcsStatus :=
          [new_BCStatus\<lparr>bcst_Bcname := ''xuper''\<rparr>]\<rparr>)\<rparr>), w))\<rparr>) ex_root
     \<lparr>stc_ledger = False, stc_utxo = False, stc_branch = True, stc_peers = False\<rparr> (0 :: nat) =
   (Inr [ErrLine (LibErr ''json: unsupported value''), Line ''''], 0)"
  (is "printXchainStatus _ ?Q _ ?s _ = _")
proof -
  let ?r = "new_SystemsStatusReply\<lparr>systr_Header := ex_ok, systr_SystemsStatus := Some (new_SystemsStatus\<lparr>syst_BcsStatus :=
          [new_BCStatus\<lparr>bcst_Bcname := ''xuper''\<rparr>]\<rparr>)\<rparr>"
  have "printXchainStatus plain_env ?Q ex_root ?s (0 :: nat) =
      (Inr (if \<forall>c \<in> set [view_chain (new_BCStatus\<lparr>bcst_Bcname := ''xuper''\<rparr>)]. vlm_TrunkHeight (vcs_LedgerMeta c) \<noteq> 0
            then [Json (BranchInfos (map branch_info [view_chain (new_BCStatus\<lparr>bcst_Bcname := ''xuper''\<rparr>)]))]
            else [ErrLine (LibErr ''json: unsupported value''), Line '''']), 0)"
    by (rule status_branches_shown[where reply = ?r and h = "new_Header\<lparr>hdr_Error := SUCCESS\<rparr>" and logid = "''log''" and ?w1.0 = 0])
      (simp_all add: plain_env_def ex_ok_def ex_root_def)
  then show ?thesis by (simp add: view_chain_def Let_def)
qed

end
