(* ===== verification/KeyFiles.thy ===== *)
theory KeyFiles
  imports QueryCmds
begin

text \<open>
  The commands of the client that make, restore and decrypt keys (\<open>account_newkeys.go\<close>, \<open>account_restore.go\<close>,
  \<open>account_decrypt.go\<close>), translate addresses (\<open>evm_addrs_trans.go\<close>) and handle the keys of the node's
  network address (\<open>neturl_gen.go\<close>, \<open>neturl_convert.go\<close>, \<open>neturl_preview.go\<close>).  The cryptography and the
  operations on directories are given functions; what they promise is stated where it is used.
\<close>

section \<open>Given functions\<close>

record ECDSAAccount =
  ea_Mnemonic :: string
  ea_JsonPrivateKey :: string
  ea_JsonPublicKey :: string
  ea_Address :: string

record 'w key_crypto =
  kc_ExportNewAccount :: "string \<Rightarrow> ('w, gerr, unit) io"
  kc_ExportNewAccountWithMnemonic :: "string \<Rightarrow> int \<Rightarrow> 8 word \<Rightarrow> ('w, gerr, unit) io"
  kc_RetrieveAccountByMnemonic :: "string \<Rightarrow> int \<Rightarrow> gerr + ECDSAAccount"

record ('w, 'ek) KeyEnv =
  k_MkdirAll :: "string \<Rightarrow> ('w, gerr, unit) io"
  k_RemoveAll :: "string \<Rightarrow> ('w, gerr, unit) io"
  k_CreateCryptoClient :: "string \<Rightarrow> gerr + 'w key_crypto"
  k_SimplifiedChinese :: int
  k_English :: int
  k_base64_DecodeString :: "bytes \<Rightarrow> gerr + bytes"
  k_Prompt :: "(string \<Rightarrow> gerr option) \<Rightarrow> ('w, gerr, string) io"
  k_GetBinaryEcdsaPrivateKeyFromString :: "bytes \<Rightarrow> string \<Rightarrow> gerr + bytes"
  k_GetEcdsaPrivateKeyFromJson :: "bytes \<Rightarrow> gerr + 'ek"
  k_GetEcdsaPublicKeyJsonFormat :: "'ek \<Rightarrow> gerr + string"
  k_GetAddressFromPublicKey :: "'ek \<Rightarrow> gerr + string"
  k_DetermineXchainAddress :: "string \<Rightarrow> gerr + string \<times> string"
  k_AddressFromHexString :: "string \<Rightarrow> gerr + bytes"
  k_DetermineEVMAddress :: "bytes \<Rightarrow> gerr + string \<times> string"
  k_GeneratePemKeyFromNetKey :: "string \<Rightarrow> ('w, gerr, unit) io"
  k_GenerateNetKeyFromPemKey :: "string \<Rightarrow> ('w, gerr, unit) io"
  k_GenerateKeyPairWithPath :: "string \<Rightarrow> ('w, gerr, unit) io"
  k_GetPeerIDFromPath :: "string \<Rightarrow> 'w \<Rightarrow> gerr + string"

section \<open>New keys\<close>

record AccountNewkeysCommand =
  ank_outputdir :: string
  ank_strength :: "8 word"
  ank_lang :: string
  ank_forceOveride :: bool

definition lang_of :: "('w, 'ek) KeyEnv \<Rightarrow> string \<Rightarrow> gerr + int" where
  "lang_of K langstr =
     (if langstr = ''zh'' then Inr (k_SimplifiedChinese K)
      else if langstr = ''en'' then Inr (k_English K)
      else Inl (Errorf ''bad lang use zh|en instead''))"

definition createSimpleAccount :: "('w, 'ek) KeyEnv \<Rightarrow> string \<Rightarrow> string \<Rightarrow> ('w, gerr, unit) io" where
  "createSimpleAccount K cryptoType outputdir =
     (case k_CreateCryptoClient K cryptoType of
        Inl err \<Rightarrow> io_throw (Errorf ''fail to create crypto client'')
      | Inr cryptoClient \<Rightarrow> kc_ExportNewAccount cryptoClient outputdir)"

definition createMnmAccount ::
  "('w, 'ek) KeyEnv \<Rightarrow> string \<Rightarrow> string \<Rightarrow> 8 word \<Rightarrow> string \<Rightarrow> ('w, gerr, unit) io" where
  "createMnmAccount K cryptoType outputdir strength langstr =
     io_bind (io_lift (lang_of K langstr)) (\<lambda>lang.
     case k_CreateCryptoClient K cryptoType of
       Inl err \<Rightarrow> io_throw (Errorf ''fail to create crypto client'')
     | Inr cryptoClient \<Rightarrow>
         io_map_err (\<lambda>_. Errorf ''create new account with mnemonic failed'')
           (kc_ExportNewAccountWithMnemonic cryptoClient outputdir lang strength))"

text \<open>After an error the whole directory is removed; the error of that is dropped.\<close>

definition or_remove :: "('w, 'ek) KeyEnv \<Rightarrow> string \<Rightarrow> ('w, gerr, unit) io \<Rightarrow> ('w, gerr, unit) io" where
  "or_remove K outputdir m w =
     (case m w of
        (Inl err, w') \<Rightarrow> (Inl err, snd (k_RemoveAll K outputdir w'))
      | (Inr _, w') \<Rightarrow> (Inr (), w'))"

definition createAccount ::
  "('w, 'x, 'sk) Env \<Rightarrow> ('w, 'ek) KeyEnv \<Rightarrow> RootOptions \<Rightarrow> AccountNewkeysCommand \<Rightarrow> ('w, gerr, unit) io" where
  "createAccount E K ro c w =
     (if e_Stat E (ank_outputdir c) w \<and> \<not> ank_forceOveride c
      then (Inl (Errorf ''output directory exists, abort''), w)
      else
        io_bind (io_map_err (\<lambda>_. Errorf ''failed to create output dir before create account'')
                   (k_MkdirAll K (ank_outputdir c))) (\<lambda>_.
          or_remove K (ank_outputdir c)
            (if ank_strength c > 0
             then createMnmAccount K (ro_Crypto ro) (ank_outputdir c) (ank_strength c) (ank_lang c)
             else createSimpleAccount K (ro_Crypto ro) (ank_outputdir c))) w)"

section \<open>Restoring keys\<close>

record AccountRestoreCommand =
  arc_outputdir :: string
  arc_mnemonic :: string
  arc_lang :: string

text \<open>\<open>strings.LastIndex(s, "/")\<close>, and the number of runes of a string, \<open>len([]rune(s))\<close>: a byte that begins no valid
  encoding counts as one rune.\<close>

definition last_slash :: "string \<Rightarrow> int" where
  "last_slash s =
     (if CHR ''/'' \<in> set s then int (length s) - 1 - int (length (takeWhile (\<lambda>c. c \<noteq> CHR ''/'') (rev s))) else -1)"

definition byte_in :: "nat \<Rightarrow> nat \<Rightarrow> char list \<Rightarrow> nat \<Rightarrow> bool" where
  "byte_in lo hi s i \<longleftrightarrow> i < length s \<and> lo \<le> of_char (s ! i) \<and> of_char (s ! i) \<le> hi"

text \<open>The length in bytes of the rune at the head of a string.\<close>

definition rune_len :: "string \<Rightarrow> nat" where
  "rune_len s =
     (let b = (of_char (hd s) :: nat);
          cont = byte_in 0x80 0xBF s
      in
      if 0xC2 \<le> b \<and> b \<le> 0xDF \<and> cont 1 then 2
      else if b = 0xE0 \<and> byte_in 0xA0 0xBF s 1 \<and> cont 2 then 3
      else if b = 0xED \<and> byte_in 0x80 0x9F s 1 \<and> cont 2 then 3
      else if 0xE1 \<le> b \<and> b \<le> 0xEF \<and> b \<noteq> 0xED \<and> cont 1 \<and> cont 2 then 3
      else if b = 0xF0 \<and> byte_in 0x90 0xBF s 1 \<and> cont 2 \<and> cont 3 then 4
      else if 0xF1 \<le> b \<and> b \<le> 0xF3 \<and> cont 1 \<and> cont 2 \<and> cont 3 then 4
      else if b = 0xF4 \<and> byte_in 0x80 0x8F s 1 \<and> cont 2 \<and> cont 3 then 4
      else 1)"

lemma rune_len_pos: "0 < rune_len s"
  by (simp add: rune_len_def Let_def)

function rune_count :: "string \<Rightarrow> nat" where
  "rune_count s = (if s = [] then 0 else Suc (rune_count (drop (rune_len s) s)))"
  by auto
termination
  by (relation "measure length") (use rune_len_pos in auto)

text \<open>The directory with the slash the code adds.\<close>

definition restore_dir :: "string \<Rightarrow> string" where
  "restore_dir outputdir =
     (if last_slash outputdir \<noteq> int (rune_count outputdir) - 1 then outputdir @ ''/'' else outputdir)"

primrec write_files :: "('w, 'x, 'sk) Env \<Rightarrow> (string \<times> bytes) list \<Rightarrow> ('w, gerr, unit) io" where
  "write_files E [] = io_return ()"
| "write_files E (f # fs) = io_bind (e_WriteFile E (fst f) (snd f)) (\<lambda>_. write_files E fs)"

definition restoreAccount ::
  "('w, 'x, 'sk) Env \<Rightarrow> ('w, 'ek) KeyEnv \<Rightarrow> RootOptions \<Rightarrow> AccountRestoreCommand \<Rightarrow>
   ('w, gerr, unit shown list) io" where
  "restoreAccount E K ro c =
     io_bind (io_lift (lang_of K (arc_lang c))) (\<lambda>lang.
     case k_CreateCryptoClient K (ro_Crypto ro) of
       Inl err \<Rightarrow> io_throw (Errorf ''fail to create crypto client'')
     | Inr cryptoClient \<Rightarrow>
         (case kc_RetrieveAccountByMnemonic cryptoClient (arc_mnemonic c) lang of
            Inl err \<Rightarrow> io_throw (Errorf ''restore account by mnemonic failed'')
          | Inr account \<Rightarrow>
              if arc_outputdir c \<noteq> '''' then
                (\<lambda>w.
                  if e_Stat E (arc_outputdir c) w then (Inl (Errorf ''output directory exists, abort''), w)
                  else
                    io_bind (io_map_err (\<lambda>_. Errorf ''failed to create output dir before restore account'')
                               (k_MkdirAll K (arc_outputdir c))) (\<lambda>_.
                    let dir = restore_dir (arc_outputdir c) in
                    io_bind (write_files E
                               [(dir @ ''mnemonic'', ea_Mnemonic account), (dir @ ''private.key'', ea_JsonPrivateKey account),
                                (dir @ ''public.key'', ea_JsonPublicKey account), (dir @ ''address'', ea_Address account)])
                      (\<lambda>_. io_return [Line (''export account in : '' @ dir)])) w)
              else
                io_return
                  [Line (''address : '' @ ea_Address account), Line (''privateKey : '' @ ea_JsonPrivateKey account),
                   Line (''publicKey : '' @ ea_JsonPublicKey account), Line (''mnemonic : '' @ ea_Mnemonic account)]))"

section \<open>Decrypting a key\<close>

record AccountDecryptCommand =
  adc_output :: string
  adc_file :: string

definition validate_password :: "string \<Rightarrow> gerr option" where
  "validate_password input =
     (if length input < 4 then Some (Errorf ''Password must at least 4 characters'') else None)"

definition saveAccount ::
  "('w, 'x, 'sk) Env \<Rightarrow> ('w, 'ek) KeyEnv \<Rightarrow> string \<Rightarrow> bytes \<Rightarrow> bytes \<Rightarrow> bytes \<Rightarrow> ('w, gerr, unit) io" where
  "saveAccount E K output addr pk sk =
     io_bind (io_map_err (\<lambda>_. Errorf ''failed to create output dir before restore account'') (k_MkdirAll K output)) (\<lambda>_.
     io_map_err (\<lambda>_. Errorf ''failed to save'')
       (write_files E [(output @ ''/address'', addr), (output @ ''/private.key'', sk), (output @ ''/public.key'', pk)]))"

definition decrypt ::
  "('w, 'x, 'sk) Env \<Rightarrow> ('w, 'ek) KeyEnv \<Rightarrow> RootOptions \<Rightarrow> AccountDecryptCommand \<Rightarrow> ('w, gerr, unit shown list) io" where
  "decrypt E K ro c w =
     (if e_Stat E (adc_output c) w then (Inl (Errorf ''output directory exists, abort''), w)
      else if ro_Crypto ro \<noteq> ''default'' then (Inl (Errorf ''only support default crypto plugin by now''), w)
      else
        io_bind (io_read (e_ReadFile E (adc_file c))) (\<lambda>content.
        io_bind (io_lift (k_base64_DecodeString K content)) (\<lambda>encKey.
        io_bind (k_Prompt K validate_password) (\<lambda>passwd.
        io_bind (io_lift (k_GetBinaryEcdsaPrivateKeyFromString K encKey passwd)) (\<lambda>sk.
        io_bind (io_lift (k_GetEcdsaPrivateKeyFromJson K sk)) (\<lambda>eccPrivkey.
        io_bind (io_lift (k_GetEcdsaPublicKeyJsonFormat K eccPrivkey)) (\<lambda>pk.
        io_bind (io_lift (k_GetAddressFromPublicKey K eccPrivkey)) (\<lambda>addr.
        io_bind (saveAccount E K (adc_output c) addr pk sk) (\<lambda>_.
        io_return
          [Line (''decrypted address: '' @ addr),
           Line (''account decrypted successfully, account info saved at '' @ adc_output c)])))))))) w)"

section \<open>Addresses\<close>

definition evm_trans :: "('w, 'ek) KeyEnv \<Rightarrow> string \<Rightarrow> string \<Rightarrow> gerr + unit shown list" where
  "evm_trans K transType addr =
     (if transType \<noteq> ''x2e'' \<and> transType \<noteq> ''e2x'' then Inl (Errorf ''wrong transType, must be x2e or e2x'')
      else
        res_bind
          (if transType = ''x2e'' then k_DetermineXchainAddress K addr
           else res_bind (k_AddressFromHexString K addr) (k_DetermineEVMAddress K))
          (\<lambda>(a, addrType). Inr [Line (''result, '' @ a @ [CHR 0x09] @ addrType)]))"

definition genNetURL :: "('w, 'ek) KeyEnv \<Rightarrow> string \<Rightarrow> ('w, gerr, unit) io" where
  "genNetURL K path = k_GenerateKeyPairWithPath K path"

definition convertKey :: "('w, 'ek) KeyEnv \<Rightarrow> string \<Rightarrow> string \<Rightarrow> ('w, gerr, unit) io" where
  "convertKey K src path =
     (if src = ''net'' then k_GeneratePemKeyFromNetKey K path else k_GenerateNetKeyFromPemKey K path)"

text \<open>A key that cannot be read is reported, and a url without an id is printed all the same.\<close>

definition previewNetURL ::
  "('w, 'ek) KeyEnv \<Rightarrow> string \<Rightarrow> string \<Rightarrow> string \<Rightarrow> string \<Rightarrow> 'w \<Rightarrow> unit shown list" where
  "previewNetURL K ip ipv6 port path w =
     (let (out, pid) =
        (case k_GetPeerIDFromPath K path w of
           Inl err \<Rightarrow> ([Line ''Parse net URL from key path failed, err='', ErrLine err], '''')
         | Inr pid \<Rightarrow> ([], pid));
          url = (if ipv6 \<noteq> '''' then ''/ip6/'' @ ipv6 else ''/ip4/'' @ ip) @ ''/tcp/'' @ port @ ''/p2p/'' @ pid
      in out @ [Line url])"

section \<open>Files\<close>

declare rune_count.simps [simp del]

text \<open>A written file can be read back, and writing it leaves its neighbours alone.\<close>

definition plain_name :: "string \<Rightarrow> bool" where "plain_name n \<longleftrightarrow> CHR ''/'' \<notin> set n"

definition write_law :: "('w, 'x, 'sk) Env \<Rightarrow> bool" where
  "write_law E \<longleftrightarrow> (\<forall>d n b w w'. plain_name n \<longrightarrow> e_WriteFile E (d @ n) b w = (Inr (), w') \<longrightarrow>
     e_ReadFile E (d @ n) w' = Inr b \<and>
     (\<forall>m. plain_name m \<longrightarrow> m \<noteq> n \<longrightarrow> e_ReadFile E (d @ m) w' = e_ReadFile E (d @ m) w))"

abbreviation in_dir :: "string \<Rightarrow> (string \<times> bytes) list \<Rightarrow> (string \<times> bytes) list" where
  "in_dir d fs \<equiv> map (\<lambda>f. (d @ fst f, snd f)) fs"

lemma write_files_other:
  assumes "write_law E" "write_files E (in_dir d fs) w = (Inr (), w')" "plain_name m" "m \<notin> fst ` set fs"
    "\<forall>f \<in> set fs. plain_name (fst f)"
  shows "e_ReadFile E (d @ m) w' = e_ReadFile E (d @ m) w"
  using assms(2,4,5)
proof (induction fs arbitrary: w)
  case (Cons f fs)
  then obtain w1 where w1: "e_WriteFile E (d @ fst f) (snd f) w = (Inr (), w1)" "write_files E (in_dir d fs) w1 = (Inr (), w')"
    by (auto simp: io_bind_Inr_iff)
  then have "e_ReadFile E (d @ m) w1 = e_ReadFile E (d @ m) w"
    using assms(1,3) Cons.prems unfolding write_law_def by auto
  with Cons.IH[OF w1(2)] Cons.prems show ?case by simp
qed simp

lemma write_files_read:
  assumes "write_law E" "write_files E (in_dir d fs) w = (Inr (), w')" "(n, b) \<in> set fs" "distinct (map fst fs)"
    "\<forall>f \<in> set fs. plain_name (fst f)"
  shows "e_ReadFile E (d @ n) w' = Inr b"
  using assms(2-5)
proof (induction fs arbitrary: w)
  case (Cons f fs)
  then obtain w1 where w1: "e_WriteFile E (d @ fst f) (snd f) w = (Inr (), w1)" "write_files E (in_dir d fs) w1 = (Inr (), w')"
    by (auto simp: io_bind_Inr_iff)
  show ?case
  proof (cases "(n, b) = f")
    case True
    then have n: "n \<notin> fst ` set fs" "plain_name n" using Cons.prems(3,4) by force+
    then have "e_ReadFile E (d @ n) w1 = Inr b"
      using w1(1) True assms(1) unfolding write_law_def by auto
    with write_files_other[OF assms(1) w1(2) n(2,1)] Cons.prems(4) show ?thesis by simp
  next
    case False
    with Cons.IH[OF w1(2)] Cons.prems show ?thesis by auto
  qed
qed simp

section \<open>Runes\<close>

definition ascii :: "string \<Rightarrow> bool" where "ascii s \<longleftrightarrow> (\<forall>c \<in> set s. of_char c < (128 :: nat))"

lemma rune_len_ascii: "ascii s \<Longrightarrow> s \<noteq> [] \<Longrightarrow> rune_len s = 1"
  by (cases s) (auto simp: rune_len_def ascii_def Let_def)

lemma rune_count_ascii: "ascii s \<Longrightarrow> rune_count s = length s"
proof (induction s)
  case (Cons c s)
  then have "rune_len (c # s) = 1" using rune_len_ascii by blast
  with Cons show ?case by (subst rune_count.simps) (simp add: ascii_def)
qed (simp add: rune_count.simps)

lemma last_slash_end: "s \<noteq> [] \<Longrightarrow> last_slash s = int (length s) - 1 \<longleftrightarrow> last s = CHR ''/''"
proof (induction s rule: rev_induct)
  case (snoc c s)
  then show ?case by (cases "c = CHR ''/''") (auto simp: last_slash_def)
qed simp

lemma restore_dir_ascii:
  assumes "ascii d" "d \<noteq> []"
  shows "restore_dir d = (if last d = CHR ''/'' then d else d @ ''/'')"
  using last_slash_end[OF assms(2)] by (simp add: restore_dir_def rune_count_ascii[OF assms(1)])

text \<open>With a letter of two bytes before a slash the count of runes is one less than that of bytes, and the files of
  the directory named by e-acute, a slash and the letter a are written beside it: \<open>amnemonic\<close>, and so on.\<close>

lemma restore_dir_wrong:
  "restore_dir [CHR 0xC3, CHR 0xA9, CHR ''/'', CHR ''a''] = [CHR 0xC3, CHR 0xA9, CHR ''/'', CHR ''a'']"
  by (simp add: restore_dir_def last_slash_def rune_count.simps rune_len_def byte_in_def Let_def)

section \<open>Properties\<close>

text \<open>What removing a directory promises: nothing is left under it.  Making a directory changes no file.\<close>

definition under :: "string \<Rightarrow> string \<Rightarrow> bool" where
  "under d p \<longleftrightarrow> (\<exists>rest. p = d @ ''/'' @ rest)"

definition dir_laws :: "('w, 'ek) KeyEnv \<Rightarrow> ('w \<Rightarrow> string \<rightharpoonup> bytes) \<Rightarrow> bool" where
  "dir_laws K files \<longleftrightarrow>
     (\<forall>d w. files (snd (k_MkdirAll K d w)) = files w) \<and>
     (\<forall>d w w' p. k_RemoveAll K d w = (Inr (), w') \<longrightarrow> under d p \<longrightarrow> files w' p = None)"

text \<open>C37: A failed \<open>newkeys\<close> touches nothing when the directory exists and is not to be overridden.  In every other case
  in which the directory could be made, also one with the option to override, nothing is left under the
  directory: the keys that were there before are lost with those that could not be made.\<close>

theorem newkeys_failure_wipes:
  assumes "dir_laws K files" "createAccount E K ro c w = (Inl err, w')"
    and removable: "\<And>w. fst (k_RemoveAll K (ank_outputdir c) w) = Inr ()"
  shows "if e_Stat E (ank_outputdir c) w \<and> \<not> ank_forceOveride c then w' = w
    else fst (k_MkdirAll K (ank_outputdir c) w) = Inr () \<longrightarrow> (\<forall>p. under (ank_outputdir c) p \<longrightarrow> files w' p = None)"
proof -
  have gone: "files (snd (k_RemoveAll K (ank_outputdir c) w1)) p = None" if "under (ank_outputdir c) p" for w1 p
    using assms(1) removable[of w1] that unfolding dir_laws_def by (metis prod.collapse)
  show ?thesis
    using assms(2) gone by (auto simp: createAccount_def io_bind_def io_map_err_def or_remove_def split: prod.splits sum.splits if_splits)
qed


text \<open>Keys that \<open>decrypt\<close> has written are the keys the client then loads from that directory: it writes only to a directory
  that is not there, for the default cryptography and a password of at least four characters, and the
  address, the public and the private key belong together.\<close>

theorem decrypt_then_load:
  assumes law: "write_law E" and run: "decrypt E K ro c w = (Inr out, w')"
    and prompt: "\<forall>v w p w'. k_Prompt K v w = (Inr p, w') \<longrightarrow> v p = None"
    and clean: "\<forall>n \<in> {''address'', ''public.key'', ''private.key''}.
      path_join (adc_output c) n = adc_output c @ ''/'' @ n"
  shows "\<not> e_Stat E (adc_output c) w \<and> ro_Crypto ro = ''default'' \<and>
    (\<exists>enc passwd sk key pk addr. 4 \<le> length passwd \<and>
       k_GetBinaryEcdsaPrivateKeyFromString K enc passwd = Inr sk \<and> k_GetEcdsaPrivateKeyFromJson K sk = Inr key \<and>
       k_GetEcdsaPublicKeyJsonFormat K key = Inr pk \<and> k_GetAddressFromPublicKey K key = Inr addr \<and>
       readAddress E (adc_output c) w' = Inr (trim_space addr) \<and>
       keyPair E (newAK (adc_output c)) w' = Inr \<lparr>kp_publicKey = trim_space pk, kp_secretKey = trim_space sk\<rparr>)"
proof -
  let ?d = "adc_output c @ ''/''"
  let ?fs = "\<lambda>addr pk sk. [(''address'', addr), (''private.key'', sk), (''public.key'', pk)]"
  have s: "\<not> e_Stat E (adc_output c) w" "ro_Crypto ro = ''default''"
    using run by (auto simp: decrypt_def split: if_splits)
  obtain enc passwd sk key pk addr w1 w2 w3 where r: "k_Prompt K validate_password w1 = (Inr passwd, w2)"
      "k_GetBinaryEcdsaPrivateKeyFromString K enc passwd = Inr sk" "k_GetEcdsaPrivateKeyFromJson K sk = Inr key"
      "k_GetEcdsaPublicKeyJsonFormat K key = Inr pk" "k_GetAddressFromPublicKey K key = Inr addr"
      "write_files E (in_dir ?d (?fs addr pk sk)) w3 = (Inr (), w')"
    using run s unfolding decrypt_def saveAccount_def
    by (clarsimp simp: io_Inr_simps io_bind_Inr_iff map_err_Inr io_map_err_Inr
        simp del: write_files.simps append.simps io_bind_simps io_read_simps(2,3))
       (rule that, assumption, assumption, assumption, assumption, assumption, simp)
  have pw: "4 \<le> length passwd"
    using prompt[rule_format, OF r(1)] by (simp add: validate_password_def split: if_splits)
  have names: "distinct (map fst (?fs addr pk sk))" "\<forall>f \<in> set (?fs addr pk sk). plain_name (fst f)"
    by (simp_all add: plain_name_def)
  have rd: "e_ReadFile E (path_join (adc_output c) n) w' = Inr b" if "(n, b) \<in> set (?fs addr pk sk)" for n b
    using write_files_read[OF law r(6) that names] clean that by auto
  have "readAddress E (adc_output c) w' = Inr (trim_space addr)"
    "keyPair E (newAK (adc_output c)) w' = Inr \<lparr>kp_publicKey = trim_space pk, kp_secretKey = trim_space sk\<rparr>"
    by (simp_all add: readAddress_def keyPair_def readPublicKey_def readPrivateKey_def readKeys_def newAK_def rd)
  with s pw r(2-5) show ?thesis by blast
qed

section \<open>Instances\<close>

text \<open>A disk is the list of its files, and a directory is there when a file is under it.\<close>

type_synonym disk = "(string \<times> bytes) list"

definition ex_under :: "string \<Rightarrow> string \<Rightarrow> bool" where
  "ex_under d p \<longleftrightarrow> take (Suc (length d)) p = d @ ''/''"

definition ex_disk_env :: "(disk, string, string) Env" where
  "ex_disk_env = plain_env
     \<lparr>e_ReadFile := (\<lambda>f w. case map_of w f of None \<Rightarrow> Inl (LibErr ''no file'') | Some b \<Rightarrow> Inr b),
      e_WriteFile := (\<lambda>f b w. (Inr (), (f, b) # w)),
      e_Stat := (\<lambda>d w. \<exists>f \<in> set w. ex_under d (fst f))\<rparr>"

definition ex_account :: ECDSAAccount where
  "ex_account = \<lparr>ea_Mnemonic = ''words'', ea_JsonPrivateKey = ''sk'', ea_JsonPublicKey = ''pk'', ea_Address = ''addr''\<rparr>"

definition ex_keys_env :: "(disk, string) KeyEnv" where
  "ex_keys_env =
     \<lparr>k_MkdirAll = (\<lambda>d w. (Inr (), w)),
      k_RemoveAll = (\<lambda>d w. (Inr (), filter (\<lambda>f. \<not> ex_under d (fst f)) w)),
      k_CreateCryptoClient = (\<lambda>t. if t = ''default''
         then Inr \<lparr>kc_ExportNewAccount = (\<lambda>d w. (Inr (), (d @ ''/private.key'', ''new'') # w)),
                   kc_ExportNewAccountWithMnemonic = (\<lambda>d l n w. (Inr (), (d @ ''/private.key'', ''new'') # w)),
                   kc_RetrieveAccountByMnemonic = (\<lambda>m l. Inr ex_account)\<rparr>
         else Inl (LibErr ''crypto'')),
      k_SimplifiedChinese = 1, k_English = 2, k_base64_DecodeString = Inr,
      k_Prompt = (\<lambda>v w. (case v ''secret'' of None \<Rightarrow> Inr ''secret'' | Some e \<Rightarrow> Inl e, w)),
      k_GetBinaryEcdsaPrivateKeyFromString = (\<lambda>k p. Inr ''sk''), k_GetEcdsaPrivateKeyFromJson = Inr,
      k_GetEcdsaPublicKeyJsonFormat = (\<lambda>k. Inr ''pk''), k_GetAddressFromPublicKey = (\<lambda>k. Inr ''addr''),
      k_DetermineXchainAddress = (\<lambda>a. Inr (a, ''xchain'')), k_AddressFromHexString = Inr,
      k_DetermineEVMAddress = (\<lambda>a. Inr (a, ''evm'')), k_GeneratePemKeyFromNetKey = refused,
      k_GenerateNetKeyFromPemKey = refused, k_GenerateKeyPairWithPath = refused,
      k_GetPeerIDFromPath = (\<lambda>p w. Inr ''Qm'')\<rparr>"

definition ex_default :: RootOptions where "ex_default = zero_RootOptions\<lparr>ro_Crypto := ''default''\<rparr>"

lemma ex_disk_laws: "write_law ex_disk_env" "dir_laws ex_keys_env map_of"
  by (auto simp: write_law_def ex_disk_env_def dir_laws_def ex_keys_env_def ex_under_def under_def map_of_eq_None_iff)

text \<open>A language that is not there, with the option to override: the old key is gone.\<close>

lemma newkeys_failure_wipes_witness:
  "\<exists>err w'. createAccount ex_disk_env ex_keys_env ex_default
       \<lparr>ank_outputdir = ''keys'', ank_strength = 1, ank_lang = ''fr'', ank_forceOveride = True\<rparr>
       [(''keys/private.key'', ''old''), (''note'', ''n'')] = (Inl err, w') \<and> map_of w' ''keys/private.key'' = None"
proof -
  let ?c = "\<lparr>ank_outputdir = ''keys'', ank_strength = 1, ank_lang = ''fr'', ank_forceOveride = True\<rparr>"
  let ?w = "[(''keys/private.key'', ''old''), (''note'', ''n'')] :: disk"
  have e: "createAccount ex_disk_env ex_keys_env ex_default ?c ?w =
      (Inl (Errorf ''bad lang use zh|en instead''), snd (k_RemoveAll ex_keys_env ''keys'' ?w))"
    by (simp add: createAccount_def ex_keys_env_def createMnmAccount_def lang_of_def or_remove_def io_bind_def io_map_err_def)
  have r: "fst (k_RemoveAll ex_keys_env (ank_outputdir ?c) w) = Inr ()" for w by (simp add: ex_keys_env_def)
  have u: "under (ank_outputdir ?c) ''keys/private.key''" by (simp add: under_def)
  have m: "fst (k_MkdirAll ex_keys_env (ank_outputdir ?c) ?w) = Inr ()" by (simp add: ex_keys_env_def)
  show ?thesis
    using newkeys_failure_wipes[OF ex_disk_laws(2) e r] m u e by auto
qed


lemma decrypt_then_load_witness:
  "\<exists>out w'. decrypt ex_disk_env ex_keys_env ex_default \<lparr>adc_output = ''keys'', adc_file = ''key''\<rparr> [(''key'', ''k'')] = (Inr out, w') \<and>
     (\<exists>k. keyPair ex_disk_env (newAK ''keys'') w' = Inr k)"
proof -
  let ?c = "\<lparr>adc_output = ''keys'', adc_file = ''key''\<rparr>"
  obtain out w' where e: "decrypt ex_disk_env ex_keys_env ex_default ?c [(''key'', ''k'')] = (Inr out, w')"
    by (simp add: decrypt_def saveAccount_def ex_keys_env_def ex_default_def ex_disk_env_def ex_under_def validate_password_def
        io_bind_def io_map_err_def io_read_def)
  have p: "\<forall>v w p w'. k_Prompt ex_keys_env v w = (Inr p, w') \<longrightarrow> v p = None"
    by (auto simp: ex_keys_env_def split: option.splits)
  have "path_join ''keys'' ''address'' = ''keys/address''" "path_join ''keys'' ''public.key'' = ''keys/public.key''"
    "path_join ''keys'' ''private.key'' = ''keys/private.key''" by code_simp+
  then have c: "\<forall>n \<in> {''address'', ''public.key'', ''private.key''}. path_join (adc_output ?c) n = adc_output ?c @ ''/'' @ n"
    by auto
  show ?thesis
    using decrypt_then_load[OF ex_disk_laws(1) e p c] e by auto
qed

end
