(* ===== verification/EndToEnd.thy ===== *)
theory EndToEnd
  imports QueryCmds RpcServ
begin

text \<open>
  The query commands of the client against the server of this repository: a call of the client runs the handler
  of \<open>api.go\<close> inside the interceptor of \<open>rpc.go\<close>.  What lies between is grpc, and is the locale \<open>unary_call\<close>:
  a reply without an error arrives as it is, and with an error only the error arrives.
\<close>

section \<open>A call over the network\<close>

type_synonym ('q, 'r, 's) service = "'q \<Rightarrow> 's \<Rightarrow> 'r rpc_result \<times> 's"

locale unary_call =
  fixes call :: "'q \<Rightarrow> ('s, gerr, 'r) io" and serve :: "('q, 'r, 's) service"
  assumes reply_arrives: "serve q s = (Returned (Some r) None, s') \<Longrightarrow> call q s = (Inr r, s')"
    and error_arrives: "serve q s = (Returned resp (Some err), s') \<Longrightarrow> \<exists>e. call q s = (Inl e, s')"
    and crash_breaks: "serve q s = (Crashed, s') \<Longrightarrow> \<exists>e. call q s = (Inl e, s')"
begin

lemma fails:
  assumes "serve q s = (res, s')" "\<And>r err. res = Returned r err \<Longrightarrow> err \<noteq> None"
  shows "\<exists>e. call q s = (Inl e, s')"
  using assms error_arrives crash_breaks by (cases res) auto

end

text \<open>The channel that keeps this contract and does nothing else.\<close>

definition channel :: "('q, 'r, 's) service \<Rightarrow> 'q \<Rightarrow> ('s, gerr, 'r) io" where
  "channel serve q s =
     (case serve q s of
        (Returned (Some r) None, s') \<Rightarrow> (Inr r, s')
      | (Returned _ (Some err), s') \<Rightarrow> (Inl (LibErr ''rpc error''), s')
      | (_, s') \<Rightarrow> (Inl (LibErr ''rpc error''), s'))"

interpretation channel: unary_call "channel serve" serve for serve
  by unfold_locales (auto simp: channel_def split: option.splits)

text \<open>A handler of the server behind the interceptor, for a peer.\<close>

definition serve_query ::
  "('w, 'x, 'k) RpcServ \<Rightarrow> peer \<Rightarrow> 'q header_field \<Rightarrow> 'r header_field \<Rightarrow>
   (('w, 'x, 'k) ReqCtx \<Rightarrow> 'q option \<Rightarrow> 'w \<Rightarrow> 'r reply) \<Rightarrow> ('q, 'r, ('w, 'x) RpcState) service" where
  "serve_query t pr Q R f = UnaryInterceptor t Q R (\<lambda>rctx. body_of (as_handler (f rctx))) pr"

text \<open>The standing assumptions on the server: the standard errors have distinct codes, no error is cast to the code
  of success, and log ids are not empty.\<close>

definition server_ok :: "('w, 'x, 'k) RpcServ \<Rightarrow> bool" where
  "server_ok t \<longleftrightarrow> inj (t_code t) \<and> (\<forall>e. t_CastError t e \<noteq> t_code t ErrSuccess) \<and>
     t_GenLogId t 0 \<noteq> '''' \<and> t_GenLogId t 1 \<noteq> ''''"

text \<open>A request whose header has a log id reaches the handler unchanged.\<close>

lemma fill_header_keeps:
  assumes "get_Header Q q = Some h" "hdr_Logid h \<noteq> ''''"
  shows "fill_header gen Q q = q"
  using assms by (simp add: fill_header_def)

lemma success_header: "server_ok t \<Longrightarrow> hdr_Error (response_header t l None) = SUCCESS"
  by (simp add: response_header_def convertErr_SUCCESS_iff server_ok_def)

text \<open>A query over the network: the answer of the handler with a header of success, or an error.\<close>

lemma query_over_rpc:
  fixes s :: "('w, 'x) RpcState" and t :: "('w, 'x, 'k) RpcServ"
  assumes call: "unary_call call (serve_query t pr Q R f)" and ok: "server_ok t"
    and fields: "good_field Q" "get_Header R = hdr"
      "rpc_handler hdr (as_handler (f rctx) :: 'q option \<Rightarrow> ('w, 'x) RpcState \<Rightarrow> 'r reply \<times> ('w, 'x) RpcState)"
    and ctx: "createReqCtx t pr (get_Header Q (fill_header (t_GenLogId t) Q q)) = Inr rctx"
    and r: "f rctx (Some (fill_header (t_GenLogId t) Q q)) (st_node s) = (resp, err)"
  shows "err = None \<Longrightarrow> \<exists>h. hdr_Error h = SUCCESS \<and> call q s = (Inr (set_Header R (Some h) resp), s)"
    and "err \<noteq> None \<Longrightarrow> \<exists>e. call q s = (Inl e, s)"
proof -
  have "\<exists>l. serve_query t pr Q R f q s = (Returned (Some (set_Header R (Some (response_header t l err)) resp)) err, s)"
    using rpc_handler.intercepted[OF fields(3,2,1), of t pr q rctx "\<lambda>rctx. body_of (as_handler (f rctx))" s resp err s]
      ok ctx r unfolding serve_query_def server_ok_def by (auto simp: as_handler_def)
  then obtain l where l: "serve_query t pr Q R f q s =
      (Returned (Some (set_Header R (Some (response_header t l err)) resp)) err, s)" by blast
  show "err = None \<Longrightarrow> \<exists>h. hdr_Error h = SUCCESS \<and> call q s = (Inr (set_Header R (Some h) resp), s)"
    using l unary_call.reply_arrives[OF call] success_header[OF ok] by blast
  show "err \<noteq> None \<Longrightarrow> \<exists>e. call q s = (Inl e, s)"
    using l unary_call.error_arrives[OF call] by auto
qed

section \<open>Blocks\<close>

definition blkid_field :: "BlockID header_field" where
  "blkid_field = \<lparr>get_Header = blkid_Header, set_Header = (\<lambda>h m. m\<lparr>blkid_Header := h\<rparr>)\<rparr>"

definition blk_field :: "Block header_field" where
  "blk_field = \<lparr>get_Header = blk_Header, set_Header = (\<lambda>h m. m\<lparr>blk_Header := h\<rparr>)\<rparr>"

definition adst_field :: "AddressStatus header_field" where
  "adst_field = \<lparr>get_Header = adst_Header, set_Header = (\<lambda>h m. m\<lparr>adst_Header := h\<rparr>)\<rparr>"

lemma query_fields_good [simp]: "good_field blkid_field" "good_field blk_field" "good_field adst_field"
  by (simp_all add: good_field_def blkid_field_def blk_field_def adst_field_def)

lemma query_field_simps [simp]:
  "get_Header blkid_field = blkid_Header" "get_Header blk_field = blk_Header" "get_Header adst_field = adst_Header"
  "set_Header blkid_field h q = q\<lparr>blkid_Header := h\<rparr>" "set_Header blk_field h b = b\<lparr>blk_Header := h\<rparr>"
  "set_Header adst_field h a = a\<lparr>adst_Header := h\<rparr>"
  by (simp_all add: blkid_field_def blk_field_def adst_field_def)

text \<open>The block the chain holds under an id, in its readable form.\<close>

definition held_block ::
  "'x xlib \<Rightarrow> ('w, 'x, 'k) ReqCtx \<Rightarrow> string \<Rightarrow> bytes \<Rightarrow> 'w \<Rightarrow> InternalBlock_view \<Rightarrow> bool" where
  "held_block L rctx bcname blockid w v \<longleftrightarrow>
     (\<exists>h info b. NewChainHandle bcname (Some rctx) w = Inr h \<and> QueryBlock h blockid True w = Inr info \<and>
        BlockToXchain (cd_Block L) (xbi_Block info) = Some b \<and> FromInternalBlockPB b = Ret v)"

text \<open>The run of \<open>block\<close>, by the answer of the handler.\<close>

lemma queryBlock_held:
  assumes call: "unary_call (qc_GetBlock C) (serve_query t pr blkid_field blk_field (GetBlock L))"
    and ok: "server_ok t" and id: "hex_decode blockid = Some raw" "raw \<noteq> ''''"
    and log: "e_GenLogId E s = (logid, s')" "logid \<noteq> ''''"
    and ctx: "createReqCtx t pr (log_header logid) = Inr rctx"
  shows "fst (queryBlock E C ro blockid s) = Inr [Json v] \<longleftrightarrow> held_block L rctx (ro_Name ro) raw (st_node s') v"
proof -
  let ?q = "\<lparr>blkid_Header = log_header logid, blkid_Bcname = ro_Name ro, blkid_Blockid = raw, blkid_NeedContent = True\<rparr>"
  have keep: "fill_header (t_GenLogId t) blkid_field ?q = ?q"
    by (rule fill_header_keeps[where h = "new_Header\<lparr>hdr_Logid := logid\<rparr>"])
      (simp_all add: log_header_def log(2))
  obtain resp err where g: "GetBlock L rctx (Some ?q) (st_node s') = (resp, err)"
    by (cases "GetBlock L rctx (Some ?q) (st_node s')")
  note rpc = query_over_rpc[OF call ok, where hdr = blk_Header and s = s' and q = ?q and rctx = rctx, unfolded keep,
      OF _ _ rpc_GetBlock.rpc_handler_axioms _ g]
  have run: "queryBlock E C ro blockid s = io_bind (qc_GetBlock C ?q) (\<lambda>block. io_lift (show_block block)) s'"
    using id(1) log(1) by (simp add: queryBlock_def)
  have held: "held_block L rctx (ro_Name ro) raw (st_node s') v \<longleftrightarrow>
      err = None \<and> (\<exists>b. blk_Block resp = Some b \<and> FromInternalBlockPB b = Ret v)"
    using g id(2) by (auto simp: held_block_def GetBlock_def Let_def NewChainHandle_def split: option.splits sum.splits if_splits)
  show ?thesis
  proof (cases err)
    case None
    then obtain h where h: "hdr_Error h = SUCCESS" "qc_GetBlock C ?q s' = (Inr (set_Header blk_field (Some h) resp), s')"
      using rpc(1) ctx by auto
    then show ?thesis
      unfolding run held using None
      by (auto simp: io_bind_def show_block_def header_ok_def split: option.splits outcome.splits)
  next
    case (Some e)
    then obtain e' where "qc_GetBlock C ?q s' = (Inl e', s')"
      using rpc(2) ctx by auto
    then show ?thesis unfolding run held using Some by (simp add: io_bind_def)
  qed
qed


section \<open>Balances\<close>

text \<open>From end to end, \<open>account balance\<close> succeeds for every account that has a name: it prints the balance the chain
  answers, and an empty line when the node has no such chain or the chain fails, since the error code
  of the entry is not looked at.\<close>

theorem balance_query_end_to_end:
  assumes call: "unary_call (qc_GetBalance C) (serve_query t pr adst_field adst_field GetBalance)"
    and ok: "server_ok t" and account: "account \<noteq> ''''"
    and ctx: "createReqCtx t pr (Some (defReqHeader (t_GenLogId t 0))) = Inr rctx"
  shows "queryBalance C ro False account s =
    (Inr [Line (case NewChainHandle (ro_Name ro) (Some rctx) (st_node s) of
                  Inl err \<Rightarrow> ''''
                | Inr h \<Rightarrow> (case handle_GetBalance h account (st_node s) of Inl err \<Rightarrow> '''' | Inr b \<Rightarrow> b))], s)"
proof -
  let ?q = "new_AddressStatus\<lparr>adst_Address := account,
      adst_Bcs := [\<lparr>tokd_Bcname = ro_Name ro, tokd_Balance = '''', tokd_Error = SUCCESS\<rparr>]\<rparr>"
  let ?q' = "?q\<lparr>adst_Header := Some (defReqHeader (t_GenLogId t 0))\<rparr>"
  let ?resp = "new_AddressStatus\<lparr>adst_Address := account, adst_Bcs :=
      [balance_entry (\<lambda>h. handle_GetBalance h account) rctx (st_node s)
         \<lparr>tokd_Bcname = ro_Name ro, tokd_Balance = '''', tokd_Error = SUCCESS\<rparr>]\<rparr>"
  have fill: "fill_header (t_GenLogId t) adst_field ?q = ?q'"
    using ok by (simp add: fill_header_def defReqHeader_def server_ok_def)
  have g: "GetBalance rctx (Some ?q') (st_node s) = (?resp, None)"
    using account by (simp add: GetBalance_def)
  obtain h where h: "hdr_Error h = SUCCESS" "qc_GetBalance C ?q s = (Inr (set_Header adst_field (Some h) ?resp), s)"
    using query_over_rpc(1)[OF call ok, where hdr = adst_Header and s = s and q = ?q and rctx = rctx, unfolded fill,
      OF _ _ rpc_GetBalance.rpc_handler_axioms _ g] ctx by auto
  show ?thesis
    unfolding queryBalance_def Let_def io_bind_def if_False h(2)
    by (simp add: h(1) header_ok_def balance_entry_def split: sum.splits)
qed

lemma io_bind_fails: "\<exists>e. m s = (Inl e, s) \<Longrightarrow> \<exists>e. io_bind m k s = (Inl e, s)"
  by (auto simp: io_bind_def)

section \<open>The retired consensus queries\<close>

text \<open>The handlers that always refuse, behind the interceptor.\<close>

definition refuses ::
  "('w, 'x, 'k) RpcServ \<Rightarrow> peer \<Rightarrow> 'q header_field \<Rightarrow> 'r header_field \<Rightarrow> ('q option \<Rightarrow> gerr) \<Rightarrow> 'r \<Rightarrow> ('q, 'r, 's) service" where
  "refuses t pr Q R f resp = UnaryInterceptor t Q R (\<lambda>_. body_of (\<lambda>req s. ((resp, Some (f req)), s))) pr"

lemma refuses_fails:
  assumes "unary_call call (refuses t pr Q R f resp)"
  shows "\<exists>e. call q s = (Inl e, s)"
proof -
  have "fst (refuses t pr Q R f resp q s) = Returned r err \<Longrightarrow> err \<noteq> None" for r err
    by (auto simp: refuses_def UnaryInterceptor_def Let_def body_of_def split: sum.splits)
  moreover have "snd (refuses t pr Q R f resp q s) = s"
    by (auto simp: refuses_def UnaryInterceptor_def Let_def body_of_def split: sum.splits)
  ultimately show ?thesis
    using unary_call.fails[OF assms, of q s "fst (refuses t pr Q R f resp q s)" s] by (metis prod.collapse)
qed

definition tdpos_server :: "'s QueryClient \<Rightarrow> ('w, 'x, 'k) RpcServ \<Rightarrow> peer \<Rightarrow> bool" where
  "tdpos_server C t pr \<longleftrightarrow>
     unary_call (qc_DposCandidates C)
       (refuses t pr \<lparr>get_Header = dcq_Header, set_Header = (\<lambda>h m. m\<lparr>dcq_Header := h\<rparr>)\<rparr>
          \<lparr>get_Header = dcr_Header, set_Header = (\<lambda>h m. m\<lparr>dcr_Header := h\<rparr>)\<rparr>
          (\<lambda>q. DposCandidates (map_option dcq_Bcname q)) \<lparr>dcr_Header = None, dcr_CandidatesInfo = []\<rparr>) \<and>
     unary_call (qc_DposNominateRecords C)
       (refuses t pr \<lparr>get_Header = dnq_Header, set_Header = (\<lambda>h m. m\<lparr>dnq_Header := h\<rparr>)\<rparr>
          \<lparr>get_Header = dnr_Header, set_Header = (\<lambda>h m. m\<lparr>dnr_Header := h\<rparr>)\<rparr>
          (\<lambda>q. DposNominateRecords (map_option (\<lambda>q. (dnq_Bcname q, dnq_Address q)) q)) \<lparr>dnr_Header = None, dnr_NominateRecords = []\<rparr>) \<and>
     unary_call (qc_DposNomineeRecords C)
       (refuses t pr \<lparr>get_Header = deq_Header, set_Header = (\<lambda>h m. m\<lparr>deq_Header := h\<rparr>)\<rparr>
          \<lparr>get_Header = der_Header, set_Header = (\<lambda>h m. m\<lparr>der_Header := h\<rparr>)\<rparr>
          (\<lambda>q. DposNomineeRecords (map_option (\<lambda>q. (deq_Bcname q, deq_Address q)) q)) \<lparr>der_Header = None, der_Txid = ''''\<rparr>) \<and>
     unary_call (qc_DposVoteRecords C)
       (refuses t pr \<lparr>get_Header = dvq_Header, set_Header = (\<lambda>h m. m\<lparr>dvq_Header := h\<rparr>)\<rparr>
          \<lparr>get_Header = dvr_Header, set_Header = (\<lambda>h m. m\<lparr>dvr_Header := h\<rparr>)\<rparr>
          (\<lambda>q. DposVoteRecords (map_option (\<lambda>q. (dvq_Bcname q, dvq_Address q)) q)) \<lparr>dvr_Header = None, dvr_VoteTxidRecords = []\<rparr>) \<and>
     unary_call (qc_DposVotedRecords C)
       (refuses t pr \<lparr>get_Header = ddq_Header, set_Header = (\<lambda>h m. m\<lparr>ddq_Header := h\<rparr>)\<rparr>
          \<lparr>get_Header = ddr_Header, set_Header = (\<lambda>h m. m\<lparr>ddr_Header := h\<rparr>)\<rparr>
          (\<lambda>q. DposVotedRecords (map_option (\<lambda>q. (ddq_Bcname q, ddq_Address q)) q)) \<lparr>ddr_Header = None, ddr_VotedTxidRecords = []\<rparr>) \<and>
     unary_call (qc_DposCheckResults C)
       (refuses t pr \<lparr>get_Header = dkq_Header, set_Header = (\<lambda>h m. m\<lparr>dkq_Header := h\<rparr>)\<rparr>
          \<lparr>get_Header = dkr_Header, set_Header = (\<lambda>h m. m\<lparr>dkr_Header := h\<rparr>)\<rparr>
          (\<lambda>q. DposCheckResults (map_option dkq_Bcname q)) \<lparr>dkr_Header = None, dkr_Term = 0, dkr_CheckResult = []\<rparr>) \<and>
     unary_call (qc_DposStatus C)
       (refuses t pr \<lparr>get_Header = dsq_Header, set_Header = (\<lambda>h m. m\<lparr>dsq_Header := h\<rparr>)\<rparr>
          \<lparr>get_Header = dsr_Header, set_Header = (\<lambda>h m. m\<lparr>dsr_Header := h\<rparr>)\<rparr>
          (\<lambda>q. DposStatus (map_option dsq_Bcname q)) \<lparr>dsr_Header = None, dsr_Status = None\<rparr>)"

text \<open>None of the seven \<open>tdpos\<close> queries of the client can succeed against a server of this repository: the handlers
  of all of them refuse every request.\<close>

theorem tdpos_queries_always_fail:
  assumes "tdpos_server C t pr"
  shows "(\<exists>e. queryCandidates C ro s = (Inl e, s)) \<and> (\<exists>e. queryNominateRecords C ro addr s = (Inl e, s)) \<and>
    (\<exists>e. queryNomineeRecord C ro addr s = (Inl e, s)) \<and> (\<exists>e. queryVoteRecords C ro addr s = (Inl e, s)) \<and>
    (\<exists>e. queryVotedRecords C ro addr s = (Inl e, s)) \<and> (\<exists>e. queryCheckResult C ro n s = (Inl e, s)) \<and>
    (\<exists>e. queryConsensusStatus C ro s = (Inl e, s))"
  using assms
  unfolding tdpos_server_def queryCandidates_def queryNominateRecords_def queryNomineeRecord_def queryVoteRecords_def
    queryVotedRecords_def queryCheckResult_def queryConsensusStatus_def
  by (elim conjE) (intro conjI io_bind_fails; erule refuses_fails)

section \<open>Instances\<close>

abbreviation ex_peer :: peer where "ex_peer \<equiv> PeerAddr ''10.0.0.1:99''"

definition ex_connected :: "(nat, string) RpcState QueryClient" where
  "ex_connected = plain_query
     \<lparr>qc_GetBlock := channel (serve_query ex_server ex_peer blkid_field blk_field (GetBlock ex_lib)),
      qc_GetBalance := channel (serve_query ex_server ex_peer adst_field adst_field GetBalance)\<rparr>"

lemma ex_server_ok: "server_ok ex_server"
proof -
  have "t_CastError ex_server e \<noteq> t_code ex_server ErrSuccess" for e
    by (cases e) (simp_all add: ex_server_def NewRpcServ_def)
  then show ?thesis by (simp add: server_ok_def ex_server_def NewRpcServ_def ex_code_inj)
qed


lemma balance_query_end_to_end_witness:
  "queryBalance ex_connected (ex_root\<lparr>ro_Name := ''other''\<rparr>) False ''alice'' ex_state = (Inr [Line ''''], ex_state)"
proof -
  let ?rctx = "\<lparr>rc_Engine = Some ex_engine, rc_LogId = ''gen'', rc_ClientIp = ''10.0.0.1''\<rparr>"
  have c: "unary_call (qc_GetBalance ex_connected) (serve_query ex_server ex_peer adst_field adst_field GetBalance)"
    by (simp add: ex_connected_def channel.unary_call_axioms)
  have x: "createReqCtx ex_server ex_peer (Some (defReqHeader (t_GenLogId ex_server 0))) = Inr ?rctx"
    by (simp only: ex_server_ctx) (simp add: defReqHeader_def ex_server_def NewRpcServ_def)
  show ?thesis
    using balance_query_end_to_end[OF c ex_server_ok _ x, of "''alice''" "ex_root\<lparr>ro_Name := ''other''\<rparr>" ex_state]
    by (simp add: NewChainHandle_def ex_engine_def)
qed

definition ex_retired :: "(nat, string) RpcState QueryClient" where
  "ex_retired = plain_query
     \<lparr>qc_DposCandidates := channel
       (refuses ex_server ex_peer \<lparr>get_Header = dcq_Header, set_Header = (\<lambda>h m. m\<lparr>dcq_Header := h\<rparr>)\<rparr>
          \<lparr>get_Header = dcr_Header, set_Header = (\<lambda>h m. m\<lparr>dcr_Header := h\<rparr>)\<rparr>
          (\<lambda>q. DposCandidates (map_option dcq_Bcname q)) \<lparr>dcr_Header = None, dcr_CandidatesInfo = []\<rparr>),
      qc_DposNominateRecords := channel
       (refuses ex_server ex_peer \<lparr>get_Header = dnq_Header, set_Header = (\<lambda>h m. m\<lparr>dnq_Header := h\<rparr>)\<rparr>
          \<lparr>get_Header = dnr_Header, set_Header = (\<lambda>h m. m\<lparr>dnr_Header := h\<rparr>)\<rparr>
          (\<lambda>q. DposNominateRecords (map_option (\<lambda>q. (dnq_Bcname q, dnq_Address q)) q)) \<lparr>dnr_Header = None, dnr_NominateRecords = []\<rparr>),
      qc_DposNomineeRecords := channel
       (refuses ex_server ex_peer \<lparr>get_Header = deq_Header, set_Header = (\<lambda>h m. m\<lparr>deq_Header := h\<rparr>)\<rparr>
          \<lparr>get_Header = der_Header, set_Header = (\<lambda>h m. m\<lparr>der_Header := h\<rparr>)\<rparr>
          (\<lambda>q. DposNomineeRecords (map_option (\<lambda>q. (deq_Bcname q, deq_Address q)) q)) \<lparr>der_Header = None, der_Txid = ''''\<rparr>),
      qc_DposVoteRecords := channel
       (refuses ex_server ex_peer \<lparr>get_Header = dvq_Header, set_Header = (\<lambda>h m. m\<lparr>dvq_Header := h\<rparr>)\<rparr>
          \<lparr>get_Header = dvr_Header, set_Header = (\<lambda>h m. m\<lparr>dvr_Header := h\<rparr>)\<rparr>
          (\<lambda>q. DposVoteRecords (map_option (\<lambda>q. (dvq_Bcname q, dvq_Address q)) q)) \<lparr>dvr_Header = None, dvr_VoteTxidRecords = []\<rparr>),
      qc_DposVotedRecords := channel
       (refuses ex_server ex_peer \<lparr>get_Header = ddq_Header, set_Header = (\<lambda>h m. m\<lparr>ddq_Header := h\<rparr>)\<rparr>
          \<lparr>get_Header = ddr_Header, set_Header = (\<lambda>h m. m\<lparr>ddr_Header := h\<rparr>)\<rparr>
          (\<lambda>q. DposVotedRecords (map_option (\<lambda>q. (ddq_Bcname q, ddq_Address q)) q)) \<lparr>ddr_Header = None, ddr_VotedTxidRecords = []\<rparr>),
      qc_DposCheckResults := channel
       (refuses ex_server ex_peer \<lparr>get_Header = dkq_Header, set_Header = (\<lambda>h m. m\<lparr>dkq_Header := h\<rparr>)\<rparr>
          \<lparr>get_Header = dkr_Header, set_Header = (\<lambda>h m. m\<lparr>dkr_Header := h\<rparr>)\<rparr>
          (\<lambda>q. DposCheckResults (map_option dkq_Bcname q)) \<lparr>dkr_Header = None, dkr_Term = 0, dkr_CheckResult = []\<rparr>),
      qc_DposStatus := channel
       (refuses ex_server ex_peer \<lparr>get_Header = dsq_Header, set_Header = (\<lambda>h m. m\<lparr>dsq_Header := h\<rparr>)\<rparr>
          \<lparr>get_Header = dsr_Header, set_Header = (\<lambda>h m. m\<lparr>dsr_Header := h\<rparr>)\<rparr>
          (\<lambda>q. DposStatus (map_option dsq_Bcname q)) \<lparr>dsr_Header = None, dsr_Status = None\<rparr>)\<rparr>"

lemma tdpos_queries_always_fail_witness:
  "\<exists>e. queryCandidates ex_retired ex_root ex_state = (Inl e, ex_state)"
proof -
  have "tdpos_server ex_retired ex_server ex_peer"
    by (simp add: tdpos_server_def ex_retired_def channel.unary_call_axioms)
  from tdpos_queries_always_fail[OF this] show ?thesis by blast
qed

end
