(* ===== verification/Service.thy ===== *)
theory Service
  imports EndToEnd
begin

text \<open>
  The RPC service as a whole: which handler of \<open>api.go\<close> answers which method, as the service descriptor of
  \<open>service/pb/xchain.pb.go\<close> lists them, each behind the interceptor of \<open>rpc.go\<close>; and a server that answers a
  sequence of requests.  A handler runs to its end before the next one starts.
\<close>

section \<open>Messages\<close>

text \<open>The requests of the 29 methods, and the responses as one type.\<close>

datatype rpc_request =
    SelectUTXOBySize_Req UtxoInput
  | PostTx_Req TxStatus
  | QueryACL_Req AclStatus
  | QueryUtxoRecord_Req UtxoRecordDetail
  | QueryContractStatData_Req ContractStatDataRequest
  | GetAccountContracts_Req GetAccountContractsRequest
  | QueryTx_Req TxStatus
  | GetBalance_Req AddressStatus
  | GetBalanceDetail_Req AddressBalanceStatus
  | GetFrozenBalance_Req AddressStatus
  | GetBlock_Req BlockID
  | GetBlockByHeight_Req BlockHeight
  | GetBlockChainStatus_Req BCStatus
  | GetBlockChains_Req CommonIn
  | GetSystemStatus_Req CommonIn
  | GetConsensusStatus_Req ConsensusStatRequest
  | GetNetURL_Req CommonIn
  | SelectUTXO_Req UtxoInput
  | PreExecWithSelectUTXO_Req PreExecWithSelectUTXORequest
  | DposCandidates_Req DposCandidatesRequest
  | DposNominateRecords_Req DposNominateRecordsRequest
  | DposNomineeRecords_Req DposNomineeRecordsRequest
  | DposVoteRecords_Req DposVoteRecordsRequest
  | DposVotedRecords_Req DposVotedRecordsRequest
  | DposCheckResults_Req DposCheckResultsRequest
  | DposStatus_Req DposStatusRequest
  | GetAccountByAK_Req AK2AccountRequest
  | GetAddressContracts_Req AddressContractsRequest
  | PreExec_Req InvokeRPCRequest

datatype proto_message =
    UtxoOutput_Msg UtxoOutput
  | CommonReply_Msg CommonReply
  | AclStatus_Msg AclStatus
  | UtxoRecordDetail_Msg UtxoRecordDetail
  | ContractStatDataResponse_Msg ContractStatDataResponse
  | GetAccountContractsResponse_Msg GetAccountContractsResponse
  | TxStatus_Msg TxStatus
  | AddressStatus_Msg AddressStatus
  | AddressBalanceStatus_Msg AddressBalanceStatus
  | Block_Msg Block
  | BCStatus_Msg BCStatus
  | BlockChains_Msg BlockChains
  | SystemsStatusReply_Msg SystemsStatusReply
  | ConsensusStatus_Msg ConsensusStatus
  | RawUrl_Msg RawUrl
  | PreExecWithSelectUTXOResponse_Msg PreExecWithSelectUTXOResponse
  | DposCandidatesResponse_Msg DposCandidatesResponse
  | DposNominateRecordsResponse_Msg DposNominateRecordsResponse
  | DposNomineeRecordsResponse_Msg DposNomineeRecordsResponse
  | DposVoteRecordsResponse_Msg DposVoteRecordsResponse
  | DposVotedRecordsResponse_Msg DposVotedRecordsResponse
  | DposCheckResultsResponse_Msg DposCheckResultsResponse
  | DposStatusResponse_Msg DposStatusResponse
  | AK2AccountResponse_Msg AK2AccountResponse
  | AddressContractsResponse_Msg AddressContractsResponse
  | InvokeRPCResponse_Msg InvokeRPCResponse

text \<open>The header field of each message that the interceptor of the code finds by reflection.\<close>

definition uin_field :: "UtxoInput header_field" where
  "uin_field = \<lparr>get_Header = uin_Header, set_Header = (\<lambda>h m. m\<lparr>uin_Header := h\<rparr>)\<rparr>"

definition uout_field :: "UtxoOutput header_field" where
  "uout_field = \<lparr>get_Header = uout_Header, set_Header = (\<lambda>h m. m\<lparr>uout_Header := h\<rparr>)\<rparr>"

definition acst_field :: "AclStatus header_field" where
  "acst_field = \<lparr>get_Header = acst_Header, set_Header = (\<lambda>h m. m\<lparr>acst_Header := h\<rparr>)\<rparr>"

definition urd_field :: "UtxoRecordDetail header_field" where
  "urd_field = \<lparr>get_Header = urd_Header, set_Header = (\<lambda>h m. m\<lparr>urd_Header := h\<rparr>)\<rparr>"

definition csdreq_field :: "ContractStatDataRequest header_field" where
  "csdreq_field = \<lparr>get_Header = csdreq_Header, set_Header = (\<lambda>h m. m\<lparr>csdreq_Header := h\<rparr>)\<rparr>"

definition csdres_field :: "ContractStatDataResponse header_field" where
  "csdres_field = \<lparr>get_Header = csdres_Header, set_Header = (\<lambda>h m. m\<lparr>csdres_Header := h\<rparr>)\<rparr>"

definition gacreq_field :: "GetAccountContractsRequest header_field" where
  "gacreq_field = \<lparr>get_Header = gacreq_Header, set_Header = (\<lambda>h m. m\<lparr>gacreq_Header := h\<rparr>)\<rparr>"

definition gacres_field :: "GetAccountContractsResponse header_field" where
  "gacres_field = \<lparr>get_Header = gacres_Header, set_Header = (\<lambda>h m. m\<lparr>gacres_Header := h\<rparr>)\<rparr>"

definition abst_field :: "AddressBalanceStatus header_field" where
  "abst_field = \<lparr>get_Header = abst_Header, set_Header = (\<lambda>h m. m\<lparr>abst_Header := h\<rparr>)\<rparr>"

definition blkh_field :: "BlockHeight header_field" where
  "blkh_field = \<lparr>get_Header = blkh_Header, set_Header = (\<lambda>h m. m\<lparr>blkh_Header := h\<rparr>)\<rparr>"

definition bcst_field :: "BCStatus header_field" where
  "bcst_field = \<lparr>get_Header = bcst_Header, set_Header = (\<lambda>h m. m\<lparr>bcst_Header := h\<rparr>)\<rparr>"

definition cin_field :: "CommonIn header_field" where
  "cin_field = \<lparr>get_Header = cin_Header, set_Header = (\<lambda>h m. m\<lparr>cin_Header := h\<rparr>)\<rparr>"

definition bchs_field :: "BlockChains header_field" where
  "bchs_field = \<lparr>get_Header = bchs_Header, set_Header = (\<lambda>h m. m\<lparr>bchs_Header := h\<rparr>)\<rparr>"

definition systr_field :: "SystemsStatusReply header_field" where
  "systr_field = \<lparr>get_Header = systr_Header, set_Header = (\<lambda>h m. m\<lparr>systr_Header := h\<rparr>)\<rparr>"

definition csreq_field :: "ConsensusStatRequest header_field" where
  "csreq_field = \<lparr>get_Header = csreq_Header, set_Header = (\<lambda>h m. m\<lparr>csreq_Header := h\<rparr>)\<rparr>"

definition cons_field :: "ConsensusStatus header_field" where
  "cons_field = \<lparr>get_Header = cons_Header, set_Header = (\<lambda>h m. m\<lparr>cons_Header := h\<rparr>)\<rparr>"

definition rurl_field :: "RawUrl header_field" where
  "rurl_field = \<lparr>get_Header = rurl_Header, set_Header = (\<lambda>h m. m\<lparr>rurl_Header := h\<rparr>)\<rparr>"

definition pesreq_field :: "PreExecWithSelectUTXORequest header_field" where
  "pesreq_field = \<lparr>get_Header = pesreq_Header, set_Header = (\<lambda>h m. m\<lparr>pesreq_Header := h\<rparr>)\<rparr>"

definition pesres_field :: "PreExecWithSelectUTXOResponse header_field" where
  "pesres_field = \<lparr>get_Header = pesres_Header, set_Header = (\<lambda>h m. m\<lparr>pesres_Header := h\<rparr>)\<rparr>"

definition dcq_field :: "DposCandidatesRequest header_field" where
  "dcq_field = \<lparr>get_Header = dcq_Header, set_Header = (\<lambda>h m. m\<lparr>dcq_Header := h\<rparr>)\<rparr>"

definition dcr_field :: "DposCandidatesResponse header_field" where
  "dcr_field = \<lparr>get_Header = dcr_Header, set_Header = (\<lambda>h m. m\<lparr>dcr_Header := h\<rparr>)\<rparr>"

definition dnq_field :: "DposNominateRecordsRequest header_field" where
  "dnq_field = \<lparr>get_Header = dnq_Header, set_Header = (\<lambda>h m. m\<lparr>dnq_Header := h\<rparr>)\<rparr>"

definition dnr_field :: "DposNominateRecordsResponse header_field" where
  "dnr_field = \<lparr>get_Header = dnr_Header, set_Header = (\<lambda>h m. m\<lparr>dnr_Header := h\<rparr>)\<rparr>"

definition deq_field :: "DposNomineeRecordsRequest header_field" where
  "deq_field = \<lparr>get_Header = deq_Header, set_Header = (\<lambda>h m. m\<lparr>deq_Header := h\<rparr>)\<rparr>"

definition der_field :: "DposNomineeRecordsResponse header_field" where
  "der_field = \<lparr>get_Header = der_Header, set_Header = (\<lambda>h m. m\<lparr>der_Header := h\<rparr>)\<rparr>"

definition dvq_field :: "DposVoteRecordsRequest header_field" where
  "dvq_field = \<lparr>get_Header = dvq_Header, set_Header = (\<lambda>h m. m\<lparr>dvq_Header := h\<rparr>)\<rparr>"

definition dvr_field :: "DposVoteRecordsResponse header_field" where
  "dvr_field = \<lparr>get_Header = dvr_Header, set_Header = (\<lambda>h m. m\<lparr>dvr_Header := h\<rparr>)\<rparr>"

definition ddq_field :: "DposVotedRecordsRequest header_field" where
  "ddq_field = \<lparr>get_Header = ddq_Header, set_Header = (\<lambda>h m. m\<lparr>ddq_Header := h\<rparr>)\<rparr>"

definition ddr_field :: "DposVotedRecordsResponse header_field" where
  "ddr_field = \<lparr>get_Header = ddr_Header, set_Header = (\<lambda>h m. m\<lparr>ddr_Header := h\<rparr>)\<rparr>"

definition dkq_field :: "DposCheckResultsRequest header_field" where
  "dkq_field = \<lparr>get_Header = dkq_Header, set_Header = (\<lambda>h m. m\<lparr>dkq_Header := h\<rparr>)\<rparr>"

definition dkr_field :: "DposCheckResultsResponse header_field" where
  "dkr_field = \<lparr>get_Header = dkr_Header, set_Header = (\<lambda>h m. m\<lparr>dkr_Header := h\<rparr>)\<rparr>"

definition dsq_field :: "DposStatusRequest header_field" where
  "dsq_field = \<lparr>get_Header = dsq_Header, set_Header = (\<lambda>h m. m\<lparr>dsq_Header := h\<rparr>)\<rparr>"

definition dsr_field :: "DposStatusResponse header_field" where
  "dsr_field = \<lparr>get_Header = dsr_Header, set_Header = (\<lambda>h m. m\<lparr>dsr_Header := h\<rparr>)\<rparr>"

definition akreq_field :: "AK2AccountRequest header_field" where
  "akreq_field = \<lparr>get_Header = akreq_Header, set_Header = (\<lambda>h m. m\<lparr>akreq_Header := h\<rparr>)\<rparr>"

definition akres_field :: "AK2AccountResponse header_field" where
  "akres_field = \<lparr>get_Header = akres_Header, set_Header = (\<lambda>h m. m\<lparr>akres_Header := h\<rparr>)\<rparr>"

definition acreq_field :: "AddressContractsRequest header_field" where
  "acreq_field = \<lparr>get_Header = acreq_Header, set_Header = (\<lambda>h m. m\<lparr>acreq_Header := h\<rparr>)\<rparr>"

definition acres_field :: "AddressContractsResponse header_field" where
  "acres_field = \<lparr>get_Header = acres_Header, set_Header = (\<lambda>h m. m\<lparr>acres_Header := h\<rparr>)\<rparr>"

definition irpc_field :: "InvokeRPCRequest header_field" where
  "irpc_field = \<lparr>get_Header = irpc_Header, set_Header = (\<lambda>h m. m\<lparr>irpc_Header := h\<rparr>)\<rparr>"

definition irpr_field :: "InvokeRPCResponse header_field" where
  "irpr_field = \<lparr>get_Header = irpr_Header, set_Header = (\<lambda>h m. m\<lparr>irpr_Header := h\<rparr>)\<rparr>"

lemmas message_field_defs =
  uin_field_def uout_field_def acst_field_def urd_field_def csdreq_field_def csdres_field_def gacreq_field_def
  gacres_field_def abst_field_def blkh_field_def bcst_field_def cin_field_def bchs_field_def systr_field_def
  csreq_field_def cons_field_def rurl_field_def pesreq_field_def pesres_field_def dcq_field_def dcr_field_def
  dnq_field_def dnr_field_def deq_field_def der_field_def dvq_field_def dvr_field_def ddq_field_def
  ddr_field_def dkq_field_def dkr_field_def dsq_field_def dsr_field_def akreq_field_def akres_field_def
  acreq_field_def acres_field_def irpc_field_def irpr_field_def adst_field_def blk_field_def blkid_field_def
  crep_field_def txst_field_def

lemma message_fields [simp]:
  "good_field uin_field" "good_field uout_field" "good_field acst_field" "good_field urd_field"
  "good_field csdreq_field" "good_field csdres_field" "good_field gacreq_field" "good_field gacres_field"
  "good_field abst_field" "good_field blkh_field" "good_field bcst_field" "good_field cin_field"
  "good_field bchs_field" "good_field systr_field" "good_field csreq_field" "good_field cons_field"
  "good_field rurl_field" "good_field pesreq_field" "good_field pesres_field" "good_field dcq_field"
  "good_field dcr_field" "good_field dnq_field" "good_field dnr_field" "good_field deq_field"
  "good_field der_field" "good_field dvq_field" "good_field dvr_field" "good_field ddq_field"
  "good_field ddr_field" "good_field dkq_field" "good_field dkr_field" "good_field dsq_field"
  "good_field dsr_field" "good_field akreq_field" "good_field akres_field" "good_field acreq_field"
  "good_field acres_field" "good_field irpc_field" "good_field irpr_field"
  by (simp_all add: good_field_def message_field_defs)

lemma message_gets [simp]:
  "get_Header uin_field = uin_Header" "get_Header uout_field = uout_Header"
  "get_Header acst_field = acst_Header" "get_Header urd_field = urd_Header"
  "get_Header csdreq_field = csdreq_Header" "get_Header csdres_field = csdres_Header"
  "get_Header gacreq_field = gacreq_Header" "get_Header gacres_field = gacres_Header"
  "get_Header abst_field = abst_Header" "get_Header blkh_field = blkh_Header"
  "get_Header bcst_field = bcst_Header" "get_Header cin_field = cin_Header"
  "get_Header bchs_field = bchs_Header" "get_Header systr_field = systr_Header"
  "get_Header csreq_field = csreq_Header" "get_Header cons_field = cons_Header"
  "get_Header rurl_field = rurl_Header" "get_Header pesreq_field = pesreq_Header"
  "get_Header pesres_field = pesres_Header" "get_Header dcq_field = dcq_Header"
  "get_Header dcr_field = dcr_Header" "get_Header dnq_field = dnq_Header" "get_Header dnr_field = dnr_Header"
  "get_Header deq_field = deq_Header" "get_Header der_field = der_Header" "get_Header dvq_field = dvq_Header"
  "get_Header dvr_field = dvr_Header" "get_Header ddq_field = ddq_Header" "get_Header ddr_field = ddr_Header"
  "get_Header dkq_field = dkq_Header" "get_Header dkr_field = dkr_Header" "get_Header dsq_field = dsq_Header"
  "get_Header dsr_field = dsr_Header" "get_Header akreq_field = akreq_Header"
  "get_Header akres_field = akres_Header" "get_Header acreq_field = acreq_Header"
  "get_Header acres_field = acres_Header" "get_Header irpc_field = irpc_Header"
  "get_Header irpr_field = irpr_Header" "get_Header txst_field = txst_Header"
  "get_Header crep_field = crep_Header"
  by (simp_all add: message_field_defs)

primrec req_header :: "rpc_request \<Rightarrow> Header option" where
  "req_header (SelectUTXOBySize_Req q) = uin_Header q"
| "req_header (PostTx_Req q) = txst_Header q"
| "req_header (QueryACL_Req q) = acst_Header q"
| "req_header (QueryUtxoRecord_Req q) = urd_Header q"
| "req_header (QueryContractStatData_Req q) = csdreq_Header q"
| "req_header (GetAccountContracts_Req q) = gacreq_Header q"
| "req_header (QueryTx_Req q) = txst_Header q"
| "req_header (GetBalance_Req q) = adst_Header q"
| "req_header (GetBalanceDetail_Req q) = abst_Header q"
| "req_header (GetFrozenBalance_Req q) = adst_Header q"
| "req_header (GetBlock_Req q) = blkid_Header q"
| "req_header (GetBlockByHeight_Req q) = blkh_Header q"
| "req_header (GetBlockChainStatus_Req q) = bcst_Header q"
| "req_header (GetBlockChains_Req q) = cin_Header q"
| "req_header (GetSystemStatus_Req q) = cin_Header q"
| "req_header (GetConsensusStatus_Req q) = csreq_Header q"
| "req_header (GetNetURL_Req q) = cin_Header q"
| "req_header (SelectUTXO_Req q) = uin_Header q"
| "req_header (PreExecWithSelectUTXO_Req q) = pesreq_Header q"
| "req_header (DposCandidates_Req q) = dcq_Header q"
| "req_header (DposNominateRecords_Req q) = dnq_Header q"
| "req_header (DposNomineeRecords_Req q) = deq_Header q"
| "req_header (DposVoteRecords_Req q) = dvq_Header q"
| "req_header (DposVotedRecords_Req q) = ddq_Header q"
| "req_header (DposCheckResults_Req q) = dkq_Header q"
| "req_header (DposStatus_Req q) = dsq_Header q"
| "req_header (GetAccountByAK_Req q) = akreq_Header q"
| "req_header (GetAddressContracts_Req q) = acreq_Header q"
| "req_header (PreExec_Req q) = irpc_Header q"

primrec msg_header :: "proto_message \<Rightarrow> Header option" where
  "msg_header (UtxoOutput_Msg m) = uout_Header m"
| "msg_header (CommonReply_Msg m) = crep_Header m"
| "msg_header (AclStatus_Msg m) = acst_Header m"
| "msg_header (UtxoRecordDetail_Msg m) = urd_Header m"
| "msg_header (ContractStatDataResponse_Msg m) = csdres_Header m"
| "msg_header (GetAccountContractsResponse_Msg m) = gacres_Header m"
| "msg_header (TxStatus_Msg m) = txst_Header m"
| "msg_header (AddressStatus_Msg m) = adst_Header m"
| "msg_header (AddressBalanceStatus_Msg m) = abst_Header m"
| "msg_header (Block_Msg m) = blk_Header m"
| "msg_header (BCStatus_Msg m) = bcst_Header m"
| "msg_header (BlockChains_Msg m) = bchs_Header m"
| "msg_header (SystemsStatusReply_Msg m) = systr_Header m"
| "msg_header (ConsensusStatus_Msg m) = cons_Header m"
| "msg_header (RawUrl_Msg m) = rurl_Header m"
| "msg_header (PreExecWithSelectUTXOResponse_Msg m) = pesres_Header m"
| "msg_header (DposCandidatesResponse_Msg m) = dcr_Header m"
| "msg_header (DposNominateRecordsResponse_Msg m) = dnr_Header m"
| "msg_header (DposNomineeRecordsResponse_Msg m) = der_Header m"
| "msg_header (DposVoteRecordsResponse_Msg m) = dvr_Header m"
| "msg_header (DposVotedRecordsResponse_Msg m) = ddr_Header m"
| "msg_header (DposCheckResultsResponse_Msg m) = dkr_Header m"
| "msg_header (DposStatusResponse_Msg m) = dsr_Header m"
| "msg_header (AK2AccountResponse_Msg m) = akres_Header m"
| "msg_header (AddressContractsResponse_Msg m) = acres_Header m"
| "msg_header (InvokeRPCResponse_Msg m) = irpr_Header m"

section \<open>The methods\<close>

text \<open>A handler that may panic, as the body of an intercepted call.\<close>

definition panicking_body :: "('q option \<Rightarrow> 'w \<Rightarrow> 'r reply outcome) \<Rightarrow> ('q, 'r, ('w, 'x) RpcState) rpc_body" where
  "panicking_body f req s =
     (case f (Some req) (st_node s) of Panic \<Rightarrow> Panic | Ret (resp, err) \<Rightarrow> Ret (Some resp, err), s)"

definition wrap_reply :: "('r \<Rightarrow> proto_message) \<Rightarrow> 'r rpc_result \<times> 's \<Rightarrow> proto_message rpc_result \<times> 's" where
  "wrap_reply C rs = (map_rpc_result C (fst rs), snd rs)"

primrec serve ::
  "('w, 'x, 'k) RpcServ \<Rightarrow> 'x xlib \<Rightarrow> peer \<Rightarrow> rpc_request \<Rightarrow> ('w, 'x) RpcState \<Rightarrow>
   proto_message rpc_result \<times> ('w, 'x) RpcState" where
  "serve t L pr (SelectUTXOBySize_Req q) s =
     wrap_reply UtxoOutput_Msg (UnaryInterceptor t uin_field uout_field (\<lambda>rctx. body_of (SelectUTXOBySize L rctx)) pr q s)"
| "serve t L pr (PostTx_Req q) s =
     wrap_reply CommonReply_Msg (UnaryInterceptor t txst_field crep_field (\<lambda>rctx. body_of (PostTx L rctx)) pr q s)"
| "serve t L pr (QueryACL_Req q) s =
     wrap_reply AclStatus_Msg (serve_query t pr acst_field acst_field (\<lambda>rctx. QueryACL L rctx) q s)"
| "serve t L pr (QueryUtxoRecord_Req q) s =
     wrap_reply UtxoRecordDetail_Msg (serve_query t pr urd_field urd_field (\<lambda>rctx. QueryUtxoRecord rctx) q s)"
| "serve t L pr (QueryContractStatData_Req q) s =
     wrap_reply ContractStatDataResponse_Msg (serve_query t pr csdreq_field csdres_field (\<lambda>rctx. QueryContractStatData rctx) q s)"
| "serve t L pr (GetAccountContracts_Req q) s =
     wrap_reply GetAccountContractsResponse_Msg (serve_query t pr gacreq_field gacres_field (\<lambda>rctx. GetAccountContracts L rctx) q s)"
| "serve t L pr (QueryTx_Req q) s =
     wrap_reply TxStatus_Msg (serve_query t pr txst_field txst_field (\<lambda>rctx. QueryTx L rctx) q s)"
| "serve t L pr (GetBalance_Req q) s =
     wrap_reply AddressStatus_Msg (serve_query t pr adst_field adst_field (\<lambda>rctx. GetBalance rctx) q s)"
| "serve t L pr (GetBalanceDetail_Req q) s =
     wrap_reply AddressBalanceStatus_Msg (serve_query t pr abst_field abst_field (\<lambda>rctx. GetBalanceDetail L rctx) q s)"
| "serve t L pr (GetFrozenBalance_Req q) s =
     wrap_reply AddressStatus_Msg (serve_query t pr adst_field adst_field (\<lambda>rctx. GetFrozenBalance rctx) q s)"
| "serve t L pr (GetBlock_Req q) s =
     wrap_reply Block_Msg (serve_query t pr blkid_field blk_field (\<lambda>rctx. GetBlock L rctx) q s)"
| "serve t L pr (GetBlockByHeight_Req q) s =
     wrap_reply Block_Msg (serve_query t pr blkh_field blk_field (\<lambda>rctx. GetBlockByHeight L rctx) q s)"
| "serve t L pr (GetBlockChainStatus_Req q) s =
     wrap_reply BCStatus_Msg (serve_query t pr bcst_field bcst_field (\<lambda>rctx. GetBlockChainStatus L rctx) q s)"
| "serve t L pr (GetBlockChains_Req q) s =
     wrap_reply BlockChains_Msg (serve_query t pr cin_field bchs_field (\<lambda>rctx. GetBlockChains (t_engine t)) q s)"
| "serve t L pr (GetSystemStatus_Req q) s =
     wrap_reply SystemsStatusReply_Msg (serve_query t pr cin_field systr_field (\<lambda>rctx. GetSystemStatus L (t_engine t) rctx) q s)"
| "serve t L pr (GetConsensusStatus_Req q) s =
     wrap_reply ConsensusStatus_Msg (serve_query t pr csreq_field cons_field (\<lambda>rctx. GetConsensusStatus rctx) q s)"
| "serve t L pr (GetNetURL_Req q) s =
     wrap_reply RawUrl_Msg (serve_query t pr cin_field rurl_field (\<lambda>rctx. GetNetURL (t_engine t)) q s)"
| "serve t L pr (SelectUTXO_Req q) s =
     wrap_reply UtxoOutput_Msg (UnaryInterceptor t uin_field uout_field (\<lambda>rctx. body_of (SelectUTXO L rctx)) pr q s)"
| "serve t L pr (PreExecWithSelectUTXO_Req q) s =
     wrap_reply PreExecWithSelectUTXOResponse_Msg (UnaryInterceptor t pesreq_field pesres_field (\<lambda>rctx. body_of (PreExecWithSelectUTXO L rctx)) pr q s)"
| "serve t L pr (DposCandidates_Req q) s =
     wrap_reply DposCandidatesResponse_Msg (refuses t pr dcq_field dcr_field
        (\<lambda>q. DposCandidates (map_option dcq_Bcname q)) \<lparr>dcr_Header = None, dcr_CandidatesInfo = []\<rparr> q s)"
| "serve t L pr (DposNominateRecords_Req q) s =
     wrap_reply DposNominateRecordsResponse_Msg (refuses t pr dnq_field dnr_field
        (\<lambda>q. DposNominateRecords (map_option (\<lambda>q. (dnq_Bcname q, dnq_Address q)) q)) \<lparr>dnr_Header = None, dnr_NominateRecords = []\<rparr> q s)"
| "serve t L pr (DposNomineeRecords_Req q) s =
     wrap_reply DposNomineeRecordsResponse_Msg (refuses t pr deq_field der_field
        (\<lambda>q. DposNomineeRecords (map_option (\<lambda>q. (deq_Bcname q, deq_Address q)) q)) \<lparr>der_Header = None, der_Txid = ''''\<rparr> q s)"
| "serve t L pr (DposVoteRecords_Req q) s =
     wrap_reply DposVoteRecordsResponse_Msg (refuses t pr dvq_field dvr_field
        (\<lambda>q. DposVoteRecords (map_option (\<lambda>q. (dvq_Bcname q, dvq_Address q)) q)) \<lparr>dvr_Header = None, dvr_VoteTxidRecords = []\<rparr> q s)"
| "serve t L pr (DposVotedRecords_Req q) s =
     wrap_reply DposVotedRecordsResponse_Msg (refuses t pr ddq_field ddr_field
        (\<lambda>q. DposVotedRecords (map_option (\<lambda>q. (ddq_Bcname q, ddq_Address q)) q)) \<lparr>ddr_Header = None, ddr_VotedTxidRecords = []\<rparr> q s)"
| "serve t L pr (DposCheckResults_Req q) s =
     wrap_reply DposCheckResultsResponse_Msg (refuses t pr dkq_field dkr_field
        (\<lambda>q. DposCheckResults (map_option dkq_Bcname q)) \<lparr>dkr_Header = None, dkr_Term = 0, dkr_CheckResult = []\<rparr> q s)"
| "serve t L pr (DposStatus_Req q) s =
     wrap_reply DposStatusResponse_Msg (refuses t pr dsq_field dsr_field
        (\<lambda>q. DposStatus (map_option dsq_Bcname q)) \<lparr>dsr_Header = None, dsr_Status = None\<rparr> q s)"
| "serve t L pr (GetAccountByAK_Req q) s =
     wrap_reply AK2AccountResponse_Msg (serve_query t pr akreq_field akres_field (\<lambda>rctx. GetAccountByAK rctx) q s)"
| "serve t L pr (GetAddressContracts_Req q) s =
     wrap_reply AddressContractsResponse_Msg (UnaryInterceptor t acreq_field acres_field (\<lambda>rctx. panicking_body (GetAddressContracts L rctx)) pr q s)"
| "serve t L pr (PreExec_Req q) s =
     wrap_reply InvokeRPCResponse_Msg (UnaryInterceptor t irpc_field irpr_field (\<lambda>rctx. body_of (PreExec L rctx)) pr q s)"

section \<open>What a reply says\<close>

text \<open>The log id a request is answered under: its own, or a generated one.\<close>

definition request_logid :: "('w, 'x, 'k) RpcServ \<Rightarrow> rpc_request \<Rightarrow> string" where
  "request_logid t req =
     (case req_header req of
        None \<Rightarrow> t_GenLogId t 0
      | Some h \<Rightarrow> if hdr_Logid h = '''' then t_GenLogId t 1 else hdr_Logid h)"

lemma filled_header:
  assumes "good_field Q" "server_ok t"
  shows "\<exists>hdr. get_Header Q (fill_header (t_GenLogId t) Q q) = Some hdr \<and> hdr_Logid hdr =
    (case get_Header Q q of
       None \<Rightarrow> t_GenLogId t 0 | Some h \<Rightarrow> if hdr_Logid h = '''' then t_GenLogId t 1 else hdr_Logid h)"
  using assms
  by (cases "get_Header Q q") (auto simp: fill_header_def good_field_def defReqHeader_def server_ok_def Let_def)

text \<open>A handler behind the interceptor leaves the header of its response to it.\<close>

definition leaves_unset :: "'r header_field \<Rightarrow> ('c \<Rightarrow> ('q, 'r, 's) rpc_body) \<Rightarrow> bool" where
  "leaves_unset R H \<longleftrightarrow>
     (\<forall>rctx req s m e s1. H rctx req s = (Ret (Some m, e), s1) \<longrightarrow> get_Header R m = None)"

lemma intercept_reply:
  assumes run: "UnaryInterceptor t Q R H pr q s = (Returned (Some m) err, s')"
    and fields: "good_field Q" "good_field R" and ok: "server_ok t" and unset: "leaves_unset R H"
  shows "\<exists>hdr. get_Header Q (fill_header (t_GenLogId t) Q q) = Some hdr \<and>
    get_Header R m = Some (response_header t (hdr_Logid hdr) err)"
proof -
  obtain hdr where hdr: "get_Header Q (fill_header (t_GenLogId t) Q q) = Some hdr"
    using filled_header[OF fields(1) ok] by blast
  let ?req = "fill_header (t_GenLogId t) Q q"
  obtain rctx m0 where ctx: "createReqCtx t pr (Some hdr) = Inr rctx"
    and h: "H rctx ?req s = (Ret (Some m0, err), s')"
    and m: "m = (if get_Header R m0 = None then set_Header R (Some (response_header t (hdr_Logid hdr) err)) m0 else m0)"
    using run hdr
    by (auto simp: UnaryInterceptor_def Let_def response_header_def genTraceId_def
        split: sum.splits prod.splits outcome.splits option.splits if_splits)
  have "get_Header R m0 = None" using unset h by (simp add: leaves_unset_def) blast
  with m hdr fields(2) show ?thesis by (simp add: good_field_def)
qed

lemma unset_body:
  assumes "\<And>rctx. rpc_handler (get_Header R) (f rctx)"
  shows "leaves_unset R (\<lambda>rctx. body_of (f rctx))"
  unfolding leaves_unset_def
proof (intro allI)
  fix rctx req s m e s1
  show "body_of (f rctx) req s = (Ret (Some m, e), s1) \<longrightarrow> get_Header R m = None"
    using rpc_handler.header_unset[OF assms[of rctx], of "Some req" s] by (auto simp: body_of_def split: prod.splits)
qed

lemma unset_refusing: "get_Header R resp = None \<Longrightarrow> leaves_unset R (\<lambda>_. body_of (\<lambda>req s. ((resp, Some (f req)), s)))"
  by (auto simp: leaves_unset_def body_of_def)

lemma wrap_reply_Returned:
  "wrap_reply C rs = (Returned (Some m) err, s') \<longleftrightarrow> (\<exists>m0. rs = (Returned (Some m0) err, s') \<and> m = C m0)"
  by (cases rs; cases "fst rs") (auto simp: wrap_reply_def)

definition answered :: "('w, 'x, 'k) RpcServ \<Rightarrow> string \<Rightarrow> Header option \<Rightarrow> gerr option \<Rightarrow> bool" where
  "answered t logid h err \<longleftrightarrow>
     (\<exists>hdr. h = Some hdr \<and> hdr_Logid hdr = logid \<and> hdr_FromNode hdr = t_HostName t \<and>
        (hdr_Error hdr = SUCCESS \<longleftrightarrow> err = None))"

lemma answered_response: "server_ok t \<Longrightarrow> answered t l (Some (response_header t l err)) err"
  by (cases err) (simp_all add: answered_def response_header_def convertErr_SUCCESS_iff server_ok_def)

lemma intercept_answered:
  assumes run: "wrap_reply C (UnaryInterceptor t Q R H pr q s) = (Returned (Some m) err, s')"
    and fields: "good_field Q" "good_field R" and ok: "server_ok t"
    and unset: "leaves_unset R H"
    and hdr: "\<forall>m. msg_header (C m) = get_Header R m" and req: "req_header r = get_Header Q q"
  shows "answered t (request_logid t r) (msg_header m) err"
proof -
  obtain m0 where m0: "UnaryInterceptor t Q R H pr q s = (Returned (Some m0) err, s')" "m = C m0"
    using run unfolding wrap_reply_Returned by blast
  obtain h where "get_Header Q (fill_header (t_GenLogId t) Q q) = Some h"
    "get_Header R m0 = Some (response_header t (hdr_Logid h) err)"
    using intercept_reply[OF m0(1) fields ok unset] by blast
  with filled_header[OF fields(1) ok, of q] m0(2) hdr req show ?thesis
    using answered_response[OF ok] by (auto simp: request_logid_def)
qed

lemmas served_fields = query_fields_good fields_good message_fields

lemma unset_GetAddressContracts: "leaves_unset acres_field (\<lambda>rctx. panicking_body (GetAddressContracts L rctx))"
  by (auto simp: leaves_unset_def panicking_body_def GetAddressContracts_def Let_def new_AddressContractsResponse_def
      out_bind_def split: if_splits sum.splits option.splits outcome.splits)

lemmas rpc_contracts =
  rpc_SelectUTXOBySize.rpc_handler_axioms rpc_PostTx.rpc_handler_axioms rpc_QueryACL.rpc_handler_axioms
  rpc_QueryUtxoRecord.rpc_handler_axioms rpc_QueryContractStatData.rpc_handler_axioms
  rpc_GetAccountContracts.rpc_handler_axioms rpc_QueryTx.rpc_handler_axioms rpc_GetBalance.rpc_handler_axioms
  rpc_GetBalanceDetail.rpc_handler_axioms rpc_GetFrozenBalance.rpc_handler_axioms rpc_GetBlock.rpc_handler_axioms
  rpc_GetBlockByHeight.rpc_handler_axioms rpc_GetBlockChainStatus.rpc_handler_axioms
  rpc_GetBlockChains.rpc_handler_axioms rpc_GetSystemStatus.rpc_handler_axioms
  rpc_GetConsensusStatus.rpc_handler_axioms rpc_GetNetURL.rpc_handler_axioms rpc_SelectUTXO.rpc_handler_axioms
  rpc_PreExecWithSelectUTXO.rpc_handler_axioms rpc_GetAccountByAK.rpc_handler_axioms rpc_PreExec.rpc_handler_axioms

lemma serve_answered:
  assumes run: "serve t L pr req s = (Returned (Some m) err, s')" and ok: "server_ok t"
  shows "answered t (request_logid t req) (msg_header m) err"
  using run
  by (cases req; simp only: serve.simps serve_query_def refuses_def; elim intercept_answered[OF _ _ _ ok])
    (simp_all add: unset_GetAddressContracts unset_refusing unset_body rpc_contracts)

text \<open>The interceptor never returns nothing at all.\<close>

lemma intercept_not_nil: "fst (wrap_reply C (UnaryInterceptor t Q R H pr q s)) \<noteq> Returned None None"
  by (auto simp: wrap_reply_def UnaryInterceptor_def Let_def split: sum.splits prod.splits outcome.splits option.splits)

lemma serve_not_nil: "fst (serve t L pr req s) \<noteq> Returned None None"
  by (cases req) (simp_all add: serve_query_def refuses_def intercept_not_nil)

text \<open>C13: Every reply of the service is well formed: whichever of the 29 methods was called, a response carries a header with
  the log id of the request (or the one generated for it) and the name of the node, and its error code is
  SUCCESS exactly when no error is returned beside it.\<close>

theorem replies_well_formed:
  assumes run: "serve t L pr req s = (Returned (Some m) err, s')" and ok: "server_ok t"
  shows "\<exists>hdr. msg_header m = Some hdr \<and> hdr_Logid hdr = request_logid t req \<and> hdr_FromNode hdr = t_HostName t \<and>
    (hdr_Error hdr = SUCCESS \<longleftrightarrow> err = None)"
  using serve_answered[OF assms] by (simp add: answered_def)

text \<open>A request whose chain accepts it, and its answer.\<close>

definition ex_peer_addr :: peer where
  "ex_peer_addr = PeerAddr ''10.0.0.1:99''"

lemma ex_post_reply:
  "UnaryInterceptor ex_server txst_field crep_field (\<lambda>rctx. body_of (PostTx ex_lib rctx)) ex_peer_addr ex_post ex_state =
     (Returned (Some \<lparr>crep_Header = Some \<lparr>hdr_Logid = ''l1'', hdr_FromNode = ''host1'', hdr_Error = SUCCESS\<rparr>\<rparr>) None,
      \<lparr>st_node = 1, st_sent = [(''xuper'', ''m'', ''l1'')]\<rparr>)"
  by code_simp

lemma ex_serve_post:
  "serve ex_server ex_lib ex_peer_addr (PostTx_Req ex_post) ex_state =
     (Returned (Some (CommonReply_Msg \<lparr>crep_Header = Some \<lparr>hdr_Logid = ''l1'', hdr_FromNode = ''host1'', hdr_Error = SUCCESS\<rparr>\<rparr>)) None,
      \<lparr>st_node = 1, st_sent = [(''xuper'', ''m'', ''l1'')]\<rparr>)"
  by (simp add: ex_post_reply wrap_reply_def)

lemma replies_well_formed_witness:
  "\<exists>hdr. msg_header (CommonReply_Msg \<lparr>crep_Header = Some \<lparr>hdr_Logid = ''l1'', hdr_FromNode = ''host1'', hdr_Error = SUCCESS\<rparr>\<rparr>) = Some hdr \<and>
     hdr_Logid hdr = request_logid ex_server (PostTx_Req ex_post) \<and> hdr_FromNode hdr = t_HostName ex_server \<and>
     (hdr_Error hdr = SUCCESS \<longleftrightarrow> (None :: gerr option) = None)"
  by (rule replies_well_formed[OF ex_serve_post ex_server_ok])

section \<open>The state behind the service\<close>

text \<open>The methods that may change the state: the others are queries.\<close>

primrec writes_state :: "rpc_request \<Rightarrow> bool" where
  "writes_state (SelectUTXOBySize_Req q) \<longleftrightarrow> True"
| "writes_state (PostTx_Req q) \<longleftrightarrow> True"
| "writes_state (QueryACL_Req q) \<longleftrightarrow> False"
| "writes_state (QueryUtxoRecord_Req q) \<longleftrightarrow> False"
| "writes_state (QueryContractStatData_Req q) \<longleftrightarrow> False"
| "writes_state (GetAccountContracts_Req q) \<longleftrightarrow> False"
| "writes_state (QueryTx_Req q) \<longleftrightarrow> False"
| "writes_state (GetBalance_Req q) \<longleftrightarrow> False"
| "writes_state (GetBalanceDetail_Req q) \<longleftrightarrow> False"
| "writes_state (GetFrozenBalance_Req q) \<longleftrightarrow> False"
| "writes_state (GetBlock_Req q) \<longleftrightarrow> False"
| "writes_state (GetBlockByHeight_Req q) \<longleftrightarrow> False"
| "writes_state (GetBlockChainStatus_Req q) \<longleftrightarrow> False"
| "writes_state (GetBlockChains_Req q) \<longleftrightarrow> False"
| "writes_state (GetSystemStatus_Req q) \<longleftrightarrow> False"
| "writes_state (GetConsensusStatus_Req q) \<longleftrightarrow> False"
| "writes_state (GetNetURL_Req q) \<longleftrightarrow> False"
| "writes_state (SelectUTXO_Req q) \<longleftrightarrow> True"
| "writes_state (PreExecWithSelectUTXO_Req q) \<longleftrightarrow> True"
| "writes_state (DposCandidates_Req q) \<longleftrightarrow> False"
| "writes_state (DposNominateRecords_Req q) \<longleftrightarrow> False"
| "writes_state (DposNomineeRecords_Req q) \<longleftrightarrow> False"
| "writes_state (DposVoteRecords_Req q) \<longleftrightarrow> False"
| "writes_state (DposVotedRecords_Req q) \<longleftrightarrow> False"
| "writes_state (DposCheckResults_Req q) \<longleftrightarrow> False"
| "writes_state (DposStatus_Req q) \<longleftrightarrow> False"
| "writes_state (GetAccountByAK_Req q) \<longleftrightarrow> False"
| "writes_state (GetAddressContracts_Req q) \<longleftrightarrow> False"
| "writes_state (PreExec_Req q) \<longleftrightarrow> True"

definition keeps_state :: "('c \<Rightarrow> ('q, 'r, 's) rpc_body) \<Rightarrow> bool" where
  "keeps_state H \<longleftrightarrow> (\<forall>rctx req s. snd (H rctx req s) = s)"

lemma intercept_state:
  "snd (UnaryInterceptor t Q R H pr q s) =
     (case createReqCtx t pr (get_Header Q (fill_header (t_GenLogId t) Q q)) of
        Inl _ \<Rightarrow> s
      | Inr rctx \<Rightarrow> snd (H rctx (fill_header (t_GenLogId t) Q q) s))"
  by (auto simp: UnaryInterceptor_def Let_def split: sum.splits prod.splits outcome.splits option.splits)

lemma intercept_keeps: "keeps_state H \<Longrightarrow> snd (wrap_reply C (UnaryInterceptor t Q R H pr q s)) = s"
  by (simp add: wrap_reply_def intercept_state keeps_state_def split: sum.splits)

lemma keeps_query: "keeps_state (\<lambda>rctx. body_of (as_handler (f rctx)))"
  by (simp add: keeps_state_def body_of_def as_handler_def split: prod.splits)

lemma keeps_refusing: "keeps_state (\<lambda>_. body_of (\<lambda>req s. ((resp, Some (f req)), s)))"
  by (simp add: keeps_state_def body_of_def)

lemma keeps_panicking: "keeps_state (\<lambda>rctx. panicking_body (f rctx))"
  by (simp add: keeps_state_def panicking_body_def)

lemma serve_query_keeps: "\<not> writes_state req \<Longrightarrow> snd (serve t L pr req s) = s"
  by (cases req) (simp_all add: serve_query_def refuses_def intercept_keeps keeps_query keeps_refusing keeps_panicking)

text \<open>The transaction that a request puts on the network, with the chain and the log id.\<close>

definition posted ::
  "('w, 'x, 'k) RpcServ \<Rightarrow> 'x xlib \<Rightarrow> peer \<Rightarrow> rpc_request \<Rightarrow> 'w \<Rightarrow> (string \<times> 'x \<times> string) option" where
  "posted t L pr req w =
     (case req of
        PostTx_Req q \<Rightarrow>
          (let q' = fill_header (t_GenLogId t) txst_field q in
           case createReqCtx t pr (txst_Header q') of
             Inl _ \<Rightarrow> None
           | Inr rctx \<Rightarrow> map_option (\<lambda>(bc, x, w'). (bc, x, rc_LogId rctx)) (accepted L rctx (Some q') w))
      | _ \<Rightarrow> None)"

primrec is_PostTx :: "rpc_request \<Rightarrow> bool" where
  "is_PostTx (SelectUTXOBySize_Req q) \<longleftrightarrow> False"
| "is_PostTx (PostTx_Req q) \<longleftrightarrow> True"
| "is_PostTx (QueryACL_Req q) \<longleftrightarrow> False"
| "is_PostTx (QueryUtxoRecord_Req q) \<longleftrightarrow> False"
| "is_PostTx (QueryContractStatData_Req q) \<longleftrightarrow> False"
| "is_PostTx (GetAccountContracts_Req q) \<longleftrightarrow> False"
| "is_PostTx (QueryTx_Req q) \<longleftrightarrow> False"
| "is_PostTx (GetBalance_Req q) \<longleftrightarrow> False"
| "is_PostTx (GetBalanceDetail_Req q) \<longleftrightarrow> False"
| "is_PostTx (GetFrozenBalance_Req q) \<longleftrightarrow> False"
| "is_PostTx (GetBlock_Req q) \<longleftrightarrow> False"
| "is_PostTx (GetBlockByHeight_Req q) \<longleftrightarrow> False"
| "is_PostTx (GetBlockChainStatus_Req q) \<longleftrightarrow> False"
| "is_PostTx (GetBlockChains_Req q) \<longleftrightarrow> False"
| "is_PostTx (GetSystemStatus_Req q) \<longleftrightarrow> False"
| "is_PostTx (GetConsensusStatus_Req q) \<longleftrightarrow> False"
| "is_PostTx (GetNetURL_Req q) \<longleftrightarrow> False"
| "is_PostTx (SelectUTXO_Req q) \<longleftrightarrow> False"
| "is_PostTx (PreExecWithSelectUTXO_Req q) \<longleftrightarrow> False"
| "is_PostTx (DposCandidates_Req q) \<longleftrightarrow> False"
| "is_PostTx (DposNominateRecords_Req q) \<longleftrightarrow> False"
| "is_PostTx (DposNomineeRecords_Req q) \<longleftrightarrow> False"
| "is_PostTx (DposVoteRecords_Req q) \<longleftrightarrow> False"
| "is_PostTx (DposVotedRecords_Req q) \<longleftrightarrow> False"
| "is_PostTx (DposCheckResults_Req q) \<longleftrightarrow> False"
| "is_PostTx (DposStatus_Req q) \<longleftrightarrow> False"
| "is_PostTx (GetAccountByAK_Req q) \<longleftrightarrow> False"
| "is_PostTx (GetAddressContracts_Req q) \<longleftrightarrow> False"
| "is_PostTx (PreExec_Req q) \<longleftrightarrow> False"

definition succeeded :: "'r rpc_result \<Rightarrow> bool" where
  "succeeded r \<longleftrightarrow> (case r of Returned (Some _) None \<Rightarrow> True | _ \<Rightarrow> False)"

text \<open>The handlers that write leave the network alone, except \<open>PostTx\<close>.\<close>

definition keeps_sent :: "('c \<Rightarrow> ('q, 'r, ('w, 'x) RpcState) rpc_body) \<Rightarrow> bool" where
  "keeps_sent H \<longleftrightarrow> (\<forall>rctx req s. st_sent (snd (H rctx req s)) = st_sent s)"

lemma intercept_sent: "keeps_sent H \<Longrightarrow> st_sent (snd (wrap_reply C (UnaryInterceptor t Q R H pr q s))) = st_sent s"
  by (simp add: wrap_reply_def intercept_state keeps_sent_def split: sum.splits)

lemma PreExec_net: "st_sent (snd (PreExec L rctx req s)) = st_sent s"
  by (auto simp: PreExec_def Let_def on_node_eq split: option.splits sum.splits)

lemma SelectUTXO_net: "st_sent (snd (SelectUTXO L rctx req s)) = st_sent s"
  by (auto simp: SelectUTXO_def Let_def on_node_eq split: option.splits sum.splits)

lemma SelectUTXOBySize_net: "st_sent (snd (SelectUTXOBySize L rctx req s)) = st_sent s"
  by (auto simp: SelectUTXOBySize_def Let_def on_node_eq split: option.splits sum.splits)

lemma PreExecWithSelectUTXO_net: "st_sent (snd (PreExecWithSelectUTXO L rctx req s)) = st_sent s"
  using PreExec_net[of L rctx "nilget None pesreq_Request req" s]
  by (auto simp: PreExecWithSelectUTXO_def Let_def split: option.splits prod.splits)
    (metis SelectUTXO_net snd_conv)+

lemma body_sent: "(\<And>rctx req s. st_sent (snd (f rctx req s)) = st_sent s) \<Longrightarrow> keeps_sent (\<lambda>rctx. body_of (f rctx))"
  by (simp add: keeps_sent_def body_of_def case_prod_beta)

lemmas sent_facts = PreExec_net SelectUTXO_net SelectUTXOBySize_net PreExecWithSelectUTXO_net

lemma serve_sent_other: "\<not> is_PostTx req \<Longrightarrow> st_sent (snd (serve t L pr req s)) = st_sent s"
proof (cases "writes_state req")
  case True
  assume "\<not> is_PostTx req"
  with True show ?thesis by (cases req) (simp_all add: intercept_sent body_sent sent_facts)
qed (simp add: serve_query_keeps)

lemma intercept_succeeded:
  "succeeded (fst (wrap_reply C (UnaryInterceptor t Q R (\<lambda>rctx. body_of (f rctx)) pr q s))) \<longleftrightarrow>
     (case createReqCtx t pr (get_Header Q (fill_header (t_GenLogId t) Q q)) of
        Inl _ \<Rightarrow> False
      | Inr rctx \<Rightarrow> snd (fst (f rctx (Some (fill_header (t_GenLogId t) Q q)) s)) = None)"
  by (auto simp: UnaryInterceptor_def Let_def wrap_reply_def body_of_def succeeded_def split: sum.splits prod.splits option.splits)

lemma wrap_reply_state: "snd (wrap_reply C rs) = snd rs"
  by (simp add: wrap_reply_def)

lemma body_of_state: "snd (body_of f req s) = snd (f (Some req) s)"
  by (simp add: body_of_def split: prod.split)

lemma serve_PostTx:
  "st_sent (snd (serve t L pr (PostTx_Req q) s)) =
     st_sent s @ (case posted t L pr (PostTx_Req q) (st_node s) of None \<Rightarrow> [] | Some m \<Rightarrow> [m]) \<and>
   (succeeded (fst (serve t L pr (PostTx_Req q) s)) \<longleftrightarrow> posted t L pr (PostTx_Req q) (st_node s) \<noteq> None)"
proof -
  let ?q = "fill_header (t_GenLogId t) txst_field q"
  have f: "get_Header txst_field = txst_Header" by (simp add: txst_field_def)
  note runs = serve.simps intercept_succeeded wrap_reply_state intercept_state f
  show ?thesis
  proof (cases "createReqCtx t pr (txst_Header ?q)")
    case (Inl e)
    then show ?thesis unfolding runs by (simp add: posted_def)
  next
    case (Inr rctx)
    show ?thesis
      using Inr PostTx_cases[of L rctx "Some ?q" s]
      unfolding runs by (cases "accepted L rctx (Some ?q) (st_node s)") (auto simp: posted_def body_of_state)
  qed
qed

lemma is_PostTx_iff: "is_PostTx req \<longleftrightarrow> (\<exists>q. req = PostTx_Req q)"
  by (cases req) simp_all

lemma posted_other: "\<not> is_PostTx req \<Longrightarrow> posted t L pr req w = None"
  by (cases req) (simp_all add: posted_def)

lemma serve_sent:
  "st_sent (snd (serve t L pr req s)) =
     st_sent s @ (case posted t L pr req (st_node s) of None \<Rightarrow> [] | Some m \<Rightarrow> [m])"
proof (cases "is_PostTx req")
  case True
  then show ?thesis by (auto simp: is_PostTx_iff serve_PostTx simp del: serve.simps)
next
  case False
  then show ?thesis by (simp add: serve_sent_other posted_other)
qed

section \<open>A run of the server\<close>

text \<open>The calls in the order in which the server takes them, with the replies, and the transactions the calls
  put on the network.\<close>

primrec serve_all ::
  "('w, 'x, 'k) RpcServ \<Rightarrow> 'x xlib \<Rightarrow> (peer \<times> rpc_request) list \<Rightarrow> ('w, 'x) RpcState \<Rightarrow>
   proto_message rpc_result list \<times> ('w, 'x) RpcState" where
  "serve_all t L [] s = ([], s)"
| "serve_all t L (c # cs) s =
     (let (r, s1) = serve t L (fst c) (snd c) s; (rs, s2) = serve_all t L cs s1 in (r # rs, s2))"

primrec network_log ::
  "('w, 'x, 'k) RpcServ \<Rightarrow> 'x xlib \<Rightarrow> (peer \<times> rpc_request) list \<Rightarrow> ('w, 'x) RpcState \<Rightarrow>
   (string \<times> 'x \<times> string) list" where
  "network_log t L [] s = []"
| "network_log t L (c # cs) s =
     (case posted t L (fst c) (snd c) (st_node s) of None \<Rightarrow> [] | Some m \<Rightarrow> [m]) @
     network_log t L cs (snd (serve t L (fst c) (snd c) s))"

text \<open>The calls of a run that submitted a transaction and were told it succeeded.\<close>

definition confirmed_posts :: "(peer \<times> rpc_request) list \<Rightarrow> proto_message rpc_result list \<Rightarrow> (peer \<times> rpc_request) list" where
  "confirmed_posts cs rs = map fst (filter (\<lambda>(c, r). is_PostTx (snd c) \<and> succeeded r) (zip cs rs))"

lemma serve_posted: "is_PostTx req \<and> succeeded (fst (serve t L pr req s)) \<longleftrightarrow> posted t L pr req (st_node s) \<noteq> None"
  by (cases "is_PostTx req") (auto simp: is_PostTx_iff serve_PostTx posted_other simp del: serve.simps)

lemma serve_all_Cons:
  "serve_all t L (c # cs) s =
     (fst (serve t L (fst c) (snd c) s) # fst (serve_all t L cs (snd (serve t L (fst c) (snd c) s))),
      snd (serve_all t L cs (snd (serve t L (fst c) (snd c) s))))"
  by (simp add: Let_def case_prod_beta)


lemma all_queries:
  "\<forall>c \<in> set cs. \<not> writes_state (snd c) \<Longrightarrow>
   serve_all t L cs s = (map (\<lambda>c. fst (serve t L (fst c) (snd c) s)) cs, s)"
  by (induction cs) (simp_all add: serve_all_Cons serve_query_keeps del: serve_all.simps(2))

text \<open>Queries change nothing and do not see each other: a run that calls none of the five methods that execute, post or
  lock leaves the chains and the network as they were, and each reply is the one its request gets alone, so
  the order of the queries does not matter.\<close>

theorem queries_commute:
  assumes "\<forall>c \<in> set cs. \<not> writes_state (snd c)"
  shows "serve_all t L cs s = (map (\<lambda>c. fst (serve t L (fst c) (snd c) s)) cs, s)"
  by (rule all_queries[OF assms])

lemma queries_commute_witness:
  "snd (serve_all ex_server ex_lib [(ex_peer_addr, GetBlockChains_Req \<lparr>cin_Header = None, cin_ViewOption = ViewOption_NONE\<rparr>),
     (ex_peer_addr, QueryTx_Req ex_post)] ex_state) = ex_state"
  using queries_commute[of "[(ex_peer_addr, GetBlockChains_Req \<lparr>cin_Header = None, cin_ViewOption = ViewOption_NONE\<rparr>),
     (ex_peer_addr, QueryTx_Req ex_post)]" ex_server ex_lib ex_state] by simp

end
