(* ===== verification/Lifecycle.thy ===== *)
theory Lifecycle
  imports RpcServ
begin

text \<open>
  The life of a node process: \<open>StartupXchain\<close> (\<open>cmd/xchain/cmd/startup.go\<close>), the service
  manager (\<open>service/manage.go\<close>), the RPC server and the gateway it runs
  (\<open>service/rpc/manage.go\<close>, \<open>service/gateway/gateway.go\<close>), and the request context
  (\<open>service/context/context.go\<close>).

  The process is a step relation: every goroutine is a part of the state and a step is one
  of its moves.  What the servers serve, the engine and the operating system are outside.
  They appear as steps that may happen: the engine returns, a server fails, a signal comes
  in.  A grpc or http server that was told to stop returns from serving, also when it was
  told before it began to serve, and the engine returns after its \<open>Exit\<close>; that is what
  their documentation says.
\<close>

section \<open>Construction\<close>

definition NewReqCtx ::
  "(string \<Rightarrow> gerr + unit) \<Rightarrow> ('w, 'x, 'k) Engine option \<Rightarrow> string \<Rightarrow> string \<Rightarrow> gerr + ('w, 'x, 'k) ReqCtx" where
  "NewReqCtx NewLogger engine reqId clientIp =
     (case engine of
        None \<Rightarrow> Inl (Errorf ''new request context failed because engine is nil'')
      | Some eng \<Rightarrow>
          (case NewLogger reqId of
             Inl err \<Rightarrow> Inl (Errorf ''new request context failed because new logger failed'')
           | Inr _ \<Rightarrow> Inr \<lparr>rc_Engine = Some eng, rc_LogId = reqId, rc_ClientIp = clientIp\<rparr>))"

text \<open>How far a server's \<open>Run\<close> has come, and the server: whether it is initialised, whether the
  handle it serves with exists and was told to stop, whether \<open>exitOnce\<close> is used up.\<close>

datatype progress = Setup | Serving | Exited "gerr option"

record server =
  sv_isInit :: bool
  sv_handle :: bool
  sv_stopped :: bool
  sv_exitOnce :: bool
  sv_run :: progress

definition new_server :: server where
  "new_server = \<lparr>sv_isInit = True, sv_handle = False, sv_stopped = False, sv_exitOnce = False, sv_run = Setup\<rparr>"

text \<open>\<open>EngineConvert\<close> fails on an engine of another kind.\<close>

definition NewRpcServMG :: "'c option \<Rightarrow> ('e \<Rightarrow> gerr + 'e) \<Rightarrow> 'e option \<Rightarrow> gerr + server" where
  "NewRpcServMG scfg EngineConvert engine =
     (case (scfg, engine) of
        (Some _, Some eng) \<Rightarrow>
          (case EngineConvert eng of
             Inl err \<Rightarrow> Inl (Errorf ''not xuperos engine'') | Inr _ \<Rightarrow> Inr new_server)
      | _ \<Rightarrow> Inl (Errorf ''param error''))"

definition NewGateway :: "'c option \<Rightarrow> gerr + server" where
  "NewGateway scfg = (case scfg of None \<Rightarrow> Inl (Errorf ''param error'') | Some _ \<Rightarrow> Inr new_server)"

definition NewServMG :: "'c option \<Rightarrow> ('e \<Rightarrow> gerr + 'e) \<Rightarrow> 'e option \<Rightarrow> gerr + server list" where
  "NewServMG scfg EngineConvert engine =
     (if scfg = None \<or> engine = None then Inl (Errorf ''param error'')
      else
        res_bind (NewRpcServMG scfg EngineConvert engine) (\<lambda>serv.
        res_bind (NewGateway scfg) (\<lambda>GW.
          Inr ([] @ [serv, GW]))))"

section \<open>Configuration of the services\<close>

record ServConf =
  sc_RpcPort :: int
  sc_GWPort :: int
  sc_MetricPort :: int
  sc_EnableMetric :: bool
  sc_EnableTls :: bool
  sc_EnableEndorser :: bool
  sc_EnableEvent :: bool
  sc_EndorserHosts :: "string list"
  sc_EndorserModule :: string
  sc_AdapterAllowCROS :: bool
  sc_MaxRecvMsgSize :: int
  sc_ReadBufSize :: int
  sc_WriteBufSize :: int
  sc_InitWindowSize :: int32
  sc_InitConnWindowSize :: int32
  sc_TlsServerName :: string
  sc_EventAddrMaxConn :: int

definition GetDefServConf :: ServConf where
  "GetDefServConf =
     \<lparr>sc_RpcPort = 38101, sc_GWPort = 38102, sc_MetricPort = 38100, sc_EnableMetric = True, sc_EnableTls = False,
      sc_EnableEndorser = False, sc_EnableEvent = True, sc_EndorserHosts = [], sc_EndorserModule = ''default'',
      sc_AdapterAllowCROS = False, sc_MaxRecvMsgSize = 128 * 2 ^ 20, sc_ReadBufSize = 32 * 2 ^ 10,
      sc_WriteBufSize = 32 * 2 ^ 10, sc_InitWindowSize = push_bit 10 128, sc_InitConnWindowSize = push_bit 10 64,
      sc_TlsServerName = ''localhost'', sc_EventAddrMaxConn = 5\<rparr>"

text \<open>Reading and decoding the file is viper's: it gives the defaults with what the file sets.\<close>

definition loadConf ::
  "(string \<Rightarrow> bool) \<Rightarrow> (string \<Rightarrow> gerr + 'v) \<Rightarrow> ('v \<Rightarrow> ServConf \<Rightarrow> gerr + ServConf) \<Rightarrow>
   ServConf \<Rightarrow> string \<Rightarrow> gerr + ServConf" where
  "loadConf FileIsExist ReadInConfig Unmarshal t cfgFile =
     (if cfgFile = '''' \<or> \<not> FileIsExist cfgFile then Inl (Errorf ''config file set error'')
      else
        (case ReadInConfig cfgFile of
           Inl err \<Rightarrow> Inl (Errorf ''read config failed'')
         | Inr v \<Rightarrow>
             (case Unmarshal v t of
                Inl err \<Rightarrow> Inl (Errorf ''unmatshal config failed'') | Inr t' \<Rightarrow> Inr t')))"

definition LoadServConf ::
  "(string \<Rightarrow> bool) \<Rightarrow> (string \<Rightarrow> gerr + 'v) \<Rightarrow> ('v \<Rightarrow> ServConf \<Rightarrow> gerr + ServConf) \<Rightarrow>
   string \<Rightarrow> gerr + ServConf" where
  "LoadServConf FileIsExist ReadInConfig Unmarshal cfgFile =
     (case loadConf FileIsExist ReadInConfig Unmarshal GetDefServConf cfgFile of
        Inl err \<Rightarrow> Inl (Errorf ''load server config failed'') | Inr cfg \<Rightarrow> Inr cfg)"

section \<open>Requests to the gateway\<close>

record http_request =
  rq_Method :: string
  rq_Origin :: string
  rq_RequestMethod :: string

text \<open>The headers of a preflight answer, and what \<open>interrupt\<close> does: the headers it sets, and whether the
  request goes on to the handler.\<close>

definition preflightHandler :: "(string \<times> string) list" where
  "preflightHandler =
     [(''Access-Control-Allow-Headers'', join_str '','' [''Content-Type'', ''Accept'']),
      (''Access-Control-Allow-Methods'', join_str '','' [''GET'', ''HEAD'', ''POST'', ''PUT'', ''DELETE''])]"

definition interrupt :: "ServConf \<Rightarrow> http_request \<Rightarrow> (string \<times> string) list \<times> bool" where
  "interrupt scfg r =
     (if sc_AdapterAllowCROS scfg \<and> rq_Origin r \<noteq> '''' then
        (let hs = [(''Access-Control-Allow-Origin'', rq_Origin r)] in
         if rq_Method r = ''OPTIONS'' \<and> rq_RequestMethod r \<noteq> '''' then (hs @ preflightHandler, False)
         else (hs, True))
      else ([], True))"

section \<open>One server\<close>

text \<open>\<open>Exit\<close>: once, and only a handle that exists by then is told to stop.\<close>

definition stop_server :: "server \<Rightarrow> server" where
  "stop_server s = (if sv_handle s then s\<lparr>sv_stopped := True\<rparr> else s)"

definition server_Exit :: "server \<Rightarrow> server" where
  "server_Exit s =
     (if \<not> sv_isInit s then s
      else if sv_exitOnce s then s
      else stop_server (s\<lparr>sv_exitOnce := True\<rparr>))"

text \<open>What a step is: a move of the program, a fault (a port that is taken, a broken certificate, a
  server or engine that gives up), or a signal of the operating system.\<close>

datatype label = Move | Fault | Signal

text \<open>The steps of \<open>Run\<close>.\<close>

inductive run_step :: "label \<Rightarrow> server \<Rightarrow> server \<Rightarrow> bool" where
  run_not_init: "sv_run s = Setup \<Longrightarrow> \<not> sv_isInit s \<Longrightarrow>
    run_step Move s (s\<lparr>sv_run := Exited (Some (Errorf ''not init''))\<rparr>)"
| run_handle: "sv_run s = Setup \<Longrightarrow> sv_isInit s \<Longrightarrow> \<not> sv_handle s \<Longrightarrow>
    run_step Move s (s\<lparr>sv_handle := True\<rparr>)"
| run_serve: "sv_run s = Setup \<Longrightarrow> sv_isInit s \<Longrightarrow> sv_handle s \<Longrightarrow>
    run_step Move s (s\<lparr>sv_run := Serving\<rparr>)"
| run_fail: "sv_run s = Setup \<or> sv_run s = Serving \<Longrightarrow> sv_isInit s \<Longrightarrow>
    run_step Fault s (s\<lparr>sv_run := Exited (Some err)\<rparr>)"
| run_stop: "sv_run s = Serving \<Longrightarrow> sv_stopped s \<Longrightarrow>
    run_step Move s (s\<lparr>sv_run := Exited res\<rparr>)"

section \<open>The process\<close>

text \<open>A server with its goroutines: whether the one that ran it has delivered the result to \<open>ch\<close>, and how
  many calls of \<open>Exit\<close> are on their way.\<close>

record comp =
  cp_server :: server
  cp_reported :: bool
  cp_exits :: nat

abbreviation cp_run :: "comp \<Rightarrow> progress" where "cp_run c \<equiv> sv_run (cp_server c)"

record node =
  nd_comps :: "comp list"
  nd_exitCnt :: nat
  nd_servRet :: bool
  nd_engStop :: bool
  nd_engRet :: bool
  nd_engRecv :: bool
  nd_servRecv :: bool
  nd_wg :: int

text \<open>The process after \<open>wg.Add(2)\<close> and the start of engine and service.\<close>

definition start_node :: "server list \<Rightarrow> node" where
  "start_node servers =
     \<lparr>nd_comps = map (\<lambda>s. \<lparr>cp_server = s, cp_reported = False, cp_exits = 0\<rparr>) servers, nd_exitCnt = 0,
      nd_servRet = False, nd_engStop = False, nd_engRet = False, nd_engRecv = False, nd_servRecv = False, nd_wg = 2\<rparr>"

text \<open>\<open>ServMG.Exit\<close> starts a goroutine per server and does not wait for it.\<close>

definition ServMG_Exit :: "node \<Rightarrow> node" where
  "ServMG_Exit n = n\<lparr>nd_comps := map (\<lambda>c. c\<lparr>cp_exits := cp_exits c + 1\<rparr>) (nd_comps n)\<rparr>"

definition engine_Exit :: "node \<Rightarrow> node" where
  "engine_Exit n = n\<lparr>nd_engStop := True\<rparr>"

definition exit_comp :: "comp \<Rightarrow> comp" where
  "exit_comp c = c\<lparr>cp_server := server_Exit (cp_server c), cp_exits := cp_exits c - 1\<rparr>"

text \<open>The steps: a server runs; a goroutine of \<open>ServMG.Exit\<close> runs; \<open>ServMG.Run\<close> takes the result of a server
  and, after the last one, returns; the engine returns; and the loop of \<open>StartupXchain\<close> takes the
  end of the engine, the end of the service, or a signal.\<close>

inductive node_step :: "label \<Rightarrow> node \<Rightarrow> node \<Rightarrow> bool" where
  server_runs: "i < length (nd_comps n) \<Longrightarrow> run_step l (cp_server (nd_comps n ! i)) s \<Longrightarrow>
    node_step l n (n\<lparr>nd_comps := (nd_comps n)[i := (nd_comps n ! i)\<lparr>cp_server := s\<rparr>]\<rparr>)"
| server_exits: "i < length (nd_comps n) \<Longrightarrow> 0 < cp_exits (nd_comps n ! i) \<Longrightarrow>
    node_step Move n (n\<lparr>nd_comps := (nd_comps n)[i := exit_comp (nd_comps n ! i)]\<rparr>)"
| server_reports: "i < length (nd_comps n) \<Longrightarrow> cp_run (nd_comps n ! i) = Exited res \<Longrightarrow>
    \<not> cp_reported (nd_comps n ! i) \<Longrightarrow> nd_exitCnt n < length (nd_comps n) \<Longrightarrow>
    node_step Move n (n\<lparr>nd_comps := (nd_comps n)[i := (nd_comps n ! i)\<lparr>cp_reported := True\<rparr>],
                        nd_exitCnt := nd_exitCnt n + 1\<rparr>)"
| service_returns: "nd_exitCnt n \<ge> length (nd_comps n) \<Longrightarrow> \<not> nd_servRet n \<Longrightarrow>
    node_step Move n (n\<lparr>nd_servRet := True\<rparr>)"
| engine_returns: "\<not> nd_engRet n \<Longrightarrow> nd_engStop n \<Longrightarrow> node_step Move n (n\<lparr>nd_engRet := True\<rparr>)"
| engine_fails: "\<not> nd_engRet n \<Longrightarrow> node_step Fault n (n\<lparr>nd_engRet := True\<rparr>)"
| engine_ends: "nd_engRet n \<Longrightarrow> \<not> nd_engRecv n \<Longrightarrow>
    node_step Move n (ServMG_Exit (n\<lparr>nd_engRecv := True, nd_wg := nd_wg n - 1\<rparr>))"
| service_ends: "nd_servRet n \<Longrightarrow> \<not> nd_servRecv n \<Longrightarrow>
    node_step Move n (engine_Exit (n\<lparr>nd_servRecv := True, nd_wg := nd_wg n - 1\<rparr>))"
| signal_comes: "node_step Signal n (engine_Exit (ServMG_Exit n))"

text \<open>Runs with steps of the given kinds, and the reachable states: any step.\<close>

inductive node_run :: "label set \<Rightarrow> node \<Rightarrow> node \<Rightarrow> bool" for L n0 where
  run_done: "node_run L n0 n0"
| run_next: "node_run L n0 n \<Longrightarrow> l \<in> L \<Longrightarrow> node_step l n n' \<Longrightarrow> node_run L n0 n'"

definition reachable :: "server list \<Rightarrow> node \<Rightarrow> bool" where
  "reachable servers n \<longleftrightarrow> node_run UNIV (start_node servers) n"

inductive_simps run_step_simps: "run_step l s s'"

section \<open>Invariants\<close>

lemma run_step_cases:
  assumes "run_step l s s'"
  shows "(\<exists>r. s' = s\<lparr>sv_run := r\<rparr> \<and> sv_run s \<noteq> r) \<and> (\<forall>r. sv_run s \<noteq> Exited r) \<or>
    sv_run s = Setup \<and> \<not> sv_handle s \<and> s' = s\<lparr>sv_handle := True\<rparr>"
  using assms by (auto elim!: run_step.cases)

text \<open>The counter of the wait group, the count of results, and what a return stands for.\<close>

definition reported :: "node \<Rightarrow> nat" where
  "reported n = length (filter cp_reported (nd_comps n))"

definition node_ok :: "node \<Rightarrow> bool" where
  "node_ok n \<longleftrightarrow>
     nd_wg n = (if nd_engRecv n then 0 else 1) + (if nd_servRecv n then 0 else 1) \<and>
     nd_exitCnt n = reported n \<and>
     (\<forall>c \<in> set (nd_comps n). cp_reported c \<longrightarrow> (\<exists>res. cp_run c = Exited res)) \<and>
     (nd_servRet n \<longrightarrow> nd_exitCnt n = length (nd_comps n)) \<and>
     (nd_engRecv n \<longrightarrow> nd_engRet n) \<and> (nd_servRecv n \<longrightarrow> nd_servRet n) \<and>
     (nd_servRecv n \<longrightarrow> nd_engStop n)"

lemma reported_update:
  assumes "i < length cs"
  shows "length (filter cp_reported (cs[i := c])) + (if cp_reported (cs ! i) then 1 else 0) =
    length (filter cp_reported cs) + (if cp_reported c then 1 else 0)"
  using assms
proof (induction cs arbitrary: i)
  case (Cons a cs)
  then show ?case using Cons.IH[of "i - 1"] by (cases i) auto
qed simp

lemma set_list_update: "x \<in> set (xs[i := y]) \<Longrightarrow> x = y \<or> x \<in> set xs"
  by (meson insert_iff set_update_subset_insert subsetD)

lemma node_ok_start: "node_ok (start_node servers)"
  by (auto simp: node_ok_def start_node_def reported_def)

lemma node_ok_update:
  assumes ok: "node_ok n" and i: "i < length (nd_comps n)"
    and same: "cp_reported c = cp_reported (nd_comps n ! i)"
    and ended: "cp_reported c \<Longrightarrow> \<exists>res. cp_run c = Exited res"
  shows "node_ok (n\<lparr>nd_comps := (nd_comps n)[i := c]\<rparr>)"
proof -
  have "\<forall>d \<in> set ((nd_comps n)[i := c]). cp_reported d \<longrightarrow> (\<exists>res. cp_run d = Exited res)"
    using ok ended unfolding node_ok_def by (blast dest: set_list_update)
  moreover have "length (filter cp_reported ((nd_comps n)[i := c])) = length (filter cp_reported (nd_comps n))"
    using reported_update[OF i, of c] same by simp
  ultimately show ?thesis using ok by (auto simp: node_ok_def reported_def)
qed

lemma node_ok_step:
  assumes "node_step l n n'" "node_ok n"
  shows "node_ok n'"
  using assms
proof (cases rule: node_step.cases)
  case (server_runs i s)
  have "cp_reported (nd_comps n ! i) \<Longrightarrow> \<exists>res. cp_run (nd_comps n ! i) = Exited res"
    using assms(2) nth_mem[OF server_runs(2)] unfolding node_ok_def by blast
  then have "cp_reported (nd_comps n ! i) \<Longrightarrow> \<exists>res. sv_run s = Exited res"
    using run_step_cases[OF server_runs(3)] by auto
  then show ?thesis
    unfolding server_runs(1) by (intro node_ok_update[OF assms(2) server_runs(2)]) simp_all
next
  case (server_exits i)
  have "cp_reported (nd_comps n ! i) \<Longrightarrow> \<exists>res. cp_run (nd_comps n ! i) = Exited res"
    using assms(2) nth_mem[OF server_exits(3)] unfolding node_ok_def by blast
  then have "cp_reported (nd_comps n ! i) \<Longrightarrow> \<exists>res. cp_run (exit_comp (nd_comps n ! i)) = Exited res"
    by (force simp: exit_comp_def server_Exit_def stop_server_def)
  then show ?thesis
    unfolding server_exits(2)
    by (intro node_ok_update[OF assms(2) server_exits(3)]) (simp_all add: exit_comp_def)
next
  case (server_reports i res)
  let ?c = "(nd_comps n ! i)\<lparr>cp_reported := True\<rparr>"
  have "\<forall>d \<in> set ((nd_comps n)[i := ?c]). cp_reported d \<longrightarrow> (\<exists>res. cp_run d = Exited res)"
    using assms(2) server_reports(4) unfolding node_ok_def by (auto dest!: set_list_update)
  moreover have "length (filter cp_reported ((nd_comps n)[i := ?c])) = Suc (length (filter cp_reported (nd_comps n)))"
    using reported_update[OF server_reports(3), of ?c] server_reports(5) by simp
  moreover have "\<not> nd_servRet n" using assms(2) server_reports(6) by (auto simp: node_ok_def)
  ultimately show ?thesis using assms(2) unfolding server_reports(2) by (simp add: node_ok_def reported_def)
next
  case service_returns
  then show ?thesis using assms(2) le_antisym[OF length_filter_le[of cp_reported "nd_comps n"]]
    by (simp add: node_ok_def reported_def)
qed (simp_all add: node_ok_def reported_def ServMG_Exit_def engine_Exit_def filter_map comp_def, auto)

lemma reachable_ok: "reachable servers n \<Longrightarrow> node_ok n"
  unfolding reachable_def
proof (induction rule: node_run.induct)
  case run_done
  show ?case by (rule node_ok_start)
next
  case (run_next n l n')
  then show ?case using node_ok_step by blast
qed

section \<open>Shutting down\<close>

text \<open>A server that will come to an end: it has ended, or its handle was told to stop, or exists and will be
  told by a call of \<open>Exit\<close> on its way.\<close>

definition will_end :: "comp \<Rightarrow> bool" where
  "will_end c \<longleftrightarrow>
     (\<exists>res. cp_run c = Exited res) \<or>
     sv_isInit (cp_server c) \<and> sv_handle (cp_server c) \<and>
     (sv_stopped (cp_server c) \<or> 0 < cp_exits c \<and> \<not> sv_exitOnce (cp_server c))"

definition shutting_down :: "node \<Rightarrow> bool" where
  "shutting_down n \<longleftrightarrow> nd_engStop n \<and> (\<forall>c \<in> set (nd_comps n). will_end c)"

text \<open>What is left to do.\<close>

fun run_left :: "progress \<Rightarrow> bool \<Rightarrow> nat" where
  "run_left Setup handle = (if handle then 2 else 3)"
| "run_left Serving handle = 1"
| "run_left (Exited res) handle = 0"

definition comp_left :: "comp \<Rightarrow> nat" where
  "comp_left c = run_left (cp_run c) (sv_handle (cp_server c)) + (if cp_reported c then 0 else 1) + cp_exits c"

definition steps_left :: "node \<Rightarrow> nat" where
  "steps_left n =
     sum_list (map comp_left (nd_comps n)) + (if nd_servRet n then 0 else 1) + (if nd_engRet n then 0 else 1) +
     (if nd_engRecv n then 0 else length (nd_comps n) + 1) + (if nd_servRecv n then 0 else 1)"

lemma sum_list_update_nat:
  fixes f :: "'a \<Rightarrow> nat"
  assumes "i < length cs"
  shows "sum_list (map f (cs[i := c])) + f (cs ! i) = sum_list (map f cs) + f c"
  using assms
proof (induction cs arbitrary: i)
  case (Cons a cs)
  then show ?case using Cons.IH[of "i - 1"] by (cases i) auto
qed simp

lemma run_step_left:
  assumes "run_step l s s'"
  shows "run_left (sv_run s') (sv_handle s') < run_left (sv_run s) (sv_handle s)"
  using assms by (cases rule: run_step.cases) auto

lemma server_Exit_keeps [simp]:
  "sv_run (server_Exit s) = sv_run s" "sv_handle (server_Exit s) = sv_handle s"
  "sv_isInit (server_Exit s) = sv_isInit s"
  by (simp_all add: server_Exit_def stop_server_def)

lemma sum_exits: "sum_list (map comp_left (map (\<lambda>c. c\<lparr>cp_exits := cp_exits c + 1\<rparr>) cs)) =
    sum_list (map comp_left cs) + length cs"
  by (induction cs) (auto simp: comp_left_def)

lemma node_step_left:
  assumes "node_step l n n'" "l \<noteq> Signal"
  shows "steps_left n' < steps_left n"
  using assms(1)
proof (cases rule: node_step.cases)
  case (server_runs i s)
  have "comp_left ((nd_comps n ! i)\<lparr>cp_server := s\<rparr>) < comp_left (nd_comps n ! i)"
    using run_step_left[OF server_runs(3)] by (simp add: comp_left_def)
  then show ?thesis
    using sum_list_update_nat[OF server_runs(2), of comp_left "(nd_comps n ! i)\<lparr>cp_server := s\<rparr>"] server_runs(1)
    by (simp add: steps_left_def)
next
  case (server_exits i)
  have "comp_left (exit_comp (nd_comps n ! i)) < comp_left (nd_comps n ! i)"
    using server_exits(4) by (simp add: comp_left_def exit_comp_def)
  then show ?thesis
    using sum_list_update_nat[OF server_exits(3), of comp_left "exit_comp (nd_comps n ! i)"] server_exits(2)
    by (simp add: steps_left_def)
next
  case (server_reports i res)
  have "comp_left ((nd_comps n ! i)\<lparr>cp_reported := True\<rparr>) < comp_left (nd_comps n ! i)"
    using server_reports(5) by (simp add: comp_left_def)
  then show ?thesis
    using sum_list_update_nat[OF server_reports(3), of comp_left "(nd_comps n ! i)\<lparr>cp_reported := True\<rparr>"]
      server_reports(2) by (simp add: steps_left_def)
qed (use assms(2) sum_exits in \<open>auto simp: steps_left_def ServMG_Exit_def engine_Exit_def comp_def\<close>)

lemma will_end_run:
  assumes "run_step l (cp_server c) s" "will_end c"
  shows "will_end (c\<lparr>cp_server := s\<rparr>)"
  using assms by (auto simp: will_end_def elim!: run_step.cases)

lemma will_end_exit: "will_end c \<Longrightarrow> will_end (exit_comp c)"
  by (auto simp: will_end_def exit_comp_def server_Exit_def stop_server_def)

lemma shutting_down_step:
  assumes "node_step l n n'" "shutting_down n"
  shows "shutting_down n'"
  using assms(1)
proof (cases rule: node_step.cases)
  case (server_runs i s)
  have "will_end ((nd_comps n ! i)\<lparr>cp_server := s\<rparr>)"
    using will_end_run[OF server_runs(3)] assms(2) server_runs(2) by (auto simp: shutting_down_def)
  then show ?thesis
    using assms(2) server_runs(1) by (auto simp: shutting_down_def dest!: set_list_update)
next
  case (server_exits i)
  have "will_end (exit_comp (nd_comps n ! i))"
    using will_end_exit assms(2) server_exits(3) by (auto simp: shutting_down_def)
  then show ?thesis
    using assms(2) server_exits(2) by (auto simp: shutting_down_def dest!: set_list_update)
next
  case (server_reports i res)
  then show ?thesis
    using assms(2) by (auto simp: shutting_down_def will_end_def dest!: set_list_update)
qed (use assms(2) in \<open>auto simp: shutting_down_def will_end_def ServMG_Exit_def engine_Exit_def\<close>)

lemma will_end_moves:
  assumes "i < length (nd_comps n)" "will_end (nd_comps n ! i)" "\<forall>res. cp_run (nd_comps n ! i) \<noteq> Exited res"
  shows "\<exists>n'. node_step Move n n'"
proof -
  let ?s = "cp_server (nd_comps n ! i)"
  have s: "sv_isInit ?s" "sv_handle ?s" and r: "sv_run ?s = Setup \<or> sv_run ?s = Serving"
    and e: "sv_stopped ?s \<or> 0 < cp_exits (nd_comps n ! i)"
    using assms(2,3) by (cases "sv_run ?s"; auto simp: will_end_def)+
  show ?thesis
  proof (cases "sv_run ?s = Setup")
    case True
    then show ?thesis using node_step.server_runs[OF assms(1) run_serve] s by blast
  next
    case False
    then have sv: "sv_run ?s = Serving" using r by blast
    from e show ?thesis
    proof
      assume "sv_stopped ?s"
      from node_step.server_runs[OF assms(1) run_stop[OF sv this]] show ?thesis by blast
    next
      assume "0 < cp_exits (nd_comps n ! i)"
      from node_step.server_exits[OF assms(1) this] show ?thesis by blast
    qed
  qed
qed

lemma all_reported:
  assumes "node_ok n" "\<forall>c \<in> set (nd_comps n). cp_reported c"
  shows "nd_exitCnt n = length (nd_comps n)"
  using assms by (simp add: node_ok_def reported_def filter_id_conv[THEN iffD2])

lemma shutting_down_moves:
  assumes ok: "node_ok n" and sd: "shutting_down n" and stuck: "\<not> (\<exists>n'. node_step Move n n')"
  shows "nd_wg n = 0"
proof -
  have ended: "\<exists>res. cp_run c = Exited res" if c: "c \<in> set (nd_comps n)" for c
  proof (rule ccontr)
    assume ne: "\<not> ?thesis"
    obtain i where i: "i < length (nd_comps n)" "nd_comps n ! i = c" using c by (auto simp: in_set_conv_nth)
    have "will_end (nd_comps n ! i)" using sd c i(2) by (simp add: shutting_down_def)
    from will_end_moves[OF i(1) this] ne i(2) stuck show False by blast
  qed
  have rep: "cp_reported c" if c: "c \<in> set (nd_comps n)" for c
  proof (rule ccontr)
    assume nr: "\<not> cp_reported c"
    obtain i where i: "i < length (nd_comps n)" "nd_comps n ! i = c" using c by (auto simp: in_set_conv_nth)
    have "reported n < length (nd_comps n)"
      unfolding reported_def using length_filter_less[of c "nd_comps n" cp_reported] c nr by blast
    then have "nd_exitCnt n < length (nd_comps n)" using ok by (simp add: node_ok_def)
    with ended[OF c] i nr stuck node_step.server_reports[OF i(1)] show False by blast
  qed
  have ret: "nd_servRet n"
    using all_reported[OF ok] rep stuck node_step.service_returns[of n] by fastforce
  moreover have "nd_engRet n"
    using sd stuck node_step.engine_returns[of n] by (auto simp: shutting_down_def)
  ultimately have "nd_engRecv n" "nd_servRecv n"
    using stuck node_step.engine_ends[of n] node_step.service_ends[of n] by blast+
  then show ?thesis using ok by (simp add: node_ok_def)
qed

section \<open>Properties\<close>

text \<open>C21: The process ends only after everything it started: when the wait group is at zero the engine has
  returned and every server has returned from its run, and no step ever takes the group below zero.\<close>

theorem process_ends_last:
  assumes "reachable servers n"
  shows "0 \<le> nd_wg n \<and>
    (nd_wg n = 0 \<longrightarrow> nd_engRet n \<and> nd_servRet n \<and> (\<forall>c \<in> set (nd_comps n). \<exists>res. cp_run c = Exited res))"
proof -
  have ok: "node_ok n" by (rule reachable_ok[OF assms])
  have all: "\<forall>c \<in> set (nd_comps n). cp_reported c" if "nd_exitCnt n = length (nd_comps n)"
    using ok that length_filter_less[of _ "nd_comps n" cp_reported] by (fastforce simp: node_ok_def reported_def)
  show ?thesis using ok all by (auto simp: node_ok_def split: if_splits)
qed


text \<open>The node that was told to exit before a server had its handle: the call of \<open>Exit\<close> is used up.\<close>

definition deaf_comp :: "comp \<Rightarrow> bool" where
  "deaf_comp c \<longleftrightarrow> sv_isInit (cp_server c) \<and> sv_exitOnce (cp_server c) \<and>
     \<not> sv_stopped (cp_server c) \<and> (\<forall>res. cp_run c \<noteq> Exited res)"

definition deaf :: "node \<Rightarrow> bool" where
  "deaf n \<longleftrightarrow> (\<exists>c \<in> set (nd_comps n). deaf_comp c)"

lemma deaf_run:
  assumes "run_step l s s'" "l \<noteq> Fault" "sv_isInit s" "sv_exitOnce s" "\<not> sv_stopped s" "\<forall>res. sv_run s \<noteq> Exited res"
  shows "sv_isInit s' \<and> sv_exitOnce s' \<and> \<not> sv_stopped s' \<and> (\<forall>res. sv_run s' \<noteq> Exited res)"
  using assms by (auto elim!: run_step.cases)

lemma deaf_iff: "deaf n \<longleftrightarrow> (\<exists>i < length (nd_comps n). deaf_comp (nd_comps n ! i))"
  unfolding deaf_def by (metis in_set_conv_nth)

lemma deaf_step:
  assumes "node_step l n n'" "l \<noteq> Fault" "deaf n"
  shows "deaf n'"
proof -
  obtain j where j: "j < length (nd_comps n)" "deaf_comp (nd_comps n ! j)"
    using assms(3) unfolding deaf_iff by blast
  from assms(1) have "j < length (nd_comps n') \<and> deaf_comp (nd_comps n' ! j)"
  proof (cases rule: node_step.cases)
    case (server_runs i s)
    have "i = j \<Longrightarrow> deaf_comp ((nd_comps n ! i)\<lparr>cp_server := s\<rparr>)"
      using deaf_run[OF server_runs(3) assms(2)] j(2) by (simp add: deaf_comp_def)
    then show ?thesis using server_runs(1,2) j by (simp add: nth_list_update)
  next
    case (server_exits i)
    have "i = j \<Longrightarrow> deaf_comp (exit_comp (nd_comps n ! i))"
      using j(2) by (simp add: deaf_comp_def exit_comp_def server_Exit_def)
    then show ?thesis using server_exits(2,3) j by (simp add: nth_list_update)
  next
    case (server_reports i res)
    then show ?thesis using j by (auto simp: nth_list_update deaf_comp_def)
  qed (use j assms(2) in \<open>auto simp: deaf_comp_def ServMG_Exit_def engine_Exit_def\<close>)
  then show ?thesis unfolding deaf_iff by blast
qed

lemma deaf_alive:
  assumes "node_ok n" "deaf n"
  shows "0 < nd_wg n"
proof (rule ccontr)
  assume "\<not> ?thesis"
  then have "nd_exitCnt n = length (nd_comps n)"
    using assms(1) by (auto simp: node_ok_def split: if_splits)
  then have "reported n = length (nd_comps n)" using assms(1) by (simp add: node_ok_def)
  then have "\<forall>c \<in> set (nd_comps n). cp_reported c"
    unfolding reported_def using length_filter_less[of _ "nd_comps n" cp_reported] by fastforce
  then show False using assms unfolding node_ok_def deaf_def deaf_comp_def by blast
qed

text \<open>A signal that arrives before a server has its handle can never be made good: from the start of the
  process there is a run in which a signal is taken and its call of \<open>Exit\<close> runs first, and whatever the
  process does from there, and whatever further signals come, it does not end unless something fails.\<close>

theorem early_signal_is_lost:
  "\<exists>n. reachable [new_server, new_server] n \<and> nd_engStop n \<and>
     (\<forall>n'. node_run {Move, Signal} n n' \<longrightarrow> 0 < nd_wg n')"
proof -
  let ?n0 = "start_node [new_server, new_server]"
  let ?n1 = "engine_Exit (ServMG_Exit ?n0)"
  let ?n2 = "?n1\<lparr>nd_comps := (nd_comps ?n1)[0 := exit_comp (nd_comps ?n1 ! 0)]\<rparr>"
  have s1: "node_step Signal ?n0 ?n1" by (rule node_step.signal_comes)
  have s2: "node_step Move ?n1 ?n2"
    by (rule node_step.server_exits) (simp_all add: ServMG_Exit_def engine_Exit_def start_node_def)
  have reach: "reachable [new_server, new_server] ?n2"
    unfolding reachable_def by (rule run_next[OF run_next[OF run_done UNIV_I s1] UNIV_I s2])
  have deaf: "deaf ?n2" unfolding deaf_iff
    by (rule exI[of _ 0]) (simp add: deaf_comp_def ServMG_Exit_def engine_Exit_def start_node_def exit_comp_def
        server_Exit_def stop_server_def new_server_def)
  have "deaf n' \<and> node_ok n'" if "node_run {Move, Signal} ?n2 n'" for n'
    using that
  proof (induction rule: node_run.induct)
    case run_done
    then show ?case using deaf reachable_ok[OF reach] by blast
  next
    case (run_next m l m')
    then show ?case using deaf_step[OF run_next(3)] node_ok_step[OF run_next(3)] by auto
  qed
  then show ?thesis
    using reach deaf_alive by (intro exI[of _ ?n2]) (auto simp: engine_Exit_def ServMG_Exit_def)
qed

section \<open>Instances\<close>

text \<open>A node whose only server cannot listen: the service ends, then the engine, then the process.\<close>

lemma process_ends_last_witness:
  "\<exists>n. reachable [new_server] n \<and> nd_wg n = 0 \<and> nd_engRet n"
proof -
  let ?n0 = "start_node [new_server]"
  let ?c1 = "\<lparr>cp_server = new_server\<lparr>sv_run := Exited (Some (Errorf ''failed to listen''))\<rparr>,
      cp_reported = False, cp_exits = 0\<rparr>"
  let ?n1 = "?n0\<lparr>nd_comps := [?c1]\<rparr>"
  let ?n2 = "?n1\<lparr>nd_comps := [?c1\<lparr>cp_reported := True\<rparr>], nd_exitCnt := 1\<rparr>"
  let ?n3 = "?n2\<lparr>nd_servRet := True\<rparr>"
  let ?n4 = "engine_Exit (?n3\<lparr>nd_servRecv := True, nd_wg := 1\<rparr>)"
  let ?n5 = "?n4\<lparr>nd_engRet := True\<rparr>"
  let ?n6 = "ServMG_Exit (?n5\<lparr>nd_engRecv := True, nd_wg := 0\<rparr>)"
  have s1: "node_step Fault ?n0 ?n1"
    using node_step.server_runs[of 0 ?n0, OF _ run_fail[where err = "Errorf ''failed to listen''"]]
    by (simp add: start_node_def new_server_def)
  have s2: "node_step Move ?n1 ?n2"
    using node_step.server_reports[of 0 ?n1] by (simp add: start_node_def new_server_def)
  have s3: "node_step Move ?n2 ?n3" by (rule node_step.service_returns) (simp_all add: start_node_def)
  have s4: "node_step Move ?n3 ?n4" using node_step.service_ends[of ?n3] by (simp add: start_node_def)
  have s5: "node_step Move ?n4 ?n5" by (rule node_step.engine_returns) (simp_all add: start_node_def engine_Exit_def)
  have s6: "node_step Move ?n5 ?n6"
    using node_step.engine_ends[of ?n5] by (simp add: start_node_def engine_Exit_def)
  have "reachable [new_server] ?n6"
    unfolding reachable_def
    by (rule run_next[OF run_next[OF run_next[OF run_next[OF run_next[OF run_next[OF run_done UNIV_I s1] UNIV_I s2]
          UNIV_I s3] UNIV_I s4] UNIV_I s5] UNIV_I s6])
  from process_ends_last[OF this] this show ?thesis
    by (intro exI[of _ ?n6]) (auto simp: ServMG_Exit_def)
qed


text \<open>The lost signal, at the state where it is lost.\<close>

lemma early_signal_is_lost_witness:
  "\<exists>n. reachable [new_server, new_server] n \<and> nd_engStop n \<and> 0 < nd_wg n"
  using early_signal_is_lost run_done by blast

end
