(* ===== verification/Endorser.thy ===== *)
theory Endorser
  imports RpcServ
begin

text \<open>
  \<open>service/rpc/endorser_service.go\<close>: the endorser answers four kinds of requests by calling
  the RPC server it is built on (the interface \<open>XEndorserServer\<close>), and signs answers with
  the keys on disk.  The server is a parameter over its state \<open>'s\<close> and the request
  context \<open>'c\<close>; the JSON codecs, the crypto client and the file system are given functions.

  The proxy endorser forwards the request to another host through a cache of clients;
  the cache is a state machine at the end of the theory.
\<close>

section \<open>Interfaces\<close>

record ('c, 's) XEndorserServer =
  sv_PostTx :: "'c \<Rightarrow> TxStatus option \<Rightarrow> 's \<Rightarrow> CommonReply reply \<times> 's"
  sv_QueryTx :: "'c \<Rightarrow> TxStatus option \<Rightarrow> 's \<Rightarrow> TxStatus reply \<times> 's"
  sv_PreExecWithSelectUTXO :: "'c \<Rightarrow> PreExecWithSelectUTXORequest option \<Rightarrow> 's \<Rightarrow>
    PreExecWithSelectUTXOResponse reply \<times> 's"
  sv_PreExec :: "'c \<Rightarrow> InvokeRPCRequest option \<Rightarrow> 's \<Rightarrow> InvokeRPCResponse reply \<times> 's"

text \<open>\<open>encoding/json\<close> on the messages the endorser reads and writes.\<close>

record jsonlib =
  un_PreExecWithSelectUTXORequest :: "bytes \<Rightarrow> gerr + PreExecWithSelectUTXORequest"
  un_CrossQueryRequest :: "bytes \<Rightarrow> gerr + CrossQueryRequest"
  un_TxStatus :: "bytes \<Rightarrow> gerr + TxStatus"
  mj_PreExecWithSelectUTXOResponse :: "PreExecWithSelectUTXOResponse \<Rightarrow> gerr + bytes"
  mj_CrossQueryResponse :: "CrossQueryResponse \<Rightarrow> gerr + bytes"
  mj_Transaction :: "Transaction \<Rightarrow> gerr + bytes"
  mj_CommonReply :: "CommonReply \<Rightarrow> gerr + bytes"

record ('c, 's, 'x, 'sk) DefaultXEndorser =
  dx_requestType :: "string \<Rightarrow> bool option"
  dx_svr :: "('c, 's) XEndorserServer"
  dx_json :: jsonlib
  dx_NewReqCtx :: "string \<Rightarrow> string \<Rightarrow> gerr + 'c"
  dx_ReadFile :: "string \<Rightarrow> gerr + bytes"
  dx_CreateCryptoClient :: "bytes \<Rightarrow> gerr + 'sk signer"
  dx_Sha256 :: "bytes \<Rightarrow> bytes"
  dx_MakeTxDigestHash :: "'x option \<Rightarrow> gerr + bytes"
  dx_Tx :: "(Transaction, 'x) codec"

definition endorser_requests :: "string \<Rightarrow> bool option" where
  "endorser_requests =
     [''PreExecWithFee'' \<mapsto> True, ''ComplianceCheck'' \<mapsto> True,
      ''CrossQueryPreExec'' \<mapsto> True, ''TxQuery'' \<mapsto> True]"

definition NewDefaultXEndorser where
  "NewDefaultXEndorser svr js newctx readfile crypto sha digestTx txc =
     \<lparr>dx_requestType = endorser_requests, dx_svr = svr, dx_json = js, dx_NewReqCtx = newctx,
      dx_ReadFile = readfile, dx_CreateCryptoClient = crypto, dx_Sha256 = sha,
      dx_MakeTxDigestHash = digestTx, dx_Tx = txc\<rparr>"

definition DefaultKeyPath :: string where
  "DefaultKeyPath = ''./data/endorser/keys/''"

section \<open>Keys and signatures\<close>

text \<open>The address, the private key and the public key; the address is returned even with an error.\<close>

definition getEndorserKey ::
  "('c, 's, 'x, 'sk) DefaultXEndorser \<Rightarrow> string \<Rightarrow> gerr + bytes \<times> bytes \<times> bytes" where
  "getEndorserKey dxe keypath =
     res_bind (dx_ReadFile dxe (keypath @ ''private.key'')) (\<lambda>sk.
     res_bind (dx_ReadFile dxe (keypath @ ''public.key'')) (\<lambda>ak.
     res_bind (dx_ReadFile dxe (keypath @ ''address'')) (\<lambda>addr.
       Inr (addr, sk, ak))))"

definition signData ::
  "('c, 's, 'x, 'sk) DefaultXEndorser \<Rightarrow> bytes \<Rightarrow> string \<Rightarrow> gerr + bytes \<times> SignatureInfo" where
  "signData dxe dat keypath =
     res_bind (getEndorserKey dxe keypath) (\<lambda>(addr, jsonSKey, jsonAKey).
     res_bind (dx_CreateCryptoClient dxe jsonSKey) (\<lambda>cryptoClient.
     res_bind (GetEcdsaPrivateKeyFromJsonStr cryptoClient jsonSKey) (\<lambda>privateKey.
     res_bind (SignECDSA cryptoClient privateKey dat) (\<lambda>sign.
       Inr (addr, \<lparr>sig_PublicKey = jsonAKey, sig_Sign = sign\<rparr>)))))"

definition generateTxSign ::
  "('c, 's, 'x, 'sk) DefaultXEndorser \<Rightarrow> EndorserRequest \<Rightarrow> gerr + bytes \<times> SignatureInfo" where
  "generateTxSign dxe req =
     (case ereq_RequestData req of
        None \<Rightarrow> Inl (Errorf ''request data is empty'')
      | Some dat \<Rightarrow>
          res_bind (un_TxStatus (dx_json dxe) dat) (\<lambda>txStatus.
          res_bind (dx_MakeTxDigestHash dxe (TxToXledger (dx_Tx dxe) (txst_Tx txStatus))) (\<lambda>digest.
            signData dxe digest DefaultKeyPath)))"

section \<open>Responses\<close>

type_synonym ereply = "EndorserResponse option \<times> gerr option"

definition generateErrorResponse :: "EndorserRequest \<Rightarrow> Header \<Rightarrow> gerr \<Rightarrow> ereply" where
  "generateErrorResponse req header err =
     (Some (new_EndorserResponse\<lparr>eres_Header := Some header, eres_ResponseName := ereq_RequestName req\<rparr>), Some err)"

definition generateSuccessResponse ::
  "EndorserRequest \<Rightarrow> bytes \<Rightarrow> bytes \<Rightarrow> SignatureInfo option \<Rightarrow> Header \<Rightarrow> ereply" where
  "generateSuccessResponse req resData addr sign header =
     (Some \<lparr>eres_Header = Some header, eres_ResponseName = ereq_RequestName req,
            eres_EndorserAddress = addr, eres_EndorserSign = sign, eres_ResponseData = Some resData\<rparr>, None)"

definition genSignedResp ::
  "('c, 's, 'x, 'sk) DefaultXEndorser \<Rightarrow> EndorserRequest \<Rightarrow> gerr option \<Rightarrow> Header \<Rightarrow> bytes \<Rightarrow> ereply" where
  "genSignedResp dxe req err resHeader resData =
     (case err of
        Some e \<Rightarrow> generateErrorResponse req resHeader e
      | None \<Rightarrow>
          (let dat = elems (ereq_RequestData req) @ resData;
               digest = dx_Sha256 dxe dat
           in case signData dxe digest DefaultKeyPath of
                Inl e \<Rightarrow> generateErrorResponse req resHeader e
              | Inr (addr, sign) \<Rightarrow> generateSuccessResponse req resData addr (Some sign) resHeader))"

section \<open>The calls of the server\<close>

definition hdr_err :: "Header option \<Rightarrow> XChainErrorEnum" where
  "hdr_err h = nilget SUCCESS hdr_Error h"

text \<open>Results are the data, the error code and the error; the data matter only without an error.\<close>

definition getPreExecResult ::
  "('c, 's, 'x, 'sk) DefaultXEndorser \<Rightarrow> 'c \<Rightarrow> EndorserRequest \<Rightarrow> 's \<Rightarrow>
   (bytes \<times> XChainErrorEnum \<times> gerr option) \<times> 's" where
  "getPreExecResult dxe ctx req s =
     (case un_PreExecWithSelectUTXORequest (dx_json dxe) (elems (ereq_RequestData req)) of
        Inl err \<Rightarrow> (('''', SERVICE_REFUSED_ERROR, Some err), s)
      | Inr request \<Rightarrow>
          (case sv_PreExecWithSelectUTXO (dx_svr dxe) ctx (Some request) s of
             ((res, Some err), s') \<Rightarrow> (('''', hdr_err (pesres_Header res), Some err), s')
           | ((res, None), s') \<Rightarrow>
               (case mj_PreExecWithSelectUTXOResponse (dx_json dxe) res of
                  Inl err \<Rightarrow> (('''', SERVICE_REFUSED_ERROR, Some err), s')
                | Inr sData \<Rightarrow> ((sData, SUCCESS, None), s'))))"

definition getCrossQueryResult ::
  "('c, 's, 'x, 'sk) DefaultXEndorser \<Rightarrow> 'c \<Rightarrow> EndorserRequest \<Rightarrow> 's \<Rightarrow>
   (bytes \<times> XChainErrorEnum \<times> gerr option) \<times> 's" where
  "getCrossQueryResult dxe ctx req s =
     (case un_CrossQueryRequest (dx_json dxe) (elems (ereq_RequestData req)) of
        Inl err \<Rightarrow> (('''', SERVICE_REFUSED_ERROR, Some err), s)
      | Inr cqReq \<Rightarrow>
          (let preExecReq = \<lparr>irpc_Header = ereq_Header req, irpc_Bcname = cqreq_Bcname cqReq,
                             irpc_Requests = Some [cqreq_Request cqReq],
                             irpc_Initiator = cqreq_Initiator cqReq,
                             irpc_AuthRequire = cqreq_AuthRequire cqReq\<rparr>
           in
           case sv_PreExec (dx_svr dxe) ctx (Some preExecReq) s of
             ((preExecRes, Some err), s') \<Rightarrow> (('''', hdr_err (irpr_Header preExecRes), Some err), s')
           | ((preExecRes, None), s') \<Rightarrow>
               if hdr_err (irpr_Header preExecRes) \<noteq> SUCCESS
               then (('''', hdr_err (irpr_Header preExecRes), Some (Errorf ''PreExec not success'')), s')
               else
                 (let contractRes = nilget [] iresp_Responses (irpr_Response preExecRes);
                      res = (if length contractRes > 0
                             then new_CrossQueryResponse\<lparr>cqres_Response := Some (last contractRes)\<rparr>
                             else new_CrossQueryResponse)
                  in
                  case mj_CrossQueryResponse (dx_json dxe) res of
                    Inl err \<Rightarrow> (('''', SERVICE_REFUSED_ERROR, Some err), s')
                  | Inr sData \<Rightarrow> ((sData, SUCCESS, None), s'))))"

definition getTxResult ::
  "('c, 's, 'x, 'sk) DefaultXEndorser \<Rightarrow> 'c \<Rightarrow> EndorserRequest \<Rightarrow> 's \<Rightarrow>
   (bytes \<times> XChainErrorEnum \<times> gerr option) \<times> 's" where
  "getTxResult dxe ctx req s =
     (case un_TxStatus (dx_json dxe) (elems (ereq_RequestData req)) of
        Inl err \<Rightarrow> (('''', SERVICE_REFUSED_ERROR, Some err), s)
      | Inr request \<Rightarrow>
          (case sv_QueryTx (dx_svr dxe) ctx (Some request) s of
             ((rep, Some err), s') \<Rightarrow> (('''', hdr_err (txst_Header rep), Some err), s')
           | ((rep, None), s') \<Rightarrow>
               if hdr_err (txst_Header rep) \<noteq> SUCCESS
               then (('''', hdr_err (txst_Header rep), Some (Errorf ''QueryTx not success'')), s')
               else
                 (case txst_Tx rep of
                    None \<Rightarrow> (('''', hdr_err (txst_Header rep), Some (Errorf ''tx not found'')), s')
                  | Some tx \<Rightarrow>
                      (case mj_Transaction (dx_json dxe) tx of
                         Inl err \<Rightarrow> (('''', SERVICE_REFUSED_ERROR, Some err), s')
                       | Inr sData \<Rightarrow> ((sData, SUCCESS, None), s')))))"

definition processFee ::
  "('c, 's, 'x, 'sk) DefaultXEndorser \<Rightarrow> 'c \<Rightarrow> EndorserRequest \<Rightarrow> 's \<Rightarrow>
   (XChainErrorEnum \<times> gerr option) \<times> 's" where
  "processFee dxe ctx req s =
     (case ereq_Fee req of
        None \<Rightarrow> ((SUCCESS, None), s)
      | Some fee \<Rightarrow>
          (let txStatus = new_TxStatus\<lparr>txst_Txid := tx_Txid fee, txst_Bcname := ereq_BcName req,
                                       txst_Tx := Some fee\<rparr>
           in
           case sv_PostTx (dx_svr dxe) ctx (Some txStatus) s of
             ((res, err), s') \<Rightarrow>
               (let errCode = hdr_err (crep_Header res) in
                case err of
                  Some e \<Rightarrow> ((errCode, Some e), s')
                | None \<Rightarrow>
                    if errCode \<noteq> SUCCESS then ((errCode, Some (Errorf ''Fee post to chain failed'')), s')
                    else ((SUCCESS, None), s'))))"

section \<open>\<open>EndorserCall\<close>\<close>

definition dxe_getClietIP :: "peer \<Rightarrow> gerr + string" where
  "dxe_getClietIP pr =
     (case pr of
        PeerAbsent \<Rightarrow> Inr ''''
      | PeerNoAddr \<Rightarrow> Inl (Errorf ''get client_ip failed because peer.Addr is nil'')
      | PeerAddr addr \<Rightarrow> (let addrSlice = split_char CHR '':'' addr in Inr (hd addrSlice)))"

definition dxe_createReqCtx ::
  "('c, 's, 'x, 'sk) DefaultXEndorser \<Rightarrow> peer \<Rightarrow> Header option \<Rightarrow> gerr + 'c" where
  "dxe_createReqCtx dxe pr reqHeader =
     (case dxe_getClietIP pr of
        Inl err \<Rightarrow> Inl (Errorf ''get client ip failed.err'')
      | Inr clientIp \<Rightarrow>
          (case dx_NewReqCtx dxe (nilget '''' hdr_Logid reqHeader) clientIp of
             Inl err \<Rightarrow> Inl (Errorf ''create request context failed.err'')
           | Inr rctx \<Rightarrow> Inr rctx))"

definition EndorserCall ::
  "('c, 's, 'x, 'sk) DefaultXEndorser \<Rightarrow> peer \<Rightarrow> EndorserRequest \<Rightarrow> 's \<Rightarrow> ereply \<times> 's" where
  "EndorserCall dxe pr req s =
     (let resHeader = new_Header\<lparr>hdr_Error := SUCCESS\<rparr>;
          resHeader = (if ereq_Header req = None
                       then resHeader\<lparr>hdr_Logid := nilget '''' hdr_Logid (ereq_Header req)\<rparr>
                       else resHeader)
      in
      if dx_requestType dxe (ereq_RequestName req) = None
      then (generateErrorResponse req (resHeader\<lparr>hdr_Error := SERVICE_REFUSED_ERROR\<rparr>)
              (Errorf ''request name not supported''), s)
      else
        (case dxe_createReqCtx dxe pr (ereq_Header req) of
           Inl err \<Rightarrow> ((None, Some err), s)
         | Inr ctx \<Rightarrow>
             if ereq_RequestName req = ''ComplianceCheck'' then
               (case processFee dxe ctx req s of
                  ((errCode, Some err), s') \<Rightarrow>
                    (generateErrorResponse req (resHeader\<lparr>hdr_Error := errCode\<rparr>) err, s')
                | ((errCode, None), s') \<Rightarrow>
                    (case generateTxSign dxe req of
                       Inl err \<Rightarrow>
                         (generateErrorResponse req (resHeader\<lparr>hdr_Error := SERVICE_REFUSED_ERROR\<rparr>) err, s')
                     | Inr (addr, sign) \<Rightarrow>
                         (case mj_CommonReply (dx_json dxe)
                                 (new_CommonReply\<lparr>crep_Header := Some (new_Header\<lparr>hdr_Error := SUCCESS\<rparr>)\<rparr>) of
                            Inl err \<Rightarrow>
                              (generateErrorResponse req (resHeader\<lparr>hdr_Error := SERVICE_REFUSED_ERROR\<rparr>) err, s')
                          | Inr resData \<Rightarrow>
                              (generateSuccessResponse req resData addr (Some sign) resHeader, s'))))
             else if ereq_RequestName req = ''PreExecWithFee'' then
               (case getPreExecResult dxe ctx req s of
                  ((resData, errCode, Some err), s') \<Rightarrow>
                    (generateErrorResponse req (resHeader\<lparr>hdr_Error := errCode\<rparr>) err, s')
                | ((resData, errCode, None), s') \<Rightarrow>
                    (generateSuccessResponse req resData '''' None resHeader, s'))
             else if ereq_RequestName req = ''CrossQueryPreExec'' then
               (case getCrossQueryResult dxe ctx req s of
                  ((resData, errCode, err), s') \<Rightarrow>
                    (genSignedResp dxe req err (resHeader\<lparr>hdr_Error := errCode\<rparr>) resData, s'))
             else if ereq_RequestName req = ''TxQuery'' then
               (case getTxResult dxe ctx req s of
                  ((resData, errCode, err), s') \<Rightarrow>
                    (genSignedResp dxe req err (resHeader\<lparr>hdr_Error := errCode\<rparr>) resData, s'))
             else ((None, None), s)))"

text \<open>The header every response starts from: the test on the request header is inverted, so the log id
  is read from a nil header.\<close>

definition start_header :: Header where
  "start_header = \<lparr>hdr_Logid = '''', hdr_FromNode = '''', hdr_Error = SUCCESS\<rparr>"

lemma start_header_eq:
  "(if ereq_Header req = None
    then (new_Header\<lparr>hdr_Error := SUCCESS\<rparr>)\<lparr>hdr_Logid := nilget [] hdr_Logid (ereq_Header req)\<rparr>
    else new_Header\<lparr>hdr_Error := SUCCESS\<rparr>) = start_header"
  "new_Header\<lparr>hdr_Error := SUCCESS\<rparr> = start_header"
  "new_CommonReply\<lparr>crep_Header := h\<rparr> = \<lparr>crep_Header = h\<rparr>"
  by (simp_all add: start_header_def)

lemma EndorserCall_refused:
  "dx_requestType dxe (ereq_RequestName req) = None \<Longrightarrow>
   EndorserCall dxe pr req s =
     (generateErrorResponse req (start_header\<lparr>hdr_Error := SERVICE_REFUSED_ERROR\<rparr>)
        (Errorf ''request name not supported''), s)"
  by (simp add: EndorserCall_def Let_def start_header_def)

lemma EndorserCall_no_ctx:
  "dx_requestType dxe (ereq_RequestName req) = Some b \<Longrightarrow>
   dxe_createReqCtx dxe pr (ereq_Header req) = Inl err \<Longrightarrow>
   EndorserCall dxe pr req s = ((None, Some err), s)"
  by (auto simp: EndorserCall_def Let_def)

lemma EndorserCall_ready:
  assumes "snd (EndorserCall dxe pr req s) \<noteq> s"
  obtains b ctx where "dx_requestType dxe (ereq_RequestName req) = Some b"
    "dxe_createReqCtx dxe pr (ereq_Header req) = Inr ctx"
proof (cases "dx_requestType dxe (ereq_RequestName req)")
  case None
  from EndorserCall_refused[OF this] assms show thesis by simp
next
  case (Some b)
  show thesis
  proof (cases "dxe_createReqCtx dxe pr (ereq_Header req)")
    case (Inl e)
    from EndorserCall_no_ctx[OF Some this] assms show thesis by simp
  next
    case (Inr ctx)
    with Some show thesis by (rule that)
  qed
qed

lemma EndorserCall_branches:
  assumes "dx_requestType dxe (ereq_RequestName req) = Some b"
    and "dxe_createReqCtx dxe pr (ereq_Header req) = Inr ctx"
  shows "ereq_RequestName req = ''ComplianceCheck'' \<Longrightarrow> EndorserCall dxe pr req s =
      (case processFee dxe ctx req s of
         ((errCode, Some err), s') \<Rightarrow> (generateErrorResponse req (start_header\<lparr>hdr_Error := errCode\<rparr>) err, s')
       | ((errCode, None), s') \<Rightarrow>
           (case generateTxSign dxe req of
              Inl err \<Rightarrow> (generateErrorResponse req (start_header\<lparr>hdr_Error := SERVICE_REFUSED_ERROR\<rparr>) err, s')
            | Inr (addr, sign) \<Rightarrow>
                (case mj_CommonReply (dx_json dxe) \<lparr>crep_Header = Some start_header\<rparr> of
                   Inl err \<Rightarrow> (generateErrorResponse req (start_header\<lparr>hdr_Error := SERVICE_REFUSED_ERROR\<rparr>) err, s')
                 | Inr resData \<Rightarrow> (generateSuccessResponse req resData addr (Some sign) start_header, s'))))"
    and "ereq_RequestName req = ''PreExecWithFee'' \<Longrightarrow> EndorserCall dxe pr req s =
      (case getPreExecResult dxe ctx req s of
         ((resData, errCode, Some err), s') \<Rightarrow>
           (generateErrorResponse req (start_header\<lparr>hdr_Error := errCode\<rparr>) err, s')
       | ((resData, errCode, None), s') \<Rightarrow> (generateSuccessResponse req resData '''' None start_header, s'))"
    and "ereq_RequestName req = ''CrossQueryPreExec'' \<Longrightarrow> EndorserCall dxe pr req s =
      (case getCrossQueryResult dxe ctx req s of
         ((resData, errCode, err), s') \<Rightarrow> (genSignedResp dxe req err (start_header\<lparr>hdr_Error := errCode\<rparr>) resData, s'))"
    and "ereq_RequestName req = ''TxQuery'' \<Longrightarrow> EndorserCall dxe pr req s =
      (case getTxResult dxe ctx req s of
         ((resData, errCode, err), s') \<Rightarrow> (genSignedResp dxe req err (start_header\<lparr>hdr_Error := errCode\<rparr>) resData, s'))"
    and "ereq_RequestName req \<notin> {''ComplianceCheck'', ''PreExecWithFee'', ''CrossQueryPreExec'', ''TxQuery''} \<Longrightarrow>
      EndorserCall dxe pr req s = ((None, None), s)"
  unfolding EndorserCall_def Let_def start_header_eq(1)
  unfolding start_header_eq(2,3)
  using assms by (simp_all del: new_Header_def)

text \<open>The state after a call is the state after its one call of the server.\<close>

lemma EndorserCall_state:
  assumes "dx_requestType dxe (ereq_RequestName req) = Some b"
    and "dxe_createReqCtx dxe pr (ereq_Header req) = Inr ctx"
  shows "ereq_RequestName req = ''ComplianceCheck'' \<Longrightarrow>
      snd (EndorserCall dxe pr req s) = snd (processFee dxe ctx req s)"
    and "ereq_RequestName req = ''PreExecWithFee'' \<Longrightarrow>
      snd (EndorserCall dxe pr req s) = snd (getPreExecResult dxe ctx req s)"
    and "ereq_RequestName req = ''CrossQueryPreExec'' \<Longrightarrow>
      snd (EndorserCall dxe pr req s) = snd (getCrossQueryResult dxe ctx req s)"
    and "ereq_RequestName req = ''TxQuery'' \<Longrightarrow>
      snd (EndorserCall dxe pr req s) = snd (getTxResult dxe ctx req s)"
  by (simp_all only: EndorserCall_branches[OF assms])
     (simp_all split: prod.split option.split sum.split)

section \<open>The contract of the server\<close>

text \<open>What the endorser's results depend on: replies without header (the server leaves it to the
  interceptor, which does not run between the two), queries that change nothing, and
  pre-executions that send nothing to the network.\<close>

locale endorser_server =
  fixes svr :: "('c, 's) XEndorserServer" and sent :: "'s \<Rightarrow> 'm list"
  assumes PostTx_header: "crep_Header (fst (fst (sv_PostTx svr c q s))) = None"
    and QueryTx_header: "txst_Header (fst (fst (sv_QueryTx svr c q s2))) = None"
    and PreExecSel_header: "pesres_Header (fst (fst (sv_PreExecWithSelectUTXO svr c q3 s))) = None"
    and PreExec_header: "irpr_Header (fst (fst (sv_PreExec svr c q4 s))) = None"
    and QueryTx_reads: "snd (sv_QueryTx svr c q s) = s"
    and PreExecSel_sends: "sent (snd (sv_PreExecWithSelectUTXO svr c q3 s)) = sent s"
    and PreExec_sends: "sent (snd (sv_PreExec svr c q4 s)) = sent s"
begin

lemma header_None:
  "sv_PostTx svr c q s = ((r1, e), s') \<Longrightarrow> crep_Header r1 = None"
  "sv_QueryTx svr c q s = ((r2, e), s') \<Longrightarrow> txst_Header r2 = None"
  "sv_PreExecWithSelectUTXO svr c q3 s = ((r3, e), s') \<Longrightarrow> pesres_Header r3 = None"
  "sv_PreExec svr c q4 s = ((r4, e), s') \<Longrightarrow> irpr_Header r4 = None"
  using PostTx_header[of c q s] QueryTx_header[of c q s] PreExecSel_header[of c q3 s] PreExec_header[of c q4 s]
  by auto

lemma results_send_nothing:
  assumes "dx_svr dxe = svr"
  shows "sent (snd (getPreExecResult dxe c req s)) = sent s"
    and "sent (snd (getCrossQueryResult dxe c req s)) = sent s"
    and "snd (getTxResult dxe c req s) = s"
proof -
  show "sent (snd (getPreExecResult dxe c req s)) = sent s"
    using assms PreExecSel_sends[of c _ s]
    by (auto simp: getPreExecResult_def split: sum.split prod.split option.split)
       (metis snd_conv)+
  show "sent (snd (getCrossQueryResult dxe c req s)) = sent s"
    using assms PreExec_sends[of c _ s]
    by (auto simp: getCrossQueryResult_def Let_def split: sum.split prod.split option.split)
       (metis snd_conv)+
  show "snd (getTxResult dxe c req s) = s"
    using assms QueryTx_reads[of c _ s]
    by (auto simp: getTxResult_def Let_def split: sum.split prod.split option.split)
       (metis snd_conv)+
qed

lemma fee_sends:
  assumes "dx_svr dxe = svr" "ereq_Fee req = None"
  shows "snd (processFee dxe c req s) = s"
  using assms by (simp add: processFee_def)

text \<open>Only a compliance check with a fee reaches \<open>PostTx\<close>.\<close>

lemma sends_only_fee:
  assumes "dx_svr dxe = svr" "sent (snd (EndorserCall dxe pr req s)) \<noteq> sent s"
  shows "ereq_RequestName req = ''ComplianceCheck'' \<and> ereq_Fee req \<noteq> None"
proof (rule ccontr)
  assume neg: "\<not> ?thesis"
  have moved: "snd (EndorserCall dxe pr req s) \<noteq> s" using assms(2) by auto
  obtain b ctx where rt: "dx_requestType dxe (ereq_RequestName req) = Some b"
      and ctx: "dxe_createReqCtx dxe pr (ereq_Header req) = Inr ctx"
    by (rule EndorserCall_ready[OF moved])
  note st = EndorserCall_state[OF rt ctx, of s] EndorserCall_branches(5)[OF rt ctx, of s]
  consider "ereq_RequestName req = ''ComplianceCheck''" | "ereq_RequestName req = ''PreExecWithFee''"
    | "ereq_RequestName req = ''CrossQueryPreExec''" | "ereq_RequestName req = ''TxQuery''"
    | "ereq_RequestName req \<notin> {''ComplianceCheck'', ''PreExecWithFee'', ''CrossQueryPreExec'', ''TxQuery''}"
    by blast
  then have "sent (snd (EndorserCall dxe pr req s)) = sent s"
  proof cases
    case 1
    then have "ereq_Fee req = None" using neg by blast
    with 1 show ?thesis using st(1) fee_sends[OF assms(1)] by simp
  next
    case 2 then show ?thesis using st(2) results_send_nothing(1)[OF assms(1)] by simp
  next
    case 3 then show ?thesis using st(3) results_send_nothing(2)[OF assms(1)] by simp
  next
    case 4 then show ?thesis using st(4) results_send_nothing(3)[OF assms(1)] by simp
  next
    case 5 then show ?thesis using st(5) by simp
  qed
  with assms(2) show False ..
qed

end

text \<open>The RPC server as the endorser's server.\<close>

definition rpc_svr :: "'x xlib \<Rightarrow> (('w, 'x, 'k) ReqCtx, ('w, 'x) RpcState) XEndorserServer" where
  "rpc_svr L =
     \<lparr>sv_PostTx = PostTx L,
      sv_QueryTx = (\<lambda>rctx. as_handler (QueryTx L rctx)),
      sv_PreExecWithSelectUTXO = PreExecWithSelectUTXO L,
      sv_PreExec = PreExec L\<rparr>"

lemma PreExec_sent: "st_sent (snd (PreExec L rctx req s)) = st_sent s"
  by (auto simp: PreExec_def Let_def on_node_eq split: sum.split prod.split)

lemma SelectUTXO_sent: "st_sent (snd (SelectUTXO L rctx req s)) = st_sent s"
  by (auto simp: SelectUTXO_def Let_def on_node_eq split: sum.split prod.split option.split)

lemma PreExecWithSelectUTXO_sent: "st_sent (snd (PreExecWithSelectUTXO L rctx req s)) = st_sent s"
proof -
  have "PreExec L rctx q s = (r, s') \<Longrightarrow> st_sent s' = st_sent s" for q r s'
    using PreExec_sent[of L rctx q s] by simp
  moreover have "SelectUTXO L rctx q s' = (r, s'') \<Longrightarrow> st_sent s'' = st_sent s'" for q r s' s''
    using SelectUTXO_sent[of L rctx q s'] by simp
  ultimately show ?thesis
    by (auto simp: PreExecWithSelectUTXO_def Let_def split: prod.split option.split)
qed

interpretation rpcsvr: endorser_server "rpc_svr L" st_sent for L
  using rpc_PostTx.header_unset rpc_QueryTx.header_unset rpc_PreExec.header_unset
    rpc_PreExecWithSelectUTXO.header_unset
  by unfold_locales (simp_all add: rpc_svr_def PreExec_sent PreExecWithSelectUTXO_sent as_handler_def)

section \<open>The proxy endorser\<close>

text \<open>\<open>newEndorserService\<close> picks the module by its configured name.\<close>

datatype 'd endorser_kind = DefaultEndorser 'd | ProxyEndorser "string list"

definition newEndorserService :: "string \<Rightarrow> string list \<Rightarrow> 'd \<Rightarrow> gerr + 'd endorser_kind" where
  "newEndorserService emodule hosts dxe =
     (if emodule = ''default'' then Inr (DefaultEndorser dxe)
      else if emodule = ''proxy'' then Inr (ProxyEndorser hosts)
      else Inl (Errorf ''unknown endorser module''))"

text \<open>\<open>getHost\<close>: \<open>rand.Intn\<close> is a given function that stays below its argument.\<close>

definition getHost :: "(nat \<Rightarrow> nat) \<Rightarrow> string list \<Rightarrow> string" where
  "getHost intn hosts = (if length hosts > 0 then hosts ! intn (length hosts) else '''')"

text \<open>The forwarded call copies four fields of the answer; the header is left to the interceptor.\<close>

definition proxy_EndorserCall ::
  "(string \<Rightarrow> gerr + (EndorserRequest \<Rightarrow> gerr + EndorserResponse)) \<Rightarrow> string \<Rightarrow> EndorserRequest \<Rightarrow> EndorserResponse reply" where
  "proxy_EndorserCall getClient host req =
     (let resp = new_EndorserResponse in
      case getClient host of
        Inl err \<Rightarrow> (resp, Some err)
      | Inr endc \<Rightarrow>
          (case endc req of
             Inl err \<Rightarrow> (resp, Some err)
           | Inr res \<Rightarrow>
               (resp\<lparr>eres_EndorserAddress := eres_EndorserAddress res,
                     eres_ResponseName := eres_ResponseName res,
                     eres_ResponseData := eres_ResponseData res,
                     eres_EndorserSign := eres_EndorserSign res\<rparr>, None)))"

text \<open>
  \<open>getClient\<close> runs in many requests at once: each looks in the cache, takes the mutex on
  a miss, looks again, dials and stores.  A thread is at one of these points; clients are
  numbered in the order of dialling.
\<close>

datatype pc =
    Start
  | WantLock string          \<comment> \<open>missed in the cache, before \<open>mutex.Lock\<close>\<close>
  | Locked string            \<comment> \<open>holds the mutex, before the second \<open>Load\<close>\<close>
  | Missed string            \<comment> \<open>holds the mutex, missed again, before \<open>grpc.Dial\<close>\<close>
  | Dialled string nat       \<comment> \<open>holds the mutex and a connection, before \<open>Store\<close>\<close>
  | Stop string "gerr + nat" \<comment> \<open>returned\<close>

record proxy_state =
  px_cache :: "string \<rightharpoonup> nat"
  px_mutex :: "nat option"
  px_pc :: "nat \<Rightarrow> pc"
  px_stored :: "(string \<times> nat) list"
  px_next :: nat

definition px_init :: proxy_state where
  "px_init = \<lparr>px_cache = (\<lambda>_. None), px_mutex = None, px_pc = (\<lambda>_. Start), px_stored = [], px_next = 0\<rparr>"

definition goto :: "nat \<Rightarrow> pc \<Rightarrow> proxy_state \<Rightarrow> proxy_state" where
  "goto t p s = s\<lparr>px_pc := (px_pc s)(t := p)\<rparr>"

inductive gc_step :: "proxy_state \<Rightarrow> proxy_state \<Rightarrow> bool" where
  gc_empty: "px_pc s t = Start \<Longrightarrow> gc_step s (goto t (Stop '''' (Inl (Errorf ''empty host''))) s)"
| gc_hit: "px_pc s t = Start \<Longrightarrow> host \<noteq> '''' \<Longrightarrow> px_cache s host = Some c \<Longrightarrow>
    gc_step s (goto t (Stop host (Inr c)) s)"
| gc_miss: "px_pc s t = Start \<Longrightarrow> host \<noteq> '''' \<Longrightarrow> px_cache s host = None \<Longrightarrow>
    gc_step s (goto t (WantLock host) s)"
| gc_lock: "px_pc s t = WantLock host \<Longrightarrow> px_mutex s = None \<Longrightarrow>
    gc_step s ((goto t (Locked host) s)\<lparr>px_mutex := Some t\<rparr>)"
| gc_hit2: "px_pc s t = Locked host \<Longrightarrow> px_cache s host = Some c \<Longrightarrow>
    gc_step s ((goto t (Stop host (Inr c)) s)\<lparr>px_mutex := None\<rparr>)"
| gc_miss2: "px_pc s t = Locked host \<Longrightarrow> px_cache s host = None \<Longrightarrow>
    gc_step s (goto t (Missed host) s)"
| gc_dial_err: "px_pc s t = Missed host \<Longrightarrow>
    gc_step s ((goto t (Stop host (Inl err)) s)\<lparr>px_mutex := None\<rparr>)"
| gc_dial: "px_pc s t = Missed host \<Longrightarrow>
    gc_step s ((goto t (Dialled host (px_next s)) s)\<lparr>px_next := Suc (px_next s)\<rparr>)"
| gc_store: "px_pc s t = Dialled host c \<Longrightarrow>
    gc_step s ((goto t (Stop host (Inr c)) s)
      \<lparr>px_cache := (px_cache s)(host \<mapsto> c), px_stored := px_stored s @ [(host, c)], px_mutex := None\<rparr>)"

inductive gc_reach :: "proxy_state \<Rightarrow> bool" where
  gc_start: "gc_reach px_init"
| gc_next: "gc_reach s \<Longrightarrow> gc_step s s' \<Longrightarrow> gc_reach s'"

fun critical :: "pc \<Rightarrow> bool" where
  "critical (Locked h) = True"
| "critical (Missed h) = True"
| "critical (Dialled h c) = True"
| "critical _ = False"

fun uncached :: "(string \<rightharpoonup> nat) \<Rightarrow> pc \<Rightarrow> bool" where
  "uncached m (Missed h) = (m h = None)"
| "uncached m (Dialled h c) = (m h = None)"
| "uncached m _ = True"

text \<open>The mutex is held exactly by the thread in the critical section; behind the second look the host
  is not cached; the cache holds what was stored, each host once; a returned client is the cached one.\<close>

definition gc_inv :: "proxy_state \<Rightarrow> bool" where
  "gc_inv s \<longleftrightarrow>
     (\<forall>t. critical (px_pc s t) \<longleftrightarrow> px_mutex s = Some t) \<and>
     (\<forall>t. uncached (px_cache s) (px_pc s t)) \<and>
     distinct (map fst (px_stored s)) \<and>
     px_cache s = map_of (px_stored s) \<and>
     (\<forall>t h c. px_pc s t = Stop h (Inr c) \<longrightarrow> px_cache s h = Some c)"

lemma map_of_snoc: "h \<notin> fst ` set xs \<Longrightarrow> map_of (xs @ [(h, c)]) = (map_of xs)(h \<mapsto> c)"
  by (induction xs) (auto simp: fun_eq_iff)

lemma gc_step_inv:
  assumes "gc_step s s'" "gc_inv s"
  shows "gc_inv s'"
  using assms
proof (cases rule: gc_step.cases)
  case (gc_store t host c)
  have "critical (px_pc s t) \<longleftrightarrow> px_mutex s = Some t" "uncached (px_cache s) (px_pc s t)"
    using assms(2) unfolding gc_inv_def by blast+
  then have mtx: "px_mutex s = Some t" and unc: "px_cache s host = None"
    using gc_store(2) by simp_all
  have others: "\<not> critical (px_pc s t')" if "t' \<noteq> t" for t'
    using assms(2) mtx that by (auto simp: gc_inv_def)
  then have unc': "uncached m (px_pc s t')" if "t' \<noteq> t" for t' m
    using that by (cases "px_pc s t'") fastforce+
  have new: "host \<notin> fst ` set (px_stored s)"
    using unc assms(2) by (simp add: gc_inv_def map_of_eq_None_iff)
  have stop: "px_pc s t' \<noteq> Stop host (Inr ca)" for t' ca
    using assms(2) unc unfolding gc_inv_def by (metis option.distinct(1))
  show ?thesis
    using assms(2) others unc' new mtx unc stop
    by (auto simp: gc_inv_def gc_store(1) goto_def map_of_snoc simp del: map_of_append)
qed ((auto simp: gc_inv_def goto_def split: if_splits; metis critical.simps uncached.simps)+)

lemma gc_reach_inv: "gc_reach s \<Longrightarrow> gc_inv s"
proof (induction rule: gc_reach.induct)
  case gc_start
  show ?case by (simp add: gc_inv_def px_init_def)
qed (rule gc_step_inv)

section \<open>Properties\<close>

text \<open>C7: A compliance check is signed only after its fee was taken: when the call succeeds, either no fee
  was attached and the state is untouched, or the fee transaction was posted on the chain of the request
  and the server answered without an error; and the signature returned is the one made over the digest of
  the transaction in the request data.\<close>

theorem compliance_signed_after_fee:
  assumes "dx_requestType dxe = endorser_requests" "ereq_RequestName req = ''ComplianceCheck''"
    and "EndorserCall dxe pr req s = ((Some r, None), s')"
  shows "\<exists>ctx addr sign. dxe_createReqCtx dxe pr (ereq_Header req) = Inr ctx \<and>
     generateTxSign dxe req = Inr (addr, sign) \<and>
     eres_EndorserSign r = Some sign \<and> eres_EndorserAddress r = addr \<and>
     (case ereq_Fee req of
        None \<Rightarrow> s' = s
      | Some fee \<Rightarrow>
          (\<exists>rep. sv_PostTx (dx_svr dxe) ctx
              (Some (new_TxStatus\<lparr>txst_Txid := tx_Txid fee, txst_Bcname := ereq_BcName req, txst_Tx := Some fee\<rparr>)) s =
              ((rep, None), s') \<and> hdr_err (crep_Header rep) = SUCCESS))"
proof -
  have rt: "dx_requestType dxe (ereq_RequestName req) = Some True"
    using assms(1,2) by (simp add: endorser_requests_def)
  obtain ctx where ctx: "dxe_createReqCtx dxe pr (ereq_Header req) = Inr ctx"
    using assms(3) EndorserCall_no_ctx[OF rt, of pr _ s]
    by (cases "dxe_createReqCtx dxe pr (ereq_Header req)") auto
  from assms(3) obtain errCode where fee: "processFee dxe ctx req s = ((errCode, None), s')"
    and sign: "\<exists>addr sign. generateTxSign dxe req = Inr (addr, sign) \<and>
      eres_EndorserSign r = Some sign \<and> eres_EndorserAddress r = addr"
    unfolding EndorserCall_branches(1)[OF rt ctx assms(2)]
    by (auto simp: generateErrorResponse_def generateSuccessResponse_def split: prod.splits option.splits sum.splits)
  from fee have "case ereq_Fee req of
        None \<Rightarrow> s' = s
      | Some fee \<Rightarrow>
          (\<exists>rep. sv_PostTx (dx_svr dxe) ctx
              (Some (new_TxStatus\<lparr>txst_Txid := tx_Txid fee, txst_Bcname := ereq_BcName req, txst_Tx := Some fee\<rparr>)) s =
              ((rep, None), s') \<and> hdr_err (crep_Header rep) = SUCCESS)"
    by (auto simp: processFee_def Let_def split: option.splits prod.splits if_splits)
  with ctx sign show ?thesis by blast
qed

text \<open>An endorser for the instances: constant JSON, keys that read, the example node as its server.\<close>

definition ex_json :: jsonlib where
  "ex_json = \<lparr>un_PreExecWithSelectUTXORequest = (\<lambda>b. Inr new_PreExecWithSelectUTXORequest),
     un_CrossQueryRequest = (\<lambda>b. Inr new_CrossQueryRequest),
     un_TxStatus = (\<lambda>b. Inr (new_TxStatus\<lparr>txst_Bcname := b, txst_Tx := Some new_Transaction\<rparr>)),
     mj_PreExecWithSelectUTXOResponse = (\<lambda>_. Inr ''pes''), mj_CrossQueryResponse = (\<lambda>_. Inr ''cq''),
     mj_Transaction = (\<lambda>_. Inr ''tx''), mj_CommonReply = (\<lambda>_. Inr ''ok'')\<rparr>"

definition ex_endorser :: "((nat, string, string) ReqCtx, (nat, string) RpcState, string, string) DefaultXEndorser" where
  "ex_endorser = NewDefaultXEndorser (rpc_svr ex_lib) ex_json
     (\<lambda>logid ip. Inr \<lparr>rc_Engine = Some ex_engine, rc_LogId = logid, rc_ClientIp = ip\<rparr>)
     (\<lambda>path. Inr path)
     (\<lambda>k. Inr \<lparr>GetEcdsaPrivateKeyFromJsonStr = (\<lambda>s. Inr s), SignECDSA = (\<lambda>k m. Inr (m @ k))\<rparr>)
     (\<lambda>b. b) (\<lambda>x. Inr ''digest'') (ex_codec new_Transaction)"

lemmas ex_endorser_defs = ex_endorser_def NewDefaultXEndorser_def ex_json_def rpc_svr_def

definition ex_check :: EndorserRequest where
  "ex_check = new_EndorserRequest\<lparr>ereq_RequestName := ''ComplianceCheck'', ereq_BcName := ''xuper'',
     ereq_RequestData := Some ''xuper''\<rparr>"

lemma compliance_signed_after_fee_witness:
  "\<exists>addr sign. generateTxSign ex_endorser ex_check = Inr (addr, sign) \<and>
     eres_EndorserSign (the (fst (fst (EndorserCall ex_endorser PeerAbsent ex_check ex_state)))) = Some sign"
proof -
  have ctx: "dxe_createReqCtx ex_endorser PeerAbsent (ereq_Header ex_check) =
      Inr \<lparr>rc_Engine = Some ex_engine, rc_LogId = '''', rc_ClientIp = ''''\<rparr>"
    by (simp add: dxe_createReqCtx_def dxe_getClietIP_def ex_endorser_defs ex_check_def)
  have rt: "dx_requestType ex_endorser (ereq_RequestName ex_check) = Some True"
    by (simp add: ex_endorser_defs endorser_requests_def ex_check_def)
  have nm: "ereq_RequestName ex_check = ''ComplianceCheck''" by (simp add: ex_check_def)
  have fee: "processFee ex_endorser c ex_check ex_state = ((SUCCESS, None), ex_state)" for c
    by (simp add: processFee_def ex_check_def)
  have sig: "\<exists>a sg. generateTxSign ex_endorser ex_check = Inr (a, sg)"
    by (simp add: generateTxSign_def signData_def getEndorserKey_def ex_endorser_defs ex_check_def)
  then obtain a sg where sig: "generateTxSign ex_endorser ex_check = Inr (a, sg)" by blast
  have mj: "mj_CommonReply (dx_json ex_endorser) m = Inr ''ok''" for m by (simp add: ex_endorser_defs)
  have "EndorserCall ex_endorser PeerAbsent ex_check ex_state =
      (generateSuccessResponse ex_check ''ok'' a (Some sg) start_header, ex_state)"
    by (simp add: EndorserCall_branches(1)[OF rt ctx nm] fee sig mj)
  then have c: "EndorserCall ex_endorser PeerAbsent ex_check ex_state =
      ((Some (the (fst (fst (EndorserCall ex_endorser PeerAbsent ex_check ex_state)))), None), ex_state)"
    by (simp add: generateSuccessResponse_def)
  have rts: "dx_requestType ex_endorser = endorser_requests" by (simp add: ex_endorser_defs)
  from compliance_signed_after_fee[OF rts nm c] show ?thesis by blast
qed

text \<open>On the RPC server, the endorser reaches the network only through the fee of a compliance check: when a
  call adds to the messages sent, it is a ComplianceCheck with a fee, and the fee transaction was accepted
  by the chain the request names; the other three requests send nothing.\<close>

theorem endorser_sends_only_accepted_fee:
  assumes "dx_svr dxe = rpc_svr L"
    and "st_sent (snd (EndorserCall dxe pr req s)) \<noteq> st_sent s"
  shows "ereq_RequestName req = ''ComplianceCheck'' \<and>
    (\<exists>fee ctx x w'. ereq_Fee req = Some fee \<and> dxe_createReqCtx dxe pr (ereq_Header req) = Inr ctx \<and>
       accepted L ctx (Some (new_TxStatus\<lparr>txst_Txid := tx_Txid fee, txst_Bcname := ereq_BcName req,
                                          txst_Tx := Some fee\<rparr>)) (st_node s) = Some (ereq_BcName req, x, w'))"
proof -
  have cc: "ereq_RequestName req = ''ComplianceCheck''" "ereq_Fee req \<noteq> None"
    using rpcsvr.sends_only_fee[OF assms] by blast+
  then obtain fee where fee: "ereq_Fee req = Some fee" by blast
  have moved: "snd (EndorserCall dxe pr req s) \<noteq> s" using assms(2) by auto
  obtain b ctx where rt: "dx_requestType dxe (ereq_RequestName req) = Some b"
      and ctx: "dxe_createReqCtx dxe pr (ereq_Header req) = Inr ctx"
    by (rule EndorserCall_ready[OF moved])
  let ?q = "Some (new_TxStatus\<lparr>txst_Txid := tx_Txid fee, txst_Bcname := ereq_BcName req, txst_Tx := Some fee\<rparr>)"
  have "snd (EndorserCall dxe pr req s) = snd (PostTx L ctx ?q s)"
    unfolding EndorserCall_state(1)[OF rt ctx cc(1)]
    using fee assms(1) by (simp add: processFee_def rpc_svr_def Let_def split: prod.split option.split)
  then have "accepted L ctx ?q (st_node s) \<noteq> None"
    using assms(2) PostTx_cases[of L ctx ?q s] by (auto split: option.splits)
  then obtain bc x w' where acc: "accepted L ctx ?q (st_node s) = Some (bc, x, w')" by auto
  then have "bc = ereq_BcName req"
    by (auto simp: accepted_def split: option.splits sum.splits prod.splits)
  with acc have "accepted L ctx ?q (st_node s) = Some (ereq_BcName req, x, w')" by (simp only:)
  with cc(1) fee ctx show ?thesis by blast
qed

definition ex_check_fee :: EndorserRequest where
  "ex_check_fee = ex_check\<lparr>ereq_Fee := Some new_Transaction\<rparr>"

lemma endorser_sends_only_accepted_fee_witness:
  "ereq_RequestName ex_check_fee = ''ComplianceCheck'' \<and> ereq_Fee ex_check_fee \<noteq> None"
proof -
  have ctx: "dxe_createReqCtx ex_endorser PeerAbsent (ereq_Header ex_check_fee) =
      Inr (ex_ctx\<lparr>rc_LogId := '''', rc_ClientIp := ''''\<rparr>)"
    by (simp add: dxe_createReqCtx_def dxe_getClietIP_def ex_endorser_defs ex_check_fee_def ex_check_def ex_ctx_def)
  have rt: "dx_requestType ex_endorser (ereq_RequestName ex_check_fee) = Some True"
    by (simp add: ex_endorser_defs endorser_requests_def ex_check_fee_def ex_check_def)
  have nm: "ereq_RequestName ex_check_fee = ''ComplianceCheck''" by (simp add: ex_check_fee_def ex_check_def)
  let ?c = "ex_ctx\<lparr>rc_LogId := '''', rc_ClientIp := ''''\<rparr>"
  let ?q = "Some (new_TxStatus\<lparr>txst_Txid := '''', txst_Bcname := ''xuper'', txst_Tx := Some new_Transaction\<rparr>)"
  have "accepted ex_lib ?c ?q 0 = Some (''xuper'', ''m'', 1)"
    by (simp add: accepted_def TxToXledger_def reencode_def NewChainHandle_def ex_defs)
  then have post: "PostTx ex_lib ?c ?q ex_state =
      ((new_CommonReply, None), \<lparr>st_node = 1, st_sent = [(''xuper'', ''m'', '''')]\<rparr>)"
    using PostTx_cases[of ex_lib ?c ?q ex_state] by (simp add: ex_state_def ex_ctx_def)
  have "ereq_Fee ex_check_fee = Some new_Transaction" "ereq_BcName ex_check_fee = ''xuper''"
      "sv_PostTx (dx_svr ex_endorser) = PostTx ex_lib"
    by (simp_all add: ex_check_fee_def ex_check_def ex_endorser_defs)
  then have "snd (processFee ex_endorser ?c ex_check_fee ex_state) = snd (PostTx ex_lib ?c ?q ex_state)"
    by (simp add: processFee_def Let_def split: prod.split option.split)
  then have "st_sent (snd (EndorserCall ex_endorser PeerAbsent ex_check_fee ex_state)) = [(''xuper'', ''m'', '''')]"
    unfolding EndorserCall_state(1)[OF rt ctx nm] post by simp

  then have "st_sent (snd (EndorserCall ex_endorser PeerAbsent ex_check_fee ex_state)) \<noteq> st_sent ex_state"
    by (simp add: ex_state_def)
  moreover have "dx_svr ex_endorser = rpc_svr ex_lib" by (simp add: ex_endorser_def NewDefaultXEndorser_def)
  ultimately show ?thesis using endorser_sends_only_accepted_fee by blast
qed

text \<open>An answer of the endorser never carries the log id of the request, and on the RPC server a failed
  query is reported with error code SUCCESS: the log id is copied only when the header is missing, and the
  error code is read from a reply header that the server leaves unset.\<close>

theorem endorser_header_lost:
  assumes "dx_svr dxe = rpc_svr L" "dx_requestType dxe = endorser_requests"
    and "ereq_RequestName req = ''TxQuery''"
    and ctx: "dxe_createReqCtx dxe pr (ereq_Header req) = Inr ctx"
    and "un_TxStatus (dx_json dxe) (elems (ereq_RequestData req)) = Inr request"
    and "QueryTx L ctx (Some request) (st_node s) = (rep, Some err)"
  shows "EndorserCall dxe pr req s =
    ((Some (new_EndorserResponse
        \<lparr>eres_Header := Some \<lparr>hdr_Logid = '''', hdr_FromNode = '''', hdr_Error = SUCCESS\<rparr>,
         eres_ResponseName := ''TxQuery''\<rparr>), Some err), s)"
proof -
  have rt: "dx_requestType dxe (ereq_RequestName req) = Some True"
    using assms(2,3) by (simp add: endorser_requests_def)
  have q: "sv_QueryTx (dx_svr dxe) ctx (Some request) s = ((rep, Some err), s)"
    using assms(1,6) by (simp add: rpc_svr_def as_handler_def)
  have "txst_Header rep = None"
    using rpc_QueryTx.header_unset[of L ctx "Some request" s] assms(6) by (simp add: as_handler_def)
  then have "getTxResult dxe ctx req s = (('''', SUCCESS, Some err), s)"
    using q assms(5) by (simp add: getTxResult_def hdr_err_def)
  then show ?thesis
    using assms(3) unfolding EndorserCall_branches(4)[OF rt ctx assms(3)]
    by (simp add: genSignedResp_def generateErrorResponse_def start_header_def)
qed

definition ex_query :: EndorserRequest where
  "ex_query = new_EndorserRequest\<lparr>ereq_RequestName := ''TxQuery'', ereq_RequestData := Some ''nochain'',
     ereq_Header := Some \<lparr>hdr_Logid = ''l9'', hdr_FromNode = '''', hdr_Error = SUCCESS\<rparr>\<rparr>"

lemma endorser_header_lost_witness:
  "fst (EndorserCall ex_endorser PeerAbsent ex_query ex_state) =
    (Some (new_EndorserResponse
        \<lparr>eres_Header := Some \<lparr>hdr_Logid = '''', hdr_FromNode = '''', hdr_Error = SUCCESS\<rparr>,
         eres_ResponseName := ''TxQuery''\<rparr>), Some (Ecom ErrParameter))"
  using endorser_header_lost[of ex_endorser ex_lib ex_query PeerAbsent
      "\<lparr>rc_Engine = Some ex_engine, rc_LogId = ''l9'', rc_ClientIp = ''''\<rparr>"
      "new_TxStatus\<lparr>txst_Bcname := ''nochain'', txst_Tx := Some new_Transaction\<rparr>" ex_state
      new_TxStatus "Ecom ErrParameter"]
  by (simp add: ex_endorser_defs ex_query_def dxe_createReqCtx_def dxe_getClietIP_def QueryTx_def)

text \<open>A request with any other name is refused with SERVICE_REFUSED_ERROR, before a context is made and
  without touching the state; the four names are the only ones served.\<close>

theorem endorser_refuses_other_names:
  assumes "dx_requestType dxe = endorser_requests"
    and "ereq_RequestName req \<notin> {''PreExecWithFee'', ''ComplianceCheck'', ''CrossQueryPreExec'', ''TxQuery''}"
  shows "EndorserCall dxe pr req s =
    ((Some (new_EndorserResponse
        \<lparr>eres_Header := Some \<lparr>hdr_Logid = '''', hdr_FromNode = '''', hdr_Error = SERVICE_REFUSED_ERROR\<rparr>,
         eres_ResponseName := ereq_RequestName req\<rparr>),
      Some (Errorf ''request name not supported'')), s)"
proof -
  have "dx_requestType dxe (ereq_RequestName req) = None"
    using assms by (simp add: endorser_requests_def)
  then show ?thesis
    by (simp add: EndorserCall_refused generateErrorResponse_def start_header_def)
qed

lemma endorser_refuses_other_names_witness:
  "snd (EndorserCall ex_endorser PeerAbsent (new_EndorserRequest\<lparr>ereq_RequestName := ''Other''\<rparr>) ex_state) = ex_state"
  using endorser_refuses_other_names[of ex_endorser "new_EndorserRequest\<lparr>ereq_RequestName := ''Other''\<rparr>" PeerAbsent ex_state]
  by (simp add: ex_endorser_defs)

text \<open>C23: However the calls of \<open>getClient\<close> interleave, at most one client is ever stored for a host, and all
  calls that return a client for a host return that one; at most one thread is between taking and
  releasing the mutex.\<close>

theorem getClient_one_client_per_host:
  assumes "gc_reach s"
  shows "distinct (map fst (px_stored s)) \<and>
    (\<forall>t t' h c c'. px_pc s t = Stop h (Inr c) \<longrightarrow> px_pc s t' = Stop h (Inr c') \<longrightarrow> c = c' \<and> (h, c) \<in> set (px_stored s)) \<and>
    (\<forall>t t'. critical (px_pc s t) \<longrightarrow> critical (px_pc s t') \<longrightarrow> t = t')"
proof (intro conjI allI impI)
  have inv: "gc_inv s" by (rule gc_reach_inv[OF assms])
  then show "distinct (map fst (px_stored s))" by (simp add: gc_inv_def)
  show "c = c'" if "px_pc s t = Stop h (Inr c)" "px_pc s t' = Stop h (Inr c')" for t t' h c c'
    using inv that unfolding gc_inv_def by (metis option.inject)
  show "(h, c) \<in> set (px_stored s)" if "px_pc s t = Stop h (Inr c)" for t h c
    using inv that unfolding gc_inv_def by (metis map_of_SomeD)
  show "t = t'" if "critical (px_pc s t)" "critical (px_pc s t')" for t t'
    using inv that unfolding gc_inv_def by (metis option.inject)
qed

lemma getClient_one_client_per_host_witness:
  "distinct (map fst (px_stored (goto 0 (WantLock ''h'') px_init)))"
proof -
  have "px_pc px_init 0 = Start" "px_cache px_init ''h'' = None" by (simp_all add: px_init_def)
  then have "gc_reach (goto 0 (WantLock ''h'') px_init)"
    using gc_start gc_next gc_miss[of px_init 0 "''h''"] by auto
  from getClient_one_client_per_host[OF this] show ?thesis by blast
qed

end
