(* ===== verification/Server.thy ===== *)
theory Server
  imports Lifecycle EventService Endorser
begin

text \<open>
  What the two servers of a node are built from: \<open>runRpcServ\<close> and \<open>newTls\<close> of
  \<open>service/rpc/manage.go\<close>, and \<open>runGateway\<close> of \<open>service/gateway/gateway.go\<close>, up to the call that
  serves.  Their run and stop are in \<open>Lifecycle\<close>.

  grpc, the HTTP server and the certificate parser are given functions; a grpc server that
  is given nil credentials serves in plain text, as one that is given none.
\<close>

section \<open>The RPC server\<close>

record tls_config =
  tc_ServerName :: string
  tc_Certificates :: "bytes list"
  tc_RootCAs :: bytes
  tc_ClientCAs :: bytes
  tc_RequireAndVerifyClientCert :: bool

text \<open>\<open>newTls\<close> returns the error of the last call, also where it is nil: a certificate file that holds no
  certificate gives nil credentials and no error.\<close>

definition newTls ::
  "(string \<Rightarrow> gerr + bytes) \<Rightarrow> (bytes \<Rightarrow> bool) \<Rightarrow> (string \<Rightarrow> string \<Rightarrow> gerr + bytes) \<Rightarrow>
   string \<Rightarrow> ServConf \<Rightarrow> gerr + tls_config option" where
  "newTls ReadFile AppendCertsFromPEM LoadX509KeyPair tlsPath scfg =
     res_bind (ReadFile (path_join tlsPath ''cert.crt'')) (\<lambda>bs.
       if \<not> AppendCertsFromPEM bs then Inr None
       else
         res_bind (LoadX509KeyPair (path_join tlsPath ''key.pem'') (path_join tlsPath ''private.key'')) (\<lambda>certificate.
           Inr (Some \<lparr>tc_ServerName = sc_TlsServerName scfg, tc_Certificates = [certificate], tc_RootCAs = bs,
                     tc_ClientCAs = bs, tc_RequireAndVerifyClientCert = True\<rparr>)))"

datatype interceptor = UnaryIcp | MetricIcp

text \<open>The server with its options: \<open>gs_Creds\<close> is whether the option was given, and what it was given.\<close>

record 'd grpc_server =
  gs_Interceptors :: "interceptor list"
  gs_MaxRecvMsgSize :: int
  gs_ReadBufferSize :: int
  gs_InitialWindowSize :: int32
  gs_InitialConnWindowSize :: int32
  gs_WriteBufferSize :: int
  gs_Creds :: "tls_config option option"
  gs_Event :: eventService
  gs_Endorser :: "'d endorser_kind option"
  gs_MetricPort :: "int option"
  gs_Port :: int

definition runRpcServ ::
  "(ServConf \<Rightarrow> gerr + tls_config option) \<Rightarrow> (int \<Rightarrow> gerr + unit) \<Rightarrow> 'd \<Rightarrow> ServConf \<Rightarrow> gerr + 'd grpc_server" where
  "runRpcServ new_tls Listen dxe scfg =
     res_bind (if sc_EnableTls scfg then res_bind (new_tls scfg) (\<lambda>creds. Inr (Some creds)) else Inr None) (\<lambda>creds.
     let eventService = newEventService (sc_EnableEvent scfg) (sc_EventAddrMaxConn scfg) in
     res_bind (if sc_EnableEndorser scfg
               then (case newEndorserService (sc_EndorserModule scfg) (sc_EndorserHosts scfg) dxe of
                       Inl err \<Rightarrow> Inl (Errorf ''failed to register endorser'')
                     | Inr endorserService \<Rightarrow> Inr (Some endorserService))
               else Inr None) (\<lambda>endorser.
     case Listen (sc_RpcPort scfg) of
       Inl err \<Rightarrow> Inl (Errorf ''failed to listen'')
     | Inr _ \<Rightarrow>
         Inr \<lparr>gs_Interceptors = [UnaryIcp] @ (if sc_EnableMetric scfg then [MetricIcp] else []),
              gs_MaxRecvMsgSize = sc_MaxRecvMsgSize scfg, gs_ReadBufferSize = sc_ReadBufSize scfg,
              gs_InitialWindowSize = sc_InitWindowSize scfg, gs_InitialConnWindowSize = sc_InitConnWindowSize scfg,
              gs_WriteBufferSize = sc_WriteBufSize scfg, gs_Creds = creds, gs_Event = eventService,
              gs_Endorser = endorser, gs_MetricPort = (if sc_EnableMetric scfg then Some (sc_MetricPort scfg) else None),
              gs_Port = sc_RpcPort scfg\<rparr>))"

section \<open>The gateway\<close>

text \<open>Its connections to the RPC server, and the HTTP server before it serves.\<close>

record gateway_server =
  gw_Endpoint :: string
  gw_WithInsecure :: bool
  gw_MaxCallRecvMsgSize :: int
  gw_InitialWindowSize :: int32
  gw_WriteBufferSize :: int
  gw_InitialConnWindowSize :: int32
  gw_ReadBufferSize :: int
  gw_ServesEndorser :: bool
  gw_Addr :: string

definition gateway_opts :: "ServConf \<Rightarrow> gateway_server" where
  "gateway_opts scfg =
     \<lparr>gw_Endpoint = ''127.0.0.1:'' @ big_show (sc_RpcPort scfg), gw_WithInsecure = True,
      gw_MaxCallRecvMsgSize = sc_MaxRecvMsgSize scfg, gw_InitialWindowSize = sc_InitWindowSize scfg,
      gw_WriteBufferSize = sc_WriteBufSize scfg, gw_InitialConnWindowSize = sc_InitConnWindowSize scfg,
      gw_ReadBufferSize = sc_ReadBufSize scfg, gw_ServesEndorser = sc_EnableEndorser scfg,
      gw_Addr = '':'' @ big_show (sc_GWPort scfg)\<rparr>"

text \<open>\<open>ListenAndServe\<close> always ends with an error; the one of a server that was shut down is none.\<close>

definition runGateway ::
  "(gateway_server \<Rightarrow> gerr + unit) \<Rightarrow> (gateway_server \<Rightarrow> gerr + unit) \<Rightarrow> (gateway_server \<Rightarrow> gerr) \<Rightarrow> gerr \<Rightarrow>
   ServConf \<Rightarrow> gerr + unit" where
  "runGateway RegisterXchain RegisterXendorser ListenAndServe ErrServerClosed scfg =
     (let g = gateway_opts scfg in
      res_bind (RegisterXchain g) (\<lambda>_.
      res_bind (if sc_EnableEndorser scfg then RegisterXendorser g else Inr ()) (\<lambda>_.
      let err = ListenAndServe g in
      if err \<noteq> ErrServerClosed then Inl err else Inr ())))"

section \<open>Properties\<close>

text \<open>C30: What protects the RPC port.  A server that comes up checks every request with the interceptor first, and
  has TLS exactly when TLS is enabled and the certificate file holds a certificate; then it demands verified
  client certificates.  With TLS enabled and a file without certificate it comes up in plain text.\<close>

theorem runRpcServ_protection:
  assumes "runRpcServ (newTls ReadFile AppendCertsFromPEM LoadX509KeyPair tlsPath) Listen dxe scfg = Inr srv"
  shows "hd (gs_Interceptors srv) = UnaryIcp \<and>
    (\<not> sc_EnableTls scfg \<longrightarrow> gs_Creds srv = None) \<and>
    (sc_EnableTls scfg \<longrightarrow> (\<exists>bs. ReadFile (path_join tlsPath ''cert.crt'') = Inr bs \<and>
       (AppendCertsFromPEM bs \<longrightarrow> (\<exists>tls. gs_Creds srv = Some (Some tls) \<and> tc_RequireAndVerifyClientCert tls \<and>
          tc_ClientCAs tls = bs \<and> tc_ServerName tls = sc_TlsServerName scfg)) \<and>
       (\<not> AppendCertsFromPEM bs \<longrightarrow> gs_Creds srv = Some None)))"
proof (cases "sc_EnableTls scfg")
  case False
  then show ?thesis
    using assms unfolding runRpcServ_def Let_def res_bind_Inr_iff
    by (cases "Listen (sc_RpcPort scfg)") auto
next
  case True
  then obtain cr where cr: "newTls ReadFile AppendCertsFromPEM LoadX509KeyPair tlsPath scfg = Inr cr"
      "gs_Creds srv = Some cr" "hd (gs_Interceptors srv) = UnaryIcp"
    using assms unfolding runRpcServ_def Let_def res_bind_Inr_iff
    by (cases "Listen (sc_RpcPort scfg)") (auto simp: res_bind_Inr_iff)
  then show ?thesis using True by (auto simp: newTls_def res_bind_Inr_iff split: if_splits)
qed

text \<open>The gateway of the same configuration speaks plain text to the port the RPC server demands client
  certificates on.\<close>

lemma gateway_without_credentials:
  "gw_WithInsecure (gateway_opts scfg) \<and> gw_Endpoint (gateway_opts scfg) = ''127.0.0.1:'' @ big_show (sc_RpcPort scfg)"
  by (simp add: gateway_opts_def)

text \<open>An endorser of an unknown name keeps the server from coming up.\<close>

lemma runRpcServ_unknown_endorser:
  assumes "sc_EnableEndorser scfg" "sc_EndorserModule scfg \<notin> {''default'', ''proxy''}"
  shows "\<exists>err. runRpcServ new_tls Listen dxe scfg = Inl err"
proof (cases "runRpcServ new_tls Listen dxe scfg")
  case (Inr srv)
  then show ?thesis
    using assms by (auto simp: runRpcServ_def Let_def res_bind_Inr_iff newEndorserService_def split: sum.splits)
qed simp

text \<open>TLS with an empty certificate file.\<close>

lemma runRpcServ_protection_witness:
  "\<exists>srv. runRpcServ (newTls (\<lambda>_. Inr '''') (\<lambda>bs. bs \<noteq> '''') (\<lambda>_ _. Inr '''') ''tls'') (\<lambda>_. Inr ()) ()
     (GetDefServConf\<lparr>sc_EnableTls := True\<rparr>) = Inr srv \<and> gs_Creds srv = Some None"
proof -
  let ?r = "runRpcServ (newTls (\<lambda>_. Inr '''') (\<lambda>bs. bs \<noteq> '''') (\<lambda>_ _. Inr '''') ''tls'') (\<lambda>_. Inr ()) ()
     (GetDefServConf\<lparr>sc_EnableTls := True\<rparr>)"
  obtain srv where s: "?r = Inr srv"
    by (simp add: runRpcServ_def newTls_def GetDefServConf_def Let_def)
  from runRpcServ_protection[OF s] s show ?thesis by (simp add: GetDefServConf_def)
qed

end
