(* ===== verification/Gateway.thy ===== *)
theory Gateway
  imports Service Server
begin

text \<open>
  The HTTP gateway, from a request of HTTP to the RPC server and back: \<open>service/pb/xchain.pb.gw.go\<close> and
  \<open>xendorser.pb.gw.go\<close> (how a request of each route is decoded and forwarded, the routes, and their registration)
  behind the filter and the set-up of \<open>service/gateway/gateway.go\<close>.

  Given functions: the multiplexer that finds the handler of a request, the decoders of a marshaler, the form
  parser, and \<open>AnnotateContext\<close>, which copies headers of HTTP into the call.  The headers that a response of grpc
  sends along are not modelled.
\<close>

section \<open>Requests and answers\<close>

type_synonym 'a form = "('a \<times> 'a list) list"

text \<open>A request: its method and the two headers the filter reads, its path, the header that overrides the method, its
  body and its form, which may fail to be read.\<close>

record http_call = http_request +
  rq_Path :: string
  rq_Override :: string
  rq_Body :: "gerr + bytes"
  rq_ParseForm :: "gerr + string form"

text \<open>The errors that are answered: an invalid argument, a call that failed, a context that could not be made.\<close>

datatype grpc_status = InvalidArgument gerr | CallFailed gerr | ContextFailed gerr

text \<open>What a decoder makes of a body: a message; the end of the text, with what the message holds by then; or an error.\<close>

datatype 'q decode_end = Decoded 'q | AtEOF 'q | DecodeFailed gerr

record marshaler =
  mr_UtxoInput :: "bytes \<Rightarrow> UtxoInput decode_end"
  mr_TxStatus :: "bytes \<Rightarrow> TxStatus decode_end"
  mr_AclStatus :: "bytes \<Rightarrow> AclStatus decode_end"
  mr_UtxoRecordDetail :: "bytes \<Rightarrow> UtxoRecordDetail decode_end"
  mr_ContractStatDataRequest :: "bytes \<Rightarrow> ContractStatDataRequest decode_end"
  mr_GetAccountContractsRequest :: "bytes \<Rightarrow> GetAccountContractsRequest decode_end"
  mr_AddressStatus :: "bytes \<Rightarrow> AddressStatus decode_end"
  mr_AddressBalanceStatus :: "bytes \<Rightarrow> AddressBalanceStatus decode_end"
  mr_BlockID :: "bytes \<Rightarrow> BlockID decode_end"
  mr_BlockHeight :: "bytes \<Rightarrow> BlockHeight decode_end"
  mr_BCStatus :: "bytes \<Rightarrow> BCStatus decode_end"
  mr_CommonIn :: "bytes \<Rightarrow> CommonIn decode_end"
  mr_ConsensusStatRequest :: "bytes \<Rightarrow> ConsensusStatRequest decode_end"
  mr_PreExecWithSelectUTXORequest :: "bytes \<Rightarrow> PreExecWithSelectUTXORequest decode_end"
  mr_AK2AccountRequest :: "bytes \<Rightarrow> AK2AccountRequest decode_end"
  mr_AddressContractsRequest :: "bytes \<Rightarrow> AddressContractsRequest decode_end"
  mr_InvokeRPCRequest :: "bytes \<Rightarrow> InvokeRPCRequest decode_end"
  mr_EndorserRequest :: "bytes \<Rightarrow> EndorserRequest decode_end"

datatype gw_message = Xchain_Message proto_message | Xendorser_Message EndorserResponse

text \<open>An answer: a message, an error, the refusal of the multiplexer, or the end of a preflight request.\<close>

datatype http_answer = ForwardResponse gw_message | HTTPError grpc_status | NotServed | Preflight

record http_lib =
  hl_MarshalerForRequest :: "http_call \<Rightarrow> marshaler"
  hl_AnnotateContext :: "http_call \<Rightarrow> gerr + unit"
  hl_PopulateCommonIn :: "string form \<Rightarrow> gerr + CommonIn"

text \<open>A client of the RPC server: a request names its method and holds its message.\<close>

type_synonym 's XchainClient = "rpc_request \<Rightarrow> ('s, gerr, proto_message) io"
type_synonym 's XendorserClient = "EndorserRequest \<Rightarrow> ('s, gerr, EndorserResponse) io"

definition invalid :: "gerr + 'a \<Rightarrow> ('s, grpc_status, 'a) io" where
  "invalid r = (case r of Inl err \<Rightarrow> io_throw (InvalidArgument err) | Inr x \<Rightarrow> io_return x)"

definition call :: "('s, gerr, 'a) io \<Rightarrow> ('s, grpc_status, 'a) io" where
  "call m s = (case m s of (Inl err, s') \<Rightarrow> (Inl (CallFailed err), s') | (Inr msg, s') \<Rightarrow> (Inr msg, s'))"

text \<open>What every request function does with a body: an end of the text is not an error.\<close>

definition decode_body :: "(bytes \<Rightarrow> 'q decode_end) \<Rightarrow> http_call \<Rightarrow> ('s, grpc_status, 'q) io" where
  "decode_body Decode req =
     io_bind (invalid (rq_Body req)) (\<lambda>body.
       (case Decode body of
          Decoded protoReq \<Rightarrow> io_return protoReq
        | AtEOF protoReq \<Rightarrow> io_return protoReq
        | DecodeFailed err \<Rightarrow> io_throw (InvalidArgument err)))"

text \<open>A pattern in the code of the multiplexer; the only operation the patterns of the code use is 2, which compares a
  component of the path with a text of the pool.\<close>

datatype pattern = NewPattern nat "nat list" "string list"

fun literal_path :: "nat list \<Rightarrow> string list \<Rightarrow> string" where
  "literal_path (op # i # ops) pool = (if op = 2 \<and> i < length pool then CHR ''/'' # pool ! i else '''') @ literal_path ops pool"
| "literal_path _ pool = ''''"

primrec pattern_path :: "pattern \<Rightarrow> string" where
  "pattern_path (NewPattern version ops pool) = literal_path ops pool"

type_synonym 's http_handler = "http_call \<Rightarrow> 's \<Rightarrow> http_answer \<times> 's"
type_synonym 's route = "string \<times> pattern \<times> 's http_handler"

text \<open>The multiplexer: its routes, and the connections that are closed when the context of the gateway is done.\<close>

record 's ServeMux =
  mx_handlers :: "'s route list"
  mx_watched :: "string list"

definition mux_Handle_all :: "'s route list \<Rightarrow> 's ServeMux \<Rightarrow> 's ServeMux" where
  "mux_Handle_all rs mux = mux\<lparr>mx_handlers := mx_handlers mux @ rs\<rparr>"

text \<open>The closure that is registered for each route, over its request function.\<close>

definition handle_route ::
  "http_lib \<Rightarrow> ('m \<Rightarrow> gw_message) \<Rightarrow> (marshaler \<Rightarrow> 'c \<Rightarrow> http_call \<Rightarrow> ('s, grpc_status, 'm) io) \<Rightarrow> 'c \<Rightarrow>
   's http_handler" where
  "handle_route H C request client req s =
     (case hl_AnnotateContext H req of
        Inl err \<Rightarrow> (HTTPError (ContextFailed err), s)
      | Inr _ \<Rightarrow>
          (case request (hl_MarshalerForRequest H req) client req s of
             (Inl err, s') \<Rightarrow> (HTTPError err, s')
           | (Inr resp, s') \<Rightarrow> (ForwardResponse (C resp), s')))"


section \<open>From a request of HTTP to a call\<close>

definition request_Xchain_SelectUTXOBySize_0 ::
  "marshaler \<Rightarrow> 's XchainClient \<Rightarrow> http_call \<Rightarrow> ('s, grpc_status, proto_message) io" where
  "request_Xchain_SelectUTXOBySize_0 M client req =
     io_bind (decode_body (mr_UtxoInput M) req) (\<lambda>protoReq. call (client (SelectUTXOBySize_Req protoReq)))"

definition request_Xchain_PostTx_0 ::
  "marshaler \<Rightarrow> 's XchainClient \<Rightarrow> http_call \<Rightarrow> ('s, grpc_status, proto_message) io" where
  "request_Xchain_PostTx_0 M client req =
     io_bind (decode_body (mr_TxStatus M) req) (\<lambda>protoReq. call (client (PostTx_Req protoReq)))"

definition request_Xchain_QueryACL_0 ::
  "marshaler \<Rightarrow> 's XchainClient \<Rightarrow> http_call \<Rightarrow> ('s, grpc_status, proto_message) io" where
  "request_Xchain_QueryACL_0 M client req =
     io_bind (decode_body (mr_AclStatus M) req) (\<lambda>protoReq. call (client (QueryACL_Req protoReq)))"

definition request_Xchain_QueryUtxoRecord_0 ::
  "marshaler \<Rightarrow> 's XchainClient \<Rightarrow> http_call \<Rightarrow> ('s, grpc_status, proto_message) io" where
  "request_Xchain_QueryUtxoRecord_0 M client req =
     io_bind (decode_body (mr_UtxoRecordDetail M) req) (\<lambda>protoReq. call (client (QueryUtxoRecord_Req protoReq)))"

definition request_Xchain_QueryContractStatData_0 ::
  "marshaler \<Rightarrow> 's XchainClient \<Rightarrow> http_call \<Rightarrow> ('s, grpc_status, proto_message) io" where
  "request_Xchain_QueryContractStatData_0 M client req =
     io_bind (decode_body (mr_ContractStatDataRequest M) req) (\<lambda>protoReq. call (client (QueryContractStatData_Req protoReq)))"

definition request_Xchain_GetAccountContracts_0 ::
  "marshaler \<Rightarrow> 's XchainClient \<Rightarrow> http_call \<Rightarrow> ('s, grpc_status, proto_message) io" where
  "request_Xchain_GetAccountContracts_0 M client req =
     io_bind (decode_body (mr_GetAccountContractsRequest M) req) (\<lambda>protoReq. call (client (GetAccountContracts_Req protoReq)))"

definition request_Xchain_QueryTx_0 ::
  "marshaler \<Rightarrow> 's XchainClient \<Rightarrow> http_call \<Rightarrow> ('s, grpc_status, proto_message) io" where
  "request_Xchain_QueryTx_0 M client req =
     io_bind (decode_body (mr_TxStatus M) req) (\<lambda>protoReq. call (client (QueryTx_Req protoReq)))"

definition request_Xchain_GetBalance_0 ::
  "marshaler \<Rightarrow> 's XchainClient \<Rightarrow> http_call \<Rightarrow> ('s, grpc_status, proto_message) io" where
  "request_Xchain_GetBalance_0 M client req =
     io_bind (decode_body (mr_AddressStatus M) req) (\<lambda>protoReq. call (client (GetBalance_Req protoReq)))"

definition request_Xchain_GetBalanceDetail_0 ::
  "marshaler \<Rightarrow> 's XchainClient \<Rightarrow> http_call \<Rightarrow> ('s, grpc_status, proto_message) io" where
  "request_Xchain_GetBalanceDetail_0 M client req =
     io_bind (decode_body (mr_AddressBalanceStatus M) req) (\<lambda>protoReq. call (client (GetBalanceDetail_Req protoReq)))"

definition request_Xchain_GetFrozenBalance_0 ::
  "marshaler \<Rightarrow> 's XchainClient \<Rightarrow> http_call \<Rightarrow> ('s, grpc_status, proto_message) io" where
  "request_Xchain_GetFrozenBalance_0 M client req =
     io_bind (decode_body (mr_AddressStatus M) req) (\<lambda>protoReq. call (client (GetFrozenBalance_Req protoReq)))"

definition request_Xchain_GetBlock_0 ::
  "marshaler \<Rightarrow> 's XchainClient \<Rightarrow> http_call \<Rightarrow> ('s, grpc_status, proto_message) io" where
  "request_Xchain_GetBlock_0 M client req =
     io_bind (decode_body (mr_BlockID M) req) (\<lambda>protoReq. call (client (GetBlock_Req protoReq)))"

definition request_Xchain_GetBlockByHeight_0 ::
  "marshaler \<Rightarrow> 's XchainClient \<Rightarrow> http_call \<Rightarrow> ('s, grpc_status, proto_message) io" where
  "request_Xchain_GetBlockByHeight_0 M client req =
     io_bind (decode_body (mr_BlockHeight M) req) (\<lambda>protoReq. call (client (GetBlockByHeight_Req protoReq)))"

definition request_Xchain_GetBlockChainStatus_0 ::
  "marshaler \<Rightarrow> 's XchainClient \<Rightarrow> http_call \<Rightarrow> ('s, grpc_status, proto_message) io" where
  "request_Xchain_GetBlockChainStatus_0 M client req =
     io_bind (decode_body (mr_BCStatus M) req) (\<lambda>protoReq. call (client (GetBlockChainStatus_Req protoReq)))"

definition request_Xchain_GetBlockChains_0 ::
  "(string form \<Rightarrow> gerr + CommonIn) \<Rightarrow> marshaler \<Rightarrow> 's XchainClient \<Rightarrow> http_call \<Rightarrow>
   ('s, grpc_status, proto_message) io" where
  "request_Xchain_GetBlockChains_0 PopulateQueryParameters M client req =
     io_bind (invalid (rq_ParseForm req)) (\<lambda>form.
     io_bind (invalid (PopulateQueryParameters form)) (\<lambda>protoReq. call (client (GetBlockChains_Req protoReq))))"

definition request_Xchain_GetSystemStatus_0 ::
  "marshaler \<Rightarrow> 's XchainClient \<Rightarrow> http_call \<Rightarrow> ('s, grpc_status, proto_message) io" where
  "request_Xchain_GetSystemStatus_0 M client req =
     io_bind (decode_body (mr_CommonIn M) req) (\<lambda>protoReq. call (client (GetSystemStatus_Req protoReq)))"

definition request_Xchain_GetConsensusStatus_0 ::
  "marshaler \<Rightarrow> 's XchainClient \<Rightarrow> http_call \<Rightarrow> ('s, grpc_status, proto_message) io" where
  "request_Xchain_GetConsensusStatus_0 M client req =
     io_bind (decode_body (mr_ConsensusStatRequest M) req) (\<lambda>protoReq. call (client (GetConsensusStatus_Req protoReq)))"

definition request_Xchain_SelectUTXO_0 ::
  "marshaler \<Rightarrow> 's XchainClient \<Rightarrow> http_call \<Rightarrow> ('s, grpc_status, proto_message) io" where
  "request_Xchain_SelectUTXO_0 M client req =
     io_bind (decode_body (mr_UtxoInput M) req) (\<lambda>protoReq. call (client (SelectUTXO_Req protoReq)))"

definition request_Xchain_PreExecWithSelectUTXO_0 ::
  "marshaler \<Rightarrow> 's XchainClient \<Rightarrow> http_call \<Rightarrow> ('s, grpc_status, proto_message) io" where
  "request_Xchain_PreExecWithSelectUTXO_0 M client req =
     io_bind (decode_body (mr_PreExecWithSelectUTXORequest M) req) (\<lambda>protoReq. call (client (PreExecWithSelectUTXO_Req protoReq)))"

definition request_Xchain_GetAccountByAK_0 ::
  "marshaler \<Rightarrow> 's XchainClient \<Rightarrow> http_call \<Rightarrow> ('s, grpc_status, proto_message) io" where
  "request_Xchain_GetAccountByAK_0 M client req =
     io_bind (decode_body (mr_AK2AccountRequest M) req) (\<lambda>protoReq. call (client (GetAccountByAK_Req protoReq)))"

definition request_Xchain_GetAddressContracts_0 ::
  "marshaler \<Rightarrow> 's XchainClient \<Rightarrow> http_call \<Rightarrow> ('s, grpc_status, proto_message) io" where
  "request_Xchain_GetAddressContracts_0 M client req =
     io_bind (decode_body (mr_AddressContractsRequest M) req) (\<lambda>protoReq. call (client (GetAddressContracts_Req protoReq)))"

definition request_Xchain_PreExec_0 ::
  "marshaler \<Rightarrow> 's XchainClient \<Rightarrow> http_call \<Rightarrow> ('s, grpc_status, proto_message) io" where
  "request_Xchain_PreExec_0 M client req =
     io_bind (decode_body (mr_InvokeRPCRequest M) req) (\<lambda>protoReq. call (client (PreExec_Req protoReq)))"

definition request_Xendorser_EndorserCall_0 ::
  "marshaler \<Rightarrow> 's XendorserClient \<Rightarrow> http_call \<Rightarrow> ('s, grpc_status, EndorserResponse) io" where
  "request_Xendorser_EndorserCall_0 M client req =
     io_bind (decode_body (mr_EndorserRequest M) req) (\<lambda>protoReq. call (client protoReq))"

section \<open>The routes\<close>

definition pattern_Xchain_SelectUTXOBySize_0 :: pattern where
  "pattern_Xchain_SelectUTXOBySize_0 = NewPattern 1 [2, 0, 2, 1] [''v1'', ''select_utxo_by_size'']"

definition pattern_Xchain_PostTx_0 :: pattern where
  "pattern_Xchain_PostTx_0 = NewPattern 1 [2, 0, 2, 1] [''v1'', ''post_tx'']"

definition pattern_Xchain_QueryACL_0 :: pattern where
  "pattern_Xchain_QueryACL_0 = NewPattern 1 [2, 0, 2, 1] [''v1'', ''query_acl'']"

definition pattern_Xchain_QueryUtxoRecord_0 :: pattern where
  "pattern_Xchain_QueryUtxoRecord_0 = NewPattern 1 [2, 0, 2, 1] [''v1'', ''query_utxo_record'']"

definition pattern_Xchain_QueryContractStatData_0 :: pattern where
  "pattern_Xchain_QueryContractStatData_0 = NewPattern 1 [2, 0, 2, 1] [''v1'', ''query_contract_stat_data'']"

definition pattern_Xchain_GetAccountContracts_0 :: pattern where
  "pattern_Xchain_GetAccountContracts_0 = NewPattern 1 [2, 0, 2, 1] [''v1'', ''get_account_contracts'']"

definition pattern_Xchain_QueryTx_0 :: pattern where
  "pattern_Xchain_QueryTx_0 = NewPattern 1 [2, 0, 2, 1] [''v1'', ''query_tx'']"

definition pattern_Xchain_GetBalance_0 :: pattern where
  "pattern_Xchain_GetBalance_0 = NewPattern 1 [2, 0, 2, 1] [''v1'', ''get_balance'']"

definition pattern_Xchain_GetBalanceDetail_0 :: pattern where
  "pattern_Xchain_GetBalanceDetail_0 = NewPattern 1 [2, 0, 2, 1] [''v1'', ''get_balance_detail'']"

definition pattern_Xchain_GetFrozenBalance_0 :: pattern where
  "pattern_Xchain_GetFrozenBalance_0 = NewPattern 1 [2, 0, 2, 1] [''v1'', ''get_frozen_balance'']"

definition pattern_Xchain_GetBlock_0 :: pattern where
  "pattern_Xchain_GetBlock_0 = NewPattern 1 [2, 0, 2, 1] [''v1'', ''get_block'']"

definition pattern_Xchain_GetBlockByHeight_0 :: pattern where
  "pattern_Xchain_GetBlockByHeight_0 = NewPattern 1 [2, 0, 2, 1] [''v1'', ''get_block_by_height'']"

definition pattern_Xchain_GetBlockChainStatus_0 :: pattern where
  "pattern_Xchain_GetBlockChainStatus_0 = NewPattern 1 [2, 0, 2, 1] [''v1'', ''get_bcstatus'']"

definition pattern_Xchain_GetBlockChains_0 :: pattern where
  "pattern_Xchain_GetBlockChains_0 = NewPattern 1 [2, 0, 2, 1] [''v1'', ''get_bcchains'']"

definition pattern_Xchain_GetSystemStatus_0 :: pattern where
  "pattern_Xchain_GetSystemStatus_0 = NewPattern 1 [2, 0, 2, 1] [''v1'', ''get_sysstatus'']"

definition pattern_Xchain_GetConsensusStatus_0 :: pattern where
  "pattern_Xchain_GetConsensusStatus_0 = NewPattern 1 [2, 0, 2, 1] [''v1'', ''get_consensusstatus'']"

definition pattern_Xchain_SelectUTXO_0 :: pattern where
  "pattern_Xchain_SelectUTXO_0 = NewPattern 1 [2, 0, 2, 1] [''v1'', ''select_utxos_v2'']"

definition pattern_Xchain_PreExecWithSelectUTXO_0 :: pattern where
  "pattern_Xchain_PreExecWithSelectUTXO_0 = NewPattern 1 [2, 0, 2, 1] [''v1'', ''preexec_select_utxo'']"

definition pattern_Xchain_GetAccountByAK_0 :: pattern where
  "pattern_Xchain_GetAccountByAK_0 = NewPattern 1 [2, 0, 2, 1] [''v1'', ''get_account_by_ak'']"

definition pattern_Xchain_GetAddressContracts_0 :: pattern where
  "pattern_Xchain_GetAddressContracts_0 = NewPattern 1 [2, 0, 2, 1] [''v1'', ''get_address_contracts'']"

definition pattern_Xchain_PreExec_0 :: pattern where
  "pattern_Xchain_PreExec_0 = NewPattern 1 [2, 0, 2, 1] [''v1'', ''preexec'']"

definition pattern_Xendorser_EndorserCall_0 :: pattern where
  "pattern_Xendorser_EndorserCall_0 = NewPattern 1 [2, 0, 2, 1] [''v1'', ''endorsercall'']"

definition route_Xchain_SelectUTXOBySize_0 :: "http_lib \<Rightarrow> 's XchainClient \<Rightarrow> 's route" where
  "route_Xchain_SelectUTXOBySize_0 H client =
     (''POST'', pattern_Xchain_SelectUTXOBySize_0, handle_route H Xchain_Message request_Xchain_SelectUTXOBySize_0 client)"

definition route_Xchain_PostTx_0 :: "http_lib \<Rightarrow> 's XchainClient \<Rightarrow> 's route" where
  "route_Xchain_PostTx_0 H client =
     (''POST'', pattern_Xchain_PostTx_0, handle_route H Xchain_Message request_Xchain_PostTx_0 client)"

definition route_Xchain_QueryACL_0 :: "http_lib \<Rightarrow> 's XchainClient \<Rightarrow> 's route" where
  "route_Xchain_QueryACL_0 H client =
     (''POST'', pattern_Xchain_QueryACL_0, handle_route H Xchain_Message request_Xchain_QueryACL_0 client)"

definition route_Xchain_QueryUtxoRecord_0 :: "http_lib \<Rightarrow> 's XchainClient \<Rightarrow> 's route" where
  "route_Xchain_QueryUtxoRecord_0 H client =
     (''POST'', pattern_Xchain_QueryUtxoRecord_0, handle_route H Xchain_Message request_Xchain_QueryUtxoRecord_0 client)"

definition route_Xchain_QueryContractStatData_0 :: "http_lib \<Rightarrow> 's XchainClient \<Rightarrow> 's route" where
  "route_Xchain_QueryContractStatData_0 H client =
     (''POST'', pattern_Xchain_QueryContractStatData_0, handle_route H Xchain_Message request_Xchain_QueryContractStatData_0 client)"

definition route_Xchain_GetAccountContracts_0 :: "http_lib \<Rightarrow> 's XchainClient \<Rightarrow> 's route" where
  "route_Xchain_GetAccountContracts_0 H client =
     (''POST'', pattern_Xchain_GetAccountContracts_0, handle_route H Xchain_Message request_Xchain_GetAccountContracts_0 client)"

definition route_Xchain_QueryTx_0 :: "http_lib \<Rightarrow> 's XchainClient \<Rightarrow> 's route" where
  "route_Xchain_QueryTx_0 H client =
     (''POST'', pattern_Xchain_QueryTx_0, handle_route H Xchain_Message request_Xchain_QueryTx_0 client)"

definition route_Xchain_GetBalance_0 :: "http_lib \<Rightarrow> 's XchainClient \<Rightarrow> 's route" where
  "route_Xchain_GetBalance_0 H client =
     (''POST'', pattern_Xchain_GetBalance_0, handle_route H Xchain_Message request_Xchain_GetBalance_0 client)"

definition route_Xchain_GetBalanceDetail_0 :: "http_lib \<Rightarrow> 's XchainClient \<Rightarrow> 's route" where
  "route_Xchain_GetBalanceDetail_0 H client =
     (''POST'', pattern_Xchain_GetBalanceDetail_0, handle_route H Xchain_Message request_Xchain_GetBalanceDetail_0 client)"

definition route_Xchain_GetFrozenBalance_0 :: "http_lib \<Rightarrow> 's XchainClient \<Rightarrow> 's route" where
  "route_Xchain_GetFrozenBalance_0 H client =
     (''POST'', pattern_Xchain_GetFrozenBalance_0, handle_route H Xchain_Message request_Xchain_GetFrozenBalance_0 client)"

definition route_Xchain_GetBlock_0 :: "http_lib \<Rightarrow> 's XchainClient \<Rightarrow> 's route" where
  "route_Xchain_GetBlock_0 H client =
     (''POST'', pattern_Xchain_GetBlock_0, handle_route H Xchain_Message request_Xchain_GetBlock_0 client)"

definition route_Xchain_GetBlockByHeight_0 :: "http_lib \<Rightarrow> 's XchainClient \<Rightarrow> 's route" where
  "route_Xchain_GetBlockByHeight_0 H client =
     (''POST'', pattern_Xchain_GetBlockByHeight_0, handle_route H Xchain_Message request_Xchain_GetBlockByHeight_0 client)"

definition route_Xchain_GetBlockChainStatus_0 :: "http_lib \<Rightarrow> 's XchainClient \<Rightarrow> 's route" where
  "route_Xchain_GetBlockChainStatus_0 H client =
     (''POST'', pattern_Xchain_GetBlockChainStatus_0, handle_route H Xchain_Message request_Xchain_GetBlockChainStatus_0 client)"

definition route_Xchain_GetBlockChains_0 :: "http_lib \<Rightarrow> 's XchainClient \<Rightarrow> 's route" where
  "route_Xchain_GetBlockChains_0 H client =
     (''GET'', pattern_Xchain_GetBlockChains_0, handle_route H Xchain_Message (request_Xchain_GetBlockChains_0 (hl_PopulateCommonIn H)) client)"

definition route_Xchain_GetSystemStatus_0 :: "http_lib \<Rightarrow> 's XchainClient \<Rightarrow> 's route" where
  "route_Xchain_GetSystemStatus_0 H client =
     (''POST'', pattern_Xchain_GetSystemStatus_0, handle_route H Xchain_Message request_Xchain_GetSystemStatus_0 client)"

definition route_Xchain_GetConsensusStatus_0 :: "http_lib \<Rightarrow> 's XchainClient \<Rightarrow> 's route" where
  "route_Xchain_GetConsensusStatus_0 H client =
     (''POST'', pattern_Xchain_GetConsensusStatus_0, handle_route H Xchain_Message request_Xchain_GetConsensusStatus_0 client)"

definition route_Xchain_SelectUTXO_0 :: "http_lib \<Rightarrow> 's XchainClient \<Rightarrow> 's route" where
  "route_Xchain_SelectUTXO_0 H client =
     (''POST'', pattern_Xchain_SelectUTXO_0, handle_route H Xchain_Message request_Xchain_SelectUTXO_0 client)"

definition route_Xchain_PreExecWithSelectUTXO_0 :: "http_lib \<Rightarrow> 's XchainClient \<Rightarrow> 's route" where
  "route_Xchain_PreExecWithSelectUTXO_0 H client =
     (''POST'', pattern_Xchain_PreExecWithSelectUTXO_0, handle_route H Xchain_Message request_Xchain_PreExecWithSelectUTXO_0 client)"

definition route_Xchain_GetAccountByAK_0 :: "http_lib \<Rightarrow> 's XchainClient \<Rightarrow> 's route" where
  "route_Xchain_GetAccountByAK_0 H client =
     (''POST'', pattern_Xchain_GetAccountByAK_0, handle_route H Xchain_Message request_Xchain_GetAccountByAK_0 client)"

definition route_Xchain_GetAddressContracts_0 :: "http_lib \<Rightarrow> 's XchainClient \<Rightarrow> 's route" where
  "route_Xchain_GetAddressContracts_0 H client =
     (''POST'', pattern_Xchain_GetAddressContracts_0, handle_route H Xchain_Message request_Xchain_GetAddressContracts_0 client)"

definition route_Xchain_PreExec_0 :: "http_lib \<Rightarrow> 's XchainClient \<Rightarrow> 's route" where
  "route_Xchain_PreExec_0 H client =
     (''POST'', pattern_Xchain_PreExec_0, handle_route H Xchain_Message request_Xchain_PreExec_0 client)"

definition route_Xendorser_EndorserCall_0 :: "http_lib \<Rightarrow> 's XendorserClient \<Rightarrow> 's route" where
  "route_Xendorser_EndorserCall_0 H client =
     (''POST'', pattern_Xendorser_EndorserCall_0, handle_route H Xendorser_Message request_Xendorser_EndorserCall_0 client)"

definition RegisterXchainHandlerClient :: "http_lib \<Rightarrow> 's XchainClient \<Rightarrow> 's ServeMux \<Rightarrow> 's ServeMux" where
  "RegisterXchainHandlerClient H client mux =
     mux_Handle_all
       [route_Xchain_SelectUTXOBySize_0 H client,
        route_Xchain_PostTx_0 H client,
        route_Xchain_QueryACL_0 H client,
        route_Xchain_QueryUtxoRecord_0 H client,
        route_Xchain_QueryContractStatData_0 H client,
        route_Xchain_GetAccountContracts_0 H client,
        route_Xchain_QueryTx_0 H client,
        route_Xchain_GetBalance_0 H client,
        route_Xchain_GetBalanceDetail_0 H client,
        route_Xchain_GetFrozenBalance_0 H client,
        route_Xchain_GetBlock_0 H client,
        route_Xchain_GetBlockByHeight_0 H client,
        route_Xchain_GetBlockChainStatus_0 H client,
        route_Xchain_GetBlockChains_0 H client,
        route_Xchain_GetSystemStatus_0 H client,
        route_Xchain_GetConsensusStatus_0 H client,
        route_Xchain_SelectUTXO_0 H client,
        route_Xchain_PreExecWithSelectUTXO_0 H client,
        route_Xchain_GetAccountByAK_0 H client,
        route_Xchain_GetAddressContracts_0 H client,
        route_Xchain_PreExec_0 H client] mux"

definition RegisterXendorserHandlerClient :: "http_lib \<Rightarrow> 's XendorserClient \<Rightarrow> 's ServeMux \<Rightarrow> 's ServeMux" where
  "RegisterXendorserHandlerClient H client mux = mux_Handle_all [route_Xendorser_EndorserCall_0 H client] mux"

text \<open>The connection is kept under its endpoint, and a goroutine closes it when the context is done.\<close>

definition RegisterXchainHandlerFromEndpoint ::
  "http_lib \<Rightarrow> (string \<Rightarrow> gerr + 's XchainClient) \<Rightarrow> string \<Rightarrow> 's ServeMux \<Rightarrow> gerr + 's ServeMux" where
  "RegisterXchainHandlerFromEndpoint H Dial endpoint mux =
     res_bind (Dial endpoint) (\<lambda>conn.
       Inr (RegisterXchainHandlerClient H conn (mux\<lparr>mx_watched := mx_watched mux @ [endpoint]\<rparr>)))"

definition RegisterXendorserHandlerFromEndpoint ::
  "http_lib \<Rightarrow> (string \<Rightarrow> gerr + 's XendorserClient) \<Rightarrow> string \<Rightarrow> 's ServeMux \<Rightarrow> gerr + 's ServeMux" where
  "RegisterXendorserHandlerFromEndpoint H Dial endpoint mux =
     res_bind (Dial endpoint) (\<lambda>conn.
       Inr (RegisterXendorserHandlerClient H conn (mux\<lparr>mx_watched := mx_watched mux @ [endpoint]\<rparr>)))"

text \<open>The multiplexer that \<open>runGateway\<close> builds.\<close>

definition NewServeMux :: "'s ServeMux" where
  "NewServeMux = \<lparr>mx_handlers = [], mx_watched = []\<rparr>"

definition rpc_endpoint :: "ServConf \<Rightarrow> string" where
  "rpc_endpoint scfg = ''127.0.0.1:'' @ big_show (sc_RpcPort scfg)"

definition gateway_mux ::
  "http_lib \<Rightarrow> (string \<Rightarrow> gerr + 's XchainClient) \<Rightarrow> (string \<Rightarrow> gerr + 's XendorserClient) \<Rightarrow> ServConf \<Rightarrow> gerr + 's ServeMux" where
  "gateway_mux H DialXchain DialXendorser scfg =
     (let rpcEndpoint = rpc_endpoint scfg in
      res_bind (RegisterXchainHandlerFromEndpoint H DialXchain rpcEndpoint NewServeMux) (\<lambda>mux.
      if sc_EnableEndorser scfg then RegisterXendorserHandlerFromEndpoint H DialXendorser rpcEndpoint mux
      else Inr mux))"

text \<open>How a request is answered: \<open>search\<close> is the search of the multiplexer, and \<open>gateway_ServeHTTP\<close> the handler of
  the HTTP server, with the headers that the filter sets.\<close>

type_synonym 's mux_search = "'s route list \<Rightarrow> http_call \<Rightarrow> 's http_handler option"

definition ServeHTTP :: "'s mux_search \<Rightarrow> 's ServeMux \<Rightarrow> 's http_handler" where
  "ServeHTTP search mux req s =
     (case search (mx_handlers mux) req of None \<Rightarrow> (NotServed, s) | Some h \<Rightarrow> h req s)"

definition gateway_ServeHTTP ::
  "'s mux_search \<Rightarrow> ServConf \<Rightarrow> 's ServeMux \<Rightarrow> http_call \<Rightarrow> 's \<Rightarrow> ((string \<times> string) list \<times> http_answer) \<times> 's" where
  "gateway_ServeHTTP search scfg mux req s =
     (let (hs, goes_on) = interrupt scfg (http_request.truncate req) in
      if goes_on then (let (a, s') = ServeHTTP search mux req s in ((hs, a), s'))
      else ((hs, Preflight), s))"

section \<open>The contract of the multiplexer\<close>

text \<open>What the multiplexer documents about routes whose patterns are plain paths: a request for the method and the path
  of one route goes to its handler, and a request for a path that no route has is refused.  A colon
  in the last component is a verb, and a header can override the method; neither is used here.\<close>

definition plain_call :: "http_call \<Rightarrow> bool" where
  "plain_call req \<longleftrightarrow> CHR '':'' \<notin> set (rq_Path req) \<and> rq_Override req = ''''"

definition route_key :: "'s route \<Rightarrow> string \<times> string" where
  "route_key r = (fst r, pattern_path (fst (snd r)))"

locale mux_search =
  fixes search :: "'s mux_search"
  assumes registered: "plain_call req \<Longrightarrow> distinct (map route_key rs) \<Longrightarrow> r \<in> set rs \<Longrightarrow>
      route_key r = (rq_Method req, rq_Path req) \<Longrightarrow> search rs req = Some (snd (snd r))"
    and unknown_path: "plain_call req \<Longrightarrow> rq_Path req \<notin> snd ` route_key ` set rs \<Longrightarrow> search rs req = None"
begin

lemma routed:
  assumes "plain_call req" "distinct (map route_key (mx_handlers mux))" "r \<in> set (mx_handlers mux)"
    and "route_key r = (rq_Method req, rq_Path req)"
  shows "ServeHTTP search mux req s = snd (snd r) req s"
  using registered[OF assms] by (simp add: ServeHTTP_def)

lemma refused:
  "plain_call req \<Longrightarrow> rq_Path req \<notin> snd ` route_key ` set (mx_handlers mux) \<Longrightarrow> ServeHTTP search mux req s = (NotServed, s)"
  using unknown_path by (simp add: ServeHTTP_def)

end

text \<open>A search that keeps the contract.\<close>

definition search_routes :: "'s mux_search" where
  "search_routes rs req = map_option (snd \<circ> snd) (List.find (\<lambda>r. route_key r = (rq_Method req, rq_Path req)) rs)"

interpretation search_routes: mux_search search_routes
proof unfold_locales
  fix req :: http_call and rs :: "'s route list" and r
  assume "distinct (map route_key rs)" "r \<in> set rs" "route_key r = (rq_Method req, rq_Path req)"
  then have "List.find (\<lambda>r. route_key r = (rq_Method req, rq_Path req)) rs = Some r"
    by (induction rs) (auto simp: image_iff)
  then show "search_routes rs req = Some (snd (snd r))" by (simp add: search_routes_def)
next
  fix req :: http_call and rs :: "'s route list"
  assume "rq_Path req \<notin> snd ` route_key ` set rs"
  then have "List.find (\<lambda>r. route_key r = (rq_Method req, rq_Path req)) rs = None"
    by (auto simp: find_None_iff image_iff)
  then show "search_routes rs req = None" by (simp add: search_routes_def)
qed

section \<open>The annotations of the service\<close>

text \<open>What \<open>xchain.proto\<close> says of each method: the method and path of HTTP, and that the message is the body (or, for a
  GET, the query).\<close>

definition of_body :: "(bytes \<Rightarrow> 'q decode_end) \<Rightarrow> ('q \<Rightarrow> rpc_request) \<Rightarrow> http_call \<Rightarrow> gerr + rpc_request" where
  "of_body Decode R req =
     (case rq_Body req of
        Inl err \<Rightarrow> Inl err
      | Inr body \<Rightarrow> (case Decode body of Decoded q \<Rightarrow> Inr (R q) | AtEOF q \<Rightarrow> Inr (R q) | DecodeFailed err \<Rightarrow> Inl err))"

definition of_query :: "(string form \<Rightarrow> gerr + 'q) \<Rightarrow> ('q \<Rightarrow> rpc_request) \<Rightarrow> http_call \<Rightarrow> gerr + rpc_request" where
  "of_query Populate R req = (case rq_ParseForm req of Inl err \<Rightarrow> Inl err | Inr form \<Rightarrow> (case Populate form of Inl err \<Rightarrow> Inl err | Inr q \<Rightarrow> Inr (R q)))"

definition api_annotations ::
  "(string \<times> string \<times> (http_lib \<Rightarrow> marshaler \<Rightarrow> http_call \<Rightarrow> gerr + rpc_request)) list" where
  "api_annotations = [
     (''POST'', ''/v1/select_utxo_by_size'', \<lambda>H M req. of_body (mr_UtxoInput M) SelectUTXOBySize_Req req),
     (''POST'', ''/v1/post_tx'', \<lambda>H M req. of_body (mr_TxStatus M) PostTx_Req req),
     (''POST'', ''/v1/query_acl'', \<lambda>H M req. of_body (mr_AclStatus M) QueryACL_Req req),
     (''POST'', ''/v1/query_utxo_record'', \<lambda>H M req. of_body (mr_UtxoRecordDetail M) QueryUtxoRecord_Req req),
     (''POST'', ''/v1/query_contract_stat_data'', \<lambda>H M req. of_body (mr_ContractStatDataRequest M) QueryContractStatData_Req req),
     (''POST'', ''/v1/get_account_contracts'', \<lambda>H M req. of_body (mr_GetAccountContractsRequest M) GetAccountContracts_Req req),
     (''POST'', ''/v1/query_tx'', \<lambda>H M req. of_body (mr_TxStatus M) QueryTx_Req req),
     (''POST'', ''/v1/get_balance'', \<lambda>H M req. of_body (mr_AddressStatus M) GetBalance_Req req),
     (''POST'', ''/v1/get_balance_detail'', \<lambda>H M req. of_body (mr_AddressBalanceStatus M) GetBalanceDetail_Req req),
     (''POST'', ''/v1/get_frozen_balance'', \<lambda>H M req. of_body (mr_AddressStatus M) GetFrozenBalance_Req req),
     (''POST'', ''/v1/get_block'', \<lambda>H M req. of_body (mr_BlockID M) GetBlock_Req req),
     (''POST'', ''/v1/get_block_by_height'', \<lambda>H M req. of_body (mr_BlockHeight M) GetBlockByHeight_Req req),
     (''POST'', ''/v1/get_bcstatus'', \<lambda>H M req. of_body (mr_BCStatus M) GetBlockChainStatus_Req req),
     (''GET'', ''/v1/get_bcchains'', \<lambda>H M req. of_query (hl_PopulateCommonIn H) GetBlockChains_Req req),
     (''POST'', ''/v1/get_sysstatus'', \<lambda>H M req. of_body (mr_CommonIn M) GetSystemStatus_Req req),
     (''POST'', ''/v1/get_consensusstatus'', \<lambda>H M req. of_body (mr_ConsensusStatRequest M) GetConsensusStatus_Req req),
     (''POST'', ''/v1/select_utxos_v2'', \<lambda>H M req. of_body (mr_UtxoInput M) SelectUTXO_Req req),
     (''POST'', ''/v1/preexec_select_utxo'', \<lambda>H M req. of_body (mr_PreExecWithSelectUTXORequest M) PreExecWithSelectUTXO_Req req),
     (''POST'', ''/v1/get_account_by_ak'', \<lambda>H M req. of_body (mr_AK2AccountRequest M) GetAccountByAK_Req req),
     (''POST'', ''/v1/get_address_contracts'', \<lambda>H M req. of_body (mr_AddressContractsRequest M) GetAddressContracts_Req req),
     (''POST'', ''/v1/preexec'', \<lambda>H M req. of_body (mr_InvokeRPCRequest M) PreExec_Req req)]"

text \<open>The answer that the annotations ask for, from a client.\<close>

definition annotated_answer ::
  "http_lib \<Rightarrow> 's XchainClient \<Rightarrow> (http_lib \<Rightarrow> marshaler \<Rightarrow> http_call \<Rightarrow> gerr + rpc_request) \<Rightarrow> 's http_handler" where
  "annotated_answer H client D req s =
     (case hl_AnnotateContext H req of
        Inl err \<Rightarrow> (HTTPError (ContextFailed err), s)
      | Inr _ \<Rightarrow>
          (case D H (hl_MarshalerForRequest H req) req of
             Inl err \<Rightarrow> (HTTPError (InvalidArgument err), s)
           | Inr r \<Rightarrow>
               (case client r s of
                  (Inl err, s') \<Rightarrow> (HTTPError (CallFailed err), s')
                | (Inr m, s') \<Rightarrow> (ForwardResponse (Xchain_Message m), s'))))"

lemma handler_of_body:
  "handle_route H Xchain_Message (\<lambda>M client req. io_bind (decode_body (dec M) req) (\<lambda>q. call (client (R q)))) client =
     annotated_answer H client (\<lambda>H M req. of_body (dec M) R req)"
  by (auto simp: handle_route_def annotated_answer_def decode_body_def of_body_def invalid_def call_def fun_eq_iff io_bind_def
      split: sum.splits decode_end.splits prod.splits)

lemma handler_of_query:
  "handle_route H Xchain_Message
     (\<lambda>M client req. io_bind (invalid (rq_ParseForm req)) (\<lambda>form. io_bind (invalid (P H form)) (\<lambda>q. call (client (R q))))) client =
     annotated_answer H client (\<lambda>H M req. of_query (P H) R req)"
  by (auto simp: handle_route_def annotated_answer_def of_query_def invalid_def call_def fun_eq_iff io_bind_def
      split: sum.splits prod.splits)

lemma pattern_paths [simp]:
  "pattern_path pattern_Xchain_SelectUTXOBySize_0 = ''/v1/select_utxo_by_size''"
  "pattern_path pattern_Xchain_PostTx_0 = ''/v1/post_tx''"
  "pattern_path pattern_Xchain_QueryACL_0 = ''/v1/query_acl''"
  "pattern_path pattern_Xchain_QueryUtxoRecord_0 = ''/v1/query_utxo_record''"
  "pattern_path pattern_Xchain_QueryContractStatData_0 = ''/v1/query_contract_stat_data''"
  "pattern_path pattern_Xchain_GetAccountContracts_0 = ''/v1/get_account_contracts''"
  "pattern_path pattern_Xchain_QueryTx_0 = ''/v1/query_tx''"
  "pattern_path pattern_Xchain_GetBalance_0 = ''/v1/get_balance''"
  "pattern_path pattern_Xchain_GetBalanceDetail_0 = ''/v1/get_balance_detail''"
  "pattern_path pattern_Xchain_GetFrozenBalance_0 = ''/v1/get_frozen_balance''"
  "pattern_path pattern_Xchain_GetBlock_0 = ''/v1/get_block''"
  "pattern_path pattern_Xchain_GetBlockByHeight_0 = ''/v1/get_block_by_height''"
  "pattern_path pattern_Xchain_GetBlockChainStatus_0 = ''/v1/get_bcstatus''"
  "pattern_path pattern_Xchain_GetBlockChains_0 = ''/v1/get_bcchains''"
  "pattern_path pattern_Xchain_GetSystemStatus_0 = ''/v1/get_sysstatus''"
  "pattern_path pattern_Xchain_GetConsensusStatus_0 = ''/v1/get_consensusstatus''"
  "pattern_path pattern_Xchain_SelectUTXO_0 = ''/v1/select_utxos_v2''"
  "pattern_path pattern_Xchain_PreExecWithSelectUTXO_0 = ''/v1/preexec_select_utxo''"
  "pattern_path pattern_Xchain_GetAccountByAK_0 = ''/v1/get_account_by_ak''"
  "pattern_path pattern_Xchain_GetAddressContracts_0 = ''/v1/get_address_contracts''"
  "pattern_path pattern_Xchain_PreExec_0 = ''/v1/preexec''"
  by (simp_all add: pattern_Xchain_SelectUTXOBySize_0_def pattern_Xchain_PostTx_0_def pattern_Xchain_QueryACL_0_def pattern_Xchain_QueryUtxoRecord_0_def pattern_Xchain_QueryContractStatData_0_def pattern_Xchain_GetAccountContracts_0_def pattern_Xchain_QueryTx_0_def pattern_Xchain_GetBalance_0_def pattern_Xchain_GetBalanceDetail_0_def pattern_Xchain_GetFrozenBalance_0_def pattern_Xchain_GetBlock_0_def pattern_Xchain_GetBlockByHeight_0_def pattern_Xchain_GetBlockChainStatus_0_def pattern_Xchain_GetBlockChains_0_def pattern_Xchain_GetSystemStatus_0_def pattern_Xchain_GetConsensusStatus_0_def pattern_Xchain_SelectUTXO_0_def pattern_Xchain_PreExecWithSelectUTXO_0_def pattern_Xchain_GetAccountByAK_0_def pattern_Xchain_GetAddressContracts_0_def pattern_Xchain_PreExec_0_def)

lemmas route_defs = route_Xchain_SelectUTXOBySize_0_def route_Xchain_PostTx_0_def route_Xchain_QueryACL_0_def route_Xchain_QueryUtxoRecord_0_def route_Xchain_QueryContractStatData_0_def route_Xchain_GetAccountContracts_0_def route_Xchain_QueryTx_0_def route_Xchain_GetBalance_0_def route_Xchain_GetBalanceDetail_0_def route_Xchain_GetFrozenBalance_0_def route_Xchain_GetBlock_0_def route_Xchain_GetBlockByHeight_0_def route_Xchain_GetBlockChainStatus_0_def route_Xchain_GetBlockChains_0_def route_Xchain_GetSystemStatus_0_def route_Xchain_GetConsensusStatus_0_def route_Xchain_SelectUTXO_0_def route_Xchain_PreExecWithSelectUTXO_0_def route_Xchain_GetAccountByAK_0_def route_Xchain_GetAddressContracts_0_def route_Xchain_PreExec_0_def

lemmas request_defs = request_Xchain_SelectUTXOBySize_0_def[abs_def] request_Xchain_PostTx_0_def[abs_def] request_Xchain_QueryACL_0_def[abs_def] request_Xchain_QueryUtxoRecord_0_def[abs_def] request_Xchain_QueryContractStatData_0_def[abs_def] request_Xchain_GetAccountContracts_0_def[abs_def] request_Xchain_QueryTx_0_def[abs_def] request_Xchain_GetBalance_0_def[abs_def] request_Xchain_GetBalanceDetail_0_def[abs_def] request_Xchain_GetFrozenBalance_0_def[abs_def] request_Xchain_GetBlock_0_def[abs_def] request_Xchain_GetBlockByHeight_0_def[abs_def] request_Xchain_GetBlockChainStatus_0_def[abs_def] request_Xchain_GetBlockChains_0_def[abs_def] request_Xchain_GetSystemStatus_0_def[abs_def] request_Xchain_GetConsensusStatus_0_def[abs_def] request_Xchain_SelectUTXO_0_def[abs_def] request_Xchain_PreExecWithSelectUTXO_0_def[abs_def] request_Xchain_GetAccountByAK_0_def[abs_def] request_Xchain_GetAddressContracts_0_def[abs_def] request_Xchain_PreExec_0_def[abs_def]


section \<open>Routes\<close>

lemma mux_Handle_all_simps [simp]:
  "mx_handlers (mux_Handle_all rs mux) = mx_handlers mux @ rs"
  "mx_watched (mux_Handle_all rs mux) = mx_watched mux"
  by (simp_all add: mux_Handle_all_def)

text \<open>The routes of the service and the rows of the annotations, key by key.\<close>

definition annotation_key :: "string \<times> string \<times> 'd \<Rightarrow> string \<times> string" where
  "annotation_key a = (fst a, fst (snd a))"

definition xchain_routes :: "http_lib \<Rightarrow> 's XchainClient \<Rightarrow> 's route list" where
  "xchain_routes H client = mx_handlers (RegisterXchainHandlerClient H client NewServeMux)"

lemma xchain_handlers:
  "map (\<lambda>r. (route_key r, snd (snd r))) (xchain_routes H client) =
   map (\<lambda>a. (annotation_key a, annotated_answer H client (snd (snd a)))) api_annotations"
  by (simp add: xchain_routes_def RegisterXchainHandlerClient_def NewServeMux_def api_annotations_def route_defs request_defs
      route_key_def annotation_key_def handler_of_body handler_of_query)

lemma annotation_keys_distinct: "distinct (map annotation_key api_annotations)"
  by (simp add: api_annotations_def annotation_key_def)

lemma xchain_keys: "map route_key (xchain_routes H client) = map annotation_key api_annotations"
  using arg_cong[OF xchain_handlers, of "map fst"] by (simp add: comp_def)

lemma registered_handlers:
  "mx_handlers (RegisterXchainHandlerClient H client mux) = mx_handlers mux @ xchain_routes H client"
  "mx_handlers (RegisterXendorserHandlerClient H ec mux) = mx_handlers mux @ [route_Xendorser_EndorserCall_0 H ec]"
  by (simp_all add: xchain_routes_def RegisterXchainHandlerClient_def RegisterXendorserHandlerClient_def NewServeMux_def)

text \<open>The routes of a gateway that came up: those of the service, and perhaps the one of the endorser.\<close>

lemma gateway_mux_up:
  assumes "gateway_mux H DialXchain DialXendorser scfg = Inr mux"
  obtains client E where "DialXchain (rpc_endpoint scfg) = Inr client" "mx_handlers mux = xchain_routes H client @ E"
    "\<not> sc_EnableEndorser scfg \<and> E = [] \<or>
     sc_EnableEndorser scfg \<and> (\<exists>ec. DialXendorser (rpc_endpoint scfg) = Inr ec \<and> E = [route_Xendorser_EndorserCall_0 H ec])"
proof -
  obtain mux1 where reg: "RegisterXchainHandlerFromEndpoint H DialXchain (rpc_endpoint scfg) NewServeMux = Inr mux1"
    and 2: "(if sc_EnableEndorser scfg then RegisterXendorserHandlerFromEndpoint H DialXendorser (rpc_endpoint scfg) mux1
      else Inr mux1) = Inr mux"
    using assms unfolding gateway_mux_def Let_def res_bind_Inr_iff by (elim exE conjE) (rule that; assumption)
  have "\<exists>client. DialXchain (rpc_endpoint scfg) = Inr client \<and> mx_handlers mux1 = xchain_routes H client"
    using reg by (auto simp: RegisterXchainHandlerFromEndpoint_def res_bind_Inr_iff registered_handlers NewServeMux_def)
  then obtain client where 1: "DialXchain (rpc_endpoint scfg) = Inr client" and mux1: "mx_handlers mux1 = xchain_routes H client"
    by blast
  show thesis
  proof (cases "sc_EnableEndorser scfg")
    case True
    then obtain ec where "DialXendorser (rpc_endpoint scfg) = Inr ec" "mx_handlers mux = xchain_routes H client @ [route_Xendorser_EndorserCall_0 H ec]"
      using 2 mux1 by (auto simp: RegisterXendorserHandlerFromEndpoint_def res_bind_Inr_iff registered_handlers)
    with 1(1) True show thesis using that by blast
  next
    case False
    with 1 2 mux1 show thesis using that by simp
  qed
qed

lemma endorser_key [simp]: "route_key (route_Xendorser_EndorserCall_0 H ec) = (''POST'', ''/v1/endorsercall'')"
  by (simp add: route_key_def route_Xendorser_EndorserCall_0_def pattern_Xendorser_EndorserCall_0_def)

lemma endorser_path_free: "(''POST'', ''/v1/endorsercall'') \<notin> annotation_key ` set api_annotations"
  by (simp add: api_annotations_def annotation_key_def)

lemma route_paths: "snd ` route_key ` set (xchain_routes H client) = (fst \<circ> snd) ` set api_annotations"
proof -
  have "snd ` set (map route_key (xchain_routes H client)) = (fst \<circ> snd) ` set api_annotations"
    unfolding xchain_keys by (simp add: image_image annotation_key_def)
  then show ?thesis by simp
qed

lemma gateway_keys_distinct:
  assumes "mx_handlers mux = xchain_routes H client @ E" "E = [] \<or> E = [route_Xendorser_EndorserCall_0 H ec]"
  shows "distinct (map route_key (mx_handlers mux))"
proof -
  have "set (map route_key (xchain_routes H client)) = annotation_key ` set api_annotations"
    by (simp add: xchain_keys del: set_map) simp
  then show ?thesis
    using assms annotation_keys_distinct endorser_path_free by (auto simp: xchain_keys)
qed

text \<open>Calls that the annotations know are no preflight requests.\<close>

lemma annotated_methods: "(m, p, D) \<in> set api_annotations \<Longrightarrow> m = ''POST'' \<or> m = ''GET''"
  by (auto simp: api_annotations_def)

lemma annotated_goes_on:
  assumes "(rq_Method req, p, D) \<in> set api_annotations"
  shows "snd (interrupt scfg (http_request.truncate req))"
  using annotated_methods[OF assms] by (auto simp: interrupt_def Let_def http_request.truncate_def)

lemma annotated_route:
  assumes "(m, p, D) \<in> set api_annotations"
  obtains r where "r \<in> set (xchain_routes H client)" "route_key r = (m, p)" "snd (snd r) = annotated_answer H client D"
proof -
  have "((m, p), annotated_answer H client D) \<in> set (map (\<lambda>a. (annotation_key a, annotated_answer H client (snd (snd a)))) api_annotations)"
    using assms by (force simp: annotation_key_def)
  then show thesis using that unfolding xchain_handlers[symmetric] by auto
qed

lemma gateway_runs_annotated:
  assumes "mux_search search" "gateway_mux H DialXchain DialXendorser scfg = Inr mux"
    and "DialXchain (rpc_endpoint scfg) = Inr client" "plain_call req"
    and "(rq_Method req, rq_Path req, D) \<in> set api_annotations"
  shows "gateway_ServeHTTP search scfg mux req s =
    (let (a, s') = annotated_answer H client D req s in ((fst (interrupt scfg (http_request.truncate req)), a), s'))"
proof -
  obtain client' E where up: "DialXchain (rpc_endpoint scfg) = Inr client'" "mx_handlers mux = xchain_routes H client' @ E"
      "E = [] \<or> (\<exists>ec. E = [route_Xendorser_EndorserCall_0 H ec])"
    using gateway_mux_up[OF assms(2)] by metis
  have "client' = client" using up(1) assms(3) by simp
  obtain r where r: "r \<in> set (xchain_routes H client)" "route_key r = (rq_Method req, rq_Path req)"
      "snd (snd r) = annotated_answer H client D"
    using annotated_route[OF assms(5)] by metis
  have "distinct (map route_key (mx_handlers mux))" using gateway_keys_distinct up(2,3) by metis
  then have "ServeHTTP search mux req s = annotated_answer H client D req s"
    using mux_search.routed[OF assms(1,4), of mux r s] r up(2) \<open>client' = client\<close> by simp
  then show ?thesis
    using annotated_goes_on[OF assms(5), of scfg] by (simp add: gateway_ServeHTTP_def Let_def case_prod_beta)
qed

section \<open>Properties\<close>

text \<open>C12: The gateway serves the interface that \<open>xchain.proto\<close> annotates.  A gateway that came up answers a request for the
  method and path of an annotation with the answer of the RPC server to the message decoded from the
  body or the query, an error of decoding as an invalid argument and without a call, and an error of the call as
  that error.  It hands the endorser's path to the endorser exactly when the endorser is enabled, and for
  every other path it refuses, and the server sees nothing.\<close>

theorem gateway_follows_annotations:
  assumes search: "mux_search search" and up: "gateway_mux H DialXchain DialXendorser scfg = Inr mux"
    and client: "DialXchain (rpc_endpoint scfg) = Inr client" and plain: "plain_call req"
    and hs: "interrupt scfg (http_request.truncate req) = (hs, True)"
  shows "((rq_Method req, rq_Path req, D) \<in> set api_annotations \<longrightarrow>
       gateway_ServeHTTP search scfg mux req s =
         (let (a, s') = annotated_answer H client D req s in ((hs, a), s'))) \<and>
     (rq_Method req = ''POST'' \<and> rq_Path req = ''/v1/endorsercall'' \<and> sc_EnableEndorser scfg \<longrightarrow>
       (\<exists>ec. DialXendorser (rpc_endpoint scfg) = Inr ec \<and> gateway_ServeHTTP search scfg mux req s =
         (let (a, s') = handle_route H Xendorser_Message request_Xendorser_EndorserCall_0 ec req s in ((hs, a), s')))) \<and>
     (rq_Path req \<notin> (fst \<circ> snd) ` set api_annotations \<and> (rq_Path req = ''/v1/endorsercall'' \<longrightarrow> \<not> sc_EnableEndorser scfg) \<longrightarrow>
       gateway_ServeHTTP search scfg mux req s = ((hs, NotServed), s))"
proof (intro conjI impI)
  assume "(rq_Method req, rq_Path req, D) \<in> set api_annotations"
  from gateway_runs_annotated[OF search up client plain this, of s] hs
  show "gateway_ServeHTTP search scfg mux req s = (let (a, s') = annotated_answer H client D req s in ((hs, a), s'))"
    by simp
next
  assume req: "rq_Method req = ''POST'' \<and> rq_Path req = ''/v1/endorsercall'' \<and> sc_EnableEndorser scfg"
  obtain client' ec where ec: "DialXendorser (rpc_endpoint scfg) = Inr ec"
      "mx_handlers mux = xchain_routes H client' @ [route_Xendorser_EndorserCall_0 H ec]"
    using gateway_mux_up[OF up] req by metis
  have "distinct (map route_key (mx_handlers mux))" using gateway_keys_distinct[OF ec(2)] by blast
  then have "ServeHTTP search mux req s = snd (snd (route_Xendorser_EndorserCall_0 H ec)) req s"
    using mux_search.routed[OF search plain, of mux "route_Xendorser_EndorserCall_0 H ec" s] ec(2) req by simp
  with ec(1) hs show "\<exists>ec. DialXendorser (rpc_endpoint scfg) = Inr ec \<and> gateway_ServeHTTP search scfg mux req s =
      (let (a, s') = handle_route H Xendorser_Message request_Xendorser_EndorserCall_0 ec req s in ((hs, a), s'))"
    by (intro exI[of _ ec]) (simp add: gateway_ServeHTTP_def route_Xendorser_EndorserCall_0_def)
next
  assume path: "rq_Path req \<notin> (fst \<circ> snd) ` set api_annotations \<and>
    (rq_Path req = ''/v1/endorsercall'' \<longrightarrow> \<not> sc_EnableEndorser scfg)"
  obtain client' E where E: "mx_handlers mux = xchain_routes H client' @ E"
      "E = [] \<or> sc_EnableEndorser scfg \<and> (\<exists>ec. E = [route_Xendorser_EndorserCall_0 H ec])"
    using gateway_mux_up[OF up] by metis
  have "rq_Path req \<notin> snd ` route_key ` set (mx_handlers mux)"
    using path E(2) unfolding E(1) set_append image_Un route_paths by auto
  then have "ServeHTTP search mux req s = (NotServed, s)"
    by (rule mux_search.refused[OF search plain])
  with hs show "gateway_ServeHTTP search scfg mux req s = ((hs, NotServed), s)"
    by (simp add: gateway_ServeHTTP_def)
qed

text \<open>An HTTP call of \<open>post_tx\<close> whose body holds a request.\<close>

definition ex_marshaler :: marshaler where
  "ex_marshaler =
     \<lparr>mr_UtxoInput = (\<lambda>body. DecodeFailed (LibErr '''')),
      mr_TxStatus = (\<lambda>body. Decoded ex_post),
      mr_AclStatus = (\<lambda>body. DecodeFailed (LibErr '''')),
      mr_UtxoRecordDetail = (\<lambda>body. DecodeFailed (LibErr '''')),
      mr_ContractStatDataRequest = (\<lambda>body. DecodeFailed (LibErr '''')),
      mr_GetAccountContractsRequest = (\<lambda>body. DecodeFailed (LibErr '''')),
      mr_AddressStatus = (\<lambda>body. DecodeFailed (LibErr '''')),
      mr_AddressBalanceStatus = (\<lambda>body. DecodeFailed (LibErr '''')),
      mr_BlockID = (\<lambda>body. DecodeFailed (LibErr '''')),
      mr_BlockHeight = (\<lambda>body. DecodeFailed (LibErr '''')),
      mr_BCStatus = (\<lambda>body. DecodeFailed (LibErr '''')),
      mr_CommonIn = (\<lambda>body. DecodeFailed (LibErr '''')),
      mr_ConsensusStatRequest = (\<lambda>body. DecodeFailed (LibErr '''')),
      mr_PreExecWithSelectUTXORequest = (\<lambda>body. DecodeFailed (LibErr '''')),
      mr_AK2AccountRequest = (\<lambda>body. DecodeFailed (LibErr '''')),
      mr_AddressContractsRequest = (\<lambda>body. DecodeFailed (LibErr '''')),
      mr_InvokeRPCRequest = (\<lambda>body. DecodeFailed (LibErr '''')),
      mr_EndorserRequest = (\<lambda>body. DecodeFailed (LibErr ''''))\<rparr>"

definition ex_http_lib :: http_lib where
  "ex_http_lib = \<lparr>hl_MarshalerForRequest = (\<lambda>req. ex_marshaler), hl_AnnotateContext = (\<lambda>req. Inr ()),
     hl_PopulateCommonIn = (\<lambda>form. Inr \<lparr>cin_Header = None, cin_ViewOption = ViewOption_NONE\<rparr>)\<rparr>"

definition ex_http_post :: http_call where
  "ex_http_post = \<lparr>rq_Method = ''POST'', rq_Origin = '''', rq_RequestMethod = '''', rq_Path = ''/v1/post_tx'', rq_Override = '''',
     rq_Body = Inr ''body'', rq_ParseForm = Inr []\<rparr>"

definition ex_gateway_client :: "(nat, string) RpcState XchainClient" where
  "ex_gateway_client = channel (serve ex_server ex_lib ex_peer_addr)"

definition ex_gateway_mux :: "(nat, string) RpcState ServeMux" where
  "ex_gateway_mux = RegisterXchainHandlerClient ex_http_lib ex_gateway_client
     (NewServeMux\<lparr>mx_watched := mx_watched (NewServeMux :: (nat, string) RpcState ServeMux) @ [rpc_endpoint GetDefServConf]\<rparr>)"

lemma ex_gateway_up:
  "gateway_mux ex_http_lib (\<lambda>_. Inr ex_gateway_client) (\<lambda>_. Inl (Errorf ''dial'')) (GetDefServConf\<lparr>sc_EnableEndorser := False\<rparr>) =
     Inr ex_gateway_mux"
  by (simp add: gateway_mux_def RegisterXchainHandlerFromEndpoint_def ex_gateway_mux_def rpc_endpoint_def GetDefServConf_def)

lemma ex_http_post_plain: "plain_call ex_http_post"
  by (simp add: plain_call_def ex_http_post_def)

lemma ex_http_post_annotated:
  "(rq_Method ex_http_post, rq_Path ex_http_post, \<lambda>H M req. of_body (mr_TxStatus M) PostTx_Req req) \<in> set api_annotations"
  by (simp add: api_annotations_def ex_http_post_def)

lemma gateway_follows_annotations_witness:
  "gateway_ServeHTTP search_routes (GetDefServConf\<lparr>sc_EnableEndorser := False\<rparr>) ex_gateway_mux ex_http_post ex_state =
     (let (a, s') = annotated_answer ex_http_lib ex_gateway_client (\<lambda>H M req. of_body (mr_TxStatus M) PostTx_Req req) ex_http_post ex_state
      in (([], a), s'))"
  using gateway_follows_annotations[OF search_routes.mux_search_axioms ex_gateway_up refl ex_http_post_plain,
      of "[]" "\<lambda>H M req. of_body (mr_TxStatus M) PostTx_Req req" ex_state] ex_http_post_annotated
  by (simp add: interrupt_def ex_http_post_def http_request.truncate_def)

section \<open>From HTTP to the chain\<close>

text \<open>What a client gets that reaches the server over grpc.\<close>

lemma client_of_server:
  assumes call: "unary_call client (serve t L pr)"
  shows "snd (client r s) = snd (serve t L pr r s)"
    and "(\<exists>m. fst (client r s) = Inr m) \<longleftrightarrow> succeeded (fst (serve t L pr r s))"
    and "fst (client r s) = Inr m \<Longrightarrow> serve t L pr r s = (Returned (Some m) None, snd (serve t L pr r s))"
proof -
  obtain res s' where r: "serve t L pr r s = (res, s')" by (cases "serve t L pr r s")
  have "(case res of Returned (Some m) None \<Rightarrow> client r s = (Inr m, s') | _ \<Rightarrow> \<exists>e. client r s = (Inl e, s'))"
  proof (cases res)
    case (Returned m err)
    then show ?thesis
      using r serve_not_nil[of t L pr r s] unary_call.reply_arrives[OF call, of r s _ s']
        unary_call.error_arrives[OF call, of r s m _ s'] by (cases err; cases m) auto
  next
    case Crashed
    then show ?thesis using r unary_call.crash_breaks[OF call, of r s s'] by auto
  qed
  with r show "snd (client r s) = snd (serve t L pr r s)"
    and "(\<exists>m. fst (client r s) = Inr m) \<longleftrightarrow> succeeded (fst (serve t L pr r s))"
    and "fst (client r s) = Inr m \<Longrightarrow> serve t L pr r s = (Returned (Some m) None, snd (serve t L pr r s))"
    by (auto simp: succeeded_def split: rpc_result.splits option.splits)
qed

lemma annotated_forwards:
  assumes "annotated_answer H client D req s = (ForwardResponse (Xchain_Message m), s')"
  obtains r where "D H (hl_MarshalerForRequest H req) req = Inr r" "client r s = (Inr m, s')"
  using assms by (auto simp: annotated_answer_def split: sum.splits prod.splits)


text \<open>C5: A transaction that is posted over HTTP.  The gateway answers a reply with a SUCCESS header exactly when the
  chain accepts the transaction, which is then the one thing sent to the network; otherwise the answer is
  the error of the call and nothing is sent.\<close>

theorem http_post_tx:
  assumes search: "mux_search search" and up: "gateway_mux H DialXchain DialXendorser scfg = Inr mux"
    and client: "DialXchain (rpc_endpoint scfg) = Inr client" and plain: "plain_call req"
    and call: "unary_call client (serve t L pr)" and ok: "server_ok t"
    and req: "rq_Method req = ''POST''" "rq_Path req = ''/v1/post_tx''" "hl_AnnotateContext H req = Inr ()"
    and body: "rq_Body req = Inr body" "mr_TxStatus (hl_MarshalerForRequest H req) body = Decoded q"
    and run: "gateway_ServeHTTP search scfg mux req s = ((hs, a), s')"
  shows "case posted t L pr (PostTx_Req q) (st_node s) of
      None \<Rightarrow> (\<exists>err. a = HTTPError (CallFailed err)) \<and> st_sent s' = st_sent s
    | Some sent \<Rightarrow> (\<exists>m hdr. a = ForwardResponse (Xchain_Message m) \<and> msg_header m = Some hdr \<and> hdr_Error hdr = SUCCESS) \<and>
        st_sent s' = st_sent s @ [sent]"
proof -
  let ?D = "\<lambda>H M req. of_body (mr_TxStatus M) PostTx_Req req" and ?r = "PostTx_Req q"
  have "(rq_Method req, rq_Path req, ?D) \<in> set api_annotations"
    by (simp add: api_annotations_def req)
  from gateway_runs_annotated[OF search up client plain this, of s] run
  have "(a, s') = annotated_answer H client ?D req s" by (simp add: case_prod_beta prod_eq_iff)
  then have a: "(a, s') = (case client ?r s of (Inl err, s') \<Rightarrow> (HTTPError (CallFailed err), s')
      | (Inr m, s') \<Rightarrow> (ForwardResponse (Xchain_Message m), s'))"
    by (simp add: annotated_answer_def req(3) of_body_def body)
  have sent: "st_sent s' = st_sent s @ (case posted t L pr ?r (st_node s) of None \<Rightarrow> [] | Some m \<Rightarrow> [m])"
    using a client_of_server(1)[OF call, of ?r s] serve_PostTx[of t L pr q s]
    by (auto simp del: serve.simps split: prod.splits sum.splits)
  have acc: "posted t L pr ?r (st_node s) = None \<longleftrightarrow> \<not> succeeded (fst (serve t L pr ?r s))"
    using serve_PostTx by blast
  show ?thesis
  proof (cases "fst (client ?r s)")
    case (Inl err)
    then have "posted t L pr ?r (st_node s) = None" "a = HTTPError (CallFailed err)"
      using a client_of_server(2)[OF call, of ?r s] by (auto simp: acc simp del: serve.simps split: prod.splits)
    with sent show ?thesis by simp
  next
    case (Inr m)
    then have "posted t L pr ?r (st_node s) \<noteq> None" "a = ForwardResponse (Xchain_Message m)"
      using a client_of_server(2)[OF call, of ?r s] by (auto simp: acc simp del: serve.simps split: prod.splits)
    moreover have "\<exists>hdr. msg_header m = Some hdr \<and> hdr_Error hdr = SUCCESS"
      using serve_answered[OF client_of_server(3)[OF call Inr] ok] by (auto simp: answered_def)
    ultimately show ?thesis using sent by auto
  qed
qed

lemma ex_gateway_client_ok: "unary_call ex_gateway_client (serve ex_server ex_lib ex_peer_addr)"
  unfolding ex_gateway_client_def by (rule channel.unary_call_axioms)

lemma ex_http_post_run:
  "gateway_ServeHTTP search_routes (GetDefServConf\<lparr>sc_EnableEndorser := False\<rparr>) ex_gateway_mux ex_http_post ex_state =
     (([], ForwardResponse (Xchain_Message (CommonReply_Msg
        \<lparr>crep_Header = Some \<lparr>hdr_Logid = ''l1'', hdr_FromNode = ''host1'', hdr_Error = SUCCESS\<rparr>\<rparr>))),
      \<lparr>st_node = 1, st_sent = [(''xuper'', ''m'', ''l1'')]\<rparr>)"
proof -
  have "ex_gateway_client (PostTx_Req ex_post) ex_state =
    (Inr (CommonReply_Msg \<lparr>crep_Header = Some \<lparr>hdr_Logid = ''l1'', hdr_FromNode = ''host1'', hdr_Error = SUCCESS\<rparr>\<rparr>),
     \<lparr>st_node = 1, st_sent = [(''xuper'', ''m'', ''l1'')]\<rparr>)"
    by (simp add: ex_gateway_client_def channel_def ex_serve_post del: serve.simps)
  then show ?thesis
    using gateway_runs_annotated[OF search_routes.mux_search_axioms ex_gateway_up refl ex_http_post_plain ex_http_post_annotated, of ex_state]
    by (simp add: annotated_answer_def of_body_def ex_http_lib_def ex_marshaler_def ex_http_post_def interrupt_def
        http_request.truncate_def)
qed


lemma http_post_tx_witness:
  "case posted ex_server ex_lib ex_peer_addr (PostTx_Req ex_post) (st_node ex_state) of
      None \<Rightarrow> (\<exists>err. ForwardResponse (Xchain_Message (CommonReply_Msg
        \<lparr>crep_Header = Some \<lparr>hdr_Logid = ''l1'', hdr_FromNode = ''host1'', hdr_Error = SUCCESS\<rparr>\<rparr>)) = HTTPError (CallFailed err)) \<and>
        st_sent \<lparr>st_node = 1 :: nat, st_sent = [(''xuper'', ''m'', ''l1'')]\<rparr> = st_sent ex_state
    | Some sent \<Rightarrow> (\<exists>m hdr. ForwardResponse (Xchain_Message (CommonReply_Msg
        \<lparr>crep_Header = Some \<lparr>hdr_Logid = ''l1'', hdr_FromNode = ''host1'', hdr_Error = SUCCESS\<rparr>\<rparr>)) =
          ForwardResponse (Xchain_Message m) \<and> msg_header m = Some hdr \<and> hdr_Error hdr = SUCCESS) \<and>
        st_sent \<lparr>st_node = 1 :: nat, st_sent = [(''xuper'', ''m'', ''l1'')]\<rparr> = st_sent ex_state @ [sent]"
  by (rule http_post_tx[OF search_routes.mux_search_axioms ex_gateway_up refl ex_http_post_plain ex_gateway_client_ok ex_server_ok
        _ _ _ _ _ ex_http_post_run, where body = "''body''"])
    (simp_all add: ex_http_post_def ex_http_lib_def ex_marshaler_def)

end
