(* ===== verification/CliSetup.thy ===== *)
theory CliSetup
  imports ClientBase
begin

text \<open>
  How the client is put together: the configuration (\<open>config.go\<close>), the set-up of \<open>cli.go\<close> and \<open>main.go\<close> of
  \<open>cmd/client\<close>, and the tree of commands with their flags and rules for positional arguments, from the
  constructor and \<open>addFlags\<close> of every command.  What cobra, pflag, viper and grpc do is given; the
  records below hold what the client asks of them.
\<close>

section \<open>Commands and flags\<close>

text \<open>A flag has a name, a shorthand (empty for none) and a default.  The third argument of a command is \<open>None\<close> for a
  group, and otherwise the number of positional arguments the body reads without looking how many
  there are.\<close>

datatype flag_default = FString string | FBool bool | FInt64 int64 | FInt32 int32 | FUint8 "8 word"

type_synonym flag = "string \<times> string \<times> flag_default"

datatype arg_rule = ArbitraryArgs | NoArgs | MinimumNArgs nat

datatype command =
  Command (cmd_Use: string) (cmd_Args: arg_rule) (cmd_reads: "nat option") (cmd_flags: "flag list")
    (cmd_subs: "command list")

text \<open>The name of a command is the first word of its usage.\<close>

definition cmd_name :: "command \<Rightarrow> string" where
  "cmd_name c = takeWhile (\<lambda>x. x \<noteq> CHR '' '') (cmd_Use c)"

fun all_commands :: "command \<Rightarrow> command list" where
  "all_commands (Command use args reads flags subs) =
     Command use args reads flags subs # concat (map all_commands subs)"

definition validate_args :: "arg_rule \<Rightarrow> string list \<Rightarrow> bool" where
  "validate_args r xs =
     (case r of ArbitraryArgs \<Rightarrow> True | NoArgs \<Rightarrow> xs = [] | MinimumNArgs n \<Rightarrow> n \<le> length xs)"

text \<open>Constants of the kernel: \<open>utxo.TxVersion\<close> and \<open>bridge.TypeEvm\<close>.\<close>

record given_constants =
  gc_TxVersion :: int32
  gc_TypeEvm :: string

section \<open>The commands\<close>

definition AccountBalanceCommand_addFlags :: "flag list" where
  "AccountBalanceCommand_addFlags =
   [(''frozen'', ''Z'', FBool False)]"

definition NewAccountBalanceCommand :: command where
  "NewAccountBalanceCommand =
   Command ''balance [account/address]'' ArbitraryArgs (Some 0) AccountBalanceCommand_addFlags []"

definition AccountContractsCommand_addFlags :: "flag list" where
  "AccountContractsCommand_addFlags =
   [(''account'', '''', FString ''''), (''address'', '''', FString ''''), (''verbose'', '''', FBool False)]"

definition NewAccountContractsCommand :: command where
  "NewAccountContractsCommand =
   Command ''contracts'' ArbitraryArgs (Some 0) AccountContractsCommand_addFlags []"

definition AccountDecryptCommand_addFlags :: "flag list" where
  "AccountDecryptCommand_addFlags =
   [(''output'', ''o'', FString ''data/keys''), (''key'', '''', FString ''private.key'')]"

definition NewAccountDecryptCommand :: command where
  "NewAccountDecryptCommand =
   Command ''decrypt'' ArbitraryArgs (Some 0) AccountDecryptCommand_addFlags []"

definition AccountNewCommand_addFlags :: "flag list" where
  "AccountNewCommand_addFlags =
   [(''account'', '''', FString ''''), (''desc'', '''', FString ''''), (''fee'', '''', FString ''0''),
    (''debug'', '''', FBool False)]"

definition NewAccountNewCommand :: command where
  "NewAccountNewCommand =
   Command ''new '' ArbitraryArgs (Some 0) AccountNewCommand_addFlags []"

definition AccountNewkeysCommand_addFlags :: "flag list" where
  "AccountNewkeysCommand_addFlags =
   [(''output'', ''o'', FString ''./data/keys''), (''strength'', '''', FUint8 0),
    (''lang'', '''', FString ''zh''), (''force'', ''f'', FBool False)]"

definition NewAccountNewkeysCommand :: command where
  "NewAccountNewkeysCommand =
   Command ''newkeys'' ArbitraryArgs (Some 0) AccountNewkeysCommand_addFlags []"

definition AccountQueryCommand_addFlags :: "flag list" where
  "AccountQueryCommand_addFlags =
   [(''address'', '''', FString '''')]"

definition NewAccountQueryCommand :: command where
  "NewAccountQueryCommand =
   Command ''query [OPTIONS] account list contains a specific address'' ArbitraryArgs (Some 0)
     AccountQueryCommand_addFlags []"

definition AccountRestoreCommand_addFlags :: "flag list" where
  "AccountRestoreCommand_addFlags =
   [(''output'', ''o'', FString ''''), (''mnemonic'', ''m'', FString ''''), (''lang'', '''', FString ''zh'')]"

definition NewAccountRestoreCommand :: command where
  "NewAccountRestoreCommand =
   Command ''restore'' ArbitraryArgs (Some 0) AccountRestoreCommand_addFlags []"

definition ACLQueryCommand_addFlags :: "flag list" where
  "ACLQueryCommand_addFlags =
   [(''account'', '''', FString ''''), (''contract'', '''', FString ''''), (''method'', '''', FString '''')]"

definition NewACLQueryCommand :: command where
  "NewACLQueryCommand =
   Command ''query [OPTIONS] account contract method'' ArbitraryArgs (Some 0) ACLQueryCommand_addFlags []"

definition BlockCommand_addFlags :: "flag list" where
  "BlockCommand_addFlags =
   [(''byHeight'', ''N'', FBool False)]"

definition NewBlockCommand :: command where
  "NewBlockCommand =
   Command ''block [OPTIONS] blockid or height'' (MinimumNArgs 1) (Some 0) BlockCommand_addFlags []"

definition ConsensusInvokeCommand_addFlags :: "flag list" where
  "ConsensusInvokeCommand_addFlags =
   [(''desc'', '''', FString ''''), (''type'', ''t'', FString ''''), (''method'', '''', FString ''''),
    (''account'', '''', FString ''''), (''fee'', '''', FString ''''), (''isMulti'', '''', FBool False),
    (''multiAddrs'', ''A'', FString ''data/acl/addrs''), (''output'', ''o'', FString ''./tx.out'')]"

definition NewConsensusInvokeCommand :: command where
  "NewConsensusInvokeCommand =
   Command ''invoke'' NoArgs (Some 0) ConsensusInvokeCommand_addFlags []"

definition NewConsensusStatusCommand :: command where
  "NewConsensusStatusCommand =
   Command ''status'' NoArgs (Some 0) [] []"

definition ContractDeployCommand_addFlags :: "given_constants \<Rightarrow> string \<Rightarrow> flag list" where
  "ContractDeployCommand_addFlags K module =
   ([(''arg'', ''a'', FString ''{}''), (''cname'', ''n'', FString ''''), (''account'', '''', FString ''''),
     (''runtime'', '''', FString ''c''), (''fee'', '''', FString ''''), (''isMulti'', ''m'', FBool False),
     (''multiAddrs'', ''A'', FString ''data/acl/addrs''), (''output'', ''o'', FString ''./tx.out'')] @
    (if module = gc_TypeEvm K then [(''abi'', '''', FString '''')] else []))"

definition NewContractDeployCommand :: "given_constants \<Rightarrow> string \<Rightarrow> command" where
  "NewContractDeployCommand K module =
   Command ''deploy [options] code path'' (MinimumNArgs 1) (Some 1) (ContractDeployCommand_addFlags K module) []"

definition ContractInvokeCommand_addFlags :: "given_constants \<Rightarrow> string \<Rightarrow> flag list" where
  "ContractInvokeCommand_addFlags K module =
   ([(''args'', ''a'', FString ''{}''), (''account'', '''', FString ''''), (''fee'', '''', FString ''''),
     (''isMulti'', ''m'', FBool False), (''multiAddrs'', ''A'', FString ''data/acl/addrs''),
     (''output'', ''o'', FString ''./tx.out''), (''method'', '''', FString ''invoke''),
     (''amount'', '''', FString ''''), (''debug'', '''', FBool False)] @
    (if module = gc_TypeEvm K then [(''abi'', '''', FString '''')] else []))"

definition NewContractInvokeCommand :: "given_constants \<Rightarrow> string \<Rightarrow> command" where
  "NewContractInvokeCommand K module =
   Command ''invoke [options] code'' (MinimumNArgs 1) (Some 1) (ContractInvokeCommand_addFlags K module) []"

definition ContractQueryCommand_addFlags :: "given_constants \<Rightarrow> string \<Rightarrow> flag list" where
  "ContractQueryCommand_addFlags K module =
   ([(''args'', ''a'', FString ''{}''), (''method'', '''', FString ''get''), (''isMulti'', ''m'', FBool False),
     (''verbose'', ''v'', FBool False), (''multiAddrs'', ''A'', FString ''data/acl/addrs'')] @
    (if module = gc_TypeEvm K then [(''abi'', '''', FString '''')] else []))"

definition NewContractQueryCommand :: "given_constants \<Rightarrow> string \<Rightarrow> command" where
  "NewContractQueryCommand K module =
   Command ''query [options] code'' (MinimumNArgs 1) (Some 1) (ContractQueryCommand_addFlags K module) []"

definition NewContractStatDataQueryCommand :: command where
  "NewContractStatDataQueryCommand =
   Command ''query contract statistic data'' ArbitraryArgs (Some 0) [] []"

definition ContractUpgradeCommand_addFlags :: "flag list" where
  "ContractUpgradeCommand_addFlags =
   [(''cname'', ''n'', FString ''''), (''account'', '''', FString ''''), (''fee'', '''', FString ''''),
    (''isMulti'', ''m'', FBool False), (''multiAddrs'', ''A'', FString ''data/acl/addrs''),
    (''output'', ''o'', FString ''./tx.out'')]"

definition NewContractUpgradeCommand :: command where
  "NewContractUpgradeCommand =
   Command ''upgrade [options] code path'' (MinimumNArgs 1) (Some 1) ContractUpgradeCommand_addFlags []"

definition EVMAddrTransCommand_addFlags :: "flag list" where
  "EVMAddrTransCommand_addFlags =
   [(''type'', ''t'', FString ''e2x''), (''from'', ''f'', FString '''')]"

definition NewEVMAddrTransCommand :: command where
  "NewEVMAddrTransCommand =
   Command ''addr-trans -t [x2e/e2x] -f from_address'' (MinimumNArgs 0) (Some 0) EVMAddrTransCommand_addFlags []"

definition GovernInitCommand_addFlags :: "flag list" where
  "GovernInitCommand_addFlags =
   [(''fee'', '''', FString ''0'')]"

definition NewGovernInitCommand :: command where
  "NewGovernInitCommand =
   Command ''init'' ArbitraryArgs (Some 0) GovernInitCommand_addFlags []"

definition GovernTokenQueryCommand_addFlags :: "flag list" where
  "GovernTokenQueryCommand_addFlags =
   [(''account'', ''a'', FString '''')]"

definition NewGovernTokenQueryCommand :: command where
  "NewGovernTokenQueryCommand =
   Command ''query'' ArbitraryArgs (Some 0) GovernTokenQueryCommand_addFlags []"

definition GovernTransferCommand_addFlags :: "flag list" where
  "GovernTransferCommand_addFlags =
   [(''to'', '''', FString ''''), (''amount'', '''', FString ''0''), (''fee'', '''', FString ''0'')]"

definition NewGovernTransferCommand :: command where
  "NewGovernTransferCommand =
   Command ''transfer'' ArbitraryArgs (Some 0) GovernTransferCommand_addFlags []"

definition MultisigCheckCommand_addFlags :: "flag list" where
  "MultisigCheckCommand_addFlags =
   [(''input'', ''i'', FString ''./tx.out''), (''output'', ''o'', FString ''./visualtx.out'')]"

definition NewMultisigCheckCommand :: command where
  "NewMultisigCheckCommand =
   Command ''check'' ArbitraryArgs (Some 0) MultisigCheckCommand_addFlags []"

definition MultisigGenCommand_addFlags :: "given_constants \<Rightarrow> flag list" where
  "MultisigGenCommand_addFlags K =
   [(''to'', '''', FString ''''), (''amount'', '''', FString ''0''), (''desc'', '''', FString ''''),
    (''fee'', '''', FString ''''), (''frozen'', '''', FInt64 0), (''txversion'', '''', FInt32 (gc_TxVersion K)),
    (''output'', ''o'', FString ''./tx.out''), (''multiAddrs'', ''A'', FString ''data/acl/addrs''),
    (''publickeys'', ''P'', FString ''data/acl/pubkeys''), (''signtype'', '''', FString ''''),
    (''from'', '''', FString ''''), (''module'', '''', FString ''''), (''contract'', '''', FString ''''),
    (''method'', '''', FString ''''), (''args'', '''', FString '''')]"

definition NewMultisigGenCommand :: "given_constants \<Rightarrow> command" where
  "NewMultisigGenCommand K =
   Command ''gen'' ArbitraryArgs (Some 0) (MultisigGenCommand_addFlags K) []"

definition GetComplianceCheckSignCommand_addFlags :: "given_constants \<Rightarrow> flag list" where
  "GetComplianceCheckSignCommand_addFlags K =
   [(''tx'', '''', FString ''./tx.out''), (''output'', '''', FString ''./compliance_check_sign.out''),
    (''txversion'', '''', FInt32 (gc_TxVersion K)), (''from'', '''', FString '''')]"

definition NewGetComplianceCheckSignCommand :: "given_constants \<Rightarrow> command" where
  "NewGetComplianceCheckSignCommand K =
   Command ''get'' ArbitraryArgs (Some 0) (GetComplianceCheckSignCommand_addFlags K) []"

definition MultisigSendCommand_addFlags :: "flag list" where
  "MultisigSendCommand_addFlags =
   [(''tx'', '''', FString ''./tx.out''), (''signtype'', '''', FString '''')]"

definition NewMultisigSendCommand :: command where
  "NewMultisigSendCommand =
   Command ''send'' (MinimumNArgs 1) (Some 1) MultisigSendCommand_addFlags []"

definition MultisigSignCommand_addFlags :: "flag list" where
  "MultisigSignCommand_addFlags =
   [(''tx'', '''', FString ''./tx.out''), (''signtype'', '''', FString ''''),
    (''output'', '''', FString ''./sign.out'')]"

definition NewMultisigSignCommand :: command where
  "NewMultisigSignCommand =
   Command ''sign'' ArbitraryArgs (Some 0) MultisigSignCommand_addFlags []"

definition NetURLConvertCommand_addFlags :: "flag list" where
  "NetURLConvertCommand_addFlags =
   [(''path'', '''', FString ''./data/netkeys''), (''from'', '''', FString ''net'')]"

definition NewNetURLConvertCommand :: command where
  "NewNetURLConvertCommand =
   Command ''convert [options]'' ArbitraryArgs (Some 0) NetURLConvertCommand_addFlags []"

definition NetURLGenCommand_addFlags :: "flag list" where
  "NetURLGenCommand_addFlags =
   [(''path'', '''', FString ''./data/netkeys/'')]"

definition NewNetURLGenCommand :: command where
  "NewNetURLGenCommand =
   Command ''gen [options]'' ArbitraryArgs (Some 0) NetURLGenCommand_addFlags []"

definition NewNetURLGetCommand :: command where
  "NewNetURLGetCommand =
   Command ''get'' ArbitraryArgs (Some 0) [] []"

definition NetURLPreviewCommand_addFlags :: "flag list" where
  "NetURLPreviewCommand_addFlags =
   [(''ip'', '''', FString ''127.0.0.1''), (''ipv6'', '''', FString ''''), (''port'', '''', FString ''47101''),
    (''path'', '''', FString ''./data/netkeys/'')]"

definition NewNetURLPreviewCommand :: command where
  "NewNetURLPreviewCommand =
   Command ''preview'' ArbitraryArgs (Some 0) NetURLPreviewCommand_addFlags []"

definition ProposalProposeCommand_addFlags :: "flag list" where
  "ProposalProposeCommand_addFlags =
   [(''proposal'', ''p'', FString ''''), (''fee'', '''', FString ''0'')]"

definition NewProposalProposeCommand :: command where
  "NewProposalProposeCommand =
   Command ''propose'' ArbitraryArgs (Some 0) ProposalProposeCommand_addFlags []"

definition ProposalQueryCommand_addFlags :: "flag list" where
  "ProposalQueryCommand_addFlags =
   [(''pid'', ''p'', FString ''1'')]"

definition NewProposalQueryCommand :: command where
  "NewProposalQueryCommand =
   Command ''query'' ArbitraryArgs (Some 0) ProposalQueryCommand_addFlags []"

definition ProposalThawCommand_addFlags :: "flag list" where
  "ProposalThawCommand_addFlags =
   [(''pid'', ''p'', FString ''''), (''fee'', '''', FString ''0'')]"

definition NewProposalThawCommand :: command where
  "NewProposalThawCommand =
   Command ''thaw'' ArbitraryArgs (Some 0) ProposalThawCommand_addFlags []"

definition ProposalVoteCommand_addFlags :: "flag list" where
  "ProposalVoteCommand_addFlags =
   [(''pid'', ''p'', FString ''''), (''amount'', '''', FString ''''), (''fee'', '''', FString ''0'')]"

definition NewProposalVoteCommand :: command where
  "NewProposalVoteCommand =
   Command ''vote'' ArbitraryArgs (Some 0) ProposalVoteCommand_addFlags []"

definition StatusCommand_addFlags :: "flag list" where
  "StatusCommand_addFlags =
   [(''ledger'', ''L'', FBool False), (''utxo'', ''U'', FBool False), (''branch'', ''B'', FBool False),
    (''peers'', ''P'', FBool False)]"

definition NewStatusCommand :: command where
  "NewStatusCommand =
   Command ''status'' ArbitraryArgs (Some 0) StatusCommand_addFlags []"

definition NewQueryCandidatesCommand :: command where
  "NewQueryCandidatesCommand =
   Command ''query-candidates options'' ArbitraryArgs (Some 0) [] []"

definition QueryCheckResultCommand_addFlags :: "flag list" where
  "QueryCheckResultCommand_addFlags =
   [(''term'', ''t'', FInt64 1)]"

definition NewQueryCheckResultCommand :: command where
  "NewQueryCheckResultCommand =
   Command ''query-checkResult'' ArbitraryArgs (Some 0) QueryCheckResultCommand_addFlags []"

definition QueryNominateRecordsCommand_addFlags :: "flag list" where
  "QueryNominateRecordsCommand_addFlags =
   [(''addr'', ''a'', FString '''')]"

definition NewQueryNominateRecordsCommand :: command where
  "NewQueryNominateRecordsCommand =
   Command ''query-nominate-records'' ArbitraryArgs (Some 0) QueryNominateRecordsCommand_addFlags []"

definition QueryNomineeRecordsCommand_addFlags :: "flag list" where
  "QueryNomineeRecordsCommand_addFlags =
   [(''addr'', ''a'', FString '''')]"

definition NewQueryNomineeRecordsCommand :: command where
  "NewQueryNomineeRecordsCommand =
   Command ''query-nominee-record'' ArbitraryArgs (Some 0) QueryNomineeRecordsCommand_addFlags []"

definition NewQueryStatusCommand :: command where
  "NewQueryStatusCommand =
   Command ''status'' ArbitraryArgs (Some 0) [] []"

definition QueryVoteRecordsCommand_addFlags :: "flag list" where
  "QueryVoteRecordsCommand_addFlags =
   [(''addr'', ''a'', FString '''')]"

definition NewQueryVoteRecordsCommand :: command where
  "NewQueryVoteRecordsCommand =
   Command ''query-vote-records'' ArbitraryArgs (Some 0) QueryVoteRecordsCommand_addFlags []"

definition QueryVotedRecordsCommand_addFlags :: "flag list" where
  "QueryVotedRecordsCommand_addFlags =
   [(''addr'', ''a'', FString '''')]"

definition NewQueryVotedRecordsCommand :: command where
  "NewQueryVotedRecordsCommand =
   Command ''query-voted-records'' ArbitraryArgs (Some 0) QueryVotedRecordsCommand_addFlags []"

definition TransferCommand_addFlags :: "given_constants \<Rightarrow> flag list" where
  "TransferCommand_addFlags K =
   [(''to'', '''', FString ''''), (''amount'', '''', FString ''0''), (''desc'', '''', FString ''''),
    (''fee'', '''', FString ''0''), (''frozen'', '''', FInt64 0),
    (''txversion'', '''', FInt32 (gc_TxVersion K)), (''from'', '''', FString ''''),
    (''accountPath'', '''', FString ''''), (''debug'', '''', FBool False)]"

definition NewTransferCommand :: "given_constants \<Rightarrow> command" where
  "NewTransferCommand K =
   Command ''transfer'' ArbitraryArgs (Some 0) (TransferCommand_addFlags K) []"

definition TxQueryCommand_addFlags :: "flag list" where
  "TxQueryCommand_addFlags =
   [(''pb'', ''p'', FString '''')]"

definition NewTxQueryCommand :: command where
  "NewTxQueryCommand =
   Command ''query txid'' (MinimumNArgs 1) (Some 0) TxQueryCommand_addFlags []"

definition ListUtxoCommand_addFlags :: "flag list" where
  "ListUtxoCommand_addFlags =
   [(''address'', ''A'', FString ''''), (''num'', ''N'', FInt64 1)]"

definition NewListUtxoCommand :: command where
  "NewListUtxoCommand =
   Command ''list'' ArbitraryArgs (Some 0) ListUtxoCommand_addFlags []"

definition MergeUtxoCommand_addFlags :: "flag list" where
  "MergeUtxoCommand_addFlags =
   [(''account'', ''A'', FString ''''), (''accountPath'', ''P'', FString '''')]"

definition NewMergeUtxoCommand :: command where
  "NewMergeUtxoCommand =
   Command ''merge '' ArbitraryArgs (Some 0) MergeUtxoCommand_addFlags []"

definition SplitUtxoCommand_addFlags :: "flag list" where
  "SplitUtxoCommand_addFlags =
   [(''account'', ''A'', FString ''''), (''num'', ''N'', FInt64 1), (''accountPath'', ''P'', FString ''''),
    (''raw'', ''m'', FBool False), (''output'', ''o'', FString ''./tx.out''),
    (''multiAddrs'', ''M'', FString ''data/acl/addrs'')]"

definition NewSplitUtxoCommand :: command where
  "NewSplitUtxoCommand =
   Command ''split '' ArbitraryArgs (Some 0) SplitUtxoCommand_addFlags []"

definition VoteCommand_addFlags :: "flag list" where
  "VoteCommand_addFlags =
   [(''frozen'', '''', FInt64 0), (''amount'', '''', FString ''0'')]"

definition NewVoteCommand :: command where
  "NewVoteCommand =
   Command ''vote [options] txid'' (MinimumNArgs 1) (Some 1) VoteCommand_addFlags []"

definition WatchCommand_addFlags :: "flag list" where
  "WatchCommand_addFlags =
   [(''filter'', ''f'', FString ''{}''), (''oneline'', '''', FBool False),
    (''skip-empty-tx'', '''', FBool False)]"

definition NewWatchCommand :: command where
  "NewWatchCommand =
   Command ''watch [options]'' ArbitraryArgs (Some 0) WatchCommand_addFlags []"

section \<open>The groups\<close>

definition NewAccountCommand :: command where
  "NewAccountCommand =
     Command ''account'' ArbitraryArgs None []
      [NewAccountBalanceCommand, NewAccountNewkeysCommand, NewAccountNewCommand, NewAccountContractsCommand,
       NewAccountQueryCommand, NewAccountRestoreCommand, NewAccountDecryptCommand]"

definition NewACLCommand :: command where
  "NewACLCommand =
     Command ''acl'' ArbitraryArgs None []
      [NewACLQueryCommand]"

definition NewConsensusCommand :: command where
  "NewConsensusCommand =
     Command ''consensus'' ArbitraryArgs None []
      [NewConsensusInvokeCommand, NewConsensusStatusCommand]"

definition NewContractCommand :: command where
  "NewContractCommand =
     Command ''contract'' ArbitraryArgs None []
      [NewContractStatDataQueryCommand]"

definition NewEvmCommand :: "given_constants \<Rightarrow> command" where
  "NewEvmCommand K =
     Command ''evm'' ArbitraryArgs None []
      [NewContractDeployCommand K ''evm'', NewContractInvokeCommand K ''evm'',
       NewContractQueryCommand K ''evm'', NewContractUpgradeCommand, NewEVMAddrTransCommand]"

definition NewGovernTokenCommand :: command where
  "NewGovernTokenCommand =
     Command ''governToken'' ArbitraryArgs None []
      [NewGovernInitCommand, NewGovernTransferCommand, NewGovernTokenQueryCommand]"

definition NewMultisigCommand :: "given_constants \<Rightarrow> command" where
  "NewMultisigCommand K =
     Command ''multisig'' ArbitraryArgs None []
      [NewMultisigGenCommand K, NewGetComplianceCheckSignCommand K, NewMultisigCheckCommand,
       NewMultisigSignCommand, NewMultisigSendCommand]"

definition NewNativeCommand :: "given_constants \<Rightarrow> command" where
  "NewNativeCommand K =
     Command ''native'' ArbitraryArgs None []
      [NewContractDeployCommand K ''native'', NewContractInvokeCommand K ''native'',
       NewContractQueryCommand K ''native'', NewContractUpgradeCommand]"

definition NewNetURLCommand :: command where
  "NewNetURLCommand =
     Command ''netURL'' ArbitraryArgs None []
      [NewNetURLGenCommand, NewNetURLGetCommand, NewNetURLPreviewCommand, NewNetURLConvertCommand]"

definition NewProposalCommand :: command where
  "NewProposalCommand =
     Command ''proposal'' ArbitraryArgs None []
      [NewProposalProposeCommand, NewProposalQueryCommand, NewProposalVoteCommand, NewProposalThawCommand]"

definition NewTDposCommand :: command where
  "NewTDposCommand =
     Command ''tdpos'' ArbitraryArgs None []
      [NewQueryCandidatesCommand, NewQueryCheckResultCommand, NewQueryNominateRecordsCommand,
       NewQueryNomineeRecordsCommand, NewQueryVoteRecordsCommand, NewQueryVotedRecordsCommand,
       NewQueryStatusCommand]"

definition NewTxCommand :: command where
  "NewTxCommand =
     Command ''tx'' ArbitraryArgs None []
      [NewTxQueryCommand]"

definition NewUtxoCommand :: command where
  "NewUtxoCommand =
     Command ''utxo'' ArbitraryArgs None []
      [NewListUtxoCommand, NewMergeUtxoCommand, NewSplitUtxoCommand]"

definition NewWasmCommand :: "given_constants \<Rightarrow> command" where
  "NewWasmCommand K =
     Command ''wasm'' ArbitraryArgs None []
      [NewContractDeployCommand K ''wasm'', NewContractInvokeCommand K ''wasm'',
       NewContractQueryCommand K ''wasm'', NewContractUpgradeCommand]"

definition NewXKernelCommand :: "given_constants \<Rightarrow> command" where
  "NewXKernelCommand K =
     Command ''xkernel'' ArbitraryArgs None []
      [NewContractInvokeCommand K ''xkernel'', NewContractQueryCommand K ''xkernel'']"

definition Commands :: "given_constants \<Rightarrow> command list" where
  "Commands K =
     [NewAccountCommand, NewACLCommand, NewBlockCommand, NewConsensusCommand, NewContractCommand,
      NewEvmCommand K, NewGovernTokenCommand, NewMultisigCommand K, NewNativeCommand K, NewNetURLCommand,
      NewProposalCommand, NewStatusCommand, NewTransferCommand K, NewTxCommand, NewUtxoCommand, NewVoteCommand,
      NewWasmCommand K, NewWatchCommand, NewXKernelCommand K]"

section \<open>Configuration\<close>

datatype file_stat = FileExists | FileMissing | StatFails gerr

text \<open>viper is a state \<open>'v\<close> with its operations; \<open>Unmarshal\<close> reads the flags set on the command line and changes the struct
  it is given, also when it fails.  cobra turns the arguments into the command they name, the flags
  they set and the rest; it may also end by itself (\<open>--help\<close>, \<open>--version\<close>).\<close>

datatype parsed = ParseError gerr | HelpShown | Runs command "string \<rightharpoonup> string" "string list"

record 'v CliEnv =
  ce_Stat :: "string \<Rightarrow> file_stat"
  vp_BindPFlags :: "flag list \<Rightarrow> 'v \<Rightarrow> gerr + 'v"
  vp_SetConfigName :: "string \<Rightarrow> 'v \<Rightarrow> 'v"
  vp_AddConfigPath :: "string \<Rightarrow> 'v \<Rightarrow> 'v"
  vp_ReadInConfig :: "'v \<Rightarrow> gerr + 'v"
  vp_Unmarshal :: "'v \<Rightarrow> (string \<rightharpoonup> string) \<Rightarrow> RootOptions \<Rightarrow> gerr option \<times> RootOptions"
  cb_Parse :: "command \<Rightarrow> string list \<Rightarrow> parsed"
  gr_Dial :: "string \<Rightarrow> dial_security \<Rightarrow> gerr option"

text \<open>\<open>filepath.Split\<close> and \<open>path.Ext\<close>.\<close>

definition base_of :: "string \<Rightarrow> string" where
  "base_of s = rev (takeWhile (\<lambda>c. c \<noteq> CHR ''/'') (rev s))"

definition file_split :: "string \<Rightarrow> string \<times> string" where
  "file_split s = (take (length s - length (base_of s)) s, base_of s)"

definition path_ext :: "string \<Rightarrow> string" where
  "path_ext s =
     (let b = base_of s in
      if CHR ''.'' \<in> set b then CHR ''.'' # rev (takeWhile (\<lambda>c. c \<noteq> CHR ''.'') (rev b)) else '''')"

definition loadConfigFile ::
  "'v CliEnv \<Rightarrow> string \<Rightarrow> string \<Rightarrow> RootOptions \<Rightarrow> 'v \<Rightarrow> gerr option \<times> RootOptions \<times> 'v" where
  "loadConfigFile E configPath confName nc v =
     (case vp_ReadInConfig E (vp_AddConfigPath E configPath (vp_SetConfigName E confName v)) of
        Inl err \<Rightarrow> (Some err, nc, v)
      | Inr v' \<Rightarrow> (let (err, nc') = vp_Unmarshal E v' Map.empty nc in (err, nc', v')))"

definition LoadConfig :: "'v CliEnv \<Rightarrow> string \<Rightarrow> RootOptions \<Rightarrow> 'v \<Rightarrow> gerr option \<times> RootOptions \<times> 'v" where
  "LoadConfig E fileName nc v =
     (case ce_Stat E fileName of
        FileMissing \<Rightarrow> (None, nc, v)
      | StatFails err \<Rightarrow> (Some err, nc, v)
      | FileExists \<Rightarrow>
          (let (confPath, fileNameOnly) = file_split fileName;
               fileSuffix = path_ext fileName;
               confName = take (length fileNameOnly - length fileSuffix) fileNameOnly
           in loadConfigFile E confPath confName nc v))"

section \<open>Set-up and run\<close>

definition root_flags :: "RootOptions \<Rightarrow> flag list" where
  "root_flags o' =
     [(''conf'', ''C'', FString ''./conf/xchain-cli.yaml''), (''host'', ''H'', FString (ro_Host o')),
      (''name'', '''', FString (ro_Name o')), (''keys'', '''', FString (ro_Keys o')),
      (''crypto'', '''', FString (ro_Crypto o'))]"

definition NewCli :: command where
  "NewCli = Command ''xchain-cli'' ArbitraryArgs None [] []"

definition AddCommands :: "command \<Rightarrow> command list \<Rightarrow> command" where
  "AddCommands c cmds = Command (cmd_Use c) (cmd_Args c) (cmd_reads c) (cmd_flags c) (cmd_subs c @ cmds)"

text \<open>A left value is the exit status of the process.  The variable behind \<open>--conf\<close> holds its default when the
  configuration is loaded: the arguments are parsed later.\<close>

definition initFlags :: "'v CliEnv \<Rightarrow> 'v \<Rightarrow> int + RootOptions \<times> 'v" where
  "initFlags E v =
     (let opts = NewRootOptions; cfgFile = ''./conf/xchain-cli.yaml'' in
      case vp_BindPFlags E (root_flags opts) v of
        Inl err \<Rightarrow> Inl 1
      | Inr v1 \<Rightarrow>
          (case LoadConfig E cfgFile opts v1 of
             (Some err, _) \<Rightarrow> Inl (-1)
           | (None, opts', v2) \<Rightarrow> Inr (opts', v2)))"

definition initXchainClient :: "'v CliEnv \<Rightarrow> RootOptions \<Rightarrow> gerr option" where
  "initXchainClient E opts = gr_Dial E (ro_Host opts) Insecure"

definition on_initialize :: "'v CliEnv \<Rightarrow> 'v \<Rightarrow> (string \<rightharpoonup> string) \<Rightarrow> RootOptions \<Rightarrow> int + RootOptions" where
  "on_initialize E v given opts =
     (case vp_Unmarshal E v given opts of
        (Some err, _) \<Rightarrow> Inl 1
      | (None, opts') \<Rightarrow> (case initXchainClient E opts' of Some err \<Rightarrow> Inl 2 | None \<Rightarrow> Inr opts'))"

text \<open>The body of a command sees the options, the flags of its own that were set, and the arguments.\<close>

definition Execute ::
  "'v CliEnv \<Rightarrow> (RootOptions \<Rightarrow> command \<Rightarrow> (string \<rightharpoonup> string) \<Rightarrow> string list \<Rightarrow> 'w \<Rightarrow> gerr option \<times> 'w) \<Rightarrow>
   command \<Rightarrow> RootOptions \<Rightarrow> 'v \<Rightarrow> string list \<Rightarrow> 'w \<Rightarrow> int \<times> 'w" where
  "Execute E RunE rootCmd opts v args w =
     (case cb_Parse E rootCmd args of
        ParseError err \<Rightarrow> (-1, w)
      | HelpShown \<Rightarrow> (0, w)
      | Runs c given xs \<Rightarrow>
          (case on_initialize E v given opts of
             Inl code \<Rightarrow> (code, w)
           | Inr opts' \<Rightarrow>
               if \<not> validate_args (cmd_Args c) xs then (-1, w)
               else
                 (case RunE opts' c (given |` (fst ` set (cmd_flags c))) xs w of
                    (None, w') \<Rightarrow> (0, w') | (Some err, w') \<Rightarrow> (-1, w'))))"

definition client_main ::
  "'v CliEnv \<Rightarrow> (RootOptions \<Rightarrow> command \<Rightarrow> (string \<rightharpoonup> string) \<Rightarrow> string list \<Rightarrow> 'w \<Rightarrow> gerr option \<times> 'w) \<Rightarrow>
   given_constants \<Rightarrow> 'v \<Rightarrow> string list \<Rightarrow> 'w \<Rightarrow> int \<times> 'w" where
  "client_main E RunE K v args w =
     (case initFlags E v of
        Inl code \<Rightarrow> (code, w)
      | Inr (opts, v') \<Rightarrow> Execute E RunE (AddCommands NewCli (Commands K)) opts v' args w)"

section \<open>The tree of commands\<close>

text \<open>What pflag and cobra demand of the tree, and refuse with a panic when the client starts or a command is run: among
  the flags of a command, those of the root and \<open>--help\<close>, no name and no shorthand is there twice, and
  a shorthand is one letter.  Beyond that: the children of a command have different names, a command
  either runs or groups others, and a command that reads an argument demands it.\<close>

definition shorthands :: "flag list \<Rightarrow> string list" where
  "shorthands fs = filter (\<lambda>s. s \<noteq> '''') (map (fst \<circ> snd) fs)"

definition flags_ok :: "flag list \<Rightarrow> bool" where
  "flags_ok fs \<longleftrightarrow>
     distinct (map fst fs) \<and> distinct (shorthands fs) \<and> list_all (\<lambda>s. length s = 1) (shorthands fs)"

definition min_args :: "arg_rule \<Rightarrow> nat" where
  "min_args r = (case r of MinimumNArgs n \<Rightarrow> n | _ \<Rightarrow> 0)"

definition command_ok :: "flag list \<Rightarrow> command \<Rightarrow> bool" where
  "command_ok pflags c \<longleftrightarrow>
     flags_ok ((''help'', ''h'', FBool False) # pflags @ cmd_flags c) \<and>
     distinct (map cmd_name (cmd_subs c)) \<and>
     (case cmd_reads c of None \<Rightarrow> cmd_subs c \<noteq> [] | Some n \<Rightarrow> cmd_subs c = [] \<and> n \<le> min_args (cmd_Args c))"

lemmas leaf_defs =
  AccountBalanceCommand_addFlags_def NewAccountBalanceCommand_def AccountContractsCommand_addFlags_def
  NewAccountContractsCommand_def AccountDecryptCommand_addFlags_def NewAccountDecryptCommand_def
  AccountNewCommand_addFlags_def NewAccountNewCommand_def AccountNewkeysCommand_addFlags_def
  NewAccountNewkeysCommand_def AccountQueryCommand_addFlags_def NewAccountQueryCommand_def
  AccountRestoreCommand_addFlags_def NewAccountRestoreCommand_def ACLQueryCommand_addFlags_def
  NewACLQueryCommand_def BlockCommand_addFlags_def NewBlockCommand_def ConsensusInvokeCommand_addFlags_def
  NewConsensusInvokeCommand_def NewConsensusStatusCommand_def ContractDeployCommand_addFlags_def
  NewContractDeployCommand_def ContractInvokeCommand_addFlags_def NewContractInvokeCommand_def
  ContractQueryCommand_addFlags_def NewContractQueryCommand_def NewContractStatDataQueryCommand_def
  ContractUpgradeCommand_addFlags_def NewContractUpgradeCommand_def EVMAddrTransCommand_addFlags_def
  NewEVMAddrTransCommand_def GovernInitCommand_addFlags_def NewGovernInitCommand_def
  GovernTokenQueryCommand_addFlags_def NewGovernTokenQueryCommand_def GovernTransferCommand_addFlags_def
  NewGovernTransferCommand_def MultisigCheckCommand_addFlags_def NewMultisigCheckCommand_def
  MultisigGenCommand_addFlags_def NewMultisigGenCommand_def GetComplianceCheckSignCommand_addFlags_def
  NewGetComplianceCheckSignCommand_def MultisigSendCommand_addFlags_def NewMultisigSendCommand_def
  MultisigSignCommand_addFlags_def NewMultisigSignCommand_def NetURLConvertCommand_addFlags_def
  NewNetURLConvertCommand_def NetURLGenCommand_addFlags_def NewNetURLGenCommand_def NewNetURLGetCommand_def
  NetURLPreviewCommand_addFlags_def NewNetURLPreviewCommand_def ProposalProposeCommand_addFlags_def
  NewProposalProposeCommand_def ProposalQueryCommand_addFlags_def NewProposalQueryCommand_def
  ProposalThawCommand_addFlags_def NewProposalThawCommand_def ProposalVoteCommand_addFlags_def
  NewProposalVoteCommand_def StatusCommand_addFlags_def NewStatusCommand_def NewQueryCandidatesCommand_def
  QueryCheckResultCommand_addFlags_def NewQueryCheckResultCommand_def QueryNominateRecordsCommand_addFlags_def
  NewQueryNominateRecordsCommand_def QueryNomineeRecordsCommand_addFlags_def NewQueryNomineeRecordsCommand_def
  NewQueryStatusCommand_def QueryVoteRecordsCommand_addFlags_def NewQueryVoteRecordsCommand_def
  QueryVotedRecordsCommand_addFlags_def NewQueryVotedRecordsCommand_def TransferCommand_addFlags_def
  NewTransferCommand_def TxQueryCommand_addFlags_def NewTxQueryCommand_def ListUtxoCommand_addFlags_def
  NewListUtxoCommand_def MergeUtxoCommand_addFlags_def NewMergeUtxoCommand_def SplitUtxoCommand_addFlags_def
  NewSplitUtxoCommand_def VoteCommand_addFlags_def NewVoteCommand_def WatchCommand_addFlags_def
  NewWatchCommand_def

lemmas group_defs =
  NewAccountCommand_def NewACLCommand_def NewConsensusCommand_def NewContractCommand_def NewEvmCommand_def
  NewGovernTokenCommand_def NewMultisigCommand_def NewNativeCommand_def NewNetURLCommand_def
  NewProposalCommand_def NewTDposCommand_def NewTxCommand_def NewUtxoCommand_def NewWasmCommand_def
  NewXKernelCommand_def Commands_def

lemma tree_ok:
  "list_all (command_ok (root_flags NewRootOptions)) (all_commands (AddCommands NewCli (Commands K)))"
  by (simp add: command_ok_def flags_ok_def shorthands_def root_flags_def NewRootOptions_def setDefaultConf_def
      leaf_defs group_defs min_args_def NewCli_def AddCommands_def cmd_name_def)

lemma in_tree_ok:
  assumes "c \<in> set (all_commands (AddCommands NewCli (Commands K)))"
  shows "command_ok (root_flags NewRootOptions) c"
  using tree_ok[of K] assms by (simp add: list_all_iff)

lemma validate_args_length: "validate_args r xs \<Longrightarrow> min_args r \<le> length xs"
  by (auto simp: validate_args_def min_args_def split: arg_rule.splits)


text \<open>Without flags, each step of a multi-signature reads the file the one before has written, whichever command wrote the
  raw transaction; new keys are made where the client looks for them.\<close>

definition default_of :: "flag list \<Rightarrow> string \<Rightarrow> string option" where
  "default_of fs n = (case map_of fs n of Some (_, FString s) \<Rightarrow> Some s | _ \<Rightarrow> None)"

lemma default_files_line_up:
  "list_all (\<lambda>fs. default_of fs ''output'' = Some ''./tx.out'')
     [MultisigGenCommand_addFlags K, ContractInvokeCommand_addFlags K m, ContractDeployCommand_addFlags K m,
      ContractUpgradeCommand_addFlags, ConsensusInvokeCommand_addFlags, SplitUtxoCommand_addFlags]"
  "default_of MultisigCheckCommand_addFlags ''input'' = Some ''./tx.out''"
  "list_all (\<lambda>fs. default_of fs ''tx'' = Some ''./tx.out'')
     [MultisigSignCommand_addFlags, MultisigSendCommand_addFlags, GetComplianceCheckSignCommand_addFlags K]"
  "default_of AccountNewkeysCommand_addFlags ''output'' = Some (ro_Keys NewRootOptions)"
  by (simp_all add: default_of_def leaf_defs NewRootOptions_def setDefaultConf_def)

section \<open>Where an option comes from\<close>

text \<open>What viper documents: a bound flag that was set wins over the configuration file, and the file over the default of the
  flag; a key that is in none of them leaves its field alone.  \<open>file_of\<close> gives the strings of the
  file that was read, \<open>bound\<close> the defaults of the bound flags, \<open>file\<close> what is on the disk.\<close>

definition viper_value :: "(string \<rightharpoonup> string) \<Rightarrow> (string \<rightharpoonup> string) \<Rightarrow> (string \<rightharpoonup> string) \<Rightarrow> string \<Rightarrow> string \<Rightarrow> string" where
  "viper_value dflt conf given key old =
     (case (if key \<in> dom dflt then given key else None) of
        Some s \<Rightarrow> s
      | None \<Rightarrow>
          (case conf key of
             Some s \<Rightarrow> s
           | None \<Rightarrow> (case dflt key of Some s \<Rightarrow> s | None \<Rightarrow> old)))"

definition viper_law ::
  "'v CliEnv \<Rightarrow> ('v \<Rightarrow> string \<rightharpoonup> string) \<Rightarrow> ('v \<Rightarrow> string \<rightharpoonup> string) \<Rightarrow> (string \<rightharpoonup> string) \<Rightarrow> bool" where
  "viper_law E file_of bound file \<longleftrightarrow>
     (\<forall>fs v v'. vp_BindPFlags E fs v = Inr v' \<longrightarrow> file_of v' = file_of v \<and> bound v' = bound v ++ default_of fs) \<and>
     (\<forall>s v. file_of (vp_SetConfigName E s v) = file_of v \<and> bound (vp_SetConfigName E s v) = bound v) \<and>
     (\<forall>s v. file_of (vp_AddConfigPath E s v) = file_of v \<and> bound (vp_AddConfigPath E s v) = bound v) \<and>
     (\<forall>v v'. vp_ReadInConfig E v = Inr v' \<longrightarrow> file_of v' = file \<and> bound v' = bound v) \<and>
     (\<forall>v given o1 o2. vp_Unmarshal E v given o1 = (None, o2) \<longrightarrow>
        (let get = viper_value (bound v) (file_of v) given in
         ro_Host o2 = get ''host'' (ro_Host o1) \<and> ro_Name o2 = get ''name'' (ro_Name o1) \<and>
         ro_Keys o2 = get ''keys'' (ro_Keys o1) \<and> ro_Crypto o2 = get ''crypto'' (ro_Crypto o1) \<and>
         ro_EndorseServiceHost o2 = get ''endorseservicehost'' (ro_EndorseServiceHost o1)))"

text \<open>The order of precedence that the user is promised: flag, file, built-in default.\<close>

definition first_of :: "string option list \<Rightarrow> string \<Rightarrow> string" where
  "first_of xs d = (case filter (\<lambda>x. x \<noteq> None) xs of Some s # _ \<Rightarrow> s | _ \<Rightarrow> d)"

lemma first_of_simps [simp]:
  "first_of [] d = d" "first_of (None # xs) d = first_of xs d" "first_of (Some s # xs) d = s"
  by (simp_all add: first_of_def)

lemma viper_value_first_of:
  "dflt key = Some d \<Longrightarrow> viper_value dflt conf given key old = first_of [given key, conf key] d"
  "dflt key = None \<Longrightarrow> viper_value dflt conf given key old = first_of [conf key] old"
  by (auto simp: viper_value_def split: option.splits)

lemma root_defaults:
  "default_of (root_flags NewRootOptions) =
     [''conf'' \<mapsto> ''./conf/xchain-cli.yaml'', ''host'' \<mapsto> ''127.0.0.1:37101'', ''name'' \<mapsto> ''xuper'', ''keys'' \<mapsto> ''./data/keys'',
      ''crypto'' \<mapsto> ''default'']"
  by (rule ext) (simp add: default_of_def root_flags_def NewRootOptions_def setDefaultConf_def)

lemma NewRootOptions_sel [simp]:
  "ro_Host NewRootOptions = ''127.0.0.1:37101''" "ro_Name NewRootOptions = ''xuper''"
  "ro_Keys NewRootOptions = ''./data/keys''" "ro_Crypto NewRootOptions = ''default''"
  "ro_EndorseServiceHost NewRootOptions = ''127.0.0.1:8848''"
  by (simp_all add: NewRootOptions_def setDefaultConf_def)

lemma viper_laws:
  assumes "viper_law E file_of bound file"
  shows "vp_BindPFlags E fs v = Inr v' \<Longrightarrow> file_of v' = file_of v"
    and "vp_BindPFlags E fs v = Inr v' \<Longrightarrow> bound v' = bound v ++ default_of fs"
    and "file_of (vp_SetConfigName E s v) = file_of v" "bound (vp_SetConfigName E s v) = bound v"
    and "file_of (vp_AddConfigPath E s v) = file_of v" "bound (vp_AddConfigPath E s v) = bound v"
    and "vp_ReadInConfig E v = Inr v' \<Longrightarrow> file_of v' = file"
    and "vp_ReadInConfig E v = Inr v' \<Longrightarrow> bound v' = bound v"
    and "vp_Unmarshal E v given o1 = (None, o2) \<Longrightarrow>
      ro_EndorseServiceHost o2 =
        viper_value (bound v) (file_of v) given ''endorseservicehost'' (ro_EndorseServiceHost o1)"
  using assms unfolding viper_law_def Let_def by blast+

lemma LoadConfig_state:
  assumes law: "viper_law E file_of bound file" and run: "LoadConfig E fileName nc v = (None, nc', v')"
  shows "bound v' = bound v \<and>
    (if ce_Stat E fileName = FileExists
     then file_of v' = file \<and>
       ro_EndorseServiceHost nc' =
         viper_value (bound v) file Map.empty ''endorseservicehost'' (ro_EndorseServiceHost nc)
     else file_of v' = file_of v \<and> nc' = nc)"
proof (cases "ce_Stat E fileName")
  case FileExists
  obtain dir name where run': "loadConfigFile E dir name nc v = (None, nc', v')"
    using run FileExists by (auto simp: LoadConfig_def Let_def split: prod.splits)
  let ?v0 = "vp_AddConfigPath E dir (vp_SetConfigName E name v)"
  have read: "vp_ReadInConfig E ?v0 = Inr v'" and unm: "vp_Unmarshal E v' Map.empty nc = (None, nc')"
    using run' by (auto simp: loadConfigFile_def Let_def split: sum.splits prod.splits)
  have "bound v' = bound v" "file_of v' = file"
    using viper_laws(7,8)[OF law read] viper_laws(4,6)[OF law] by simp_all
  with viper_laws(9)[OF law unm] FileExists show ?thesis by simp
qed (use run in \<open>auto simp: LoadConfig_def\<close>)

text \<open>After the set-up viper knows the flags of the root, and the file when there is one; the options hold the values from
  the file already.\<close>

lemma initFlags_state:
  assumes law: "viper_law E file_of bound file" and fresh: "file_of v = Map.empty" "bound v = Map.empty"
    and run: "initFlags E v = Inr (opts, v')"
  shows "bound v' = default_of (root_flags NewRootOptions)"
    and "file_of v' = (if ce_Stat E ''./conf/xchain-cli.yaml'' = FileExists then file else Map.empty)"
    and "ro_EndorseServiceHost opts = first_of [file_of v' ''endorseservicehost''] ''127.0.0.1:8848''"
proof -
  obtain v1 where bind: "vp_BindPFlags E (root_flags NewRootOptions) v = Inr v1"
    and load: "LoadConfig E ''./conf/xchain-cli.yaml'' NewRootOptions v1 = (None, opts, v')"
    using run by (auto simp: initFlags_def Let_def split: sum.splits prod.splits option.splits)
  have v1: "file_of v1 = Map.empty" "bound v1 = default_of (root_flags NewRootOptions)"
    using viper_laws(1,2)[OF law bind] fresh by simp_all
  show "bound v' = default_of (root_flags NewRootOptions)"
    and "file_of v' = (if ce_Stat E ''./conf/xchain-cli.yaml'' = FileExists then file else Map.empty)"
    and "ro_EndorseServiceHost opts = first_of [file_of v' ''endorseservicehost''] ''127.0.0.1:8848''"
    using LoadConfig_state[OF law load] v1
    by (simp_all add: viper_value_def root_defaults split: if_splits option.splits)
qed

text \<open>The options a command runs with come from the flags that were set, then from the configuration file, then from the
  defaults of the code; the host of the endorser has no flag.  The connection to the node is made to the
  host among them, without transport security.\<close>

theorem option_precedence:
  assumes law: "viper_law E file_of bound file" and fresh: "file_of v = Map.empty" "bound v = Map.empty"
    and init: "initFlags E v = Inr (opts, v')"
    and start: "on_initialize E v' given opts = Inr opts'"
    and conf: "conf = (if ce_Stat E ''./conf/xchain-cli.yaml'' = FileExists then file else Map.empty)"
  shows "ro_Host opts' = first_of [given ''host'', conf ''host''] ''127.0.0.1:37101''
    \<and> ro_Name opts' = first_of [given ''name'', conf ''name''] ''xuper''
    \<and> ro_Keys opts' = first_of [given ''keys'', conf ''keys''] ''./data/keys''
    \<and> ro_Crypto opts' = first_of [given ''crypto'', conf ''crypto''] ''default''
    \<and> ro_EndorseServiceHost opts' = first_of [conf ''endorseservicehost''] ''127.0.0.1:8848''
    \<and> gr_Dial E (ro_Host opts') Insecure = None"
proof -
  note state = initFlags_state[OF law fresh init]
  have unm: "vp_Unmarshal E v' given opts = (None, opts')" and dial: "gr_Dial E (ro_Host opts') Insecure = None"
    using start by (auto simp: on_initialize_def initXchainClient_def split: prod.splits option.splits)
  have conf': "file_of v' = conf" using state(2) conf by simp
  have get: "ro_Host opts' = viper_value (bound v') conf given ''host'' (ro_Host opts)"
    "ro_Name opts' = viper_value (bound v') conf given ''name'' (ro_Name opts)"
    "ro_Keys opts' = viper_value (bound v') conf given ''keys'' (ro_Keys opts)"
    "ro_Crypto opts' = viper_value (bound v') conf given ''crypto'' (ro_Crypto opts)"
    "ro_EndorseServiceHost opts' =
      viper_value (bound v') conf given ''endorseservicehost'' (ro_EndorseServiceHost opts)"
    using law unm unfolding viper_law_def Let_def conf'[symmetric] by blast+
  have vals: "ro_Host opts' = first_of [given ''host'', conf ''host''] ''127.0.0.1:37101''"
    "ro_Name opts' = first_of [given ''name'', conf ''name''] ''xuper''"
    "ro_Keys opts' = first_of [given ''keys'', conf ''keys''] ''./data/keys''"
    "ro_Crypto opts' = first_of [given ''crypto'', conf ''crypto''] ''default''"
    unfolding get state(1) by (simp_all add: root_defaults viper_value_first_of(1))
  have "ro_EndorseServiceHost opts' = first_of [conf ''endorseservicehost''] (ro_EndorseServiceHost opts)"
    unfolding get state(1) by (simp add: root_defaults viper_value_first_of(2))
  then have "ro_EndorseServiceHost opts' = first_of [conf ''endorseservicehost''] ''127.0.0.1:8848''"
    using state(3) conf' by (cases "conf ''endorseservicehost''") simp_all
  with vals dial show ?thesis by blast
qed

text \<open>The flag \<open>--conf\<close> changes nothing: the configuration is loaded before the arguments are parsed, and no field of the
  options is called \<open>conf\<close>.\<close>

lemma conf_flag_ignored:
  assumes law: "\<And>v given o1. vp_Unmarshal E v (given(''conf'' \<mapsto> path)) o1 = vp_Unmarshal E v given o1"
    and without: "cb_Parse E (AddCommands NewCli (Commands K)) args = Runs c given xs"
    and "with": "cb_Parse E (AddCommands NewCli (Commands K)) args' = Runs c (given(''conf'' \<mapsto> path)) xs"
    and c: "c \<in> set (all_commands (AddCommands NewCli (Commands K)))"
  shows "client_main E RunE K v args' w = client_main E RunE K v args w"
proof -
  have "''conf'' \<notin> fst ` set (cmd_flags c)"
    using in_tree_ok[OF c] by (auto simp: command_ok_def flags_ok_def root_flags_def)
  then have "given(''conf'' \<mapsto> path) |` (fst ` set (cmd_flags c)) = given |` (fst ` set (cmd_flags c))"
    by (auto simp: restrict_map_def fun_eq_iff)
  then show ?thesis
    using without "with" by (simp add: client_main_def Execute_def on_initialize_def law split: sum.splits prod.splits)
qed

section \<open>Instances\<close>

definition ex_constants :: given_constants where
  "ex_constants = \<lparr>gc_TxVersion = 3, gc_TypeEvm = ''evm''\<rparr>"


text \<open>A viper whose state is the strings of the file and the defaults of the flags, with a file that names a host.\<close>

type_synonym ex_viper = "(string \<rightharpoonup> string) \<times> (string \<rightharpoonup> string)"

definition ex_config :: "string \<rightharpoonup> string" where
  "ex_config = [''host'' \<mapsto> ''10.0.0.1:37101'', ''name'' \<mapsto> ''side'']"

definition ex_unmarshal :: "ex_viper \<Rightarrow> (string \<rightharpoonup> string) \<Rightarrow> RootOptions \<Rightarrow> RootOptions" where
  "ex_unmarshal v given o1 =
     (let get = viper_value (snd v) (fst v) given in
      o1\<lparr>ro_Host := get ''host'' (ro_Host o1), ro_Name := get ''name'' (ro_Name o1), ro_Keys := get ''keys'' (ro_Keys o1),
         ro_Crypto := get ''crypto'' (ro_Crypto o1),
         ro_EndorseServiceHost := get ''endorseservicehost'' (ro_EndorseServiceHost o1)\<rparr>)"

definition ex_cli :: "ex_viper CliEnv" where
  "ex_cli =
     \<lparr>ce_Stat = \<lambda>_. FileExists, vp_BindPFlags = \<lambda>fs v. Inr (fst v, snd v ++ default_of fs),
      vp_SetConfigName = \<lambda>_ v. v, vp_AddConfigPath = \<lambda>_ v. v, vp_ReadInConfig = \<lambda>v. Inr (ex_config, snd v),
      vp_Unmarshal = \<lambda>v given o1. (None, ex_unmarshal v given o1),
      cb_Parse = \<lambda>_ _. HelpShown, gr_Dial = \<lambda>_ _. None\<rparr>"

lemma ex_cli_law: "viper_law ex_cli fst snd ex_config"
  by (auto simp: viper_law_def ex_cli_def ex_unmarshal_def Let_def)

theorem option_precedence_witness:
  "\<exists>opts v' opts'.
     initFlags ex_cli (Map.empty, Map.empty) = Inr (opts, v') \<and>
     on_initialize ex_cli v' [''name'' \<mapsto> ''main''] opts = Inr opts' \<and>
     ro_Host opts' = ''10.0.0.1:37101'' \<and> ro_Name opts' = ''main'' \<and> ro_Keys opts' = ''./data/keys'' \<and>
     ro_EndorseServiceHost opts' = ''127.0.0.1:8848''"
proof -
  obtain opts v' where init: "initFlags ex_cli (Map.empty, Map.empty) = Inr (opts, v')"
    by (simp add: initFlags_def LoadConfig_def loadConfigFile_def ex_cli_def Let_def split: prod.splits)
  obtain opts' where start: "on_initialize ex_cli v' [''name'' \<mapsto> ''main''] opts = Inr opts'"
    by (simp add: on_initialize_def initXchainClient_def ex_cli_def)
  have "ce_Stat ex_cli ''./conf/xchain-cli.yaml'' = FileExists" by (simp add: ex_cli_def)
  then show ?thesis
    using option_precedence[OF ex_cli_law _ _ init start, of ex_config] init start by (auto simp: ex_config_def)
qed

end
