(* ===== verification/Prune.thy ===== *)
theory Prune
  imports ApiQuery
begin

text \<open>
  \<open>cmd/xchain/cmd/pruneledger.go\<close>, the command that cuts a ledger back to a block, and
  \<open>createchains.go\<close>, the one that makes a chain.

  Ledger, state and the batch of writes are objects of xupercore: a record of functions
  over the disk \<open>'w\<close> and the batch \<open>'b\<close>.  Only two of the operations the command calls
  change the disk: \<open>Walk\<close>, which moves the state to another block at once, and the write
  of the batch.
\<close>

section \<open>Interfaces of xupercore\<close>

record XBlock =
  xb_Blockid :: bytes
  xb_Height :: int64

record XMeta =
  xm_RootBlockid :: bytes
  xm_TipBlockid :: bytes
  xm_TrunkHeight :: int64

record ('w, 'b) ledger_ops =
  lo_PathExists :: "'w \<Rightarrow> string \<Rightarrow> bool"
  lo_NewLedgerCtx :: "string \<Rightarrow> gerr + string"
  lo_ChainDir :: string
  lo_OpenLedger :: "'w \<Rightarrow> gerr + unit"
  lo_CreateCryptoClient :: "string \<Rightarrow> gerr + unit"
  lo_NewStateCtx :: "string \<Rightarrow> 'w \<Rightarrow> gerr + unit"
  lo_NewState :: "'w \<Rightarrow> gerr + unit"
  lo_QueryBlock :: "'w \<Rightarrow> bytes \<Rightarrow> gerr + XBlock"
  lo_GetMeta :: "'w \<Rightarrow> XMeta"
  lo_Walk :: "bytes \<Rightarrow> bool \<Rightarrow> 'w \<Rightarrow> gerr option \<times> 'w"
  lo_NewBatch :: "'b"
  lo_HandleFork :: "'w \<Rightarrow> bytes \<Rightarrow> bytes \<Rightarrow> 'b \<Rightarrow> gerr + 'b"
  lo_MarshalMeta :: "XMeta \<Rightarrow> gerr + bytes"
  lo_BatchPut :: "bytes \<Rightarrow> bytes \<Rightarrow> 'b \<Rightarrow> gerr + 'b"
  lo_BatchDelete :: "bytes \<Rightarrow> 'b \<Rightarrow> gerr + 'b"
  lo_BatchWrite :: "'b \<Rightarrow> 'w \<Rightarrow> gerr option \<times> 'w"
  lo_GetBranchInfo :: "'w \<Rightarrow> bytes \<Rightarrow> int64 \<Rightarrow> gerr + string list"
  lo_GetCommonParentBlockid :: "'w \<Rightarrow> bytes \<Rightarrow> bytes \<Rightarrow> gerr option \<times> bytes"
  lo_RemoveBlocks :: "'w \<Rightarrow> bytes \<Rightarrow> bytes \<Rightarrow> 'b \<Rightarrow> gerr option \<times> 'b"
  lo_NotFound :: "gerr \<Rightarrow> bool"
  lo_MetaTablePrefix :: string
  lo_BranchInfoPrefix :: string

record PruneLedgerCommand =
  pl_Name :: string
  pl_Target :: string
  pl_EnvConf :: string
  pl_Crypto :: string

section \<open>Pruning\<close>

text \<open>One branch: find where it left the trunk, remove its blocks down to there, and forget its head.
  That a block is not found is not an error; what the two calls returned is used all the same.\<close>

definition fatal :: "('w, 'b) ledger_ops \<Rightarrow> gerr option \<Rightarrow> bool" where
  "fatal L err = (case err of None \<Rightarrow> False | Some e \<Rightarrow> \<not> lo_NotFound L e)"

definition prune_branch :: "('w, 'b) ledger_ops \<Rightarrow> 'w \<Rightarrow> bytes \<Rightarrow> string \<Rightarrow> 'b \<Rightarrow> gerr + 'b" where
  "prune_branch L w target v batch =
     (let (err, commonParentBlockID) = lo_GetCommonParentBlockid L w target v in
      if fatal L err then Inl (the err)
      else
        (let (err, batch) = lo_RemoveBlocks L w v commonParentBlockID batch in
         if fatal L err then Inl (the err)
         else lo_BatchDelete L (lo_BranchInfoPrefix L @ v) batch))"

primrec prune_branches :: "('w, 'b) ledger_ops \<Rightarrow> 'w \<Rightarrow> bytes \<Rightarrow> string list \<Rightarrow> 'b \<Rightarrow> gerr + 'b" where
  "prune_branches L w target [] batch = Inr batch"
| "prune_branches L w target (v # vs) batch =
     res_bind (prune_branch L w target v batch) (\<lambda>batch. prune_branches L w target vs batch)"

definition pruneInvalidBranch :: "('w, 'b) ledger_ops \<Rightarrow> 'w \<Rightarrow> XBlock \<Rightarrow> 'b \<Rightarrow> gerr + 'b" where
  "pruneInvalidBranch L w targetBlock batch =
     res_bind (lo_GetBranchInfo L w (xb_Blockid targetBlock) (xb_Height targetBlock)) (\<lambda>branchHeadArr.
       prune_branches L w (xb_Blockid targetBlock) branchHeadArr batch)"

text \<open>Opening the ledger: everything before the first change.\<close>

definition open_ledger :: "('w, 'b) ledger_ops \<Rightarrow> PruneLedgerCommand \<Rightarrow> 'w \<Rightarrow> gerr + unit" where
  "open_ledger L c w =
     res_bind (lo_NewLedgerCtx L (pl_Name c)) (\<lambda>BCName.
     if \<not> lo_PathExists L w (path_join (lo_ChainDir L) BCName) then Inl (Errorf (''invalid name:'' @ BCName))
     else
       res_bind (lo_OpenLedger L w) (\<lambda>_.
       res_bind (lo_CreateCryptoClient L (pl_Crypto c)) (\<lambda>_.
       res_bind (lo_NewStateCtx L (pl_Name c) w) (\<lambda>_.
         lo_NewState L w))))"

text \<open>What goes into the batch after the state has moved: the fork of the ledger, the new meta, the branches.\<close>

definition prune_batch :: "('w, 'b) ledger_ops \<Rightarrow> bytes \<Rightarrow> XBlock \<Rightarrow> 'w \<Rightarrow> gerr + 'b" where
  "prune_batch L targetBlockId targetBlock w =
     res_bind (lo_HandleFork L w (xm_TipBlockid (lo_GetMeta L w)) targetBlockId (lo_NewBatch L)) (\<lambda>batch.
     let newMeta = (lo_GetMeta L w)\<lparr>xm_TrunkHeight := xb_Height targetBlock, xm_TipBlockid := xb_Blockid targetBlock\<rparr> in
     res_bind (lo_MarshalMeta L newMeta) (\<lambda>metaBuf.
     res_bind (lo_BatchPut L (lo_MetaTablePrefix L) metaBuf batch) (\<lambda>batch.
       pruneInvalidBranch L w targetBlock batch)))"

definition pruneLedger :: "('w, 'b) ledger_ops \<Rightarrow> PruneLedgerCommand \<Rightarrow> 'w \<Rightarrow> gerr option \<times> 'w" where
  "pruneLedger L c w =
     (case open_ledger L c w of
        Inl err \<Rightarrow> (Some err, w)
      | Inr _ \<Rightarrow>
          (case hex_decode (pl_Target c) of
             None \<Rightarrow> (Some (LibErr ''encoding/hex''), w)
           | Some targetBlockId \<Rightarrow>
               (case lo_QueryBlock L w targetBlockId of
                  Inl err \<Rightarrow> (Some err, w)
                | Inr targetBlock \<Rightarrow>
                    (case lo_Walk L targetBlockId True w of
                       (Some walkErr, w') \<Rightarrow> (Some walkErr, w')
                     | (None, w') \<Rightarrow>
                         (case prune_batch L targetBlockId targetBlock w' of
                            Inl err \<Rightarrow> (Some err, w')
                          | Inr batch \<Rightarrow> lo_BatchWrite L batch w')))))"

definition genEnvConfig :: "(string \<Rightarrow> bool) \<Rightarrow> (string \<Rightarrow> gerr + 'e) \<Rightarrow> PruneLedgerCommand \<Rightarrow> string \<Rightarrow> gerr + 'e" where
  "genEnvConfig FileIsExist LoadEnvConf c path =
     (if \<not> FileIsExist path then Inl (Errorf ''config file not exist'')
      else
        (case LoadEnvConf (pl_EnvConf c) of
           Inl err \<Rightarrow> Inl (Errorf ''load env config failed'') | Inr econf \<Rightarrow> Inr econf))"

section \<open>Making a chain\<close>

record CreateChainCommand =
  ccc_Name :: string
  ccc_GenesisConf :: string
  ccc_EnvConf :: string

definition createChain ::
  "('w \<Rightarrow> string \<Rightarrow> bool) \<Rightarrow> (string \<Rightarrow> 'w \<Rightarrow> gerr + 'e) \<Rightarrow> (string \<Rightarrow> string \<Rightarrow> 'e \<Rightarrow> ('w, gerr, unit) io) \<Rightarrow>
   CreateChainCommand \<Rightarrow> ('w, gerr, unit) io" where
  "createChain FileIsExist LoadEnvConf CreateLedger c w =
     (if \<not> FileIsExist w (ccc_GenesisConf c) \<or> \<not> FileIsExist w (ccc_EnvConf c)
      then (Inl (Errorf ''config file not exist''), w)
      else
        (case LoadEnvConf (ccc_EnvConf c) w of
           Inl err \<Rightarrow> (Inl (Errorf ''load env config failed''), w)
         | Inr econf \<Rightarrow>
             io_map_err (\<lambda>_. Errorf ''create ledger failed'') (CreateLedger (ccc_Name c) (ccc_GenesisConf c) econf) w))"

section \<open>All or nothing\<close>

text \<open>
  What the command relies on.  The store of the ledger is a map of keys \<open>kv\<close>; a batch is a change \<open>beff\<close> of
  it, which is made at once when the batch is written, or not at all.  \<open>Walk\<close> moves the state, which has a
  store of its own, and \<open>RemoveBlocks\<close> only deletes, and not the meta of the ledger.
\<close>

type_synonym store = "bytes \<rightharpoonup> bytes"

definition batch_laws :: "('w, 'b) ledger_ops \<Rightarrow> ('w \<Rightarrow> store) \<Rightarrow> ('b \<Rightarrow> store \<Rightarrow> store) \<Rightarrow> bool" where
  "batch_laws L kv beff \<longleftrightarrow>
     (\<forall>k v b b' m. lo_BatchPut L k v b = Inr b' \<longrightarrow> beff b' m = (beff b m)(k \<mapsto> v)) \<and>
     (\<forall>k b b' m. lo_BatchDelete L k b = Inr b' \<longrightarrow> beff b' m = (beff b m)(k := None)) \<and>
     (\<forall>b w. kv (snd (lo_BatchWrite L b w)) = (if fst (lo_BatchWrite L b w) = None then beff b (kv w) else kv w))"

definition ledger_laws :: "('w, 'b) ledger_ops \<Rightarrow> ('w \<Rightarrow> store) \<Rightarrow> ('b \<Rightarrow> store \<Rightarrow> store) \<Rightarrow> bool" where
  "ledger_laws L kv beff \<longleftrightarrow>
     (\<forall>t dlg w. kv (snd (lo_Walk L t dlg w)) = kv w) \<and>
     (\<forall>w v p b m k. beff (snd (lo_RemoveBlocks L w v p b)) m k \<in> {None, beff b m k}) \<and>
     (\<forall>w v p b m. beff (snd (lo_RemoveBlocks L w v p b)) m (lo_MetaTablePrefix L) = beff b m (lo_MetaTablePrefix L)) \<and>
     (\<forall>v. lo_BranchInfoPrefix L @ v \<noteq> lo_MetaTablePrefix L)"

text \<open>One branch: its head is gone, what was gone stays gone, and the meta is kept.\<close>

lemma prune_branch_effect:
  assumes "batch_laws L kv beff" "ledger_laws L kv beff" "prune_branch L w t v b = Inr b'"
  shows "beff b' m (lo_BranchInfoPrefix L @ v) = None" "beff b' m k \<in> {None, beff b m k}"
    "beff b' m (lo_MetaTablePrefix L) = beff b m (lo_MetaTablePrefix L)"
proof -
  obtain p where "lo_BatchDelete L (lo_BranchInfoPrefix L @ v) (snd (lo_RemoveBlocks L w v p b)) = Inr b'"
    using assms(3) by (auto simp: prune_branch_def Let_def case_prod_beta split: if_splits)
  then have eff: "beff b' m = (beff (snd (lo_RemoveBlocks L w v p b)) m)(lo_BranchInfoPrefix L @ v := None)"
    using assms(1) unfolding batch_laws_def by blast
  have rm: "beff (snd (lo_RemoveBlocks L w v p b)) m k \<in> {None, beff b m k}"
      "beff (snd (lo_RemoveBlocks L w v p b)) m (lo_MetaTablePrefix L) = beff b m (lo_MetaTablePrefix L)"
      "lo_BranchInfoPrefix L @ v \<noteq> lo_MetaTablePrefix L"
    using assms(2) unfolding ledger_laws_def by blast+
  show "beff b' m (lo_BranchInfoPrefix L @ v) = None" "beff b' m k \<in> {None, beff b m k}"
    "beff b' m (lo_MetaTablePrefix L) = beff b m (lo_MetaTablePrefix L)"
    using rm by (auto simp: eff)
qed

lemma prune_branches_effect:
  assumes "batch_laws L kv beff" "ledger_laws L kv beff" "prune_branches L w t vs b = Inr b'"
  shows "(\<forall>v \<in> set vs. beff b' m (lo_BranchInfoPrefix L @ v) = None) \<and> beff b' m k \<in> {None, beff b m k} \<and>
    beff b' m (lo_MetaTablePrefix L) = beff b m (lo_MetaTablePrefix L)"
  using assms(3)
proof (induction vs arbitrary: b k)
  case (Cons v vs)
  then obtain b1 where b1: "prune_branch L w t v b = Inr b1" "prune_branches L w t vs b1 = Inr b'"
    by (auto simp: res_bind_Inr_iff)
  note one = prune_branch_effect[OF assms(1,2) b1(1), of m]
  have "beff b' m (lo_BranchInfoPrefix L @ v) \<in> {None, beff b1 m (lo_BranchInfoPrefix L @ v)}"
    using Cons.IH[OF b1(2)] by blast
  moreover have "beff b' m k \<in> {None, beff b m k}"
    using Cons.IH[OF b1(2), of k] one(2)[of k] by auto
  ultimately show ?case using one(1,3) Cons.IH[OF b1(2)] by auto
qed simp

text \<open>The whole batch: the new meta, and no head of a branch above the target.\<close>

lemma prune_batch_effect:
  assumes "batch_laws L kv beff" "ledger_laws L kv beff" "prune_batch L t tb w = Inr b"
  shows "\<exists>hs metaBuf. lo_GetBranchInfo L w (xb_Blockid tb) (xb_Height tb) = Inr hs \<and>
    lo_MarshalMeta L ((lo_GetMeta L w)\<lparr>xm_TrunkHeight := xb_Height tb, xm_TipBlockid := xb_Blockid tb\<rparr>) = Inr metaBuf \<and>
    (\<forall>m. beff b m (lo_MetaTablePrefix L) = Some metaBuf) \<and>
    (\<forall>m. \<forall>v \<in> set hs. beff b m (lo_BranchInfoPrefix L @ v) = None)"
proof -
  obtain b1 metaBuf b2 hs where
    mm: "lo_MarshalMeta L ((lo_GetMeta L w)\<lparr>xm_TrunkHeight := xb_Height tb, xm_TipBlockid := xb_Blockid tb\<rparr>) = Inr metaBuf"
    and put: "lo_BatchPut L (lo_MetaTablePrefix L) metaBuf b1 = Inr b2"
    and hs: "lo_GetBranchInfo L w (xb_Blockid tb) (xb_Height tb) = Inr hs"
    and pb: "prune_branches L w (xb_Blockid tb) hs b2 = Inr b"
    using assms(3) by (auto simp: prune_batch_def pruneInvalidBranch_def Let_def res_bind_Inr_iff)
  have "beff b2 m (lo_MetaTablePrefix L) = Some metaBuf" for m
    using assms(1) put unfolding batch_laws_def by (metis fun_upd_same)
  then show ?thesis using mm hs prune_branches_effect[OF assms(1,2) pb] by metis
qed

text \<open>C18: Pruning is all or nothing for the ledger.  When it reports an error the ledger is as it was before; when it
  reports success the ledger stands at the target block, and the heads of all branches the ledger named for
  the target are gone.\<close>

theorem pruneLedger_all_or_nothing:
  assumes "batch_laws L kv beff" "ledger_laws L kv beff"
  shows "case pruneLedger L c w of
      (Some err, w') \<Rightarrow> kv w' = kv w
    | (None, w') \<Rightarrow> (\<exists>t tb w1 hs metaBuf. hex_decode (pl_Target c) = Some t \<and> lo_QueryBlock L w t = Inr tb \<and>
        lo_Walk L t True w = (None, w1) \<and> lo_GetBranchInfo L w1 (xb_Blockid tb) (xb_Height tb) = Inr hs \<and>
        lo_MarshalMeta L ((lo_GetMeta L w1)\<lparr>xm_TrunkHeight := xb_Height tb, xm_TipBlockid := xb_Blockid tb\<rparr>) = Inr metaBuf \<and>
        kv w' (lo_MetaTablePrefix L) = Some metaBuf \<and> (\<forall>v \<in> set hs. kv w' (lo_BranchInfoPrefix L @ v) = None))"
proof -
  have walk: "lo_Walk L t True w = (e, w1) \<Longrightarrow> kv w1 = kv w" for t e w1
    using assms(2) unfolding ledger_laws_def by (metis snd_conv)
  have wr: "lo_BatchWrite L b w1 = (e, w2) \<Longrightarrow> kv w2 = (if e = None then beff b (kv w1) else kv w1)" for b w1 e w2
    using assms(1) unfolding batch_laws_def by (metis fst_conv snd_conv)
  show ?thesis
  proof (cases "pruneLedger L c w")
    case (Pair e w')
    show ?thesis
    proof (cases e)
      case (Some err)
      then have "kv w' = kv w"
        using Pair walk wr by (auto simp: pruneLedger_def split: sum.splits option.splits prod.splits)
      then show ?thesis using Pair Some by simp
    next
      case None
      then obtain t tb w1 b where r: "hex_decode (pl_Target c) = Some t" "lo_QueryBlock L w t = Inr tb"
          "lo_Walk L t True w = (None, w1)" "prune_batch L t tb w1 = Inr b" "lo_BatchWrite L b w1 = (None, w')"
        using Pair by (auto simp: pruneLedger_def split: sum.splits option.splits prod.splits)
      then show ?thesis
        using Pair None prune_batch_effect[OF assms r(4)] wr[OF r(5)] by auto
    qed
  qed
qed

text \<open>A ledger of two branches in memory: the disk is the store, a batch the list of its changes.\<close>

definition ex_ledger :: "(store, (bytes \<times> bytes option) list) ledger_ops" where
  "ex_ledger =
     \<lparr>lo_PathExists = \<lambda>_ p. p = ''data/xuper'', lo_NewLedgerCtx = Inr, lo_ChainDir = ''data'', lo_OpenLedger = \<lambda>_. Inr (),
      lo_CreateCryptoClient = \<lambda>_. Inr (), lo_NewStateCtx = \<lambda>_ _. Inr (), lo_NewState = \<lambda>_. Inr (),
      lo_QueryBlock = \<lambda>_ i. Inr \<lparr>xb_Blockid = i, xb_Height = 1\<rparr>,
      lo_GetMeta = \<lambda>_. \<lparr>xm_RootBlockid = ''r'', xm_TipBlockid = ''t'', xm_TrunkHeight = 3\<rparr>,
      lo_Walk = \<lambda>_ _ w. (None, w), lo_NewBatch = [], lo_HandleFork = \<lambda>_ _ _ b. Inr b,
      lo_MarshalMeta = \<lambda>m. Inr (xm_TipBlockid m), lo_BatchPut = \<lambda>k v b. Inr ((k, Some v) # b),
      lo_BatchDelete = \<lambda>k b. Inr ((k, None) # b),
      lo_BatchWrite = \<lambda>b w. (None, foldr (\<lambda>(k, v) m. m(k := v)) b w),
      lo_GetBranchInfo = \<lambda>_ _ _. Inr [''h'', ''t''], lo_GetCommonParentBlockid = \<lambda>_ i _. (None, i),
      lo_RemoveBlocks = \<lambda>_ _ _ b. (None, b), lo_NotFound = \<lambda>_. False, lo_MetaTablePrefix = ''M'',
      lo_BranchInfoPrefix = ''P''\<rparr>"

definition ex_prune :: PruneLedgerCommand where
  "ex_prune = \<lparr>pl_Name = ''xuper'', pl_Target = ''61'', pl_EnvConf = '''', pl_Crypto = ''default''\<rparr>"

lemma pruneLedger_all_or_nothing_witness:
  "let (err, w') = pruneLedger ex_ledger ex_prune [''M'' \<mapsto> ''t'', ''Ph'' \<mapsto> ''1'', ''Pt'' \<mapsto> ''1''] in
   err = None \<and> w' ''M'' = Some ''a'' \<and> w' ''Ph'' = None \<and> w' ''Pt'' = None"
proof -
  let ?w = "[''M'' \<mapsto> ''t'', ''Ph'' \<mapsto> ''1'', ''Pt'' \<mapsto> ''1''] :: store"
  have laws: "batch_laws ex_ledger id (\<lambda>b m. foldr (\<lambda>(k, v) m. m(k := v)) b m)"
      "ledger_laws ex_ledger id (\<lambda>b m. foldr (\<lambda>(k, v) m. m(k := v)) b m)"
    by (auto simp: batch_laws_def ledger_laws_def ex_ledger_def)
  have o: "open_ledger ex_ledger ex_prune ?w = Inr ()" by code_simp
  have h: "hex_decode (pl_Target ex_prune) = Some ''a''" by code_simp
  have b: "prune_batch ex_ledger ''a'' \<lparr>xb_Blockid = ''a'', xb_Height = 1\<rparr> ?w =
      Inr [(''Pt'', None), (''Ph'', None), (''M'', Some ''a'')]"
    by (simp add: prune_batch_def pruneInvalidBranch_def prune_branch_def fatal_def ex_ledger_def Let_def)
  have q: "lo_QueryBlock ex_ledger ?w ''a'' = Inr \<lparr>xb_Blockid = ''a'', xb_Height = 1\<rparr>"
      "lo_Walk ex_ledger ''a'' True ?w = (None, ?w)"
    by (simp_all add: ex_ledger_def)
  have "fst (pruneLedger ex_ledger ex_prune ?w) = None"
    by (simp add: pruneLedger_def o h q b) (simp add: ex_ledger_def)
  with pruneLedger_all_or_nothing[OF laws, of ex_prune ?w] show ?thesis
    by (auto simp: h q ex_ledger_def split: prod.splits option.splits)
qed

end
