(* ===== verification/OfflineQuery.thy ===== *)
theory OfflineQuery
  imports EndToEnd Prune
begin

text \<open>
  \<open>cmd/xchain/cmd/offlinequery.go\<close>: the commands that read the ledger of a stopped node.  Opening the ledger and
  the state takes handles, which the queries close again; the handles held are part of the state, in the
  order in which they were taken.  The disk is only read.
\<close>

section \<open>Handles\<close>

datatype handle = LedgerHandle | StateHandle

record 'w session =
  os_disk :: 'w
  os_open :: "handle list"

text \<open>Ledger, state and configuration are objects of xupercore, \<open>'x\<close> are its messages, \<open>'e\<close> the configuration and \<open>'j\<close> a decoded JSON
  object.  \<open>oq_cast_Block\<close> and \<open>oq_cast_Tx\<close> are the casts of a pointer through \<open>unsafe.Pointer\<close>: the message of the
  client read from the memory of the one of the kernel.\<close>

record ('w, 'x, 'e, 'j) OfflineEnv =
  oq_FileIsExist :: "'w \<Rightarrow> string \<Rightarrow> bool"
  oq_LoadEnvConf :: "'w \<Rightarrow> string \<Rightarrow> gerr + 'e"
  oq_set_RootPath :: "string \<Rightarrow> 'e \<Rightarrow> 'e"
  oq_NewLedgerCtx :: "'e \<Rightarrow> string \<Rightarrow> gerr + string"
  oq_ChainDirPath :: "'e \<Rightarrow> string"
  oq_PathExists :: "'w \<Rightarrow> string \<Rightarrow> bool"
  oq_OpenLedger :: "'e \<Rightarrow> string \<Rightarrow> 'w \<Rightarrow> gerr + unit"
  oq_CreateCryptoClient :: "string \<Rightarrow> gerr + unit"
  oq_NewStateCtx :: "'e \<Rightarrow> string \<Rightarrow> gerr + unit"
  oq_NewState :: "'e \<Rightarrow> string \<Rightarrow> 'w \<Rightarrow> gerr + unit"
  oq_GetMeta :: "'w \<Rightarrow> XMeta"
  oq_QueryBlock :: "'w \<Rightarrow> bytes \<Rightarrow> gerr + 'x"
  oq_QueryBlockByHeight :: "'w \<Rightarrow> int64 \<Rightarrow> gerr + 'x"
  oq_QueryTx :: "'w \<Rightarrow> bytes \<Rightarrow> gerr + 'x option"
  oq_QueryBlockHeaderByHeight :: "'w \<Rightarrow> int64 \<Rightarrow> gerr + bytes"
  oq_CreateXMSnapshotReader :: "'w \<Rightarrow> bytes \<Rightarrow> gerr + (string \<Rightarrow> bytes \<Rightarrow> gerr + bytes)"
  oq_XMReader_Get :: "'w \<Rightarrow> string \<Rightarrow> bytes \<Rightarrow> gerr + bytes"
  oq_cast_Block :: "'x \<Rightarrow> InternalBlock"
  oq_cast_Tx :: "'x \<Rightarrow> Transaction"
  oq_un_json :: "bytes \<Rightarrow> gerr option \<times> 'j"

record OfflineQueryCommand =
  oqc_ChainName :: string
  oqc_EnvConf :: string
  oqc_CryptoType :: string
  oqc_RootPath :: string

definition createEnvConfig :: "('w, 'x, 'e, 'j) OfflineEnv \<Rightarrow> 'w \<Rightarrow> string \<Rightarrow> gerr + 'e" where
  "createEnvConfig F w path =
     (if \<not> oq_FileIsExist F w path then Inl (Errorf ''config file not exist'')
      else (case oq_LoadEnvConf F w path of
              Inl err \<Rightarrow> Inl (Errorf ''load env config failed'') | Inr econf \<Rightarrow> Inr econf))"

definition take_handle :: "handle \<Rightarrow> ('w \<Rightarrow> gerr + unit) \<Rightarrow> ('w session, gerr, unit) io" where
  "take_handle h open_it s =
     (case open_it (os_disk s) of
        Inl err \<Rightarrow> (Inl err, s) | Inr _ \<Rightarrow> (Inr (), s\<lparr>os_open := h # os_open s\<rparr>))"

definition close_handle :: "handle \<Rightarrow> 'w session \<Rightarrow> 'w session" where
  "close_handle h s = s\<lparr>os_open := remove1 h (os_open s)\<rparr>"

text \<open>A handle taken before a later step fails is not given back.\<close>

definition createHandle ::
  "('w, 'x, 'e, 'j) OfflineEnv \<Rightarrow> 'e \<Rightarrow> string \<Rightarrow> string \<Rightarrow> ('w session, gerr, unit) io" where
  "createHandle F econf chainName cryptoType =
     io_bind (io_lift (oq_NewLedgerCtx F econf chainName)) (\<lambda>BCName.
     io_bind (io_read (\<lambda>s. if \<not> oq_PathExists F (os_disk s) (path_join (oq_ChainDirPath F econf) BCName)
                             then Inl (Errorf (''invalid name:'' @ BCName)) else Inr ())) (\<lambda>_.
     io_bind (take_handle LedgerHandle (oq_OpenLedger F econf chainName)) (\<lambda>_.
     io_bind (io_lift (oq_CreateCryptoClient F cryptoType)) (\<lambda>_.
     io_bind (io_lift (oq_NewStateCtx F econf chainName)) (\<lambda>_.
       take_handle StateHandle (oq_NewState F econf chainName))))))"

definition createLedgerAndStateHandle ::
  "('w, 'x, 'e, 'j) OfflineEnv \<Rightarrow> OfflineQueryCommand \<Rightarrow> ('w session, gerr, unit) io" where
  "createLedgerAndStateHandle F c =
     io_bind (io_read (\<lambda>s. createEnvConfig F (os_disk s) (oqc_EnvConf c))) (\<lambda>econf.
     let econf = (if oqc_RootPath c \<noteq> '''' then oq_set_RootPath F (oqc_RootPath c) econf else econf) in
       createHandle F econf (oqc_ChainName c) (oqc_CryptoType c))"

text \<open>The frame of every query: open, and close the state and then the ledger on every way out, a panic included.\<close>

definition with_handles ::
  "('w, 'x, 'e, 'j) OfflineEnv \<Rightarrow> OfflineQueryCommand \<Rightarrow> ('w \<Rightarrow> gerr + 'a) \<Rightarrow> ('w session, gerr, 'a) io" where
  "with_handles F c query =
     io_bind (createLedgerAndStateHandle F c) (\<lambda>_ s.
       (query (os_disk s), close_handle LedgerHandle (close_handle StateHandle s)))"

section \<open>The queries\<close>

definition QueryStatus ::
  "('w, 'x, 'e, 'j) OfflineEnv \<Rightarrow> OfflineQueryCommand \<Rightarrow> ('w session, gerr, LedgerMeta_view shown list) io" where
  "QueryStatus F c =
     with_handles F c (\<lambda>w.
       let meta = oq_GetMeta F w in
       Inr [Json \<lparr>vlm_RootBlockid = xm_RootBlockid meta, vlm_TipBlockid = xm_TipBlockid meta,
                  vlm_TrunkHeight = xm_TrunkHeight meta\<rparr>])"

definition show_ledger_block :: "('w, 'x, 'e, 'j) OfflineEnv \<Rightarrow> 'x \<Rightarrow> gerr + InternalBlock_view shown list" where
  "show_ledger_block F targetBlock =
     (case FromInternalBlockPB (oq_cast_Block F targetBlock) of
        Panic \<Rightarrow> Inl go_panic | Ret v \<Rightarrow> Inr [Json v])"

definition QueryByBlockId ::
  "('w, 'x, 'e, 'j) OfflineEnv \<Rightarrow> OfflineQueryCommand \<Rightarrow> string \<Rightarrow>
   ('w session, gerr, InternalBlock_view shown list) io" where
  "QueryByBlockId F c blockId =
     with_handles F c (\<lambda>w.
       case hex_decode blockId of
         None \<Rightarrow> Inl (LibErr ''encoding/hex'')
       | Some targetBlockId \<Rightarrow>
           (case oq_QueryBlock F w targetBlockId of
              Inl err \<Rightarrow> Inl (Errorf ''query block by blockId failed'')
            | Inr targetBlock \<Rightarrow> show_ledger_block F targetBlock))"

definition QueryByBlockHeight ::
  "('w, 'x, 'e, 'j) OfflineEnv \<Rightarrow> OfflineQueryCommand \<Rightarrow> int64 \<Rightarrow>
   ('w session, gerr, InternalBlock_view shown list) io" where
  "QueryByBlockHeight F c height =
     with_handles F c (\<lambda>w.
       case oq_QueryBlockByHeight F w height of
         Inl err \<Rightarrow> Inl (Errorf ''query block by height failed'')
       | Inr targetBlock \<Rightarrow> show_ledger_block F targetBlock)"

definition offline_block_run ::
  "('w, 'x, 'e, 'j) OfflineEnv \<Rightarrow> OfflineQueryCommand \<Rightarrow> bool \<Rightarrow> string list \<Rightarrow>
   ('w session, gerr, InternalBlock_view shown list) io" where
  "offline_block_run F c byHeight args =
     (case args of
        [] \<Rightarrow> io_throw (Errorf ''expect blockId or height'')
      | arg # _ \<Rightarrow>
          if byHeight then io_bind (io_lift (Atoi arg)) (QueryByBlockHeight F c) else QueryByBlockId F c arg)"

text \<open>A transaction that is not there is printed as such, and is no error.\<close>

definition QueryByTxId ::
  "('w, 'x, 'e, 'j) OfflineEnv \<Rightarrow> OfflineQueryCommand \<Rightarrow> string \<Rightarrow>
   ('w session, gerr, Transaction_view shown list) io" where
  "QueryByTxId F c txid =
     with_handles F c (\<lambda>w.
       case hex_decode txid of
         None \<Rightarrow> Inl (LibErr ''encoding/hex'')
       | Some targetTxId \<Rightarrow>
           res_bind (oq_QueryTx F w targetTxId) (\<lambda>found.
             case found of
               None \<Rightarrow> Inr [Line (''txid:'' @ txid @ '' not found'')]
             | Some targetTxInfo \<Rightarrow> Inr [Json (FromPBTx (oq_cast_Tx F targetTxInfo))]))"

record OfflineQueryKVStoreCommand =
  okc_Bucket :: string
  okc_Key :: string
  okc_HexKey :: bool
  okc_Height :: int64
  okc_DecodeType :: string

definition kv_value ::
  "('w, 'x, 'e, 'j) OfflineEnv \<Rightarrow> 'w \<Rightarrow> string \<Rightarrow> bytes \<Rightarrow> int64 \<Rightarrow> gerr + bytes" where
  "kv_value F w bucket key height =
     (if sint height \<ge> 0 then
        res_bind (oq_QueryBlockHeaderByHeight F w height) (\<lambda>blockid.
        res_bind (oq_CreateXMSnapshotReader F w blockid) (\<lambda>readerSnapshot. readerSnapshot bucket key))
      else oq_XMReader_Get F w bucket key)"

definition show_value :: "('w, 'x, 'e, 'j) OfflineEnv \<Rightarrow> string \<Rightarrow> bytes \<Rightarrow> 'j shown list" where
  "show_value F decodeType val =
     (if length val = 0 then [Line ''val is nil'']
      else if decodeType = ''json'' then
        (let (err, jsonVal) = oq_un_json F val in
         (case err of None \<Rightarrow> [] | Some e \<Rightarrow> [ErrLine e]) @ [Json jsonVal])
      else if decodeType = ''hex'' then [Line (hex_encode val)]
      else [Line val])"

definition kv_Get ::
  "('w, 'x, 'e, 'j) OfflineEnv \<Rightarrow> OfflineQueryCommand \<Rightarrow> string \<Rightarrow> string \<Rightarrow> bytes \<Rightarrow> int64 \<Rightarrow>
   ('w session, gerr, 'j shown list) io" where
  "kv_Get F c decodeType bucket key height =
     with_handles F c (\<lambda>w. res_bind (kv_value F w bucket key height) (\<lambda>val. Inr (show_value F decodeType val)))"

definition kv_run ::
  "('w, 'x, 'e, 'j) OfflineEnv \<Rightarrow> OfflineQueryCommand \<Rightarrow> OfflineQueryKVStoreCommand \<Rightarrow>
   ('w session, gerr, 'j shown list) io" where
  "kv_run F c k =
     (if okc_Bucket k = '''' then io_throw (Errorf ''expect bucket'')
      else if okc_Key k = '''' then io_throw (Errorf ''expect key'')
      else
        io_bind (io_lift (if okc_HexKey k
                          then (case hex_decode (okc_Key k) of None \<Rightarrow> Inl (LibErr ''encoding/hex'') | Some b \<Rightarrow> Inr b)
                          else Inr (okc_Key k))) (\<lambda>key.
          kv_Get F c (okc_DecodeType k) (okc_Bucket k) key (okc_Height k)))"

section \<open>Properties\<close>

lemma with_handles_run:
  assumes "with_handles F c query s = (r, s')"
  shows "os_disk s' = os_disk s \<and>
    (if fst (createLedgerAndStateHandle F c s) = Inr () then r = query (os_disk s) \<and> os_open s' = os_open s
     else (\<exists>err. r = Inl err) \<and> os_open s' \<in> {os_open s, LedgerHandle # os_open s})"
proof -
  have opened: "os_disk s1 = os_disk s \<and>
      (case x of Inr _ \<Rightarrow> os_open s1 = StateHandle # LedgerHandle # os_open s
       | Inl _ \<Rightarrow> os_open s1 \<in> {os_open s, LedgerHandle # os_open s})"
    if "createLedgerAndStateHandle F c s = (x, s1)" for x s1
    using that
    by (auto simp: createLedgerAndStateHandle_def createHandle_def take_handle_def Let_def io_bind_def
        split: sum.splits if_splits prod.splits)
  show ?thesis
  proof (cases "createLedgerAndStateHandle F c s")
    case (Pair x s1)
    with opened[OF this] assms show ?thesis
      by (cases x) (auto simp: with_handles_def io_bind_def close_handle_def)
  qed
qed


text \<open>C20: Asked for the same block, the node answers the same online and offline: when the chain of the node serves what is in
  the ledger on disk, and reading a block of the kernel as a message of the client gives what converting
  it gives, then \<open>block\<close> of the client prints a block exactly when the offline query does.\<close>

theorem offline_block_agrees:
  assumes call: "unary_call (qc_GetBlock C) (serve_query t pr blkid_field blk_field (GetBlock L))"
    and ok: "server_ok t" and id: "hex_decode blockid = Some raw" "raw \<noteq> ''''"
    and log: "e_GenLogId E s = (logid, s')" "logid \<noteq> ''''"
    and ctx: "createReqCtx t pr (log_header logid) = Inr rctx"
    and chain: "NewChainHandle (ro_Name ro) (Some rctx) (st_node s') = Inr h"
    and same: "map_sum (\<lambda>_. ()) xbi_Block (QueryBlock h raw True (st_node s')) =
      map_sum (\<lambda>_. ()) Some (oq_QueryBlock F (os_disk d) raw)"
    and cast: "\<And>x. oq_QueryBlock F (os_disk d) raw = Inr x \<Longrightarrow> BlockToXchain (cd_Block L) (Some x) = Some (oq_cast_Block F x)"
    and opened: "fst (createLedgerAndStateHandle F c d) = Inr ()"
  shows "fst (queryBlock E C ro blockid s) = Inr [Json v] \<longleftrightarrow> fst (QueryByBlockId F c blockid d) = Inr [Json v]"
proof -
  obtain r d' where run: "QueryByBlockId F c blockid d = (r, d')" by (cases "QueryByBlockId F c blockid d")
  have "r = (case oq_QueryBlock F (os_disk d) raw of
      Inl err \<Rightarrow> Inl (Errorf ''query block by blockId failed'') | Inr x \<Rightarrow> show_ledger_block F x)"
    using with_handles_run[OF run[unfolded QueryByBlockId_def]] opened id(1) by simp
  then have off: "r = Inr [Json v] \<longleftrightarrow>
      (\<exists>x. oq_QueryBlock F (os_disk d) raw = Inr x \<and> FromInternalBlockPB (oq_cast_Block F x) = Ret v)"
    by (auto simp: show_ledger_block_def split: sum.splits outcome.splits)
  have "held_block L rctx (ro_Name ro) raw (st_node s') v \<longleftrightarrow>
      (\<exists>x. oq_QueryBlock F (os_disk d) raw = Inr x \<and> FromInternalBlockPB (oq_cast_Block F x) = Ret v)"
    using same chain cast
    by (cases "QueryBlock h raw True (st_node s')"; cases "oq_QueryBlock F (os_disk d) raw") (auto simp: held_block_def)
  with off show ?thesis
    using queryBlock_held[OF call ok id log ctx] run by simp
qed

section \<open>Instances\<close>

definition ex_off :: "(nat, string, unit, nat) OfflineEnv" where
  "ex_off =
     \<lparr>oq_FileIsExist = (\<lambda>w p. True), oq_LoadEnvConf = (\<lambda>w p. Inr ()), oq_set_RootPath = (\<lambda>p e. e),
      oq_NewLedgerCtx = (\<lambda>e n. Inr n), oq_ChainDirPath = (\<lambda>e. ''blockchain''), oq_PathExists = (\<lambda>w p. True),
      oq_OpenLedger = (\<lambda>e n w. Inr ()), oq_CreateCryptoClient = (\<lambda>t. Inr ()), oq_NewStateCtx = (\<lambda>e n. Inr ()),
      oq_NewState = (\<lambda>e n w. Inr ()), oq_GetMeta = (\<lambda>w. \<lparr>xm_RootBlockid = ''r'', xm_TipBlockid = ''t'', xm_TrunkHeight = 3\<rparr>),
      oq_QueryBlock = (\<lambda>w b. Inr ''blk''), oq_QueryBlockByHeight = (\<lambda>w n. Inr ''blk''),
      oq_QueryTx = (\<lambda>w b. Inr None), oq_QueryBlockHeaderByHeight = (\<lambda>w n. Inr ''b''),
      oq_CreateXMSnapshotReader = (\<lambda>w b. Inr (\<lambda>bucket key. Inr ''old'')),
      oq_XMReader_Get = (\<lambda>w bucket key. Inr ''new''), oq_cast_Block = (\<lambda>x. new_InternalBlock),
      oq_cast_Tx = (\<lambda>x. new_Transaction), oq_un_json = (\<lambda>b. (None, 0))\<rparr>"

definition ex_oqc :: OfflineQueryCommand where
  "ex_oqc = \<lparr>oqc_ChainName = ''xuper'', oqc_EnvConf = ''env'', oqc_CryptoType = ''default'', oqc_RootPath = ''''\<rparr>"

definition ex_session :: "nat session" where "ex_session = \<lparr>os_disk = 0, os_open = []\<rparr>"

lemma ex_opens: "fst (createLedgerAndStateHandle ex_off ex_oqc ex_session) = Inr ()"
  by (simp add: createLedgerAndStateHandle_def createEnvConfig_def createHandle_def take_handle_def Let_def ex_off_def
      ex_oqc_def ex_session_def io_bind_def io_read_def)


lemma offline_block_agrees_witness:
  "\<forall>v. fst (queryBlock plain_env ex_connected ex_root ''01'' ex_state) = Inr [Json v] \<longleftrightarrow>
     fst (QueryByBlockId ex_off ex_oqc ''01'' ex_session) = Inr [Json v]"
proof -
  let ?rctx = "\<lparr>rc_Engine = Some ex_engine, rc_LogId = ''log'', rc_ClientIp = ''10.0.0.1''\<rparr>"
  obtain raw where raw: "hex_decode ''01'' = Some raw" "raw \<noteq> ''''" by (rule that[of "[CHR 0x01]"]) code_simp+
  have c: "unary_call (qc_GetBlock ex_connected) (serve_query ex_server ex_peer blkid_field blk_field (GetBlock ex_lib))"
    by (simp add: ex_connected_def channel.unary_call_axioms)
  have l: "e_GenLogId plain_env ex_state = (''log'', ex_state)" "''log'' \<noteq> ''''" by (simp_all add: plain_env_def)
  have x: "createReqCtx ex_server ex_peer (log_header ''log'') = Inr ?rctx"
    by (simp only: log_header_def ex_server_ctx) simp
  obtain h where h: "NewChainHandle (ro_Name ex_root) (Some ?rctx) (st_node ex_state) = Inr h" "h_chain h = ex_chain"
    by (simp add: NewChainHandle_def ex_root_def ex_engine_def)
  have s: "map_sum (\<lambda>_. ()) xbi_Block (QueryBlock h raw True (st_node ex_state)) =
      map_sum (\<lambda>_. ()) Some (oq_QueryBlock ex_off (os_disk ex_session) raw)"
    by (simp add: QueryBlock_def h(2) ex_chain_def ex_off_def)
  have a: "oq_QueryBlock ex_off (os_disk ex_session) raw = Inr y \<Longrightarrow>
      BlockToXchain (cd_Block ex_lib) (Some y) = Some (oq_cast_Block ex_off y)" for y
    by (auto simp: ex_off_def BlockToXchain_def reencode_def ex_lib_def ex_codec_def)
  show ?thesis
    by (rule allI, rule offline_block_agrees[OF c ex_server_ok raw l x h(1) s a ex_opens])
qed

end
