(* ===== verification/NodeCmds.thy ===== *)
theory NodeCmds
  imports CliSetup OfflineQuery Lifecycle
begin

text \<open>
  The process of the node, \<open>cmd/xchain/main.go\<close>: the tree of its commands with their flags, how the flags become the
  fields of each command, and the bodies that run: \<open>startup\<close> (\<open>startup.go\<close>, up to the process that \<open>Lifecycle\<close>
  takes over), \<open>version\<close>, \<open>createChain\<close>, \<open>pruneLedger\<close> and the four offline queries.

  cobra's parser is given.  It delivers the command, the flags that were set in the text pflag gives
  their value, and the arguments.  Logs are not modelled.
\<close>

section \<open>The commands\<close>

text \<open>The flags of a group are those its children inherit.\<close>

definition GetStartupCmd :: command where
  "GetStartupCmd = Command ''startup'' ArbitraryArgs (Some 0) [(''conf'', ''c'', FString '''')] []"

definition GetVersionCmd :: command where
  "GetVersionCmd = Command ''version'' ArbitraryArgs (Some 0) [] []"

definition GetCreateChainCommand :: command where
  "GetCreateChainCommand = Command ''createChain'' ArbitraryArgs (Some 0)
     [(''name'', ''n'', FString ''xuper''), (''genesis_conf'', ''g'', FString ''./data/genesis/xuper.json''),
      (''env_conf'', ''e'', FString ''./conf/env.yaml'')] []"

definition GetPruneLedgerCommand :: command where
  "GetPruneLedgerCommand = Command ''pruneLedger'' ArbitraryArgs (Some 0)
     [(''name'', ''n'', FString ''xuper''), (''target'', ''t'', FString ''''),
      (''env_conf'', ''e'', FString ''./conf/env.yaml''), (''crypto'', ''c'', FString ''default'')] []"

definition NewOfflineQueryStatusCommand :: command where
  "NewOfflineQueryStatusCommand = Command ''status'' ArbitraryArgs (Some 0) [] []"

definition NewOfflineQueryBlockCommand :: command where
  "NewOfflineQueryBlockCommand = Command ''block'' (MinimumNArgs 1) (Some 0) [(''byHeight'', ''N'', FBool False)] []"

definition offline_tx_query :: command where
  "offline_tx_query = Command ''query'' ArbitraryArgs (Some 0) [] []"

definition NewOfflineQueryTxCommand :: command where
  "NewOfflineQueryTxCommand = Command ''tx'' ArbitraryArgs None [] [offline_tx_query]"

definition NewOfflineQueryKVStoreCommand :: command where
  "NewOfflineQueryKVStoreCommand = Command ''get'' ArbitraryArgs (Some 0)
     [(''bucket'', ''b'', FString ''''), (''key'', ''k'', FString ''''), (''HexKey'', '''', FBool False),
      (''height'', ''N'', FInt64 (-1)), (''decode'', ''d'', FString ''raw'')] []"

definition offline_flags :: "flag list" where
  "offline_flags =
     [(''name'', ''n'', FString ''xuper''), (''env_conf'', ''e'', FString ''./conf/env.yaml''),
      (''crypto'', ''c'', FString ''default'')]"

definition GetOfflineQueryCommand :: command where
  "GetOfflineQueryCommand = Command ''offlineQuery'' ArbitraryArgs None offline_flags
     [NewOfflineQueryStatusCommand, NewOfflineQueryBlockCommand, NewOfflineQueryTxCommand, NewOfflineQueryKVStoreCommand]"

definition NewServiceCommand :: command where
  "NewServiceCommand = AddCommands (Command ''xchain <command> [arguments]'' ArbitraryArgs None [] [])
     [GetStartupCmd, GetVersionCmd, GetCreateChainCommand, GetPruneLedgerCommand, GetOfflineQueryCommand]"

section \<open>Flags and fields\<close>

text \<open>The value of a variable behind a flag, after the flags that were set.\<close>

definition string_flag :: "flag list \<Rightarrow> (string \<rightharpoonup> string) \<Rightarrow> string \<Rightarrow> string" where
  "string_flag fs given n =
     (case given n of Some v \<Rightarrow> v | None \<Rightarrow> (case map_of fs n of Some (_, FString s) \<Rightarrow> s | _ \<Rightarrow> ''''))"

definition bool_flag :: "flag list \<Rightarrow> (string \<rightharpoonup> string) \<Rightarrow> string \<Rightarrow> bool" where
  "bool_flag fs given n =
     (case given n of Some v \<Rightarrow> v = ''true'' | None \<Rightarrow> (case map_of fs n of Some (_, FBool b) \<Rightarrow> b | _ \<Rightarrow> False))"

definition int64_flag :: "flag list \<Rightarrow> (string \<rightharpoonup> string) \<Rightarrow> string \<Rightarrow> int64" where
  "int64_flag fs given n =
     (case given n of
        Some v \<Rightarrow> fst (parse_int64 v)
      | None \<Rightarrow> (case map_of fs n of Some (_, FInt64 i) \<Rightarrow> i | _ \<Rightarrow> 0))"

definition create_fields :: "(string \<rightharpoonup> string) \<Rightarrow> CreateChainCommand" where
  "create_fields given =
     (let str = string_flag (cmd_flags GetCreateChainCommand) given in
      \<lparr>ccc_Name = str ''name'', ccc_GenesisConf = str ''genesis_conf'', ccc_EnvConf = str ''env_conf''\<rparr>)"

definition prune_fields :: "(string \<rightharpoonup> string) \<Rightarrow> PruneLedgerCommand" where
  "prune_fields given =
     (let str = string_flag (cmd_flags GetPruneLedgerCommand) given in
      \<lparr>pl_Name = str ''name'', pl_Target = str ''target'', pl_EnvConf = str ''env_conf'', pl_Crypto = str ''crypto''\<rparr>)"

definition offline_fields :: "(string \<rightharpoonup> string) \<Rightarrow> OfflineQueryCommand" where
  "offline_fields given =
     (let str = string_flag offline_flags given in
      \<lparr>oqc_ChainName = str ''name'', oqc_EnvConf = str ''env_conf'', oqc_CryptoType = str ''crypto'', oqc_RootPath = ''''\<rparr>)"

definition kv_fields :: "(string \<rightharpoonup> string) \<Rightarrow> OfflineQueryKVStoreCommand" where
  "kv_fields given =
     (let fs = cmd_flags NewOfflineQueryKVStoreCommand in
      \<lparr>okc_Bucket = string_flag fs given ''bucket'', okc_Key = string_flag fs given ''key'',
       okc_HexKey = bool_flag fs given ''HexKey'', okc_Height = int64_flag fs given ''height'',
       okc_DecodeType = string_flag fs given ''decode''\<rparr>)"

section \<open>Start-up\<close>

text \<open>What the process uses of xupercore and cobra; \<open>'e\<close> is a configuration and \<open>'n\<close> an engine.\<close>

record ('w, 'b, 'x, 'e, 'j, 'n, 'v) NodeEnv =
  ne_Parse :: "command \<Rightarrow> string list \<Rightarrow> parsed"
  ne_FileIsExist :: "'w \<Rightarrow> string \<Rightarrow> bool"
  ne_LoadEnvConf :: "string \<Rightarrow> 'w \<Rightarrow> gerr + 'e"
  ne_ServConfPath :: "'e \<Rightarrow> string"
  ne_ReadInConfig :: "'w \<Rightarrow> string \<Rightarrow> gerr + 'v"
  ne_Unmarshal :: "'v \<Rightarrow> ServConf \<Rightarrow> gerr + ServConf"
  ne_CreateBCEngine :: "'e \<Rightarrow> gerr + 'n"
  ne_EngineConvert :: "'n \<Rightarrow> gerr + 'n"
  ne_CreateLedger :: "string \<Rightarrow> string \<Rightarrow> 'e \<Rightarrow> ('w, gerr, unit) io"
  ne_ledger :: "'e \<Rightarrow> ('w, 'b) ledger_ops"
  ne_off :: "('w, 'x, 'e, 'j) OfflineEnv"

definition startup_loadConf ::
  "('w, 'b, 'x, 'e, 'j, 'n, 'v) NodeEnv \<Rightarrow> string \<Rightarrow> 'w \<Rightarrow> gerr + 'e \<times> ServConf" where
  "startup_loadConf N envCfgPath w =
     res_bind (ne_LoadEnvConf N envCfgPath w) (\<lambda>envConf.
     res_bind (LoadServConf (ne_FileIsExist N w) (ne_ReadInConfig N w) (ne_Unmarshal N) (ne_ServConfPath N envConf)) (\<lambda>servConf.
       Inr (envConf, servConf)))"

text \<open>What \<open>StartupXchain\<close> starts; its run is the step relation of \<open>Lifecycle\<close>, at whose end it returns no error.\<close>

definition StartupXchain ::
  "('w, 'b, 'x, 'e, 'j, 'n, 'v) NodeEnv \<Rightarrow> string \<Rightarrow> 'w \<Rightarrow> gerr + node" where
  "StartupXchain N envCfgPath w =
     res_bind (startup_loadConf N envCfgPath w) (\<lambda>(envConf, servConf).
     res_bind (ne_CreateBCEngine N envConf) (\<lambda>engine.
     res_bind (NewServMG (Some servConf) (ne_EngineConvert N) (Some engine)) (\<lambda>serv.
       Inr (start_node serv))))"

section \<open>The process\<close>

text \<open>What a command leaves: its output, or the node it has started.\<close>

datatype 'j node_output =
    Silent | VersionLine | Status "LedgerMeta_view shown list" | BlockOutput "InternalBlock_view shown list"
  | TxOutput "Transaction_view shown list" | ValueOutput "'j shown list" | Started node

definition io_out :: "('a \<Rightarrow> 'o) \<Rightarrow> ('s, gerr, 'a) io \<Rightarrow> ('s, gerr, 'o) io" where
  "io_out C m = io_bind m (\<lambda>x. io_return (C x))"

text \<open>A body that works on the disk.\<close>

definition on_disk :: "('w, gerr, 'a) io \<Rightarrow> ('w session, gerr, 'a) io" where
  "on_disk m s = (let (r, w) = m (os_disk s) in (r, s\<lparr>os_disk := w\<rparr>))"

definition prune_run :: "('w, 'b, 'x, 'e, 'j, 'n, 'v) NodeEnv \<Rightarrow> PruneLedgerCommand \<Rightarrow> ('w, gerr, unit) io" where
  "prune_run N c w =
     (case genEnvConfig (ne_FileIsExist N w) (\<lambda>path. ne_LoadEnvConf N path w) c (pl_EnvConf c) of
        Inl err \<Rightarrow> (Inl err, w)
      | Inr econf \<Rightarrow>
          (case pruneLedger (ne_ledger N econf) c w of (Some err, w') \<Rightarrow> (Inl err, w') | (None, w') \<Rightarrow> (Inr (), w')))"

definition offline_tx_run ::
  "('w, 'x, 'e, 'j) OfflineEnv \<Rightarrow> OfflineQueryCommand \<Rightarrow> string list \<Rightarrow> ('w session, gerr, Transaction_view shown list) io" where
  "offline_tx_run F c args = (case args of [] \<Rightarrow> io_throw (Errorf ''expect TxId'') | txid # _ \<Rightarrow> QueryByTxId F c txid)"

text \<open>The body of each command that runs.\<close>

definition node_RunE ::
  "('w, 'b, 'x, 'e, 'j, 'n, 'v) NodeEnv \<Rightarrow> command \<Rightarrow> (string \<rightharpoonup> string) \<Rightarrow> string list \<Rightarrow>
   ('w session, gerr, 'j node_output) io" where
  "node_RunE N c given args =
     (let F = ne_off N; root = offline_fields given; flags = cmd_flags c in
      if c = GetStartupCmd then io_out Started (io_read (\<lambda>s. StartupXchain N (string_flag flags given ''conf'') (os_disk s)))
      else if c = GetVersionCmd then io_return VersionLine
      else if c = GetCreateChainCommand then
        io_out (\<lambda>_. Silent) (on_disk (createChain (ne_FileIsExist N) (ne_LoadEnvConf N) (ne_CreateLedger N) (create_fields given)))
      else if c = GetPruneLedgerCommand then io_out (\<lambda>_. Silent) (on_disk (prune_run N (prune_fields given)))
      else if c = NewOfflineQueryStatusCommand then io_out Status (QueryStatus F root)
      else if c = NewOfflineQueryBlockCommand then
        io_out BlockOutput (offline_block_run F root (bool_flag flags given ''byHeight'') args)
      else if c = offline_tx_query then io_out TxOutput (offline_tx_run F root args)
      else if c = NewOfflineQueryKVStoreCommand then io_out ValueOutput (kv_run F root (kv_fields given))
      else io_return Silent)"

text \<open>\<open>main\<close>: the exit status, what was printed, and the session; a group alone shows its help, and every error is fatal.\<close>

definition node_main ::
  "('w, 'b, 'x, 'e, 'j, 'n, 'v) NodeEnv \<Rightarrow> string list \<Rightarrow> 'w session \<Rightarrow> (int \<times> 'j node_output) \<times> 'w session" where
  "node_main N args s =
     (case ne_Parse N NewServiceCommand args of
        ParseError err \<Rightarrow> ((1, Silent), s)
      | HelpShown \<Rightarrow> ((0, Silent), s)
      | Runs c given xs \<Rightarrow>
          if cmd_reads c = None then ((0, Silent), s)
          else if \<not> validate_args (cmd_Args c) xs then ((1, Silent), s)
          else (case node_RunE N c given xs s of
                  (Inl err, s') \<Rightarrow> ((1, Silent), s') | (Inr out, s') \<Rightarrow> ((0, out), s')))"

section \<open>Facts\<close>

lemmas node_commands =
  GetStartupCmd_def GetVersionCmd_def GetCreateChainCommand_def GetPruneLedgerCommand_def NewOfflineQueryStatusCommand_def
  NewOfflineQueryBlockCommand_def offline_tx_query_def NewOfflineQueryTxCommand_def NewOfflineQueryKVStoreCommand_def
  GetOfflineQueryCommand_def

text \<open>The tree is well formed, as that of the client is; the offline queries inherit the flags of their group.\<close>

lemma node_tree_ok:
  "list_all (command_ok []) [GetStartupCmd, GetVersionCmd, GetCreateChainCommand, GetPruneLedgerCommand, NewServiceCommand]"
  "list_all (command_ok offline_flags) (tl (all_commands GetOfflineQueryCommand))"
  by (simp_all add: command_ok_def flags_ok_def shorthands_def node_commands offline_flags_def NewServiceCommand_def
      AddCommands_def cmd_name_def min_args_def)

text \<open>Without flags the commands work on the chain \<open>xuper\<close> and the configuration in \<open>./conf\<close>.\<close>

lemma node_defaults:
  "create_fields Map.empty = \<lparr>ccc_Name = ''xuper'', ccc_GenesisConf = ''./data/genesis/xuper.json'', ccc_EnvConf = ''./conf/env.yaml''\<rparr>"
  "prune_fields Map.empty = \<lparr>pl_Name = ''xuper'', pl_Target = '''', pl_EnvConf = ''./conf/env.yaml'', pl_Crypto = ''default''\<rparr>"
  "oqc_ChainName (offline_fields Map.empty) = ''xuper''"
  "okc_Height (kv_fields Map.empty) = -1"
  by (simp_all add: create_fields_def prune_fields_def offline_fields_def kv_fields_def string_flag_def int64_flag_def
      node_commands offline_flags_def Let_def)

lemma io_out_state [simp]: "snd (io_out C m s) = snd (m s)"
  by (auto simp: io_out_def io_bind_def split: prod.splits sum.splits)

lemma with_handles_disk: "os_disk (snd (with_handles F c query s)) = os_disk s"
  using with_handles_run[of F c query s] by (metis prod.collapse)

lemma offline_disk:
  "os_disk (snd (QueryStatus F c s)) = os_disk s"
  "os_disk (snd (offline_block_run F c byHeight args s)) = os_disk s"
  "os_disk (snd (offline_tx_run F c args s)) = os_disk s"
  "os_disk (snd (kv_run F c k s)) = os_disk s"
  by (auto simp: QueryStatus_def offline_block_run_def offline_tx_run_def kv_run_def kv_Get_def QueryByBlockHeight_def
      QueryByBlockId_def QueryByTxId_def with_handles_disk io_bind_def split: list.splits sum.splits option.splits)

lemma io_read_state [simp]: "snd (io_read f s) = s"
  by (simp add: io_read_def)

lemma node_RunE_disk:
  assumes "os_disk (snd (node_RunE N c given args s)) \<noteq> os_disk s"
  shows "c = GetCreateChainCommand \<or> c = GetPruneLedgerCommand"
  using assms by (auto simp: node_RunE_def Let_def offline_disk split: if_splits)

text \<open>Both write only after the environment configuration was found and read.\<close>

lemma create_reads_conf:
  assumes "snd (createChain FileIsExist LoadEnvConf CreateLedger c w) \<noteq> w"
  shows "FileIsExist w (ccc_GenesisConf c) \<and> (\<exists>econf. LoadEnvConf (ccc_EnvConf c) w = Inr econf)"
  using assms by (auto simp: createChain_def split: if_splits sum.splits)

lemma prune_reads_conf:
  assumes "snd (prune_run N c w) \<noteq> w"
  shows "\<exists>econf. ne_LoadEnvConf N (pl_EnvConf c) w = Inr econf \<and> open_ledger (ne_ledger N econf) c w = Inr () \<and>
    hex_decode (pl_Target c) \<noteq> None"
  using assms by (auto simp: prune_run_def genEnvConfig_def pruneLedger_def split: if_splits sum.splits option.splits)

section \<open>Properties\<close>

text \<open>C25: Which commands of the node write the ledger.  If a run of the node program, other than a started node, has changed the
  disk, then the command was \<open>createChain\<close>, with a genesis file that exists, or \<open>pruneLedger\<close>, with a
  ledger that could be opened and a target in hexadecimal; and either could load the configuration.  So \<open>version\<close>,
  every offline query, a wrong command line and a start-up that fails leave the ledger as it was.\<close>

theorem node_disk_writers:
  assumes "os_disk (snd (node_main N args s)) \<noteq> os_disk s"
  shows "\<exists>given xs econf.
    ne_Parse N NewServiceCommand args = Runs GetCreateChainCommand given xs \<and>
      ne_FileIsExist N (os_disk s) (ccc_GenesisConf (create_fields given)) \<and>
      ne_LoadEnvConf N (ccc_EnvConf (create_fields given)) (os_disk s) = Inr econf \<or>
    ne_Parse N NewServiceCommand args = Runs GetPruneLedgerCommand given xs \<and>
      ne_LoadEnvConf N (pl_EnvConf (prune_fields given)) (os_disk s) = Inr econf \<and>
      open_ledger (ne_ledger N econf) (prune_fields given) (os_disk s) = Inr () \<and>
      hex_decode (pl_Target (prune_fields given)) \<noteq> None"
proof -
  obtain c given xs where p: "ne_Parse N NewServiceCommand args = Runs c given xs"
    and moved: "os_disk (snd (node_RunE N c given xs s)) \<noteq> os_disk s"
    using assms by (auto simp: node_main_def split: parsed.splits if_splits prod.splits sum.splits)
  from node_RunE_disk[OF moved] show ?thesis
  proof
    assume c: "c = GetCreateChainCommand"
    then have "snd (createChain (ne_FileIsExist N) (ne_LoadEnvConf N) (ne_CreateLedger N) (create_fields given) (os_disk s)) \<noteq> os_disk s"
      using moved by (simp add: node_RunE_def Let_def node_commands on_disk_def case_prod_beta)
    from create_reads_conf[OF this] p c show ?thesis by blast
  next
    assume c: "c = GetPruneLedgerCommand"
    then have "snd (prune_run N (prune_fields given) (os_disk s)) \<noteq> os_disk s"
      using moved by (simp add: node_RunE_def Let_def node_commands on_disk_def case_prod_beta)
    from prune_reads_conf[OF this] p c show ?thesis by fastforce
  qed
qed

text \<open>A node that was started is the two servers of \<open>Lifecycle\<close>, set up and not yet serving, over a configuration and an engine.\<close>

lemma NewServMG_servers: "NewServMG (Some c) EngineConvert (Some e) = Inr servers \<Longrightarrow> servers = [new_server, new_server]"
  by (cases "EngineConvert e") (simp_all add: NewServMG_def NewRpcServMG_def NewGateway_def)

lemma StartupXchain_starts:
  assumes "StartupXchain N path w = Inr n"
  shows "n = start_node [new_server, new_server]"
  using assms by (auto simp: StartupXchain_def res_bind_Inr_iff dest: NewServMG_servers)

section \<open>An instance\<close>

definition ex_store_off :: "(store, string, unit, nat) OfflineEnv" where
  "ex_store_off =
     \<lparr>oq_FileIsExist = (\<lambda>w p. True), oq_LoadEnvConf = (\<lambda>w p. Inr ()), oq_set_RootPath = (\<lambda>p e. e),
      oq_NewLedgerCtx = (\<lambda>e n. Inr n), oq_ChainDirPath = (\<lambda>e. ''data''), oq_PathExists = (\<lambda>w p. p = ''data/xuper''),
      oq_OpenLedger = (\<lambda>e n w. Inr ()), oq_CreateCryptoClient = (\<lambda>t. Inr ()), oq_NewStateCtx = (\<lambda>e n. Inr ()),
      oq_NewState = (\<lambda>e n w. Inr ()), oq_GetMeta = lo_GetMeta ex_ledger,
      oq_QueryBlock = (\<lambda>w b. Inr ''blk''), oq_QueryBlockByHeight = (\<lambda>w n. Inr ''blk''),
      oq_QueryTx = (\<lambda>w b. Inr None), oq_QueryBlockHeaderByHeight = (\<lambda>w n. Inr ''b''),
      oq_CreateXMSnapshotReader = (\<lambda>w b. Inr (\<lambda>bucket key. Inr ''old'')),
      oq_XMReader_Get = (\<lambda>w bucket key. Inr ''new''), oq_cast_Block = (\<lambda>x. new_InternalBlock),
      oq_cast_Tx = (\<lambda>x. new_Transaction), oq_un_json = (\<lambda>b. (None, 0))\<rparr>"

definition ex_node :: "(store, (bytes \<times> bytes option) list, string, unit, nat, unit, unit) NodeEnv" where
  "ex_node =
     \<lparr>ne_Parse = (\<lambda>c args. Runs GetPruneLedgerCommand [''target'' \<mapsto> ''61''] []), ne_FileIsExist = (\<lambda>w p. True),
      ne_LoadEnvConf = (\<lambda>p w. Inr ()), ne_ServConfPath = (\<lambda>e. ''server.yaml''), ne_ReadInConfig = (\<lambda>w p. Inr ()),
      ne_Unmarshal = (\<lambda>v c. Inr c), ne_CreateBCEngine = (\<lambda>e. Inr ()), ne_EngineConvert = Inr,
      ne_CreateLedger = (\<lambda>n g e w. (Inr (), w)), ne_ledger = (\<lambda>e. ex_ledger), ne_off = ex_store_off\<rparr>"

definition ex_ledger_session :: "store session" where
  "ex_ledger_session = \<lparr>os_disk = [''M'' \<mapsto> ''t'', ''Ph'' \<mapsto> ''1'', ''Pt'' \<mapsto> ''1''], os_open = []\<rparr>"

lemma ex_prunes: "os_disk (snd (node_main ex_node [''pruneLedger''] ex_ledger_session)) ''M'' = Some ''a''"
  by code_simp

lemma node_disk_writers_witness:
  "hex_decode (pl_Target (prune_fields [''target'' \<mapsto> ''61''])) \<noteq> None \<and>
   open_ledger ex_ledger (prune_fields [''target'' \<mapsto> ''61'']) (os_disk ex_ledger_session) = Inr ()"
proof -
  have "os_disk (snd (node_main ex_node [''pruneLedger''] ex_ledger_session)) \<noteq> os_disk ex_ledger_session"
    using ex_prunes by (auto simp: ex_ledger_session_def)
  from node_disk_writers[OF this] show ?thesis
    by (auto simp: ex_node_def GetCreateChainCommand_def GetPruneLedgerCommand_def)
qed

end
